(* ===== verification/Prelude.thy ===== *)
theory Prelude
  imports Main "HOL-Library.Word" "HOL-Library.List_Lexorder" "HOL-Library.Char_ord"
begin

text \<open>
  Shared vocabulary of the development: Rust's \<open>Result\<close>, machine integers, and the part of
  the Rust standard library on byte strings, \<open>str\<close> and \<open>char\<close> that the crates under
  \<open>src/crates\<close> use.

  A Rust \<open>String\<close>, \<open>&str\<close>, \<open>OsString\<close>, \<open>Bytes\<close> or \<open>Vec<u8>\<close> is its
  list of bytes, an Isabelle \<open>string\<close>; \<open>len()\<close> is \<open>length\<close>. A \<open>str\<close> is UTF-8, so
  \<open>chars()\<close> and \<open>from_utf8\<close> are the decoder \<open>utf8_decode\<close> below. Splitting, prefix and
  suffix operations of the sources use ASCII delimiters only, where bytes and characters agree.
\<close>

named_theorems byte_simps \<open>evaluation of character classes\<close>
named_theorems utf8_intros \<open>closure of valid UTF-8 under string operations\<close>

type_synonym bytes = "char list"
type_synonym u16 = "16 word"
type_synonym u32 = "32 word"
type_synonym u64 = "64 word"

section \<open>Result\<close>

datatype ('a, 'e) result = Ok 'a | Err 'e

fun and_then :: "('a, 'e) result \<Rightarrow> ('a \<Rightarrow> ('b, 'e) result) \<Rightarrow> ('b, 'e) result" where
  "and_then (Ok x) f = f x"
| "and_then (Err e) f = Err e"

fun ok_or :: "'a option \<Rightarrow> 'e \<Rightarrow> ('a, 'e) result" where
  "ok_or (Some x) e = Ok x"
| "ok_or None e = Err e"

fun map_err :: "('e \<Rightarrow> 'f) \<Rightarrow> ('a, 'e) result \<Rightarrow> ('a, 'f) result" where
  "map_err f (Ok x) = Ok x"
| "map_err f (Err e) = Err (f e)"

definition is_ok :: "('a, 'e) result \<Rightarrow> bool" where
  "is_ok r = (case r of Ok _ \<Rightarrow> True | Err _ \<Rightarrow> False)"

fun opt_filter :: "('a \<Rightarrow> bool) \<Rightarrow> 'a option \<Rightarrow> 'a option" where
  "opt_filter P None = None"
| "opt_filter P (Some x) = (if P x then Some x else None)"

fun or_else :: "'a option \<Rightarrow> 'a option \<Rightarrow> 'a option" where
  "or_else (Some x) y = Some x"
| "or_else None y = y"

fun unwrap_or :: "'a option \<Rightarrow> 'a \<Rightarrow> 'a" where
  "unwrap_or (Some x) d = x"
| "unwrap_or None d = d"

fun is_some_and :: "('a \<Rightarrow> bool) \<Rightarrow> 'a option \<Rightarrow> bool" where
  "is_some_and P None = False"
| "is_some_and P (Some x) = P x"

text \<open>\<open>iter().map(f).collect::<Result<Vec<_>>>()\<close>: the first error wins.\<close>

fun collect_results :: "('a \<Rightarrow> ('b, 'e) result) \<Rightarrow> 'a list \<Rightarrow> ('b list, 'e) result" where
  "collect_results f [] = Ok []"
| "collect_results f (x # xs) =
     (case f x of Err e \<Rightarrow> Err e
      | Ok y \<Rightarrow> (case collect_results f xs of Err e \<Rightarrow> Err e | Ok ys \<Rightarrow> Ok (y # ys)))"

text \<open>A \<open>for\<close> loop whose body may return early with an error.\<close>

fun try_fold :: "('s \<Rightarrow> 'a \<Rightarrow> ('s, 'e) result) \<Rightarrow> 's \<Rightarrow> 'a list \<Rightarrow> ('s, 'e) result" where
  "try_fold f s [] = Ok s"
| "try_fold f s (x # xs) = and_then (f s x) (\<lambda>s'. try_fold f s' xs)"

lemma try_fold_append: "try_fold f s (xs @ ys) = and_then (try_fold f s xs) (\<lambda>s'. try_fold f s' ys)"
proof (induction xs arbitrary: s)
  case (Cons x xs)
  then show ?case by (cases "f s x") auto
qed simp

lemma and_then_Ok: "and_then r f = Ok y \<longleftrightarrow> (\<exists>x. r = Ok x \<and> f x = Ok y)"
  by (cases r) auto

lemma try_fold_invariant:
  assumes "try_fold f s xs = Ok s'" and "P s"
    and "\<And>t x t'. x \<in> set xs \<Longrightarrow> P t \<Longrightarrow> f t x = Ok t' \<Longrightarrow> P t'"
  shows "P s'"
  using assms
  by (induction xs arbitrary: s) (auto simp: and_then_Ok)

text \<open>A relation between the processed prefix and the state, kept by every iteration.\<close>

lemma try_fold_prefix:
  assumes "try_fold f s xs = Ok s'" and "Q [] s"
    and "\<And>ys y t t'. Q ys t \<Longrightarrow> f t y = Ok t' \<Longrightarrow> Q (ys @ [y]) t'"
  shows "Q xs s'"
proof -
  have "try_fold f t zs = Ok s' \<Longrightarrow> Q ys t \<Longrightarrow> Q (ys @ zs) s'" for ys zs t
  proof (induction zs arbitrary: ys t)
    case (Cons z zs)
    then obtain t' where "f t z = Ok t'" "try_fold f t' zs = Ok s'"
      by (auto simp: and_then_Ok)
    with Cons.IH [of t' "ys @ [z]"] assms(3) [OF Cons.prems(2)] show ?case by simp
  qed simp
  from this [of s xs "[]"] assms(1,2) show ?thesis by simp
qed

lemma and_then_Err: "and_then r f = Err e \<longleftrightarrow> r = Err e \<or> (\<exists>x. r = Ok x \<and> f x = Err e)"
  by (cases r) auto

lemma ok_or_Ok [simp]: "ok_or x e = Ok y \<longleftrightarrow> x = Some y"
  by (cases x) auto

lemma map_err_Ok [simp]: "map_err f r = Ok x \<longleftrightarrow> r = Ok x"
  by (cases r) auto

lemma ok_or_Err [simp]: "ok_or x e = Err e' \<longleftrightarrow> x = None \<and> e = e'"
  by (cases x) auto

lemma opt_filter_Some [simp]: "opt_filter P x = Some y \<longleftrightarrow> x = Some y \<and> P y"
  by (cases x) auto

lemma opt_filter_None: "opt_filter P x = None \<longleftrightarrow> (\<forall>y. x = Some y \<longrightarrow> \<not> P y)"
  by (cases x) auto

lemma or_else_None [simp]: "or_else x None = x"
  by (cases x) auto

lemma is_some_and_iff: "is_some_and P x \<longleftrightarrow> (\<exists>y. x = Some y \<and> P y)"
  by (cases x) auto

lemma collect_results_Ok:
  "collect_results f xs = Ok ys \<longleftrightarrow> list_all2 (\<lambda>x y. f x = Ok y) xs ys"
proof (induction xs arbitrary: ys)
  case Nil
  then show ?case by auto
next
  case (Cons x xs)
  then show ?case
    by (cases "f x"; cases "collect_results f xs") (auto simp: list_all2_Cons1)
qed

lemma collect_results_length: "collect_results f xs = Ok ys \<Longrightarrow> length ys = length xs"
  by (auto simp: collect_results_Ok dest: list_all2_lengthD)

section \<open>Machine integers\<close>

definition saturating_add :: "u64 \<Rightarrow> u64 \<Rightarrow> u64" where
  "saturating_add a b = (if unat a + unat b < 2 ^ 64 then a + b else - 1)"

lemma unat_saturating_add: "unat (saturating_add a b) = min (unat a + unat b) (2 ^ 64 - 1)"
  by (auto simp: saturating_add_def unat_word_ariths unsigned_minus_1_eq_mask mask_eq_exp_minus_1)

lemma saturating_add_ge: "a \<le> saturating_add a b"
proof -
  have "unat a < 2 ^ LENGTH(64)"
    by (rule unsigned_less)
  then show ?thesis
    by (simp add: word_le_nat_alt unat_saturating_add)
qed

section \<open>Bytes and ASCII classes\<close>

abbreviation LF :: char where "LF \<equiv> CHR 0x0A"
abbreviation CR :: char where "CR \<equiv> CHR 0x0D"

definition byte :: "char \<Rightarrow> nat" where
  "byte c = of_char c"

lemma byte_less_256 [simp]: "byte c < 256"
  by (simp add: byte_def)

lemma byte_inject [simp]: "byte c = byte d \<longleftrightarrow> c = d"
  by (simp add: byte_def)

lemma byte_Char [simp]:
  "byte (Char b0 b1 b2 b3 b4 b5 b6 b7) = of_char (Char b0 b1 b2 b3 b4 b5 b6 b7)"
  by (simp add: byte_def)

lemma byte_Char_ascii [simp]: "byte (Char b0 b1 b2 b3 b4 b5 b6 b7) < 128 \<longleftrightarrow> \<not> b7"
  by (cases b0; cases b1; cases b2; cases b3; cases b4; cases b5; cases b6; cases b7) simp_all

definition is_ascii_digit :: "char \<Rightarrow> bool" where
  "is_ascii_digit c = (48 \<le> byte c \<and> byte c \<le> 57)"

definition is_ascii_alphanumeric :: "char \<Rightarrow> bool" where
  "is_ascii_alphanumeric c =
     (is_ascii_digit c \<or> 65 \<le> byte c \<and> byte c \<le> 90 \<or> 97 \<le> byte c \<and> byte c \<le> 122)"

definition is_ascii_whitespace :: "char \<Rightarrow> bool" where
  "is_ascii_whitespace c = (byte c \<in> {32, 9, 10, 12, 13})"

definition to_ascii_lower :: "char \<Rightarrow> char" where
  "to_ascii_lower c = (if 65 \<le> byte c \<and> byte c \<le> 90 then char_of (byte c + 32) else c)"

definition to_ascii_lowercase :: "bytes \<Rightarrow> bytes" where
  "to_ascii_lowercase s = map to_ascii_lower s"

definition eq_ignore_ascii_case :: "bytes \<Rightarrow> bytes \<Rightarrow> bool" where
  "eq_ignore_ascii_case s t = (to_ascii_lowercase s = to_ascii_lowercase t)"

definition is_ascii :: "bytes \<Rightarrow> bool" where
  "is_ascii s = list_all (\<lambda>c. byte c < 128) s"

lemmas ascii_class_defs [byte_simps] =
  byte_def is_ascii_digit_def is_ascii_alphanumeric_def is_ascii_whitespace_def

lemma is_ascii_append [simp]: "is_ascii (s @ t) \<longleftrightarrow> is_ascii s \<and> is_ascii t"
  by (simp add: is_ascii_def)

lemma is_ascii_Cons [simp]: "is_ascii (c # s) \<longleftrightarrow> byte c < 128 \<and> is_ascii s"
  by (simp add: is_ascii_def)

lemma is_ascii_Nil [simp]: "is_ascii []"
  by (simp add: is_ascii_def)

lemma alphanumeric_ascii: "is_ascii_alphanumeric c \<Longrightarrow> byte c < 128"
  by (auto simp: is_ascii_alphanumeric_def is_ascii_digit_def)

section \<open>UTF-8\<close>

text \<open>
  The decoder of \<open>std::str::from_utf8\<close>: code points of a well-formed byte string; overlong
  forms, surrogates and values above U+10FFFF are rejected.
\<close>

definition is_cont :: "char \<Rightarrow> bool" where
  "is_cont c = (128 \<le> byte c \<and> byte c < 192)"

definition second_ok :: "nat \<Rightarrow> char \<Rightarrow> bool" where
  "second_ok b0 c =
     (if b0 = 0xE0 then 0xA0 \<le> byte c \<and> byte c \<le> 0xBF
      else if b0 = 0xED then 0x80 \<le> byte c \<and> byte c \<le> 0x9F
      else if b0 = 0xF0 then 0x90 \<le> byte c \<and> byte c \<le> 0xBF
      else if b0 = 0xF4 then 0x80 \<le> byte c \<and> byte c \<le> 0x8F
      else is_cont c)"

fun utf8_step :: "bytes \<Rightarrow> (nat \<times> bytes) option" where
  "utf8_step [] = None"
| "utf8_step (a # rest) =
     (if byte a < 128 then Some (byte a, rest)
      else if 0xC2 \<le> byte a \<and> byte a \<le> 0xDF then
        (case rest of
           b # r \<Rightarrow> if is_cont b then Some ((byte a - 0xC0) * 64 + (byte b - 128), r) else None
         | _ \<Rightarrow> None)
      else if 0xE0 \<le> byte a \<and> byte a \<le> 0xEF then
        (case rest of
           b # c # r \<Rightarrow>
             if second_ok (byte a) b \<and> is_cont c
             then Some ((byte a - 0xE0) * 4096 + (byte b - 128) * 64 + (byte c - 128), r) else None
         | _ \<Rightarrow> None)
      else if 0xF0 \<le> byte a \<and> byte a \<le> 0xF4 then
        (case rest of
           b # c # d # r \<Rightarrow>
             if second_ok (byte a) b \<and> is_cont c \<and> is_cont d
             then Some ((byte a - 0xF0) * 262144 + (byte b - 128) * 4096
                        + (byte c - 128) * 64 + (byte d - 128), r) else None
         | _ \<Rightarrow> None)
      else None)"

lemma utf8_step_shorter: "utf8_step s = Some (n, r) \<Longrightarrow> length r < length s"
  by (cases s) (auto split: if_splits list.splits)

function utf8_decode :: "bytes \<Rightarrow> nat list option" where
  "utf8_decode s =
     (if s = [] then Some []
      else (case utf8_step s of
              None \<Rightarrow> None
            | Some (n, r) \<Rightarrow> map_option (Cons n) (utf8_decode r)))"
  by pat_completeness auto
termination
  by (relation "measure length") (auto dest: utf8_step_shorter)

declare utf8_decode.simps [simp del]

definition utf8_valid :: "bytes \<Rightarrow> bool" where
  "utf8_valid s = (utf8_decode s \<noteq> None)"

text \<open>\<open>chars()\<close> of a \<open>str\<close>; on bytes that are not UTF-8 it has no meaning in Rust.\<close>

definition chars :: "bytes \<Rightarrow> nat list" where
  "chars s = unwrap_or (utf8_decode s) []"

definition to_str :: "bytes \<Rightarrow> bytes option" where
  "to_str s = (if utf8_valid s then Some s else None)"

lemma utf8_decode_Nil [simp]: "utf8_decode [] = Some []"
  by (simp add: utf8_decode.simps)

lemma utf8_decode_ascii_Cons [simp]:
  "byte c < 128 \<Longrightarrow> utf8_decode (c # s) = map_option (Cons (byte c)) (utf8_decode s)"
  by (subst utf8_decode.simps) simp

lemma utf8_step_append: "utf8_step s = Some (n, r) \<Longrightarrow> utf8_step (s @ t) = Some (n, r @ t)"
  by (cases s) (auto split: if_splits list.splits)

lemma utf8_decode_append:
  "utf8_decode s = Some cs \<Longrightarrow> utf8_decode (s @ t) = map_option ((@) cs) (utf8_decode t)"
proof (induction s arbitrary: cs rule: utf8_decode.induct)
  case (1 s)
  show ?case
  proof (cases "s = []")
    case True
    with "1.prems" show ?thesis by (simp add: option.map_ident)
  next
    case False
    with "1.prems" obtain n r ds where step: "utf8_step s = Some (n, r)"
      and r: "utf8_decode r = Some ds" and cs: "cs = n # ds"
      by (auto simp: utf8_decode.simps [of s] split: option.splits prod.splits)
    have "utf8_decode (r @ t) = map_option ((@) ds) (utf8_decode t)"
      using "1.IH" [OF False step] r by simp
    with utf8_step_append [OF step, of t] False show ?thesis
      by (subst utf8_decode.simps) (cases "utf8_decode t"; simp add: cs)
  qed
qed

lemma utf8_valid_append [utf8_intros]: "utf8_valid s \<Longrightarrow> utf8_valid t \<Longrightarrow> utf8_valid (s @ t)"
  by (auto simp: utf8_valid_def utf8_decode_append)

lemma chars_append: "utf8_valid s \<Longrightarrow> utf8_valid t \<Longrightarrow> chars (s @ t) = chars s @ chars t"
  by (auto simp: utf8_valid_def chars_def utf8_decode_append)

lemma utf8_decode_ascii: "is_ascii s \<Longrightarrow> utf8_decode s = Some (map byte s)"
  by (induction s) auto

lemma utf8_valid_ascii [utf8_intros]: "is_ascii s \<Longrightarrow> utf8_valid s"
  by (simp add: utf8_valid_def utf8_decode_ascii)

lemma chars_ascii: "is_ascii s \<Longrightarrow> chars s = map byte s"
  by (simp add: chars_def utf8_decode_ascii)

lemma utf8_valid_Nil [simp]: "utf8_valid []"
  by (simp add: utf8_valid_def)

lemma utf8_valid_ascii_Cons [simp]: "byte c < 128 \<Longrightarrow> utf8_valid (c # s) \<longleftrightarrow> utf8_valid s"
  by (simp add: utf8_valid_def)

lemma utf8_valid_concat [utf8_intros]: "(\<And>s. s \<in> set ss \<Longrightarrow> utf8_valid s) \<Longrightarrow> utf8_valid (concat ss)"
  by (induction ss) (auto intro: utf8_valid_append)

lemma utf8_step_split:
  "utf8_step s = Some (n, r) \<Longrightarrow>
   (\<exists>c. s = c # r \<and> byte c < 128) \<or>
   (\<exists>p. s = p @ r \<and> (\<forall>c \<in> set p. \<not> byte c < 128) \<and> utf8_step p = Some (n, []))"
proof (cases s)
  case (Cons a t)
  assume step: "utf8_step s = Some (n, r)"
  have cont: "second_ok k b \<Longrightarrow> \<not> byte b < 128" "is_cont b \<Longrightarrow> \<not> byte b < 128" for k b
    by (auto simp: second_ok_def is_cont_def split: if_splits)
  consider "byte a < 128" | "\<not> byte a < 128" "\<exists>b. t = b # r" | "\<not> byte a < 128" "\<exists>b c. t = b # c # r"
    | "\<not> byte a < 128" "\<exists>b c d. t = b # c # d # r"
    using step Cons by (auto split: if_splits list.splits)
  then show ?thesis
  proof cases
    case 1
    with step Cons show ?thesis by simp
  next
    case 2
    then obtain b where t: "t = b # r" by blast
    show ?thesis
      using step Cons t 2(1) cont by (intro disjI2 exI [of _ "[a, b]"]) (auto split: if_splits list.splits)
  next
    case 3
    then obtain b c where t: "t = b # c # r" by blast
    show ?thesis
      using step Cons t 3(1) cont by (intro disjI2 exI [of _ "[a, b, c]"]) (auto split: if_splits list.splits)
  next
    case 4
    then obtain b c d where t: "t = b # c # d # r" by blast
    show ?thesis
      using step Cons t 4(1) cont by (intro disjI2 exI [of _ "[a, b, c, d]"]) (auto split: if_splits list.splits)
  qed
qed simp

lemma utf8_valid_step: "utf8_step s = Some (n, r) \<Longrightarrow> utf8_valid s \<longleftrightarrow> utf8_valid r"
  by (cases "s = []") (simp_all add: utf8_valid_def utf8_decode.simps [of s])

text \<open>\<open>char::is_control\<close> (category Cc) and \<open>char::is_whitespace\<close> (White\_Space).\<close>

definition is_control :: "nat \<Rightarrow> bool" where
  "is_control n = (n < 32 \<or> 127 \<le> n \<and> n \<le> 159)"

definition is_whitespace :: "nat \<Rightarrow> bool" where
  "is_whitespace n =
     (9 \<le> n \<and> n \<le> 13 \<or> n = 32 \<or> n = 0x85 \<or> n = 0xA0 \<or> n = 0x1680 \<or> 0x2000 \<le> n \<and> n \<le> 0x200A
      \<or> n = 0x2028 \<or> n = 0x2029 \<or> n = 0x202F \<or> n = 0x205F \<or> n = 0x3000)"

text \<open>\<open>char::encode_utf8\<close>, needed where a trimmed string is rebuilt.\<close>

definition utf8_encode :: "nat \<Rightarrow> bytes" where
  "utf8_encode n =
     (if n < 0x80 then [char_of n]
      else if n < 0x800 then [char_of (0xC0 + n div 64), char_of (128 + n mod 64)]
      else if n < 0x10000 then
        [char_of (0xE0 + n div 4096), char_of (128 + n div 64 mod 64), char_of (128 + n mod 64)]
      else
        [char_of (0xF0 + n div 262144), char_of (128 + n div 4096 mod 64),
         char_of (128 + n div 64 mod 64), char_of (128 + n mod 64)])"

definition trim :: "bytes \<Rightarrow> bytes" where
  "trim s = concat (map utf8_encode
     (rev (dropWhile is_whitespace (rev (dropWhile is_whitespace (chars s))))))"

lemma trim_eq_Nil: "trim s = [] \<longleftrightarrow> list_all is_whitespace (chars s)"
proof -
  have dropWhile_all: "(\<forall>n \<in> set (dropWhile P xs). P n) \<longleftrightarrow> list_all P xs" for P :: "nat \<Rightarrow> bool" and xs
    by (induction xs) auto
  have enc: "utf8_encode n \<noteq> []" for n
    by (simp add: utf8_encode_def)
  have "trim s = [] \<longleftrightarrow> dropWhile is_whitespace (rev (dropWhile is_whitespace (chars s))) = []"
    by (auto simp: trim_def enc)
  also have "\<dots> \<longleftrightarrow> (\<forall>n \<in> set (dropWhile is_whitespace (chars s)). is_whitespace n)"
    by (simp add: dropWhile_eq_Nil_conv)
  also have "\<dots> \<longleftrightarrow> list_all is_whitespace (chars s)"
    by (simp add: dropWhile_all)
  finally show ?thesis .
qed

lemma is_ascii_concat: "(\<And>s. s \<in> set ss \<Longrightarrow> is_ascii s) \<Longrightarrow> is_ascii (concat ss)"
  by (induction ss) auto

section \<open>Operations of \<open>str\<close> and slices\<close>

fun strip_prefix :: "bytes \<Rightarrow> bytes \<Rightarrow> bytes option" where
  "strip_prefix [] s = Some s"
| "strip_prefix (p # ps) [] = None"
| "strip_prefix (p # ps) (c # cs) = (if p = c then strip_prefix ps cs else None)"

definition strip_suffix :: "bytes \<Rightarrow> bytes \<Rightarrow> bytes option" where
  "strip_suffix p s = map_option rev (strip_prefix (rev p) (rev s))"

definition starts_with :: "bytes \<Rightarrow> bytes \<Rightarrow> bool" where
  "starts_with p s = (strip_prefix p s \<noteq> None)"

definition ends_with :: "bytes \<Rightarrow> bytes \<Rightarrow> bool" where
  "ends_with p s = (strip_suffix p s \<noteq> None)"

fun split_once :: "char \<Rightarrow> bytes \<Rightarrow> (bytes \<times> bytes) option" where
  "split_once d [] = None"
| "split_once d (c # cs) =
     (if c = d then Some ([], cs)
      else map_option (\<lambda>(a, b). (c # a, b)) (split_once d cs))"

text \<open>\<open>split\<close> on a set of one-byte delimiters; there is always at least one segment.\<close>

fun split_on :: "(char \<Rightarrow> bool) \<Rightarrow> bytes \<Rightarrow> bytes list" where
  "split_on P [] = [[]]"
| "split_on P (c # cs) =
     (if P c then [] # split_on P cs
      else (case split_on P cs of [] \<Rightarrow> [[c]] | s # ss \<Rightarrow> (c # s) # ss))"

definition split_terminator :: "(char \<Rightarrow> bool) \<Rightarrow> bytes \<Rightarrow> bytes list" where
  "split_terminator P s =
     (let segs = split_on P s in if last segs = [] then butlast segs else segs)"

text \<open>
  \<open>str::lines\<close>: \<open>split_inclusive('\n')\<close>, each piece without its line feed and without a
  carriage return right before that line feed; a last piece with no line feed is kept as it is.
\<close>

fun split_inclusive_lf :: "bytes \<Rightarrow> bytes list" where
  "split_inclusive_lf [] = []"
| "split_inclusive_lf (c # cs) =
     (if c = LF then [c] # split_inclusive_lf cs
      else (case split_inclusive_lf cs of [] \<Rightarrow> [[c]] | s # ss \<Rightarrow> (c # s) # ss))"

definition line_body :: "bytes \<Rightarrow> bytes" where
  "line_body s =
     (case strip_suffix [LF] s of None \<Rightarrow> s
      | Some l \<Rightarrow> unwrap_or (strip_suffix [CR] l) l)"

definition lines_of :: "bytes \<Rightarrow> bytes list" where
  "lines_of s = map line_body (split_inclusive_lf s)"

fun join_with :: "bytes \<Rightarrow> bytes list \<Rightarrow> bytes" where
  "join_with sep [] = []"
| "join_with sep [s] = s"
| "join_with sep (s # t # ss) = s @ sep @ join_with sep (t # ss)"

definition replace_char :: "char \<Rightarrow> bytes \<Rightarrow> bytes \<Rightarrow> bytes" where
  "replace_char c r s = concat (map (\<lambda>x. if x = c then r else [x]) s)"

fun str_contains :: "bytes \<Rightarrow> bytes \<Rightarrow> bool" where
  "str_contains p [] = (p = [])"
| "str_contains p (c # cs) = (starts_with p (c # cs) \<or> str_contains p cs)"

definition trim_end_matches :: "(char \<Rightarrow> bool) \<Rightarrow> bytes \<Rightarrow> bytes" where
  "trim_end_matches P s = rev (dropWhile P (rev s))"

lemma strip_prefix_Some [simp]: "strip_prefix p s = Some r \<longleftrightarrow> s = p @ r"
  by (induction p s rule: strip_prefix.induct) auto

lemma strip_suffix_Some [simp]: "strip_suffix p s = Some r \<longleftrightarrow> s = r @ p"
  by (auto simp: strip_suffix_def) (metis rev_append rev_rev_ident)

lemma starts_with_iff: "starts_with p s \<longleftrightarrow> (\<exists>r. s = p @ r)"
  by (simp add: starts_with_def flip: strip_prefix_Some)

lemma ends_with_iff: "ends_with p s \<longleftrightarrow> (\<exists>r. s = r @ p)"
  by (simp add: ends_with_def flip: strip_suffix_Some)

lemma split_once_Some: "split_once d s = Some (a, b) \<Longrightarrow> s = a @ d # b \<and> d \<notin> set a"
  by (induction s arbitrary: a b) (auto split: if_splits)

lemma split_once_append [simp]: "d \<notin> set a \<Longrightarrow> split_once d (a @ d # b) = Some (a, b)"
  by (induction a) auto

lemma split_on_nonempty [simp]: "split_on P s \<noteq> []"
  by (cases s) (auto split: list.splits)

lemma split_on_no_delim: "\<forall>c \<in> set s. \<not> P c \<Longrightarrow> split_on P s = [s]"
  by (induction s) auto

lemma split_on_append: "\<forall>c \<in> set s. \<not> P c \<Longrightarrow> P d \<Longrightarrow> split_on P (s @ d # t) = s # split_on P t"
  by (induction s) auto

lemma split_on_pieces: "s \<in> set (split_on P t) \<Longrightarrow> \<forall>c \<in> set s. \<not> P c"
  by (induction t arbitrary: s) (fastforce split: if_splits list.splits)+

lemma join_split_on: "join_with [d] (split_on (\<lambda>c. c = d) s) = s"
proof (induction s)
  case Nil
  then show ?case by simp
next
  case (Cons c s)
  then show ?case
    by (cases "split_on (\<lambda>c. c = d) s"; cases "tl (split_on (\<lambda>c. c = d) s)") auto
qed

lemma replace_char_id: "c \<notin> set s \<Longrightarrow> replace_char c r s = s"
  by (induction s) (auto simp: replace_char_def)

section \<open>Decimal numerals\<close>

text \<open>\<open>format!("{n}")\<close> for unsigned integers and \<open>str::parse::<uN>()\<close>, which also accepts a
  leading plus sign and rejects values that do not fit.\<close>

definition digit_char :: "nat \<Rightarrow> char" where
  "digit_char d = char_of (48 + d)"

fun show_nat :: "nat \<Rightarrow> bytes" where
  "show_nat n = (if n < 10 then [digit_char n] else show_nat (n div 10) @ [digit_char (n mod 10)])"

declare show_nat.simps [simp del]

definition show_u64 :: "u64 \<Rightarrow> bytes" where
  "show_u64 w = show_nat (unat w)"

fun digits_value :: "nat \<Rightarrow> bytes \<Rightarrow> nat option" where
  "digits_value acc [] = Some acc"
| "digits_value acc (c # cs) =
     (if is_ascii_digit c then digits_value (10 * acc + (byte c - 48)) cs else None)"

definition parse_unsigned :: "nat \<Rightarrow> bytes \<Rightarrow> nat option" where
  "parse_unsigned bound s =
     (let d = (case s of c # cs \<Rightarrow> if c = CHR ''+'' then cs else s | [] \<Rightarrow> [])
      in if d = [] then None else opt_filter (\<lambda>n. n < bound) (digits_value 0 d))"

lemma byte_digit_char: "d < 10 \<Longrightarrow> byte (digit_char d) = 48 + d"
  by (simp add: byte_def digit_char_def)

lemma digit_char_digit: "d < 10 \<Longrightarrow> is_ascii_digit (digit_char d)"
  by (simp add: is_ascii_digit_def byte_digit_char)

lemma show_nat_digits: "list_all is_ascii_digit (show_nat n)"
proof (induction n rule: show_nat.induct)
  case (1 n)
  then show ?case
    by (subst show_nat.simps) (auto simp: digit_char_digit)
qed

lemma show_nat_nonempty [simp]: "show_nat n \<noteq> []"
  by (subst show_nat.simps) auto

lemma digits_value_append:
  "digits_value a (s @ t) = (case digits_value a s of None \<Rightarrow> None | Some b \<Rightarrow> digits_value b t)"
  by (induction a s rule: digits_value.induct) auto

lemma digits_value_show_nat: "digits_value 0 (show_nat n) = Some n"
proof (induction n rule: show_nat.induct)
  case (1 n)
  then show ?case
    by (subst show_nat.simps)
       (auto simp: digits_value_append digit_char_digit byte_digit_char)
qed

lemma parse_show_nat: "n < bound \<Longrightarrow> parse_unsigned bound (show_nat n) = Some n"
proof -
  assume "n < bound"
  moreover obtain c cs where cs: "show_nat n = c # cs"
    using show_nat_nonempty by (meson neq_Nil_conv)
  moreover have "c \<noteq> CHR ''+''"
    using show_nat_digits [of n] cs by (auto simp: is_ascii_digit_def byte_def)
  ultimately show ?thesis
    using digits_value_show_nat [of n] by (simp add: parse_unsigned_def)
qed

lemma show_nat_ascii [simp]: "is_ascii (show_nat n)"
  using show_nat_digits [of n] by (induction "show_nat n") (auto simp: is_ascii_def is_ascii_digit_def list_all_iff)

lemma show_nat_inject [simp]: "show_nat m = show_nat n \<longleftrightarrow> m = n"
  using digits_value_show_nat by (metis option.inject)

end
