(* ===== verification/Json.thy ===== *)
theory Json
  imports Prelude
begin

text \<open>
  The data model of \<open>serde_json\<close> as the crates use it: \<open>Value\<close>, \<open>Map\<close> and the accessor
  methods. The workspace's lock file builds \<open>serde_json\<close> without \<open>preserve_order\<close>, so a
  \<open>Map<String, Value>\<close> is a \<open>BTreeMap\<close>: an association list in strictly increasing key
  order, which is also the order in which \<open>iter()\<close> and the printer visit it.

  The text parser and printer of \<open>serde_json\<close> are not part of the sources: every definition
  that calls them takes them as arguments \<open>parse\<close> and \<open>print\<close>, and \<open>serde_json_spec\<close> states
  the documented behaviour the theorems rely on.
\<close>

named_theorems json_simps \<open>evaluation of JSON accessors\<close>

section \<open>Values\<close>

text \<open>\<open>Number\<close> keeps the three internal forms; \<open>NegInt\<close> and \<open>Float\<close> carry their bit patterns.\<close>

datatype Number = PosInt u64 | NegInt u64 | Float u64

datatype Value =
    Null
  | Bool bool
  | Number Number
  | String bytes
  | Array "Value list"
  | Object "(bytes \<times> Value) list"

type_synonym jmap = "(bytes \<times> Value) list"

section \<open>Ordered maps\<close>

fun map_get :: "('k \<times> 'v) list \<Rightarrow> 'k \<Rightarrow> 'v option" where
  "map_get [] k = None"
| "map_get ((k', v) # m) k = (if k = k' then Some v else map_get m k)"

fun map_insert :: "'k::linorder \<Rightarrow> 'v \<Rightarrow> ('k \<times> 'v) list \<Rightarrow> ('k \<times> 'v) list" where
  "map_insert k v [] = [(k, v)]"
| "map_insert k v ((k', v') # m) =
     (if k < k' then (k, v) # (k', v') # m
      else if k = k' then (k, v) # m
      else (k', v') # map_insert k v m)"

definition map_remove :: "'k \<Rightarrow> ('k \<times> 'v) list \<Rightarrow> ('k \<times> 'v) list" where
  "map_remove k m = filter (\<lambda>(k', v). k' \<noteq> k) m"

definition map_retain :: "('k \<Rightarrow> bool) \<Rightarrow> ('k \<times> 'v) list \<Rightarrow> ('k \<times> 'v) list" where
  "map_retain P m = filter (\<lambda>(k, v). P k) m"

definition map_ok :: "('k::linorder \<times> 'v) list \<Rightarrow> bool" where
  "map_ok m = sorted_wrt (<) (map fst m)"

definition map_build :: "('k::linorder \<times> 'v) list \<Rightarrow> ('k \<times> 'v) list" where
  "map_build kvs = foldl (\<lambda>m (k, v). map_insert k v m) [] kvs"

text \<open>
  What the rest of the development uses of a map is its lookup behaviour. The contract is a
  locale; the \<open>BTreeMap\<close> model provides it for every key and value type.
\<close>

locale ordered_map =
  fixes empty :: "'m"
    and get :: "'m \<Rightarrow> 'k \<Rightarrow> 'v option"
    and ins :: "'k \<Rightarrow> 'v \<Rightarrow> 'm \<Rightarrow> 'm"
    and del :: "'k \<Rightarrow> 'm \<Rightarrow> 'm"
  assumes get_empty: "get empty k = None"
    and get_ins: "get (ins k v m) k' = (if k' = k then Some v else get m k')"
    and get_del: "get (del k m) k' = (if k' = k then None else get m k')"
begin

lemma get_fold_ins:
  "get (foldl (\<lambda>m (k, v). ins k v m) m kvs) k =
     (case map_of (rev kvs) k of Some v \<Rightarrow> Some v | None \<Rightarrow> get m k)"
  by (induction kvs arbitrary: m) (auto simp: get_ins map_add_def split: option.splits)

lemma get_build:
  "get (foldl (\<lambda>m (k, v). ins k v m) empty kvs) k = map_of (rev kvs) k"
  by (simp add: get_fold_ins get_empty split: option.splits)

lemma get_del_ins: "get (del k (ins k v m)) k' = get (del k m) k'"
  by (simp add: get_ins get_del)

lemma get_ins_swap: "k \<noteq> k' \<Longrightarrow> get (ins k v (ins k' v' m)) x = get (ins k' v' (ins k v m)) x"
  by (simp add: get_ins)

end

lemma map_get_insert [simp]: "map_get (map_insert k v m) k' = (if k' = k then Some v else map_get m k')"
  by (induction k v m rule: map_insert.induct) auto

lemma map_get_remove [simp]: "map_get (map_remove k m) k' = (if k' = k then None else map_get m k')"
  by (induction m) (auto simp: map_remove_def)

lemma map_get_retain [simp]: "map_get (map_retain P m) k = (if P k then map_get m k else None)"
  by (induction m) (auto simp: map_retain_def)

interpretation btree: ordered_map "[]" map_get map_insert map_remove
  by unfold_locales auto

lemma map_get_build: "map_get (map_build kvs) k = map_of (rev kvs) k"
  by (simp add: map_build_def btree.get_build)

lemma map_get_of: "map_get m = map_of m"
  by (rule ext) (induction m, auto)

lemma map_get_in_set: "map_get m k = Some v \<Longrightarrow> (k, v) \<in> set m"
  by (induction m) (auto split: if_splits)

text \<open>The order invariant of the \<open>BTreeMap\<close> is kept by every operation.\<close>

lemma map_insert_keys: "fst ` set (map_insert k v m) = insert k (fst ` set m)"
  by (induction k v m rule: map_insert.induct) auto

lemma map_ok_insert: "map_ok m \<Longrightarrow> map_ok (map_insert k v m)"
proof (induction k v m rule: map_insert.induct)
  case (2 k v k' v' m)
  then show ?case
    using map_insert_keys [of k v m]
    by (auto simp: map_ok_def dest: less_trans)
qed (simp add: map_ok_def)

lemma map_ok_filter: "map_ok m \<Longrightarrow> map_ok (filter P m)"
  by (induction m) (auto simp: map_ok_def)

lemma map_ok_remove: "map_ok m \<Longrightarrow> map_ok (map_remove k m)"
  by (simp add: map_remove_def map_ok_filter)

lemma map_ok_retain: "map_ok m \<Longrightarrow> map_ok (map_retain P m)"
  by (simp add: map_retain_def map_ok_filter)

lemma map_ok_Nil [simp]: "map_ok []"
  by (simp add: map_ok_def)

lemma map_ok_build: "map_ok (map_build kvs)"
proof -
  have "map_ok m \<Longrightarrow> map_ok (foldl (\<lambda>m (k, v). map_insert k v m) m kvs)" for m :: "('a \<times> 'b) list"
    by (induction kvs arbitrary: m) (auto simp: map_ok_insert)
  then show ?thesis
    by (simp add: map_build_def)
qed

lemma map_insert_set: "set (map_insert k v m) \<subseteq> insert (k, v) (set m)"
  by (induction k v m rule: map_insert.induct) auto

lemma map_build_set: "set (map_build kvs) \<subseteq> set kvs"
proof -
  have "set (foldl (\<lambda>m (k, v). map_insert k v m) m kvs) \<subseteq> set m \<union> set kvs" for m :: "('a \<times> 'b) list"
    by (induction kvs arbitrary: m) (use map_insert_set in fastforce)+
  from this [of "[]"] show ?thesis
    by (simp add: map_build_def)
qed

section \<open>Accessors\<close>

fun as_str :: "Value \<Rightarrow> bytes option" where
  "as_str (String s) = Some s"
| "as_str _ = None"

fun as_array :: "Value \<Rightarrow> Value list option" where
  "as_array (Array vs) = Some vs"
| "as_array _ = None"

fun as_object :: "Value \<Rightarrow> jmap option" where
  "as_object (Object m) = Some m"
| "as_object _ = None"

fun as_u64 :: "Value \<Rightarrow> u64 option" where
  "as_u64 (Number (PosInt n)) = Some n"
| "as_u64 _ = None"

definition value_get :: "Value \<Rightarrow> bytes \<Rightarrow> Value option" where
  "value_get v k = (case v of Object m \<Rightarrow> map_get m k | _ \<Rightarrow> None)"

definition get_str :: "Value \<Rightarrow> bytes \<Rightarrow> bytes option" where
  "get_str v k = Option.bind (value_get v k) as_str"

definition map_str :: "jmap \<Rightarrow> bytes \<Rightarrow> bytes option" where
  "map_str m k = Option.bind (map_get m k) as_str"

definition is_string :: "Value \<Rightarrow> bool" where
  "is_string v = (as_str v \<noteq> None)"

definition is_object :: "Value \<Rightarrow> bool" where
  "is_object v = (as_object v \<noteq> None)"

text \<open>The \<open>json!\<close> macro on an object literal inserts its entries one by one.\<close>

definition json_object :: "(bytes \<times> Value) list \<Rightarrow> Value" where
  "json_object kvs = Object (map_build kvs)"

definition json_opt_str :: "bytes option \<Rightarrow> Value" where
  "json_opt_str s = (case s of None \<Rightarrow> Null | Some t \<Rightarrow> String t)"

definition json_u64 :: "u64 \<Rightarrow> Value" where
  "json_u64 n = Number (PosInt n)"

lemma as_str_Some [simp]: "as_str v = Some s \<longleftrightarrow> v = String s"
  by (cases v) auto

lemma as_array_Some [simp]: "as_array v = Some vs \<longleftrightarrow> v = Array vs"
  by (cases v) auto

lemma as_object_Some [simp]: "as_object v = Some m \<longleftrightarrow> v = Object m"
  by (cases v) auto

lemma as_u64_Some [simp]: "as_u64 v = Some n \<longleftrightarrow> v = Number (PosInt n)"
  by (cases v rule: as_u64.cases) auto

lemma value_get_Object [simp, json_simps]: "value_get (Object m) k = map_get m k"
  by (simp add: value_get_def)

lemma value_get_json_object [simp, json_simps]:
  "value_get (json_object kvs) k = map_of (rev kvs) k"
  by (simp add: json_object_def map_get_build)

lemma get_str_Some: "get_str v k = Some s \<longleftrightarrow> value_get v k = Some (String s)"
  by (auto simp: get_str_def bind_eq_Some_conv)

lemma map_str_Some: "map_str m k = Some s \<longleftrightarrow> map_get m k = Some (String s)"
  by (auto simp: map_str_def bind_eq_Some_conv)

lemma map_str_insert [simp]:
  "map_str (map_insert k v m) k' = (if k' = k then as_str v else map_str m k')"
  by (simp add: map_str_def)

lemma get_str_Object [simp]: "get_str (Object m) k = map_str m k"
  by (simp add: get_str_def map_str_def)

section \<open>Well-formed values and the text codec\<close>

text \<open>
  \<open>json_wf\<close> holds of every \<open>Value\<close> a Rust program can build: strings are UTF-8 and maps are
  in key order. \<open>json_exact\<close> further excludes floating-point numbers (whose text form need not
  read back bit for bit) and nesting at or beyond the parser's recursion limit of 128.
\<close>

fun json_wf :: "Value \<Rightarrow> bool" where
  "json_wf (String s) = utf8_valid s"
| "json_wf (Array vs) = (\<forall>v \<in> set vs. json_wf v)"
| "json_wf (Object m) = (map_ok m \<and> (\<forall>kv \<in> set m. utf8_valid (fst kv) \<and> json_wf (snd kv)))"
| "json_wf _ = True"

fun json_no_float :: "Value \<Rightarrow> bool" where
  "json_no_float (Number (Float w)) = False"
| "json_no_float (Array vs) = (\<forall>v \<in> set vs. json_no_float v)"
| "json_no_float (Object m) = (\<forall>kv \<in> set m. json_no_float (snd kv))"
| "json_no_float _ = True"

fun json_depth_le :: "nat \<Rightarrow> Value \<Rightarrow> bool" where
  "json_depth_le 0 (Array vs) = False"
| "json_depth_le 0 (Object m) = False"
| "json_depth_le (Suc n) (Array vs) = (\<forall>v \<in> set vs. json_depth_le n v)"
| "json_depth_le (Suc n) (Object m) = (\<forall>kv \<in> set m. json_depth_le n (snd kv))"
| "json_depth_le n _ = True"

definition json_exact :: "Value \<Rightarrow> bool" where
  "json_exact v = (json_wf v \<and> json_no_float v \<and> json_depth_le 127 v)"

record serde_json =
  from_str :: "bytes \<Rightarrow> Value option"
  to_string :: "Value \<Rightarrow> bytes"

definition serde_json_spec :: "serde_json \<Rightarrow> bool" where
  "serde_json_spec sj =
     ((\<forall>v. json_exact v \<longrightarrow> from_str sj (to_string sj v) = Some v) \<and>
      (\<forall>v. json_wf v \<longrightarrow> utf8_valid (to_string sj v) \<and>
             LF \<notin> set (to_string sj v) \<and> CR \<notin> set (to_string sj v)) \<and>
      (\<forall>s v. from_str sj s = Some v \<longrightarrow> json_wf v) \<and>
      from_str sj ''[DONE]'' = None)"

lemma serde_roundtrip:
  "serde_json_spec sj \<Longrightarrow> json_exact v \<Longrightarrow> from_str sj (to_string sj v) = Some v"
  by (simp add: serde_json_spec_def)

lemma serde_line:
  assumes "serde_json_spec sj" and "json_wf v"
  shows "utf8_valid (to_string sj v)" and "LF \<notin> set (to_string sj v)"
    and "CR \<notin> set (to_string sj v)"
  using assms by (simp_all add: serde_json_spec_def)

lemma serde_parse_wf: "serde_json_spec sj \<Longrightarrow> from_str sj s = Some v \<Longrightarrow> json_wf v"
  by (simp add: serde_json_spec_def)

lemma serde_not_done:
  "serde_json_spec sj \<Longrightarrow> json_exact v \<Longrightarrow> to_string sj v \<noteq> ''[DONE]''"
  by (metis option.distinct(1) serde_json_spec_def)

lemma json_exact_wf: "json_exact v \<Longrightarrow> json_wf v"
  by (simp add: json_exact_def)

lemma json_wf_get: "json_wf v \<Longrightarrow> value_get v k = Some w \<Longrightarrow> json_wf w"
  by (cases v) (auto simp: value_get_def dest!: map_get_in_set)

lemma json_wf_get_str: "json_wf v \<Longrightarrow> get_str v k = Some s \<Longrightarrow> utf8_valid s"
  using json_wf_get by (fastforce simp: get_str_Some)

lemma json_wf_insert:
  "json_wf (Object m) \<Longrightarrow> utf8_valid k \<Longrightarrow> json_wf v \<Longrightarrow> json_wf (Object (map_insert k v m))"
  using map_insert_set [of k v m] by (fastforce simp: map_ok_insert)

lemma json_wf_remove: "json_wf (Object m) \<Longrightarrow> json_wf (Object (map_remove k m))"
  by (auto simp: map_ok_remove) (auto simp: map_remove_def)

lemma json_wf_object:
  "(\<And>k v. (k, v) \<in> set kvs \<Longrightarrow> utf8_valid k \<and> json_wf v) \<Longrightarrow> json_wf (json_object kvs)"
  using map_build_set [of kvs] by (fastforce simp: json_object_def map_ok_build)

text \<open>\<open>json_exact_le n\<close> is \<open>json_exact\<close> with the remaining depth explicit, so that it composes.\<close>

definition json_exact_le :: "nat \<Rightarrow> Value \<Rightarrow> bool" where
  "json_exact_le n v = (json_wf v \<and> json_no_float v \<and> json_depth_le n v)"

lemma json_exact_leI: "json_exact_le n v \<Longrightarrow> n \<le> 127 \<Longrightarrow> json_exact v"
proof -
  have mono: "json_depth_le n v \<Longrightarrow> n \<le> m \<Longrightarrow> json_depth_le m v" for m
  proof (induction n v arbitrary: m rule: json_depth_le.induct)
    case (3 n vs)
    then show ?case by (cases m) auto
  next
    case (4 n m')
    then show ?case by (cases m) auto
  qed auto
  show "json_exact_le n v \<Longrightarrow> n \<le> 127 \<Longrightarrow> json_exact v"
    by (auto simp: json_exact_le_def json_exact_def intro: mono)
qed

lemma json_exact_le_scalar [simp]:
  "json_exact_le n Null" "json_exact_le n (Bool b)" "json_exact_le n (json_u64 w)"
  "json_exact_le n (String s) \<longleftrightarrow> utf8_valid s"
  by (simp_all add: json_exact_le_def json_u64_def)

lemma json_exact_le_array:
  "json_exact_le (Suc n) (Array vs) \<longleftrightarrow> (\<forall>v \<in> set vs. json_exact_le n v)"
  by (auto simp: json_exact_le_def)

lemma json_exact_le_Object:
  "json_exact_le (Suc n) (Object m) \<longleftrightarrow>
     map_ok m \<and> (\<forall>kv \<in> set m. utf8_valid (fst kv) \<and> json_exact_le n (snd kv))"
  by (auto simp: json_exact_le_def)

lemma json_exact_le_insert:
  assumes "json_exact_le (Suc n) (Object m)" and "utf8_valid k" and "json_exact_le n v"
  shows "json_exact_le (Suc n) (Object (map_insert k v m))"
  using assms map_insert_set [of k v m]
  by (fastforce simp: json_exact_le_Object map_ok_insert)

lemma json_exact_le_object:
  "(\<And>k v. (k, v) \<in> set kvs \<Longrightarrow> utf8_valid k \<and> json_exact_le n v) \<Longrightarrow>
   json_exact_le (Suc n) (json_object kvs)"
  using map_build_set [of kvs]
  by (fastforce simp: json_object_def json_exact_le_Object map_ok_build)

end
