(* ===== verification/Sse_Framing.thy ===== *)
theory Sse_Framing
  imports Prelude
begin

text \<open>
  Framing of server-sent events. Both stream components look for the first blank line of their
  buffer with a function \<open>complete_frame_len\<close> of their own: the gateway's validator
  (\<open>muse-codex-gateway/src/sse.rs\<close>) and the Z.ai synthesizer
  (\<open>codex-transport/src/zai/stream.rs\<close>). Their common contract is the locale
  \<open>frame_scanner\<close>; the gateway's scanner also satisfies \<open>incremental_scanner\<close>, so the frames
  it cuts do not depend on how the network splits the bytes into chunks.
\<close>

section \<open>The two scanners\<close>

function complete_frame_len_from :: "bytes \<Rightarrow> nat \<Rightarrow> nat \<Rightarrow> nat option" where
  "complete_frame_len_from buffer line_start index =
     (if index < length buffer then
        if buffer ! index = LF then
          if index = line_start then Some (index + 1)
          else complete_frame_len_from buffer (index + 1) (index + 1)
        else if buffer ! index = CR then
          if index + 1 = length buffer then None
          else if buffer ! (index + 1) = LF then
            if index = line_start then Some (index + 2)
            else complete_frame_len_from buffer (index + 2) (index + 2)
          else
            if index = line_start then Some (index + 1)
            else complete_frame_len_from buffer (index + 1) (index + 1)
        else complete_frame_len_from buffer line_start (index + 1)
      else None)"
  by pat_completeness auto
termination
  by (relation "measure (\<lambda>(b, s, i). length b - i)") auto

definition complete_frame_len :: "bytes \<Rightarrow> nat option" where
  "complete_frame_len buffer = complete_frame_len_from buffer 0 0"

function zai_complete_frame_len_from :: "bytes \<Rightarrow> nat \<Rightarrow> nat \<Rightarrow> nat option" where
  "zai_complete_frame_len_from buffer line_start index =
     (if index < length buffer then
        let byte = buffer ! index in
        if byte \<noteq> LF \<and> byte \<noteq> CR then zai_complete_frame_len_from buffer line_start (index + 1)
        else
          let next = (if byte = CR \<and> index + 1 < length buffer \<and> buffer ! (index + 1) = LF
                      then index + 2 else index + 1)
          in if index = line_start then Some next
             else zai_complete_frame_len_from buffer next next
      else None)"
  by pat_completeness auto
termination
  by (relation "measure (\<lambda>(b, s, i). length b - i)") (auto split: if_splits)

definition zai_complete_frame_len :: "bytes \<Rightarrow> nat option" where
  "zai_complete_frame_len buffer = zai_complete_frame_len_from buffer 0 0"

declare complete_frame_len_from.simps [simp del]
declare zai_complete_frame_len_from.simps [simp del]

section \<open>Cutting a buffer into frames\<close>

text \<open>The specification of repeated extraction: the complete frames and the bytes left over.\<close>

function split_frames :: "(bytes \<Rightarrow> nat option) \<Rightarrow> bytes \<Rightarrow> bytes list \<times> bytes" where
  "split_frames scan b =
     (case scan b of
        None \<Rightarrow> ([], b)
      | Some n \<Rightarrow>
          if 0 < n \<and> n \<le> length b
          then (let (fs, r) = split_frames scan (drop n b) in (take n b # fs, r))
          else ([], b))"
  by pat_completeness auto
termination
  by (relation "measure (\<lambda>(scan, b). length b)") auto

declare split_frames.simps [simp del]

locale frame_scanner =
  fixes scan :: "bytes \<Rightarrow> nat option"
  assumes scan_bounds: "scan b = Some n \<Longrightarrow> 0 < n \<and> n \<le> length b"
begin

lemma split_frames_None: "scan b = None \<Longrightarrow> split_frames scan b = ([], b)"
  by (simp add: split_frames.simps)

lemma split_frames_Some:
  "scan b = Some n \<Longrightarrow>
   split_frames scan b = (take n b # fst (split_frames scan (drop n b)), snd (split_frames scan (drop n b)))"
  using scan_bounds [of b n] by (subst split_frames.simps) (simp add: case_prod_unfold Let_def)

text \<open>No byte is lost or invented, and what is left over holds no complete frame.\<close>

lemma split_frames_concat: "concat (fst (split_frames scan b)) @ snd (split_frames scan b) = b"
proof (induction "length b" arbitrary: b rule: less_induct)
  case less
  show ?case
  proof (cases "scan b")
    case None
    then show ?thesis by (simp add: split_frames_None)
  next
    case (Some n)
    with scan_bounds [of b n] have "length (drop n b) < length b" by auto
    from less [OF this] Some show ?thesis
      by (simp add: split_frames_Some)
  qed
qed

lemma split_frames_rest: "scan (snd (split_frames scan b)) = None"
proof (induction "length b" arbitrary: b rule: less_induct)
  case less
  show ?case
  proof (cases "scan b")
    case None
    then show ?thesis by (simp add: split_frames_None)
  next
    case (Some n)
    with scan_bounds [of b n] have "length (drop n b) < length b" by auto
    from less [OF this] Some show ?thesis
      by (simp add: split_frames_Some)
  qed
qed

lemma split_frames_nonempty: "f \<in> set (fst (split_frames scan b)) \<Longrightarrow> f \<noteq> []"
proof (induction "length b" arbitrary: b rule: less_induct)
  case less
  show ?case
  proof (cases "scan b")
    case None
    with less.prems show ?thesis by (simp add: split_frames_None)
  next
    case (Some n)
    with scan_bounds [of b n] have n: "length (drop n b) < length b" and "take n b \<noteq> []" by auto
    with less.hyps [OF n] less.prems Some show ?thesis
      by (auto simp: split_frames_Some)
  qed
qed

end

locale incremental_scanner = frame_scanner +
  assumes scan_append: "scan b = Some n \<Longrightarrow> scan (b @ c) = Some n"
    and scan_late: "scan b = None \<Longrightarrow> scan (b @ c) = Some n \<Longrightarrow> length b \<le> n"
begin

lemma split_frames_append:
  "split_frames scan (b @ c) =
     (fst (split_frames scan b) @ fst (split_frames scan (snd (split_frames scan b) @ c)),
      snd (split_frames scan (snd (split_frames scan b) @ c)))"
proof (induction "length b" arbitrary: b rule: less_induct)
  case less
  show ?case
  proof (cases "scan b")
    case None
    then show ?thesis by (simp add: split_frames_None)
  next
    case (Some n)
    with scan_bounds [of b n] have n: "length (drop n b) < length b" "n \<le> length b" by auto
    from scan_append [OF Some, of c] less [OF n(1)] n(2) Some show ?thesis
      by (simp add: split_frames_Some)
  qed
qed

end

section \<open>The gateway's scanner is incremental\<close>

lemma complete_frame_len_from_bounds:
  "complete_frame_len_from b s i = Some n \<Longrightarrow> i < n \<and> n \<le> length b"
proof (induction "length b - i" arbitrary: s i rule: less_induct)
  case less
  have ih: "i < j \<Longrightarrow> i < length b \<Longrightarrow> complete_frame_len_from b s' j = Some n \<Longrightarrow>
      j < n \<and> n \<le> length b" for j s'
    using less.hyps [of j s'] by simp
  from less.prems show ?case
    by (subst (asm) complete_frame_len_from.simps) (auto dest: ih [rotated 2] split: if_splits)
qed

lemma complete_frame_len_from_append:
  "complete_frame_len_from b s i = Some n \<Longrightarrow> complete_frame_len_from (b @ c) s i = Some n"
proof (induction "length b - i" arbitrary: s i rule: less_induct)
  case less
  then have ih: "i < j \<Longrightarrow> i < length b \<Longrightarrow> complete_frame_len_from b s' j = Some n \<Longrightarrow>
      complete_frame_len_from (b @ c) s' j = Some n" for j s'
    by simp
  from less.prems show ?case
    by (subst (asm) complete_frame_len_from.simps, subst complete_frame_len_from.simps)
       (auto simp: nth_append ih split: if_splits)
qed

lemma complete_frame_len_from_late:
  "complete_frame_len_from b s i = None \<Longrightarrow> i \<le> length b \<Longrightarrow>
   complete_frame_len_from (b @ c) s i = Some n \<Longrightarrow> length b \<le> n"
proof (induction "length b - i" arbitrary: s i rule: less_induct)
  case less
  show ?case
  proof (cases "i < length b \<and> \<not> (b ! i = CR \<and> i + 1 = length b)")
    case False
    with less.prems(2) complete_frame_len_from_bounds [OF less.prems(3)] show ?thesis by auto
  next
    case True
    then have ih: "i < j \<Longrightarrow> j \<le> length b \<Longrightarrow> complete_frame_len_from b s' j = None \<Longrightarrow>
        complete_frame_len_from (b @ c) s' j = Some n \<Longrightarrow> length b \<le> n" for j s'
      using less.hyps [of j s'] by simp
    from True less.prems(1) less.prems(3) show ?thesis
      by (subst (asm) (1 2) complete_frame_len_from.simps)
         (auto simp: nth_append dest: ih [rotated 2] split: if_splits)
  qed
qed

interpretation gateway_scanner: incremental_scanner complete_frame_len
proof
  show "complete_frame_len b = Some n \<Longrightarrow> 0 < n \<and> n \<le> length b" for b n
    by (auto simp: complete_frame_len_def dest: complete_frame_len_from_bounds)
  show "complete_frame_len b = Some n \<Longrightarrow> complete_frame_len (b @ c) = Some n" for b c n
    by (simp add: complete_frame_len_def complete_frame_len_from_append)
  show "complete_frame_len b = None \<Longrightarrow> complete_frame_len (b @ c) = Some n \<Longrightarrow> length b \<le> n" for b c n
    by (auto simp: complete_frame_len_def dest: complete_frame_len_from_late [where i = 0])
qed

section \<open>The Z.ai scanner\<close>

lemma zai_complete_frame_len_from_bounds:
  "zai_complete_frame_len_from b s i = Some n \<Longrightarrow> i < n \<and> n \<le> length b"
proof (induction "length b - i" arbitrary: s i rule: less_induct)
  case less
  have ih: "i < j \<Longrightarrow> i < length b \<Longrightarrow> zai_complete_frame_len_from b s' j = Some n \<Longrightarrow>
      j < n \<and> n \<le> length b" for j s'
    using less.hyps [of j s'] by simp
  from less.prems show ?case
    by (subst (asm) zai_complete_frame_len_from.simps)
       (auto simp: Let_def dest: ih [rotated 2] split: if_splits)
qed

interpretation zai_scanner: frame_scanner zai_complete_frame_len
  by unfold_locales (auto simp: zai_complete_frame_len_def dest: zai_complete_frame_len_from_bounds)

end
