(* ===== verification/Sse_Inspect.thy ===== *)
theory Sse_Inspect
  imports Json Sse_Framing
begin

text \<open>
  Inspection of one server-sent event by the gateway (\<open>muse-codex-gateway/src/sse.rs\<close>):
  field parsing, the event vocabulary, the per-type shape checks, the sanitization of upstream
  failures and the construction of the \<open>response.failed\<close> frame that replaces them.
\<close>

named_theorems sse_defs \<open>event tables of the gateway\<close>

section \<open>Event vocabulary\<close>

definition is_terminal_event :: "bytes \<Rightarrow> bool" where
  "is_terminal_event kind \<longleftrightarrow> kind \<in> set
    [''response.completed'', ''response.failed'', ''response.incomplete'', ''response.cancelled'']"

definition is_metadata_event :: "bytes \<Rightarrow> bool" where
  "is_metadata_event kind \<longleftrightarrow> kind \<in> set
    [''response.metadata'', ''codex.response.metadata'', ''codex.rate_limits'']"

definition known_events :: "bytes list" where
  "known_events =
    [
     ''error'',
     ''response.created'',
     ''response.queued'',
     ''response.in_progress'',
     ''response.completed'',
     ''response.failed'',
     ''response.incomplete'',
     ''response.cancelled'',
     ''response.output_item.added'',
     ''response.output_item.done'',
     ''response.content_part.added'',
     ''response.content_part.done'',
     ''response.output_text.delta'',
     ''response.output_text.done'',
     ''response.output_text.annotation.added'',
     ''response.refusal.delta'',
     ''response.refusal.done'',
     ''response.function_call_arguments.delta'',
     ''response.function_call_arguments.done'',
     ''response.custom_tool_call_input.delta'',
     ''response.custom_tool_call_input.done'',
     ''response.reasoning_summary_part.added'',
     ''response.reasoning_summary_part.done'',
     ''response.reasoning_summary_text.delta'',
     ''response.reasoning_summary_text.done'',
     ''response.reasoning_text.delta'',
     ''response.reasoning_text.done'',
     ''response.audio.delta'',
     ''response.audio.done'',
     ''response.audio.transcript.delta'',
     ''response.audio.transcript.done'',
     ''response.output_audio.delta'',
     ''response.output_audio.done'',
     ''response.output_audio_transcript.delta'',
     ''response.output_audio_transcript.done'',
     ''response.file_search_call.in_progress'',
     ''response.file_search_call.searching'',
     ''response.file_search_call.completed'',
     ''response.web_search_call.in_progress'',
     ''response.web_search_call.searching'',
     ''response.web_search_call.completed'',
     ''response.code_interpreter_call.in_progress'',
     ''response.code_interpreter_call.interpreting'',
     ''response.code_interpreter_call.completed'',
     ''response.code_interpreter_call_code.delta'',
     ''response.code_interpreter_call_code.done'',
     ''response.mcp_call.in_progress'',
     ''response.mcp_call.completed'',
     ''response.mcp_call.failed'',
     ''response.mcp_call_arguments.delta'',
     ''response.mcp_call_arguments.done'',
     ''response.mcp_list_tools.in_progress'',
     ''response.mcp_list_tools.completed'',
     ''response.mcp_list_tools.failed'',
     ''response.image_generation_call.in_progress'',
     ''response.image_generation_call.generating'',
     ''response.image_generation_call.completed'',
     ''response.image_generation_call.partial_image''
    ]"

definition is_known_event :: "bytes \<Rightarrow> bool" where
  "is_known_event kind = (kind \<in> set known_events)"

definition safe_protocol_identifier :: "bytes \<Rightarrow> bool" where
  "safe_protocol_identifier value =
     (value \<noteq> [] \<and> length value \<le> 512 \<and>
      \<not> list_ex (\<lambda>character. is_control character \<or> is_whitespace character) (chars value))"

section \<open>Shape checks\<close>

definition lifecycle_events :: "bytes list" where
  "lifecycle_events =
    [''response.created'', ''response.completed'', ''response.failed'', ''response.incomplete'']"

definition delta_events :: "bytes list" where
  "delta_events =
    [''response.output_text.delta'', ''response.refusal.delta'',
     ''response.function_call_arguments.delta'', ''response.custom_tool_call_input.delta'',
     ''response.reasoning_summary_text.delta'', ''response.reasoning_text.delta'',
     ''response.audio.delta'', ''response.audio.transcript.delta'',
     ''response.output_audio.delta'', ''response.output_audio_transcript.delta'',
     ''response.code_interpreter_call_code.delta'', ''response.mcp_call_arguments.delta'']"

definition validate_event_shape :: "bytes \<Rightarrow> Value \<Rightarrow> (unit, bytes) result" where
  "validate_event_shape kind value =
     and_then
       (if kind \<in> set lifecycle_events then
          and_then (ok_or (Option.bind (value_get value ''response'') as_object)
                      ''upstream response lifecycle event had no response object'')
            (\<lambda>response.
               and_then (ok_or (opt_filter safe_protocol_identifier (map_str response ''id''))
                           ''upstream response lifecycle event had no valid response id'')
                 (\<lambda>_. Ok ()))
        else Ok ())
     (\<lambda>_. and_then
       (if kind = ''response.cancelled'' then
          and_then (ok_or (opt_filter safe_protocol_identifier
                       (Option.bind
                          (or_else (Option.bind (value_get value ''response'') (\<lambda>response. value_get response ''id''))
                                   (value_get value ''response_id''))
                          as_str))
                      ''upstream response cancellation event had no valid response id'')
            (\<lambda>_. Ok ())
        else Ok ())
     (\<lambda>_.
       if kind \<in> set delta_events \<and> \<not> is_some_and is_string (value_get value ''delta'') then
         Err ''upstream response delta event had no string delta''
       else if kind \<in> set [''response.output_item.added'', ''response.output_item.done''] \<and>
               \<not> is_some_and is_object (value_get value ''item'') then
         Err ''upstream response item event had no item object''
       else if kind = ''error'' \<and> unwrap_or (map_option (\<lambda>m. m = []) (get_str value ''message'')) True then
         Err ''upstream error event had no message''
       else Ok ()))"

section \<open>Frames\<close>

record InspectedEvent =
  event_kind :: bytes
  event_sequence :: "u64 option"
  event_value :: Value

datatype FrameDisposition = Keep InspectedEvent | Drop InspectedEvent

text \<open>One pass of the field loop over a line: the event name and the data lines so far.\<close>

definition sse_line :: "bytes option \<times> bytes list \<Rightarrow> bytes \<Rightarrow> bytes option \<times> bytes list" where
  "sse_line acc raw_line =
     (if raw_line = [] \<or> starts_with '':'' raw_line then acc
      else
        let (field, value) = unwrap_or (split_once (CHR '':'') raw_line) (raw_line, []);
            value = unwrap_or (strip_prefix '' '' value) value
        in if field = ''event'' then (Some value, snd acc)
           else if field = ''data'' then (fst acc, snd acc @ [value])
           else acc)"

definition BOM :: bytes where
  "BOM = [CHR 0xEF, CHR 0xBB, CHR 0xBF]"

definition sse_fields :: "bytes \<Rightarrow> bytes option \<times> bytes list" where
  "sse_fields text =
     foldl sse_line (None, []) (split_terminator (\<lambda>c. c = CR \<or> c = LF) text)"

definition inspect_value :: "bytes option \<Rightarrow> Value \<Rightarrow> (FrameDisposition, bytes) result" where
  "inspect_value event_name value =
     and_then (ok_or (get_str value ''type'') ''upstream SSE event had no string type'')
     (\<lambda>kind.
       if is_some_and (\<lambda>name. name \<noteq> ''message'' \<and> name \<noteq> kind) event_name then
         Err ''upstream SSE event name did not match its JSON type''
       else if \<not> is_metadata_event kind \<and> \<not> is_known_event kind then
         Err ''upstream emitted an unknown non-metadata event''
       else
         and_then
           (case value_get value ''sequence_number'' of
              Some sequence \<Rightarrow>
                (case as_u64 sequence of
                   Some n \<Rightarrow> Ok (Some n)
                 | None \<Rightarrow> Err ''upstream SSE event had an invalid sequence_number'')
            | None \<Rightarrow> Ok None)
         (\<lambda>sequence_number.
           and_then (validate_event_shape kind value)
           (\<lambda>_.
             let event = \<lparr>event_kind = kind, event_sequence = sequence_number, event_value = value\<rparr>
             in if is_metadata_event kind then Ok (Drop event) else Ok (Keep event))))"

definition inspect_frame :: "serde_json \<Rightarrow> bytes \<Rightarrow> (FrameDisposition, bytes) result" where
  "inspect_frame sj frame =
     (if \<not> utf8_valid frame then Err ''upstream SSE event was not valid UTF-8''
      else
        let text = unwrap_or (strip_prefix BOM frame) frame;
            (event_name, data_lines) = sse_fields text
        in if data_lines = [] then
             if event_name = None then
               Ok (Drop \<lparr>event_kind = ''sse.comment'', event_sequence = None, event_value = Null\<rparr>)
             else Err ''upstream SSE event contained no data''
           else
             let data = join_with [LF] data_lines
             in if data = ''[DONE]'' then Err ''upstream sent [DONE] before response.completed''
                else (case from_str sj data of
                        None \<Rightarrow> Err ''upstream SSE event contained malformed JSON''
                      | Some value \<Rightarrow> inspect_value event_name value))"

section \<open>Reported model\<close>

fun json_string_or_first :: "Value \<Rightarrow> bytes option" where
  "json_string_or_first (String value) = Some value"
| "json_string_or_first (Array (v # vs)) = json_string_or_first v"
| "json_string_or_first _ = None"

text \<open>\<open>find_map\<close> over the headers: the first matching name whose value yields a string.\<close>

fun find_header_model :: "jmap \<Rightarrow> bytes option" where
  "find_header_model [] = None"
| "find_header_model ((name, value) # rest) =
     or_else
       (if eq_ignore_ascii_case name ''openai-model'' \<or> eq_ignore_ascii_case name ''x-openai-model''
        then json_string_or_first value else None)
       (find_header_model rest)"

definition header_model :: "Value \<Rightarrow> bytes option" where
  "header_model value = Option.bind (as_object value) find_header_model"

definition event_reported_model :: "Value \<Rightarrow> bytes option" where
  "event_reported_model value =
     or_else
       (Option.bind (Option.bind (value_get value ''response'') (\<lambda>r. value_get r ''headers'')) header_model)
       (Option.bind (value_get value ''headers'') header_model)"

section \<open>Sanitized failures\<close>

record SanitizedStreamFailure =
  failure_code :: bytes
  failure_message :: bytes
  failure_parameter :: "bytes option"

definition safe_error_parameter :: "bytes \<Rightarrow> bool" where
  "safe_error_parameter value =
     (value \<noteq> [] \<and> length value \<le> 128 \<and>
      list_all (\<lambda>b. is_ascii_alphanumeric b \<or> b \<in> set ''_-.[]'') value)"

definition stream_failure_code :: "bytes option \<Rightarrow> bytes" where
  "stream_failure_code c =
     (case c of
        None \<Rightarrow> ''invalid_request''
      | Some c \<Rightarrow>
          if c = ''context_length_exceeded'' then ''context_length_exceeded''
          else if c = ''rate_limit_exceeded'' \<or> c = ''usage_limit_reached'' then ''rate_limit_exceeded''
          else if c = ''invalid_api_key'' then ''invalid_api_key''
          else if c = ''model_not_found'' then ''model_not_found''
          else if c = ''insufficient_quota'' then ''insufficient_quota''
          else ''invalid_request'')"

definition stream_failure_message :: "bytes \<Rightarrow> bytes" where
  "stream_failure_message code =
     (if code = ''context_length_exceeded'' then
        ''The Codex stream reported that the model context window was exceeded; the request was not replayed and the session is resumable.''
      else if code = ''rate_limit_exceeded'' then
        ''The Codex stream reported a rate limit; the request was not replayed and the session is resumable.''
      else if code = ''invalid_api_key'' then
        ''The Codex stream rejected authentication; the request was not replayed and login is required.''
      else if code = ''model_not_found'' then
        ''The Codex stream reported that the requested model was unavailable; the request was not replayed and the session is resumable.''
      else if code = ''insufficient_quota'' then
        ''The Codex stream reported insufficient quota; the request was not replayed and the session is resumable.''
      else
        ''The Codex stream reported a terminal provider error; the request was not replayed and the session is resumable.'')"

definition sanitize_stream_failure :: "Value \<Rightarrow> SanitizedStreamFailure" where
  "sanitize_stream_failure value =
     (let error = unwrap_or
            (or_else (Option.bind (value_get value ''response'') (\<lambda>response. value_get response ''error''))
                     (value_get value ''error''))
            value;
          code = stream_failure_code (get_str error ''code'')
      in \<lparr>failure_code = code, failure_message = stream_failure_message code,
          failure_parameter = opt_filter safe_error_parameter (get_str error ''param'')\<rparr>)"

definition cancelled_failure :: SanitizedStreamFailure where
  "cancelled_failure =
     \<lparr>failure_code = ''invalid_request'',
      failure_message = ''The Codex stream was cancelled; the request was not replayed and the session is resumable.'',
      failure_parameter = None\<rparr>"

section \<open>Failure frames\<close>

definition failure_event ::
  "u64 \<Rightarrow> bytes option \<Rightarrow> bytes option \<Rightarrow> u64 \<Rightarrow> bytes \<Rightarrow> bytes \<Rightarrow> bytes option \<Rightarrow> Value" where
  "failure_event created_at response_id model sequence_number code message parameter =
     (let response_id = unwrap_or (opt_filter safe_protocol_identifier response_id)
                          ''resp_muse_codex_protocol_error'';
          model = unwrap_or (opt_filter safe_protocol_identifier model) ''muse-codex''
      in json_object [
        (''type'', String ''response.failed''),
        (''sequence_number'', json_u64 sequence_number),
        (''response'', json_object [
          (''id'', String response_id),
          (''object'', String ''response''),
          (''created_at'', json_u64 created_at),
          (''status'', String ''failed''),
          (''completed_at'', Null),
          (''output'', Array []),
          (''usage'', Null),
          (''error'', json_object [
            (''code'', String code),
            (''message'', String message),
            (''param'', json_opt_str parameter)]),
          (''previous_response_id'', Null),
          (''model'', String model),
          (''metadata'', Object []),
          (''incomplete_details'', Null)])])"

definition failure_frame ::
  "serde_json \<Rightarrow> u64 \<Rightarrow> bytes option \<Rightarrow> bytes option \<Rightarrow> u64 \<Rightarrow> bytes \<Rightarrow> bytes \<Rightarrow> bytes option \<Rightarrow> bytes" where
  "failure_frame sj created_at response_id model sequence_number code message parameter =
     ''event: response.failed'' @ [LF] @ ''data: '' @
     to_string sj (failure_event created_at response_id model sequence_number code message parameter)
     @ [LF, LF]"

definition protocol_failure_message :: "bytes \<Rightarrow> bytes" where
  "protocol_failure_message reason =
     ''muse_codex_protocol_error: '' @ reason @ ''; session is resumable''"

definition protocol_failure_frame ::
  "serde_json \<Rightarrow> u64 \<Rightarrow> bytes option \<Rightarrow> bytes option \<Rightarrow> u64 \<Rightarrow> bytes \<Rightarrow> bytes" where
  "protocol_failure_frame sj created_at response_id model sequence_number reason =
     failure_frame sj created_at response_id model sequence_number ''invalid_request''
       (protocol_failure_message reason) None"

definition gateway_failure_frame ::
  "serde_json \<Rightarrow> u64 \<Rightarrow> bytes option \<Rightarrow> bytes \<Rightarrow> bytes \<Rightarrow> bytes option \<Rightarrow> bytes" where
  "gateway_failure_frame sj created_at model code message parameter =
     failure_frame sj created_at None model 0 code message parameter"

section \<open>Frames written by the gateway\<close>

text \<open>The text form \<open>event: ...\n data: ...\n\n\<close> of both stream writers.\<close>

definition sse_frame :: "bytes \<Rightarrow> bytes \<Rightarrow> bytes" where
  "sse_frame name data = ''event: '' @ name @ [LF] @ ''data: '' @ data @ [LF, LF]"

definition one_line :: "bytes \<Rightarrow> bool" where
  "one_line s = (LF \<notin> set s \<and> CR \<notin> set s)"

lemma failure_frame_sse_frame:
  "failure_frame sj t rid m n c msg p = sse_frame ''response.failed'' (to_string sj (failure_event t rid m n c msg p))"
  by (simp add: failure_frame_def sse_frame_def)

lemma one_line_append [simp]: "one_line (s @ t) \<longleftrightarrow> one_line s \<and> one_line t"
  by (auto simp: one_line_def)

lemma one_line_Cons [simp]: "one_line (c # s) \<longleftrightarrow> c \<noteq> LF \<and> c \<noteq> CR \<and> one_line s"
  by (auto simp: one_line_def)

lemma one_line_Nil [simp]: "one_line []"
  by (simp add: one_line_def)

lemma split_terminator_lines:
  assumes "one_line a" and "one_line b"
  shows "split_terminator (\<lambda>c. c = CR \<or> c = LF) (a @ [LF] @ b @ [LF, LF]) = [a, b, []]"
proof -
  have a: "\<forall>c \<in> set a. \<not> (c = CR \<or> c = LF)" and b: "\<forall>c \<in> set b. \<not> (c = CR \<or> c = LF)"
    using assms by (auto simp: one_line_def)
  have "split_on (\<lambda>c. c = CR \<or> c = LF) (a @ LF # (b @ LF # [LF])) = [a, b, [], []]"
    by (simp add: split_on_append [OF a] split_on_append [OF b])
  then show ?thesis
    by (simp add: split_terminator_def)
qed

lemma sse_fields_sse_frame:
  assumes "one_line name" and "one_line data"
  shows "sse_fields (sse_frame name data) = (Some name, [data])"
proof -
  have "sse_fields (sse_frame name data) =
      foldl sse_line (None, []) [''event: '' @ name, ''data: '' @ data, []]"
    using split_terminator_lines [of "''event: '' @ name" "''data: '' @ data"] assms
    by (simp add: sse_fields_def sse_frame_def)
  also have "\<dots> = (Some name, [data])"
    by (simp add: sse_line_def starts_with_def)
  finally show ?thesis .
qed

lemma inspect_frame_sse_frame:
  assumes "one_line name" "one_line data" "utf8_valid name" "utf8_valid data" "data \<noteq> ''[DONE]''"
  shows "inspect_frame sj (sse_frame name data) =
    (case from_str sj data of
       None \<Rightarrow> Err ''upstream SSE event contained malformed JSON''
     | Some v \<Rightarrow> inspect_value (Some name) v)"
proof -
  have "utf8_valid (sse_frame name data)"
    unfolding sse_frame_def using assms
    by (intro utf8_valid_append) (auto intro!: utf8_valid_ascii simp: byte_def)
  moreover have "strip_prefix BOM (sse_frame name data) = None"
    by (simp add: sse_frame_def BOM_def)
  ultimately show ?thesis
    using sse_fields_sse_frame [OF assms(1,2)] assms(5)
    by (simp add: inspect_frame_def)
qed

lemma scan_line:
  "one_line l \<Longrightarrow>
   complete_frame_len_from (p @ l @ r) s (length p) = complete_frame_len_from (p @ l @ r) s (length p + length l)"
proof (induction l arbitrary: p)
  case (Cons c l)
  from Cons.IH [of "p @ [c]"] Cons.prems show ?case
    by (subst complete_frame_len_from.simps) (simp add: nth_append)
qed simp

lemma scan_full_line:
  assumes "one_line l" and "l \<noteq> []"
  shows "complete_frame_len_from (p @ l @ LF # r) (length p) (length p) =
         complete_frame_len_from (p @ l @ LF # r) (length p + length l + 1) (length p + length l + 1)"
  using assms
  by (subst scan_line, simp) (subst complete_frame_len_from.simps, simp add: nth_append)

text \<open>A frame written by the gateway is cut out of any continuation exactly as it was written.\<close>

lemma complete_frame_len_sse_frame:
  assumes "one_line name" and "one_line data"
  shows "complete_frame_len (sse_frame name data @ rest) = Some (length (sse_frame name data))"
proof -
  let ?e = "''event: '' @ name" and ?d = "''data: '' @ data"
  have e: "complete_frame_len_from (?e @ LF # (?d @ LF # LF # rest)) 0 0 =
      complete_frame_len_from (?e @ LF # (?d @ LF # LF # rest)) (length ?e + 1) (length ?e + 1)"
    using scan_full_line [of ?e "[]" "?d @ LF # LF # rest"] assms by simp
  have d: "complete_frame_len_from ((?e @ [LF]) @ ?d @ LF # (LF # rest)) (length ?e + 1) (length ?e + 1) =
      complete_frame_len_from ((?e @ [LF]) @ ?d @ LF # (LF # rest)) (length ?e + length ?d + 2) (length ?e + length ?d + 2)"
    using scan_full_line [of ?d "?e @ [LF]" "LF # rest"] assms by simp
  have "complete_frame_len_from ((?e @ [LF] @ ?d @ [LF]) @ LF # rest) (length ?e + length ?d + 2) (length ?e + length ?d + 2)
      = Some (length ?e + length ?d + 3)"
    by (subst complete_frame_len_from.simps) (simp add: nth_append)
  with e d show ?thesis
    by (simp add: complete_frame_len_def sse_frame_def)
qed

section \<open>What inspection guarantees\<close>

lemma inspect_value_Keep:
  assumes "inspect_value name v = Ok (Keep ev)"
  shows "is_known_event (event_kind ev)" and "\<not> is_metadata_event (event_kind ev)"
    and "validate_event_shape (event_kind ev) v = Ok ()" and "event_value ev = v"
    and "get_str v ''type'' = Some (event_kind ev)"
  using assms
  by (auto simp: inspect_value_def and_then_Ok Let_def split: if_splits)

lemma inspect_frame_value:
  assumes "inspect_frame sj f = Ok (Keep ev)"
  obtains name data where "from_str sj data = Some (event_value ev)"
    and "inspect_value name (event_value ev) = Ok (Keep ev)"
  using assms
  by (auto simp: inspect_frame_def Let_def case_prod_unfold dest: inspect_value_Keep(4)
      split: if_splits option.splits)

lemma inspect_value_Drop:
  "inspect_value name v = Ok (Drop ev) \<Longrightarrow> event_value ev = v"
  by (auto simp: inspect_value_def and_then_Ok Let_def split: if_splits)

text \<open>Every value an inspected event carries comes from the JSON parser.\<close>

lemma inspect_frame_wf:
  assumes "serde_json_spec sj" and "inspect_frame sj f = Ok (Keep ev) \<or> inspect_frame sj f = Ok (Drop ev)"
  shows "json_wf (event_value ev)"
  using assms
  by (auto simp: inspect_frame_def Let_def case_prod_unfold serde_parse_wf
      dest: inspect_value_Keep(4) inspect_value_Drop split: if_splits option.splits)

lemma stream_failure_code_allowed:
  "stream_failure_code c \<in> {''context_length_exceeded'', ''rate_limit_exceeded'', ''invalid_api_key'',
     ''model_not_found'', ''insufficient_quota'', ''invalid_request''}"
  by (simp add: stream_failure_code_def split: option.split)

lemma stream_failure_message_ascii: "is_ascii (stream_failure_message c)"
  by (simp add: stream_failure_message_def byte_def)

lemma stream_failure_code_ascii: "is_ascii (stream_failure_code c)"
  by (simp add: stream_failure_code_def byte_def split: option.split)

lemma safe_error_parameter_ascii: "safe_error_parameter p \<Longrightarrow> is_ascii p"
proof -
  have "is_ascii_alphanumeric b \<or> b \<in> set ''_-.[]'' \<Longrightarrow> byte b < 128" for b
    by (auto dest: alphanumeric_ascii simp: byte_def)
  then show "safe_error_parameter p \<Longrightarrow> is_ascii p"
    by (auto simp: safe_error_parameter_def is_ascii_def list_all_iff)
qed

section \<open>The failure event is accepted by the gateway's own checks\<close>

definition ident_ok :: "bytes option \<Rightarrow> bool" where
  "ident_ok x = (\<forall>s. x = Some s \<longrightarrow> utf8_valid s)"

lemma ident_ok_simps [simp]: "ident_ok None" "ident_ok (Some s) \<longleftrightarrow> utf8_valid s"
  by (simp_all add: ident_ok_def)

lemma default_identifiers_safe:
  "safe_protocol_identifier ''resp_muse_codex_protocol_error''" "safe_protocol_identifier ''muse-codex''"
  by (simp_all add: safe_protocol_identifier_def chars_ascii byte_def is_control_def is_whitespace_def)

lemma default_identifiers_utf8:
  "utf8_valid ''resp_muse_codex_protocol_error''" "utf8_valid ''muse-codex''"
  by (simp_all add: utf8_valid_ascii byte_def)

lemma filtered_identifier:
  assumes "ident_ok x" and "safe_protocol_identifier d" and "utf8_valid d"
  shows "utf8_valid (unwrap_or (opt_filter safe_protocol_identifier x) d) \<and>
         safe_protocol_identifier (unwrap_or (opt_filter safe_protocol_identifier x) d)"
  using assms by (cases x) auto

lemma failure_event_exact:
  assumes "ident_ok rid" "ident_ok m" "ident_ok p" "utf8_valid c" "utf8_valid msg"
  shows "json_exact (failure_event t rid m n c msg p)"
proof -
  let ?id = "unwrap_or (opt_filter safe_protocol_identifier rid) ''resp_muse_codex_protocol_error''"
  let ?m = "unwrap_or (opt_filter safe_protocol_identifier m) ''muse-codex''"
  have "utf8_valid ?id" "utf8_valid ?m"
    using assms(1,2) default_identifiers_safe filtered_identifier default_identifiers_utf8 by blast+
  moreover have "json_exact_le 0 (json_opt_str p)"
    using assms by (cases p) (simp_all add: json_opt_str_def)
  ultimately have "json_exact_le (Suc (Suc (Suc 0))) (failure_event t rid m n c msg p)"
    unfolding failure_event_def Let_def using assms
    by (auto intro!: json_exact_le_object simp: json_exact_le_array json_exact_le_Object
        intro: utf8_valid_ascii simp: byte_def)
  then show ?thesis
    by (rule json_exact_leI) simp
qed


lemma failure_event_fields:
  "get_str (failure_event t rid m n c msg p) ''type'' = Some ''response.failed''"
  "value_get (failure_event t rid m n c msg p) ''sequence_number'' = Some (json_u64 n)"
  "Option.bind (value_get (failure_event t rid m n c msg p) ''response'') (\<lambda>r. get_str r ''id'') =
     Some (unwrap_or (opt_filter safe_protocol_identifier rid) ''resp_muse_codex_protocol_error'')"
  "\<exists>r. value_get (failure_event t rid m n c msg p) ''response'' = Some (Object r)"
  by (simp_all add: failure_event_def Let_def get_str_def json_object_def map_get_build)

lemma failure_event_shape:
  assumes "ident_ok rid"
  shows "validate_event_shape ''response.failed'' (failure_event t rid m n c msg p) = Ok ()"
proof -
  obtain r where r: "value_get (failure_event t rid m n c msg p) ''response'' = Some (Object r)"
    using failure_event_fields(4) by blast
  then have "map_str r ''id'' =
      Some (unwrap_or (opt_filter safe_protocol_identifier rid) ''resp_muse_codex_protocol_error'')"
    using failure_event_fields(3) [of t rid m n c msg p] by simp
  moreover have "safe_protocol_identifier
      (unwrap_or (opt_filter safe_protocol_identifier rid) ''resp_muse_codex_protocol_error'')"
    using filtered_identifier [OF assms] default_identifiers_safe default_identifiers_utf8 by blast
  ultimately show ?thesis
    using r by (simp add: validate_event_shape_def lifecycle_events_def delta_events_def)
qed

lemma failure_frame_inspect:
  assumes sj: "serde_json_spec sj"
    and "ident_ok rid" "ident_ok m" "ident_ok p" "utf8_valid c" "utf8_valid msg"
  shows "inspect_frame sj (failure_frame sj t rid m n c msg p) =
    Ok (Keep \<lparr>event_kind = ''response.failed'', event_sequence = Some n,
              event_value = failure_event t rid m n c msg p\<rparr>)"
proof -
  let ?v = "failure_event t rid m n c msg p"
  have exact: "json_exact ?v"
    using assms by (intro failure_event_exact)
  then have "one_line (to_string sj ?v)" "utf8_valid (to_string sj ?v)"
    "to_string sj ?v \<noteq> ''[DONE]''" "from_str sj (to_string sj ?v) = Some ?v"
    using serde_line [OF sj json_exact_wf] serde_not_done [OF sj] serde_roundtrip [OF sj]
    by (auto simp: one_line_def)
  then have "inspect_frame sj (failure_frame sj t rid m n c msg p) = inspect_value (Some ''response.failed'') ?v"
    by (simp add: failure_frame_sse_frame inspect_frame_sse_frame)
  also have "\<dots> = Ok (Keep \<lparr>event_kind = ''response.failed'', event_sequence = Some n, event_value = ?v\<rparr>)"
    using failure_event_fields [of t rid m n c msg p] failure_event_shape [OF assms(2)]
    by (simp add: inspect_value_def is_metadata_event_def is_known_event_def known_events_def json_u64_def)
  finally show ?thesis .
qed

end
