(* ===== verification/Stream_Contract.thy ===== *)
theory Stream_Contract
  imports Prelude
begin

text \<open>
  The contract of a pull-based byte stream. Both stream components are written as
  \<open>futures::stream::unfold\<close> over a state: each poll either yields the next frame with a new
  state or ends the stream. \<open>stream_yields\<close> is the sequence of frames a consumer that polls to
  the end receives. A batch description of a stream (all it will deliver, as a function of its
  state and of the upstream events still to come) is adequate when every poll takes its head;
  then the stream ends after finitely many polls and delivers exactly the described frames.
\<close>

inductive stream_yields ::
  "('s \<Rightarrow> 'e list \<Rightarrow> 'f option \<times> 's \<times> 'e list) \<Rightarrow> 's \<Rightarrow> 'e list \<Rightarrow> 'f list \<Rightarrow> bool"
  for poll where
  yields_end: "poll s body = (None, s', body') \<Longrightarrow> stream_yields poll s body []"
| yields_frame: "poll s body = (Some f, s', body') \<Longrightarrow> stream_yields poll s' body' fs \<Longrightarrow>
    stream_yields poll s body (f # fs)"

inductive_cases stream_yields_NilE: "stream_yields poll s body []"
inductive_cases stream_yields_ConsE: "stream_yields poll s body (f # fs)"

lemma stream_yields_unique:
  "stream_yields poll s body fs \<Longrightarrow> stream_yields poll s body gs \<Longrightarrow> gs = fs"
proof (induction arbitrary: gs rule: stream_yields.induct)
  case (yields_end s body s' body')
  from yields_end.prems yields_end.hyps show ?case
    by (cases rule: stream_yields.cases) auto
next
  case (yields_frame s body f s' body' fs)
  from yields_frame.prems yields_frame.hyps(1) yields_frame.IH show ?case
    by (cases rule: stream_yields.cases) auto
qed

locale batch_stream =
  fixes poll :: "'s \<Rightarrow> 'e list \<Rightarrow> 'f option \<times> 's \<times> 'e list"
    and batch :: "'s \<Rightarrow> 'e list \<Rightarrow> 'f list"
  assumes poll_end: "poll s body = (None, s', body') \<Longrightarrow> batch s body = []"
    and poll_frame: "poll s body = (Some f, s', body') \<Longrightarrow> batch s body = f # batch s' body'"
begin

lemma yields_batch: "stream_yields poll s body (batch s body)"
proof (induction "batch s body" arbitrary: s body)
  case Nil
  obtain x s' body' where p: "poll s body = (x, s', body')"
    by (metis prod_cases3)
  with poll_frame [of s body _ s' body'] Nil have "x = None"
    by (cases x) auto
  with p Nil show ?case
    using yields_end [of poll s body s' body'] by simp
next
  case (Cons f fs)
  obtain x s' body' where p: "poll s body = (x, s', body')"
    by (metis prod_cases3)
  show ?case
  proof (cases x)
    case None
    with p poll_end Cons.hyps(2) show ?thesis by auto
  next
    case (Some g)
    have "batch s body = g # batch s' body'"
      using p Some by (intro poll_frame) simp
    moreover from this Cons.hyps(2) have "stream_yields poll s' body' (batch s' body')"
      by (intro Cons.hyps(1)) simp
    ultimately show ?thesis
      using p Some yields_frame [of poll s body g s' body' "batch s' body'"] by simp
  qed
qed

lemma yields_iff: "stream_yields poll s body fs \<longleftrightarrow> fs = batch s body"
  by (auto intro: yields_batch dest: stream_yields_unique [OF yields_batch])

end

end
