(* ===== verification/Sse_Stream.thy ===== *)
theory Sse_Stream
  imports Sse_Inspect Stream_Contract "HOL-Library.Sublist"
begin

text \<open>
  The gateway's stream validator, \<open>State\<close> and \<open>validated_stream\<close> of
  \<open>muse-codex-gateway/src/sse.rs\<close>. The upstream body is the list of what successive
  \<open>timeout(idle, body.next())\<close> calls report: a chunk of bytes, a transport error or an elapsed
  idle timer; the end of the list is the end of the body. The wall clock read by
  \<open>failure_frame\<close> is the argument \<open>now\<close> (a stream builds at most one such frame).
\<close>

section \<open>State and operations\<close>

datatype upstream_event = Chunk bytes | ChunkErr | IdleTimeout

record g_state =
  g_buffer :: bytes
  g_pending :: "bytes list"
  g_max_event_bytes :: nat
  g_finished :: bool
  g_response_id :: "bytes option"
  g_model :: "bytes option"
  g_last_sequence :: u64
  g_upstream_media_type :: "bytes option"

definition MAX_EVENT_BYTES :: nat where
  "MAX_EVENT_BYTES = 8 * 1024 * 1024"

definition g_new :: "nat \<Rightarrow> bytes option \<Rightarrow> g_state" where
  "g_new max_event_bytes upstream_media_type =
     \<lparr>g_buffer = [], g_pending = [], g_max_event_bytes = max_event_bytes, g_finished = False,
      g_response_id = None, g_model = None, g_last_sequence = 0,
      g_upstream_media_type = upstream_media_type\<rparr>"

definition g_fail_reason :: "bytes option \<Rightarrow> bytes \<Rightarrow> bytes" where
  "g_fail_reason media reason =
     (case media of None \<Rightarrow> reason
      | Some media_type \<Rightarrow> reason @ '' (upstream media type '' @ media_type @ '')'')"

definition g_fail :: "serde_json \<Rightarrow> u64 \<Rightarrow> bytes \<Rightarrow> g_state \<Rightarrow> g_state" where
  "g_fail sj now reason st =
     (if g_finished st then st
      else st\<lparr>g_pending := g_pending st @
                [protocol_failure_frame sj now (g_response_id st) (g_model st)
                   (saturating_add (g_last_sequence st) 1)
                   (g_fail_reason (g_upstream_media_type st) reason)],
              g_finished := True, g_buffer := []\<rparr>)"

definition observe :: "InspectedEvent \<Rightarrow> g_state \<Rightarrow> g_state" where
  "observe event st =
     (let value = event_value event;
          safe = opt_filter safe_protocol_identifier;
          st = (case event_sequence event of
                  Some sequence \<Rightarrow> st\<lparr>g_last_sequence := max (g_last_sequence st) sequence\<rparr>
                | None \<Rightarrow> st);
          st = (case value_get value ''response'' of
                  Some response \<Rightarrow>
                    (let st = (case safe (get_str response ''id'') of
                                 Some rid \<Rightarrow> st\<lparr>g_response_id := Some rid\<rparr> | None \<Rightarrow> st)
                     in (case safe (get_str response ''model'') of
                           Some model \<Rightarrow> st\<lparr>g_model := Some model\<rparr> | None \<Rightarrow> st))
                | None \<Rightarrow> st);
          st = (case safe (get_str value ''response_id'') of
                  Some rid \<Rightarrow> st\<lparr>g_response_id := Some rid\<rparr> | None \<Rightarrow> st)
      in (case safe (event_reported_model value) of
            Some model \<Rightarrow> st\<lparr>g_model := Some model\<rparr> | None \<Rightarrow> st))"

text \<open>The body of the loop of \<open>drain_complete_frames\<close> on a frame already split off the buffer.\<close>

definition g_handle_frame :: "serde_json \<Rightarrow> u64 \<Rightarrow> bytes \<Rightarrow> g_state \<Rightarrow> g_state" where
  "g_handle_frame sj now frame st =
     (case inspect_frame sj frame of
        Ok (Keep event) \<Rightarrow>
          (let st = observe event st
           in if event_kind event \<in> set [''error'', ''response.failed'', ''response.cancelled''] then
                (let failure = (if event_kind event = ''response.cancelled'' then cancelled_failure
                                else sanitize_stream_failure (event_value event))
                 in st\<lparr>g_pending := g_pending st @
                         [failure_frame sj now (g_response_id st) (g_model st) (g_last_sequence st)
                            (failure_code failure) (failure_message failure) (failure_parameter failure)],
                       g_finished := True, g_buffer := []\<rparr>)
              else
                (let st = st\<lparr>g_pending := g_pending st @ [frame]\<rparr>
                 in if is_terminal_event (event_kind event)
                    then st\<lparr>g_finished := True, g_buffer := []\<rparr> else st))
      | Ok (Drop event) \<Rightarrow> observe event st
      | Err reason \<Rightarrow> g_fail sj now reason st)"

lemma observe_frame [simp]:
  "g_buffer (observe e st) = g_buffer st" "g_pending (observe e st) = g_pending st"
  "g_max_event_bytes (observe e st) = g_max_event_bytes st" "g_finished (observe e st) = g_finished st"
  "g_upstream_media_type (observe e st) = g_upstream_media_type st"
  by (simp_all add: observe_def Let_def split: option.split)

lemma g_handle_frame_buffer:
  "g_buffer (g_handle_frame sj now f st) = g_buffer st \<and> g_finished (g_handle_frame sj now f st) = g_finished st
   \<or> g_buffer (g_handle_frame sj now f st) = [] \<and> g_finished (g_handle_frame sj now f st)
   \<or> g_handle_frame sj now f st = st \<and> g_finished st"
  by (auto simp: g_handle_frame_def g_fail_def Let_def split: result.split FrameDisposition.split)

abbreviation limit_reason :: bytes where
  "limit_reason \<equiv> ''upstream SSE event exceeded the safety limit''"

function drain_complete_frames :: "serde_json \<Rightarrow> u64 \<Rightarrow> g_state \<Rightarrow> g_state" where
  "drain_complete_frames sj now st =
     (if g_finished st then st
      else (case complete_frame_len (g_buffer st) of
              None \<Rightarrow> st
            | Some frame_len \<Rightarrow>
                if frame_len > g_max_event_bytes st then g_fail sj now limit_reason st
                else drain_complete_frames sj now
                       (g_handle_frame sj now (take frame_len (g_buffer st))
                          (st\<lparr>g_buffer := drop frame_len (g_buffer st)\<rparr>))))"
  by pat_completeness auto
termination
proof (relation "measure (\<lambda>(sj, now, st). length (g_buffer st))", goal_cases)
  case (2 sj now st n)
  then have n: "0 < n" "n \<le> length (g_buffer st)"
    using gateway_scanner.scan_bounds by blast+
  with g_handle_frame_buffer [of sj now "take n (g_buffer st)" "st\<lparr>g_buffer := drop n (g_buffer st)\<rparr>"]
  show ?case by auto
qed simp

declare drain_complete_frames.simps [simp del]

fun g_on_event :: "serde_json \<Rightarrow> u64 \<Rightarrow> upstream_event \<Rightarrow> g_state \<Rightarrow> g_state" where
  "g_on_event sj now (Chunk chunk) st =
     (let st = drain_complete_frames sj now (st\<lparr>g_buffer := g_buffer st @ chunk\<rparr>)
      in if \<not> g_finished st \<and> length (g_buffer st) > g_max_event_bytes st
         then g_fail sj now limit_reason st else st)"
| "g_on_event sj now ChunkErr st = g_fail sj now ''upstream response stream was interrupted'' st"
| "g_on_event sj now IdleTimeout st =
     g_fail sj now ''upstream response stream exceeded the idle timeout'' st"

definition g_on_end :: "serde_json \<Rightarrow> u64 \<Rightarrow> g_state \<Rightarrow> g_state" where
  "g_on_end sj now st =
     (if list_all is_ascii_whitespace (g_buffer st)
      then g_fail sj now ''upstream stream ended before a terminal response event'' (st\<lparr>g_buffer := []\<rparr>)
      else g_fail sj now ''upstream stream ended with an incomplete SSE event'' st)"

lemma g_fail_finished [simp]: "g_finished (g_fail sj now r st)"
  by (simp add: g_fail_def)

lemma g_on_end_finished [simp]: "g_finished (g_on_end sj now st)"
  by (simp add: g_on_end_def)

lemma drain_finished [simp]: "g_finished st \<Longrightarrow> drain_complete_frames sj now st = st"
  by (simp add: drain_complete_frames.simps)

text \<open>One poll of the \<open>unfold\<close>: the loop runs until a frame is pending or the stream is finished.\<close>

function g_poll ::
  "serde_json \<Rightarrow> u64 \<Rightarrow> g_state \<Rightarrow> upstream_event list \<Rightarrow> bytes option \<times> g_state \<times> upstream_event list"
where
  "g_poll sj now st body =
     (case g_pending st of
        frame # rest \<Rightarrow> (Some frame, st\<lparr>g_pending := rest\<rparr>, body)
      | [] \<Rightarrow>
          if g_finished st then (None, st, body)
          else
            (let st = drain_complete_frames sj now st
             in (case g_pending st of
                   frame # rest \<Rightarrow> (Some frame, st\<lparr>g_pending := rest\<rparr>, body)
                 | [] \<Rightarrow>
                     if g_finished st then (None, st, body)
                     else
                       (case body of
                          [] \<Rightarrow> g_poll sj now (g_on_end sj now st) []
                        | event # rest \<Rightarrow> g_poll sj now (g_on_event sj now event st) rest))))"
  by pat_completeness auto
termination
  by (relation "measure (\<lambda>(sj, now, st, body). 2 * length body + (if g_finished st then 0 else 1))") auto

declare g_poll.simps [simp del]

section \<open>The batch view\<close>

text \<open>Running the validator to the end without a consumer: every delivered frame stays queued.\<close>

fun g_drive :: "serde_json \<Rightarrow> u64 \<Rightarrow> g_state \<Rightarrow> upstream_event list \<Rightarrow> g_state" where
  "g_drive sj now st [] =
     (let st = drain_complete_frames sj now st in if g_finished st then st else g_on_end sj now st)"
| "g_drive sj now st (event # rest) =
     (let st = drain_complete_frames sj now st
      in if g_finished st then st else g_drive sj now (g_on_event sj now event st) rest)"

text \<open>Queued frames never influence a step: every operation only appends to the queue.\<close>

definition g_prefix :: "bytes list \<Rightarrow> g_state \<Rightarrow> g_state" where
  "g_prefix fs st = st\<lparr>g_pending := fs @ g_pending st\<rparr>"

lemma g_prefix_sel [simp]:
  "g_buffer (g_prefix fs st) = g_buffer st" "g_finished (g_prefix fs st) = g_finished st"
  "g_pending (g_prefix fs st) = fs @ g_pending st"
  "g_max_event_bytes (g_prefix fs st) = g_max_event_bytes st"
  "g_response_id (g_prefix fs st) = g_response_id st" "g_model (g_prefix fs st) = g_model st"
  "g_last_sequence (g_prefix fs st) = g_last_sequence st"
  "g_upstream_media_type (g_prefix fs st) = g_upstream_media_type st"
  by (simp_all add: g_prefix_def)

lemma g_prefix_buffer: "(g_prefix fs st)\<lparr>g_buffer := b\<rparr> = g_prefix fs (st\<lparr>g_buffer := b\<rparr>)"
  by (simp add: g_prefix_def)

lemma observe_prefix: "observe e (g_prefix fs st) = g_prefix fs (observe e st)"
  by (simp add: observe_def Let_def g_prefix_def split: option.split)

lemma g_fail_prefix: "g_fail sj now r (g_prefix fs st) = g_prefix fs (g_fail sj now r st)"
  by (simp add: g_fail_def g_prefix_def)

lemma g_handle_frame_prefix:
  "g_handle_frame sj now f (g_prefix fs st) = g_prefix fs (g_handle_frame sj now f st)"
  by (simp add: g_handle_frame_def observe_prefix g_fail_prefix Let_def
      split: result.split FrameDisposition.split)

lemma drain_prefix:
  "drain_complete_frames sj now (g_prefix fs st) = g_prefix fs (drain_complete_frames sj now st)"
proof (induction sj now st rule: drain_complete_frames.induct)
  case (1 sj now st)
  then show ?case
    by (subst (1 2) drain_complete_frames.simps)
       (auto simp: g_fail_prefix g_prefix_buffer g_handle_frame_prefix split: option.split)
qed

lemma g_on_event_prefix: "g_on_event sj now e (g_prefix fs st) = g_prefix fs (g_on_event sj now e st)"
  by (cases e) (simp_all add: Let_def g_prefix_buffer drain_prefix g_fail_prefix)

lemma g_on_end_prefix: "g_on_end sj now (g_prefix fs st) = g_prefix fs (g_on_end sj now st)"
  by (simp add: g_on_end_def g_prefix_buffer g_fail_prefix)

lemma g_drive_prefix: "g_drive sj now (g_prefix fs st) body = g_prefix fs (g_drive sj now st body)"
  by (induction body arbitrary: st)
     (simp_all add: Let_def drain_prefix g_on_end_prefix g_on_event_prefix)

lemma g_pop_prefix: "g_pending st = f # fs \<Longrightarrow> st = g_prefix [f] (st\<lparr>g_pending := fs\<rparr>)"
  by (simp add: g_prefix_def)

lemma drain_idem [simp]:
  "drain_complete_frames sj now (drain_complete_frames sj now st) = drain_complete_frames sj now st"
proof (induction sj now st rule: drain_complete_frames.induct)
  case (1 sj now st)
  then show ?case
    by (subst (2 3) drain_complete_frames.simps)
       (auto simp: drain_complete_frames.simps [of sj now st] split: option.split)
qed

lemma g_drive_drain: "g_drive sj now (drain_complete_frames sj now st) body = g_drive sj now st body"
  by (cases body) simp_all

lemma g_drive_finished: "g_finished st \<Longrightarrow> g_drive sj now st body = st"
  by (cases body) simp_all

lemma g_drive_pop:
  "g_pending st = f # fs \<Longrightarrow>
   g_pending (g_drive sj now st body) = f # g_pending (g_drive sj now (st\<lparr>g_pending := fs\<rparr>) body)"
  by (subst g_pop_prefix, assumption, subst g_drive_prefix) simp

lemma g_poll_drive:
  "g_poll sj now st body = (x, st', body') \<Longrightarrow>
   g_pending (g_drive sj now st body) =
     (case x of None \<Rightarrow> [] | Some f \<Rightarrow> f # g_pending (g_drive sj now st' body'))"
proof (induction sj now st body rule: g_poll.induct)
  case (1 sj now st body)
  let ?d = "drain_complete_frames sj now st"
  consider f fs where "g_pending st = f # fs"
    | "g_pending st = []" "g_finished st"
    | f fs where "g_pending st = []" "\<not> g_finished st" "g_pending ?d = f # fs"
    | "g_pending st = []" "\<not> g_finished st" "g_pending ?d = []" "g_finished ?d"
    | "g_pending st = []" "\<not> g_finished st" "g_pending ?d = []" "\<not> g_finished ?d"
    by (metis list.exhaust)
  then show ?case
  proof cases
    case 1
    with "1.prems" show ?thesis by (auto simp: g_poll.simps g_drive_pop)
  next
    case 2
    with "1.prems" show ?thesis by (auto simp: g_poll.simps g_drive_finished)
  next
    case 3
    with "1.prems" g_drive_pop [OF 3(3), of sj now body] show ?thesis
      by (auto simp: g_poll.simps Let_def g_drive_drain)
  next
    case 4
    with "1.prems" g_drive_finished [of ?d sj now body] show ?thesis
      by (auto simp: g_poll.simps Let_def g_drive_drain)
  next
    case 5
    with "1.prems" "1.IH" [OF 5(1,2) refl 5(3,4)] show ?thesis
      by (cases body) (simp_all add: g_poll.simps [of sj now st] Let_def g_drive_finished)
  qed
qed

interpretation gateway_stream: batch_stream "g_poll sj now" "\<lambda>st body. g_pending (g_drive sj now st body)"
  for sj now
  by unfold_locales (simp_all add: g_poll_drive)

definition validated_stream ::
  "serde_json \<Rightarrow> u64 \<Rightarrow> nat \<Rightarrow> bytes option \<Rightarrow> upstream_event list \<Rightarrow> bytes list" where
  "validated_stream sj now max_event_bytes media body =
     g_pending (g_drive sj now (g_new max_event_bytes media) body)"

end
