(* ===== verification/Sse_Outcome.thy ===== *)
theory Sse_Outcome
  imports Sse_Stream
begin

text \<open>
  What the gateway's validator delivers. The lemmas follow the code bottom up: one frame, one
  drain of the buffer, one upstream event, the whole stream. \<open>g_runs\<close> describes a step after
  which the stream is still open, \<open>g_ends\<close> one that closes it.
\<close>

section \<open>Vocabulary\<close>

definition frame_event :: "serde_json \<Rightarrow> bytes \<Rightarrow> InspectedEvent option" where
  "frame_event sj f = (case inspect_frame sj f of Ok (Keep ev) \<Rightarrow> Some ev | _ \<Rightarrow> None)"

definition frame_kind :: "serde_json \<Rightarrow> bytes \<Rightarrow> bytes option" where
  "frame_kind sj f = map_option event_kind (frame_event sj f)"

definition frame_sequence :: "serde_json \<Rightarrow> bytes \<Rightarrow> u64 option" where
  "frame_sequence sj f = Option.bind (frame_event sj f) event_sequence"

text \<open>A frame that may be followed by others, and one that closes a response normally.\<close>

definition interim :: "serde_json \<Rightarrow> bytes \<Rightarrow> bool" where
  "interim sj f = is_some_and (\<lambda>k. k \<noteq> ''error'' \<and> \<not> is_terminal_event k) (frame_kind sj f)"

definition closes :: "serde_json \<Rightarrow> bytes \<Rightarrow> bool" where
  "closes sj f = (frame_kind sj f \<in> {Some ''response.completed'', Some ''response.incomplete''})"

definition seq_le :: "serde_json \<Rightarrow> bytes \<Rightarrow> u64 \<Rightarrow> bool" where
  "seq_le sj f n = (\<forall>k. frame_sequence sj f = Some k \<longrightarrow> k \<le> n)"

text \<open>The texts a failure frame of the gateway can carry: nothing in them comes from upstream.\<close>

definition stream_reasons :: "bytes list" where
  "stream_reasons =
    [''upstream SSE event was not valid UTF-8'', ''upstream SSE event contained no data'',
     ''upstream sent [DONE] before response.completed'', ''upstream SSE event contained malformed JSON'',
     ''upstream SSE event had no string type'', ''upstream SSE event name did not match its JSON type'',
     ''upstream emitted an unknown non-metadata event'', ''upstream SSE event had an invalid sequence_number'',
     ''upstream response lifecycle event had no response object'',
     ''upstream response lifecycle event had no valid response id'',
     ''upstream response cancellation event had no valid response id'',
     ''upstream response delta event had no string delta'', ''upstream response item event had no item object'',
     ''upstream error event had no message'', ''upstream SSE event exceeded the safety limit'',
     ''upstream response stream was interrupted'', ''upstream response stream exceeded the idle timeout'',
     ''upstream stream ended before a terminal response event'',
     ''upstream stream ended with an incomplete SSE event'']"

definition static_failure :: "bytes option \<Rightarrow> bytes \<Rightarrow> bytes \<Rightarrow> bytes option \<Rightarrow> bool" where
  "static_failure media c msg p =
     ((c \<in> set [''context_length_exceeded'', ''rate_limit_exceeded'', ''invalid_api_key'', ''model_not_found'',
              ''insufficient_quota'', ''invalid_request''] \<and> msg = stream_failure_message c \<and>
       (\<forall>q. p = Some q \<longrightarrow> safe_error_parameter q))
      \<or> c = ''invalid_request'' \<and> msg = failure_message cancelled_failure \<and> p = None
      \<or> c = ''invalid_request'' \<and> p = None \<and>
        (\<exists>r \<in> set stream_reasons. msg = protocol_failure_message (g_fail_reason media r)))"

definition gateway_failure :: "serde_json \<Rightarrow> u64 \<Rightarrow> bytes option \<Rightarrow> bytes \<Rightarrow> u64 \<Rightarrow> bool" where
  "gateway_failure sj now media f n =
     (\<exists>rid m c msg p. f = failure_frame sj now rid m n c msg p \<and> ident_ok rid \<and> ident_ok m \<and>
        static_failure media c msg p)"

section \<open>State identifiers stay valid text\<close>

definition g_idents_ok :: "g_state \<Rightarrow> bool" where
  "g_idents_ok st =
     (ident_ok (g_response_id st) \<and> ident_ok (g_model st) \<and> ident_ok (g_upstream_media_type st))"

lemma json_string_or_first_utf8: "json_wf v \<Longrightarrow> json_string_or_first v = Some s \<Longrightarrow> utf8_valid s"
  by (induction v rule: json_string_or_first.induct) auto

lemma find_header_model_utf8:
  "\<forall>kv \<in> set m. json_wf (snd kv) \<Longrightarrow> find_header_model m = Some s \<Longrightarrow> utf8_valid s"
proof (induction m)
  case (Cons kv m)
  obtain k v where "kv = (k, v)" by (cases kv)
  with Cons show ?case
    by (cases "json_string_or_first v") (auto dest: json_string_or_first_utf8 split: if_splits)
qed simp

lemma header_model_utf8: "json_wf v \<Longrightarrow> header_model v = Some s \<Longrightarrow> utf8_valid s"
  by (cases v) (auto simp: header_model_def intro: find_header_model_utf8 [rotated])

lemma event_reported_model_utf8: "json_wf v \<Longrightarrow> event_reported_model v = Some s \<Longrightarrow> utf8_valid s"
proof -
  assume wf: "json_wf v" and "event_reported_model v = Some s"
  then obtain h where "header_model h = Some s" and
    "value_get v ''headers'' = Some h \<or> (\<exists>r. value_get v ''response'' = Some r \<and> value_get r ''headers'' = Some h)"
    by (cases "Option.bind (Option.bind (value_get v ''response'') (\<lambda>r. value_get r ''headers'')) header_model")
       (auto simp: event_reported_model_def bind_eq_Some_conv)
  with wf show ?thesis
    by (meson header_model_utf8 json_wf_get)
qed

lemma observe_idents_ok:
  assumes "json_wf (event_value ev)" and "g_idents_ok st"
  shows "g_idents_ok (observe ev st)"
proof -
  have "json_wf r \<Longrightarrow> get_str r k = Some s \<Longrightarrow> utf8_valid s" for r k s
    by (rule json_wf_get_str)
  with assms show ?thesis
    by (auto simp: g_idents_ok_def observe_def Let_def ident_ok_def
        dest: json_wf_get event_reported_model_utf8 split: option.split)
qed

lemma observe_last_sequence:
  "g_last_sequence (observe ev st) =
     (case event_sequence ev of Some k \<Rightarrow> max (g_last_sequence st) k | None \<Rightarrow> g_last_sequence st)"
  by (simp add: observe_def Let_def split: option.split)

section \<open>Steps\<close>

definition g_runs :: "serde_json \<Rightarrow> g_state \<Rightarrow> bytes list \<Rightarrow> g_state \<Rightarrow> bool" where
  "g_runs sj st ks st' =
     (g_idents_ok st' \<and> \<not> g_finished st' \<and> g_pending st' = g_pending st @ ks \<and>
      g_last_sequence st \<le> g_last_sequence st' \<and>
      g_upstream_media_type st' = g_upstream_media_type st \<and>
      g_max_event_bytes st' = g_max_event_bytes st \<and>
      (\<forall>f \<in> set ks. interim sj f \<and> seq_le sj f (g_last_sequence st')))"

definition g_ends :: "serde_json \<Rightarrow> u64 \<Rightarrow> g_state \<Rightarrow> bytes list \<Rightarrow> bytes \<Rightarrow> g_state \<Rightarrow> bool" where
  "g_ends sj now st ks g st' =
     (g_finished st' \<and> g_pending st' = g_pending st @ ks @ [g] \<and> (\<forall>f \<in> set ks. interim sj f) \<and>
      (closes sj g \<or>
       (\<exists>n. gateway_failure sj now (g_upstream_media_type st) g n \<and> g_last_sequence st \<le> n \<and>
            (\<forall>f \<in> set ks. seq_le sj f n))))"

lemma seq_le_trans: "seq_le sj f m \<Longrightarrow> m \<le> n \<Longrightarrow> seq_le sj f n"
  by (auto simp: seq_le_def intro: order_trans)

lemma g_runs_refl: "g_idents_ok st \<Longrightarrow> \<not> g_finished st \<Longrightarrow> g_runs sj st [] st"
  by (simp add: g_runs_def)

lemma g_runs_trans: "g_runs sj st ks st1 \<Longrightarrow> g_runs sj st1 ks' st2 \<Longrightarrow> g_runs sj st (ks @ ks') st2"
  by (auto simp: g_runs_def intro: seq_le_trans)

lemma g_runs_ends:
  assumes "g_runs sj st ks st1" and "g_ends sj now st1 ks' g st2"
  shows "g_ends sj now st (ks @ ks') g st2"
proof -
  have "gateway_failure sj now (g_upstream_media_type st1) g n \<Longrightarrow> g_last_sequence st1 \<le> n \<Longrightarrow>
      \<forall>f \<in> set ks'. seq_le sj f n \<Longrightarrow>
      gateway_failure sj now (g_upstream_media_type st) g n \<and> g_last_sequence st \<le> n \<and>
      (\<forall>f \<in> set (ks @ ks'). seq_le sj f n)" for n
    using assms(1) by (auto simp: g_runs_def intro: seq_le_trans order_trans)
  with assms show ?thesis
    unfolding g_ends_def by (auto simp: g_runs_def)
qed

lemma g_runs_buffer [simp]:
  "g_runs sj (st\<lparr>g_buffer := b\<rparr>) ks st' \<longleftrightarrow> g_runs sj st ks st'"
  "g_runs sj st ks (st'\<lparr>g_buffer := b\<rparr>) \<longleftrightarrow> g_runs sj st ks st'"
  by (simp_all add: g_runs_def g_idents_ok_def)

lemma g_ends_buffer [simp]: "g_ends sj now (st\<lparr>g_buffer := b\<rparr>) ks g st' \<longleftrightarrow> g_ends sj now st ks g st'"
  by (simp add: g_ends_def)



lemma stream_reasons_utf8: "r \<in> set stream_reasons \<Longrightarrow> utf8_valid r"
  by (auto simp: stream_reasons_def)

lemma stream_reason_intros [intro!, simp]:
  "''upstream SSE event was not valid UTF-8'' \<in> set stream_reasons"
  "''upstream SSE event contained no data'' \<in> set stream_reasons"
  "''upstream sent [DONE] before response.completed'' \<in> set stream_reasons"
  "''upstream SSE event contained malformed JSON'' \<in> set stream_reasons"
  "''upstream SSE event had no string type'' \<in> set stream_reasons"
  "''upstream SSE event name did not match its JSON type'' \<in> set stream_reasons"
  "''upstream emitted an unknown non-metadata event'' \<in> set stream_reasons"
  "''upstream SSE event had an invalid sequence_number'' \<in> set stream_reasons"
  "''upstream response lifecycle event had no response object'' \<in> set stream_reasons"
  "''upstream response lifecycle event had no valid response id'' \<in> set stream_reasons"
  "''upstream response cancellation event had no valid response id'' \<in> set stream_reasons"
  "''upstream response delta event had no string delta'' \<in> set stream_reasons"
  "''upstream response item event had no item object'' \<in> set stream_reasons"
  "''upstream error event had no message'' \<in> set stream_reasons"
  "''upstream SSE event exceeded the safety limit'' \<in> set stream_reasons"
  "''upstream response stream was interrupted'' \<in> set stream_reasons"
  "''upstream response stream exceeded the idle timeout'' \<in> set stream_reasons"
  "''upstream stream ended before a terminal response event'' \<in> set stream_reasons"
  "''upstream stream ended with an incomplete SSE event'' \<in> set stream_reasons"
  by (simp_all add: stream_reasons_def)

lemma validate_event_shape_reason: "validate_event_shape k v = Err r \<Longrightarrow> r \<in> set stream_reasons"
  unfolding validate_event_shape_def and_then_Err
  by (elim disjE exE conjE) (auto simp: and_then_Err split: if_split_asm)

lemma inspect_value_reason: "inspect_value name v = Err r \<Longrightarrow> r \<in> set stream_reasons"
  unfolding inspect_value_def Let_def and_then_Err
  by (auto simp: and_then_Err dest: validate_event_shape_reason split: if_split_asm option.split_asm)

lemma inspect_frame_reason: "inspect_frame sj f = Err r \<Longrightarrow> r \<in> set stream_reasons"
  unfolding inspect_frame_def Let_def case_prod_unfold
  by (auto dest: inspect_value_reason split: if_split_asm option.split_asm)

lemma static_failure_utf8:
  assumes "static_failure media c msg p" and "ident_ok media"
  shows "utf8_valid c" and "utf8_valid msg" and "ident_ok p"
proof -
  have "r \<in> set stream_reasons \<Longrightarrow> utf8_valid (protocol_failure_message (g_fail_reason media r))" for r
    using assms(2) stream_reasons_utf8 [of r]
    by (cases media) (simp_all add: protocol_failure_message_def g_fail_reason_def utf8_valid_append)
  moreover have "utf8_valid (failure_message cancelled_failure)"
    by (simp add: cancelled_failure_def)
  ultimately show "utf8_valid c" and "utf8_valid msg" and "ident_ok p"
    using assms(1) stream_failure_message_ascii safe_error_parameter_ascii
    by (auto simp: static_failure_def ident_ok_def intro: utf8_valid_ascii)
qed

lemma gateway_failure_event:
  assumes "serde_json_spec sj" "ident_ok media" "gateway_failure sj now media g n"
  shows "frame_kind sj g = Some ''response.failed''" and "frame_sequence sj g = Some n"
  using assms failure_frame_inspect [OF assms(1)] static_failure_utf8
  by (auto simp: gateway_failure_def frame_kind_def frame_sequence_def frame_event_def)

lemma gateway_failure_not_closes:
  "serde_json_spec sj \<Longrightarrow> ident_ok media \<Longrightarrow> gateway_failure sj now media g n \<Longrightarrow> \<not> closes sj g"
  using gateway_failure_event by (simp add: closes_def)

section \<open>One frame\<close>

text \<open>Where the last frame of a stream may come from: a normal close is the upstream's own frame.\<close>

definition origin :: "serde_json \<Rightarrow> bytes list \<Rightarrow> bytes \<Rightarrow> bytes list \<Rightarrow> bool" where
  "origin sj ks g frames = (subseq ks frames \<and> (closes sj g \<longrightarrow> subseq (ks @ [g]) frames))"

lemma failure_ends:
  assumes "serde_json_spec sj" "g_idents_ok st"
    and "gateway_failure sj now (g_upstream_media_type st) g n" "g_last_sequence st \<le> n"
    and "g_finished st'" "g_pending st' = g_pending st @ [g]"
  shows "g_ends sj now st [] g st' \<and> origin sj [] g frames"
  using assms gateway_failure_not_closes [OF assms(1) _ assms(3)]
  by (auto simp: g_ends_def origin_def g_idents_ok_def)

lemma g_fail_ends:
  assumes "serde_json_spec sj" "g_idents_ok st" "\<not> g_finished st" "r \<in> set stream_reasons"
  shows "\<exists>g. g_ends sj now st [] g (g_fail sj now r st) \<and> origin sj [] g frames"
proof -
  let ?n = "saturating_add (g_last_sequence st) 1"
  let ?g = "protocol_failure_frame sj now (g_response_id st) (g_model st) ?n
              (g_fail_reason (g_upstream_media_type st) r)"
  have "gateway_failure sj now (g_upstream_media_type st) ?g ?n"
    using assms unfolding gateway_failure_def protocol_failure_frame_def static_failure_def g_idents_ok_def
    by blast
  then show ?thesis
    using assms failure_ends [OF assms(1,2) _ saturating_add_ge, of now ?g 1 "g_fail sj now r st" frames]
    by (auto simp: g_fail_def)
qed

lemma gateway_failureI:
  "ident_ok rid \<Longrightarrow> ident_ok m \<Longrightarrow> static_failure media c msg p \<Longrightarrow>
   gateway_failure sj now media (failure_frame sj now rid m n c msg p) n"
  unfolding gateway_failure_def by blast

lemma sanitized_static:
  "static_failure media (failure_code (sanitize_stream_failure v)) (failure_message (sanitize_stream_failure v))
     (failure_parameter (sanitize_stream_failure v))"
  using stream_failure_code_allowed
  by (simp add: static_failure_def sanitize_stream_failure_def Let_def)

lemma cancelled_static:
  "static_failure media (failure_code cancelled_failure) (failure_message cancelled_failure)
     (failure_parameter cancelled_failure)"
  by (simp add: static_failure_def cancelled_failure_def)

lemma g_handle_frame_outcome:
  assumes sj: "serde_json_spec sj" and st: "g_idents_ok st" "\<not> g_finished st"
    and st'_def: "st' = g_handle_frame sj now f st"
  shows "(\<exists>ks. g_runs sj st ks st' \<and> subseq ks [f] \<and> g_buffer st' = g_buffer st)
       \<or> (\<exists>g. g_ends sj now st [] g st' \<and> origin sj [] g [f])"
proof -
  consider (err) r where "inspect_frame sj f = Err r"
    | (drop) ev where "inspect_frame sj f = Ok (Drop ev)"
    | (keep) ev where "inspect_frame sj f = Ok (Keep ev)"
    by (metis FrameDisposition.exhaust result.exhaust)
  then show ?thesis
  proof cases
    case err
    with g_fail_ends [OF sj st inspect_frame_reason [OF err]] show ?thesis
      by (auto simp: st'_def g_handle_frame_def)
  next
    case drop
    with st inspect_frame_wf [OF sj, of f ev] have "g_runs sj st [] st'" "g_buffer st' = g_buffer st"
      by (auto simp: st'_def g_handle_frame_def g_runs_def observe_idents_ok observe_last_sequence
          split: option.split)
    then show ?thesis by auto
  next
    case keep
    let ?o = "observe ev st"
    have ids: "g_idents_ok ?o" and seq: "g_last_sequence st \<le> g_last_sequence ?o"
      "seq_le sj f (g_last_sequence ?o)" and kind: "frame_kind sj f = Some (event_kind ev)"
      using st inspect_frame_wf [OF sj, of f ev] keep
      by (auto simp: observe_idents_ok observe_last_sequence seq_le_def frame_sequence_def frame_kind_def
          frame_event_def split: option.split)
    show ?thesis
    proof (cases "event_kind ev \<in> set [''error'', ''response.failed'', ''response.cancelled'']")
      case True
      let ?x = "if event_kind ev = ''response.cancelled'' then cancelled_failure
                else sanitize_stream_failure (event_value ev)"
      let ?g = "failure_frame sj now (g_response_id ?o) (g_model ?o) (g_last_sequence ?o)
                  (failure_code ?x) (failure_message ?x) (failure_parameter ?x)"
      have "gateway_failure sj now (g_upstream_media_type st) ?g (g_last_sequence ?o)"
        using ids by (intro gateway_failureI) (auto simp: g_idents_ok_def sanitized_static cancelled_static)
      with failure_ends [OF sj st(1) this seq(1), of st' "[f]"] True keep show ?thesis
        by (auto simp: st'_def g_handle_frame_def Let_def)
    next
      case False
      show ?thesis
      proof (cases "is_terminal_event (event_kind ev)")
        case True
        with False kind have "closes sj f"
          by (auto simp: closes_def is_terminal_event_def)
        with True False keep have "g_ends sj now st [] f st'"
          by (auto simp: st'_def g_handle_frame_def Let_def g_ends_def)
        then show ?thesis by (auto simp: origin_def)
      next
        case other: False
        with False other kind have "interim sj f" by (simp add: interim_def)
        with ids seq other False keep st have "g_runs sj st [f] st'" "g_buffer st' = g_buffer st"
          by (auto simp: st'_def g_handle_frame_def Let_def g_runs_def g_idents_ok_def)
        then show ?thesis by auto
      qed
    qed
  qed
qed


section \<open>Draining the buffer\<close>

abbreviation frames_of :: "bytes \<Rightarrow> bytes list" where
  "frames_of b \<equiv> fst (split_frames complete_frame_len b)"

abbreviation rest_of :: "bytes \<Rightarrow> bytes" where
  "rest_of b \<equiv> snd (split_frames complete_frame_len b)"

lemma origin_append:
  "subseq ks F \<Longrightarrow> origin sj ks' g G \<Longrightarrow> origin sj (ks @ ks') g (F @ G)"
  by (auto simp: origin_def list_emb_append_mono)

lemma origin_weaken: "origin sj ks g F \<Longrightarrow> origin sj ks g (F @ G)"
  by (auto simp: origin_def intro: subseq_order.order_trans subseq_rev_drop_many)

lemma drain_outcome:
  "serde_json_spec sj \<Longrightarrow> g_idents_ok st \<Longrightarrow> \<not> g_finished st \<Longrightarrow>
     (\<exists>ks. g_runs sj st ks (drain_complete_frames sj now st) \<and> subseq ks (frames_of (g_buffer st)) \<and>
           g_buffer (drain_complete_frames sj now st) = rest_of (g_buffer st))
   \<or> (\<exists>ks g. g_ends sj now st ks g (drain_complete_frames sj now st) \<and> origin sj ks g (frames_of (g_buffer st)))"
proof (induction sj now st rule: drain_complete_frames.induct)
  case (1 sj now st)
  show ?case
  proof (cases "complete_frame_len (g_buffer st)")
    case None
    with "1.prems" show ?thesis
      by (auto simp: drain_complete_frames.simps [of sj now st] gateway_scanner.split_frames_None intro: g_runs_refl)
  next
    case (Some n)
    let ?b = "g_buffer st" and ?st0 = "st\<lparr>g_buffer := drop n (g_buffer st)\<rparr>"
    let ?st1 = "g_handle_frame sj now (take n ?b) ?st0"
    have frames: "frames_of ?b = [take n ?b] @ frames_of (drop n ?b)" "rest_of ?b = rest_of (drop n ?b)"
      using Some by (simp_all add: gateway_scanner.split_frames_Some)
    show ?thesis
    proof (cases "n > g_max_event_bytes st")
      case True
      with Some "1.prems" g_fail_ends [OF "1.prems"(1,2,3), of limit_reason now "frames_of ?b"] show ?thesis
        by (auto simp: drain_complete_frames.simps [of sj now st])
    next
      case False
      then have drain: "drain_complete_frames sj now st = drain_complete_frames sj now ?st1"
        using Some "1.prems" by (subst drain_complete_frames.simps) simp
      have "g_idents_ok ?st0" "\<not> g_finished ?st0"
        using "1.prems" by (simp_all add: g_idents_ok_def)
      from g_handle_frame_outcome [OF "1.prems"(1) this refl, of now "take n ?b"] consider
          (runs) ks where "g_runs sj st ks ?st1" "subseq ks [take n ?b]" "g_buffer ?st1 = drop n ?b"
        | (ends) g where "g_ends sj now st [] g ?st1" "origin sj [] g [take n ?b]"
        by auto
      then show ?thesis
      proof cases
        case runs
        then have "g_idents_ok ?st1" "\<not> g_finished ?st1"
          by (simp_all add: g_runs_def)
        from "1.IH" [OF _ Some False "1.prems"(1) this] "1.prems"(3) runs(3) consider
            (a) ks' where "g_runs sj ?st1 ks' (drain_complete_frames sj now ?st1)"
              "subseq ks' (frames_of (drop n ?b))"
              "g_buffer (drain_complete_frames sj now ?st1) = rest_of (drop n ?b)"
          | (b) ks' g where "g_ends sj now ?st1 ks' g (drain_complete_frames sj now ?st1)"
              "origin sj ks' g (frames_of (drop n ?b))"
          by auto
        then show ?thesis
        proof cases
          case a
          with runs show ?thesis
            unfolding drain frames by (blast intro: g_runs_trans list_emb_append_mono)
        next
          case b
          with runs show ?thesis
            unfolding drain frames by (blast intro: g_runs_ends origin_append)
        qed
      next
        case ends
        then have "drain_complete_frames sj now ?st1 = ?st1"
          by (simp add: g_ends_def)
        with ends show ?thesis
          unfolding drain frames by (metis origin_weaken)
      qed
    qed
  qed
qed


section \<open>The whole stream\<close>

text \<open>The bytes the upstream delivers before its end, its first error or a timeout.\<close>

fun body_bytes :: "upstream_event list \<Rightarrow> bytes" where
  "body_bytes (Chunk c # es) = c @ body_bytes es"
| "body_bytes _ = []"

lemma g_on_event_outcome:
  assumes sj: "serde_json_spec sj" and st: "g_idents_ok st" "\<not> g_finished st"
  shows "(\<exists>c ks. e = Chunk c \<and> g_runs sj st ks (g_on_event sj now e st) \<and>
             subseq ks (frames_of (g_buffer st @ c)) \<and>
             g_buffer (g_on_event sj now e st) = rest_of (g_buffer st @ c))
       \<or> (\<exists>ks g. g_ends sj now st ks g (g_on_event sj now e st) \<and>
             origin sj ks g (frames_of (g_buffer st @ body_bytes [e])))"
proof (cases e)
  case (Chunk c)
  let ?st = "st\<lparr>g_buffer := g_buffer st @ c\<rparr>" and ?b = "g_buffer st @ c"
  let ?d = "drain_complete_frames sj now ?st"
  have "g_idents_ok ?st" "\<not> g_finished ?st"
    using st by (simp_all add: g_idents_ok_def)
  from drain_outcome [OF sj this, of now] consider
      (runs) ks where "g_runs sj st ks ?d" "subseq ks (frames_of ?b)" "g_buffer ?d = rest_of ?b"
    | (ends) ks g where "g_ends sj now st ks g ?d" "origin sj ks g (frames_of ?b)"
    by auto
  then show ?thesis
  proof cases
    case runs
    show ?thesis
    proof (cases "length (g_buffer ?d) > g_max_event_bytes ?d")
      case True
      from runs(1) have d: "g_idents_ok ?d" "\<not> g_finished ?d"
        by (simp_all add: g_runs_def)
      obtain g where "g_ends sj now ?d [] g (g_fail sj now limit_reason ?d)" "origin sj [] g []"
        using g_fail_ends [OF sj d, of limit_reason now "[]"] by auto
      with runs have "g_ends sj now st ks g (g_fail sj now limit_reason ?d)" "origin sj ks g (frames_of ?b)"
        using g_runs_ends [of sj st ks ?d now "[]" g] origin_append [of ks "frames_of ?b" sj "[]" g "[]"] by auto
      with Chunk True d show ?thesis by (auto simp: Let_def)
    next
      case False
      with Chunk runs show ?thesis by (auto simp: Let_def)
    qed
  next
    case ends
    then have "g_finished ?d" by (simp add: g_ends_def)
    with ends Chunk show ?thesis by (auto simp: Let_def)
  qed
next
  case ChunkErr
  with g_fail_ends [OF sj st, of "''upstream response stream was interrupted''" now "frames_of (g_buffer st)"] show ?thesis
    by auto
next
  case IdleTimeout
  with g_fail_ends [OF sj st, of "''upstream response stream exceeded the idle timeout''" now "frames_of (g_buffer st)"] show ?thesis
    by auto
qed

lemma g_on_end_outcome:
  assumes sj: "serde_json_spec sj" and st: "g_idents_ok st" "\<not> g_finished st"
  shows "\<exists>g. g_ends sj now st [] g (g_on_end sj now st) \<and> origin sj [] g frames"
proof -
  have "g_idents_ok (st\<lparr>g_buffer := []\<rparr>)" "\<not> g_finished (st\<lparr>g_buffer := []\<rparr>)"
    using st by (simp_all add: g_idents_ok_def)
  from g_fail_ends [OF sj this, of "''upstream stream ended before a terminal response event''" now frames]
    g_fail_ends [OF sj st, of "''upstream stream ended with an incomplete SSE event''" now frames]
  show ?thesis
    by (auto simp: g_on_end_def)
qed

lemma origin_chunk:
  assumes "subseq ks (frames_of (b @ c))" and "origin sj ks' g (frames_of (rest_of (b @ c) @ d))"
  shows "origin sj (ks @ ks') g (frames_of (b @ c @ d))"
  using origin_append [OF assms] gateway_scanner.split_frames_append [of "b @ c" d] by simp

lemma drained_no_drain:
  "complete_frame_len (g_buffer st) = None \<Longrightarrow> drain_complete_frames sj now st = st"
  by (simp add: drain_complete_frames.simps)

lemma g_drive_outcome:
  assumes sj: "serde_json_spec sj"
  shows "g_idents_ok st \<Longrightarrow> \<not> g_finished st \<Longrightarrow> complete_frame_len (g_buffer st) = None \<Longrightarrow>
    \<exists>ks g. g_ends sj now st ks g (g_drive sj now st body) \<and>
           origin sj ks g (frames_of (g_buffer st @ body_bytes body))"
proof (induction body arbitrary: st)
  case Nil
  with g_on_end_outcome [OF sj Nil(1,2), of now "frames_of (g_buffer st)"] show ?case
    by (auto simp: drained_no_drain Let_def)
next
  case (Cons e es)
  let ?st = "g_on_event sj now e st"
  have drive: "g_drive sj now st (e # es) = g_drive sj now ?st es"
    using Cons.prems by (simp add: drained_no_drain Let_def)
  from g_on_event_outcome [OF sj Cons.prems(1,2), of e now] show ?case
  proof (elim disjE exE conjE)
    fix c ks
    assume e: "e = Chunk c" and runs: "g_runs sj st ks ?st" and ks: "subseq ks (frames_of (g_buffer st @ c))"
      and b: "g_buffer ?st = rest_of (g_buffer st @ c)"
    from runs b have "g_idents_ok ?st" "\<not> g_finished ?st" "complete_frame_len (g_buffer ?st) = None"
      by (simp_all add: g_runs_def gateway_scanner.split_frames_rest)
    from Cons.IH [OF this] obtain ks' g where
      "g_ends sj now ?st ks' g (g_drive sj now ?st es)" "origin sj ks' g (frames_of (g_buffer ?st @ body_bytes es))"
      by blast
    then have "g_ends sj now st (ks @ ks') g (g_drive sj now st (e # es))"
      and "origin sj (ks @ ks') g (frames_of (g_buffer st @ c @ body_bytes es))"
      unfolding drive b by (auto intro: g_runs_ends [OF runs] origin_chunk [OF ks])
    with e show ?thesis by auto
  next
    fix ks g
    assume ends: "g_ends sj now st ks g ?st" and org: "origin sj ks g (frames_of (g_buffer st @ body_bytes [e]))"
    have "g_drive sj now ?st es = ?st"
      using ends by (simp add: g_drive_finished g_ends_def)
    moreover have "origin sj ks g (frames_of (g_buffer st @ body_bytes (e # es)))"
      using org origin_weaken gateway_scanner.split_frames_append [of "g_buffer st @ body_bytes [e]" "body_bytes es"]
      by (cases e) simp_all
    ultimately show ?thesis
      using ends drive by auto
  qed
qed

lemma validated_stream_outcome:
  assumes "serde_json_spec sj" and "ident_ok media"
  shows "\<exists>ks g. validated_stream sj now mx media body = ks @ [g] \<and> (\<forall>f \<in> set ks. interim sj f) \<and>
     origin sj ks g (frames_of (body_bytes body)) \<and>
     (closes sj g \<or> (\<exists>n. gateway_failure sj now media g n \<and> (\<forall>f \<in> set ks. seq_le sj f n)))"
  using g_drive_outcome [OF assms(1), of "g_new mx media" now body] assms(2)
  by (auto simp: g_new_def g_idents_ok_def complete_frame_len_def complete_frame_len_from.simps
      g_ends_def validated_stream_def)

end
