(* ===== verification/Sse_Chunking.thy ===== *)
theory Sse_Chunking
  imports Sse_Outcome
begin

text \<open>
  The network may split the upstream bytes anywhere. The validator's output depends on their
  concatenation only: the scan resumes over the whole buffer, and the two places that enforce
  the size limit (a complete frame that is too long, an incomplete one that already is) agree.
\<close>

lemma drain_complete:
  "\<not> g_finished (drain_complete_frames sj now st) \<Longrightarrow>
   complete_frame_len (g_buffer (drain_complete_frames sj now st)) = None"
proof (induction sj now st rule: drain_complete_frames.induct)
  case (1 sj now st)
  from "1.prems" show ?case
    by (subst (asm) drain_complete_frames.simps, subst drain_complete_frames.simps)
       (auto dest: "1.IH" split: if_split_asm option.split_asm)
qed

lemma g_fail_buffer:
  "\<not> g_finished st \<Longrightarrow> g_fail sj now r (st\<lparr>g_buffer := b\<rparr>) = g_fail sj now r st"
  by (simp add: g_fail_def)

lemma observe_buffer: "observe e (st\<lparr>g_buffer := b\<rparr>) = (observe e st)\<lparr>g_buffer := b\<rparr>"
  by (simp add: observe_def Let_def split: option.split)

lemma g_handle_frame_with_buffer:
  "\<not> g_finished st \<Longrightarrow>
   g_handle_frame sj now f (st\<lparr>g_buffer := b\<rparr>) =
     (if g_finished (g_handle_frame sj now f st) then g_handle_frame sj now f st
      else (g_handle_frame sj now f st)\<lparr>g_buffer := b\<rparr>)"
  by (simp add: g_handle_frame_def observe_buffer g_fail_buffer Let_def
      split: result.split FrameDisposition.split)

lemma drain_append:
  "\<not> g_finished st \<Longrightarrow>
   drain_complete_frames sj now (st\<lparr>g_buffer := g_buffer st @ c\<rparr>) =
     (let d = drain_complete_frames sj now st
      in if g_finished d then d else drain_complete_frames sj now (d\<lparr>g_buffer := g_buffer d @ c\<rparr>))"
proof (induction sj now st rule: drain_complete_frames.induct)
  case (1 sj now st)
  show ?case
  proof (cases "complete_frame_len (g_buffer st)")
    case None
    with "1.prems" show ?thesis
      by (simp add: drained_no_drain Let_def)
  next
    case (Some n)
    let ?h = "g_handle_frame sj now (take n (g_buffer st)) (st\<lparr>g_buffer := drop n (g_buffer st)\<rparr>)"
    have n: "n \<le> length (g_buffer st)" and app: "complete_frame_len (g_buffer st @ c) = Some n"
      using Some gateway_scanner.scan_bounds gateway_scanner.scan_append by blast+
    show ?thesis
    proof (cases "n > g_max_event_bytes st")
      case True
      with "1.prems" Some app show ?thesis
        by (subst (1 2) drain_complete_frames.simps) (simp add: Let_def g_fail_buffer)
    next
      case False
      let ?h' = "g_handle_frame sj now (take n (g_buffer st)) (st\<lparr>g_buffer := drop n (g_buffer st) @ c\<rparr>)"
      have h': "?h' = (if g_finished ?h then ?h else ?h\<lparr>g_buffer := g_buffer ?h @ c\<rparr>)"
        using "1.prems" g_handle_frame_buffer [of sj now "take n (g_buffer st)" "st\<lparr>g_buffer := drop n (g_buffer st)\<rparr>"]
        by (auto simp: g_handle_frame_with_buffer [of "st\<lparr>g_buffer := drop n (g_buffer st)\<rparr>" sj now _
              "drop n (g_buffer st) @ c", simplified])
      have "drain_complete_frames sj now st = drain_complete_frames sj now ?h"
        using "1.prems" Some False by (subst drain_complete_frames.simps) simp
      moreover have "drain_complete_frames sj now (st\<lparr>g_buffer := g_buffer st @ c\<rparr>) = drain_complete_frames sj now ?h'"
        using "1.prems" app False n by (subst drain_complete_frames.simps) simp
      ultimately show ?thesis
        using "1.IH" [OF "1.prems" Some False] h' by (cases "g_finished ?h") (simp_all add: Let_def)
    qed
  qed
qed

text \<open>The end of an upstream: the end of the body, or its first error or timeout.\<close>

definition g_stop :: "serde_json \<Rightarrow> u64 \<Rightarrow> upstream_event list \<Rightarrow> g_state \<Rightarrow> g_state" where
  "g_stop sj now tail st = (case tail of [] \<Rightarrow> g_on_end sj now st | e # _ \<Rightarrow> g_on_event sj now e st)"

definition stops :: "upstream_event list \<Rightarrow> bool" where
  "stops tail = (case tail of Chunk _ # _ \<Rightarrow> False | _ \<Rightarrow> True)"

definition g_finish :: "serde_json \<Rightarrow> u64 \<Rightarrow> upstream_event list \<Rightarrow> g_state \<Rightarrow> g_state" where
  "g_finish sj now tail st =
     (let d = drain_complete_frames sj now st
      in if g_finished d then d
         else if length (g_buffer d) > g_max_event_bytes d then g_fail sj now limit_reason d
         else g_stop sj now tail d)"

lemma g_finish_overlong:
  assumes "\<not> g_finished d" "complete_frame_len (g_buffer d) = None"
    and "length (g_buffer d) > g_max_event_bytes d"
  shows "g_finish sj now tail (d\<lparr>g_buffer := g_buffer d @ c\<rparr>) = g_fail sj now limit_reason d"
proof (cases "complete_frame_len (g_buffer d @ c)")
  case None
  with assms show ?thesis
    by (simp add: g_finish_def drained_no_drain Let_def g_fail_buffer)
next
  case (Some n)
  with gateway_scanner.scan_late [OF assms(2) Some] assms
  have "drain_complete_frames sj now (d\<lparr>g_buffer := g_buffer d @ c\<rparr>) = g_fail sj now limit_reason d"
    by (subst drain_complete_frames.simps) (simp add: g_fail_buffer)
  then show ?thesis
    by (simp add: g_finish_def)
qed

lemma g_drive_stop:
  "\<not> g_finished st \<Longrightarrow> complete_frame_len (g_buffer st) = None \<Longrightarrow> stops tail \<Longrightarrow>
   g_drive sj now st tail = g_stop sj now tail st"
  by (cases tail rule: list.exhaust)
     (auto simp: drained_no_drain g_stop_def Let_def stops_def g_drive_finished split: upstream_event.splits)

lemma g_drive_chunks:
  assumes "stops tail"
  shows "\<not> g_finished st \<Longrightarrow> complete_frame_len (g_buffer st) = None \<Longrightarrow>
     length (g_buffer st) \<le> g_max_event_bytes st \<Longrightarrow>
     g_drive sj now st (map Chunk cs @ tail) = g_finish sj now tail (st\<lparr>g_buffer := g_buffer st @ concat cs\<rparr>)"
proof (induction cs arbitrary: st)
  case Nil
  with assms show ?case
    by (simp add: g_finish_def drained_no_drain Let_def g_drive_stop)
next
  case (Cons c cs)
  let ?d = "drain_complete_frames sj now (st\<lparr>g_buffer := g_buffer st @ c\<rparr>)"
  have drive: "g_drive sj now st (map Chunk (c # cs) @ tail) = g_drive sj now (g_on_event sj now (Chunk c) st) (map Chunk cs @ tail)"
    using Cons.prems by (simp add: drained_no_drain Let_def)
  have drain: "drain_complete_frames sj now (st\<lparr>g_buffer := g_buffer st @ c @ concat cs\<rparr>) =
      (if g_finished ?d then ?d else drain_complete_frames sj now (?d\<lparr>g_buffer := g_buffer ?d @ concat cs\<rparr>))"
    using drain_append [of "st\<lparr>g_buffer := g_buffer st @ c\<rparr>" sj now "concat cs"] Cons.prems by (simp add: Let_def)
  have none: "\<not> g_finished ?d \<Longrightarrow> complete_frame_len (g_buffer ?d) = None"
    by (rule drain_complete)
  show ?case
  proof (cases "g_finished ?d")
    case True
    with drain show ?thesis
      unfolding drive by (simp add: Let_def g_drive_finished g_finish_def)
  next
    case False
    then have finish: "g_finish sj now tail (st\<lparr>g_buffer := g_buffer st @ c @ concat cs\<rparr>) =
        g_finish sj now tail (?d\<lparr>g_buffer := g_buffer ?d @ concat cs\<rparr>)"
      using drain by (simp add: g_finish_def)
    show ?thesis
    proof (cases "length (g_buffer ?d) > g_max_event_bytes ?d")
      case True
      with False finish g_finish_overlong [OF False none [OF False] True] show ?thesis
        unfolding drive by (simp add: Let_def g_drive_finished)
    next
      case le: False
      with False finish Cons.IH [OF False none [OF False]] show ?thesis
        unfolding drive by (simp add: Let_def)
    qed
  qed
qed

end
