(* ===== verification/Json_Codec.thy ===== *)
theory Json_Codec
  imports Json
begin

text \<open>
  A reference codec for compact JSON text: a printer and a recursive-descent parser with a
  proved round trip. It shows that the requirements of \<open>serde_json_spec\<close> can be met together;
  the theorems of the other theories hold for every codec that meets them.
\<close>

section \<open>Printer\<close>

definition esc :: "char \<Rightarrow> bytes" where
  "esc c = (if c = CHR 0x22 then [CHR 0x5C, CHR 0x22]
            else if c = CHR 0x5C then [CHR 0x5C, CHR 0x5C]
            else if c = LF then [CHR 0x5C, CHR ''n'']
            else if c = CR then [CHR 0x5C, CHR ''r'']
            else [c])"

definition print_string :: "bytes \<Rightarrow> bytes" where
  "print_string s = CHR 0x22 # concat (map esc s) @ [CHR 0x22]"

fun print_number :: "Number \<Rightarrow> bytes" where
  "print_number (PosInt n) = show_u64 n"
| "print_number (NegInt n) = CHR ''-'' # show_u64 n"
| "print_number (Float w) = show_u64 w @ ''.0''"

fun print_json :: "Value \<Rightarrow> bytes" where
  "print_json Null = ''null''"
| "print_json (Bool b) = (if b then ''true'' else ''false'')"
| "print_json (Number n) = print_number n"
| "print_json (String s) = print_string s"
| "print_json (Array vs) = CHR ''['' # join_with '','' (map print_json vs) @ '']''"
| "print_json (Object m) =
     CHR ''{'' # join_with '','' (map (\<lambda>kv. print_string (fst kv) @ '':'' @ print_json (snd kv)) m) @ ''}''"

section \<open>Parser\<close>

fun parse_chars :: "bytes \<Rightarrow> (bytes \<times> bytes) option" where
  "parse_chars [] = None"
| "parse_chars (c # s) =
     (if c = CHR 0x22 then Some ([], s)
      else if c = CHR 0x5C then
        (case s of [] \<Rightarrow> None
         | d # r \<Rightarrow>
             map_option (\<lambda>(t, r'). ((if d = CHR ''n'' then LF else if d = CHR ''r'' then CR else d) # t, r'))
               (parse_chars r))
      else map_option (\<lambda>(t, r'). (c # t, r')) (parse_chars s))"

definition parse_string :: "bytes \<Rightarrow> (bytes \<times> bytes) option" where
  "parse_string s =
     (case s of
        c # r \<Rightarrow> if c = CHR 0x22 then opt_filter (\<lambda>(t, r'). utf8_valid t) (parse_chars r) else None
      | [] \<Rightarrow> None)"

definition parse_digits :: "bytes \<Rightarrow> (u64 \<times> bytes) option" where
  "parse_digits s =
     (let d = takeWhile is_ascii_digit s
      in if d = [] then None
         else map_option (\<lambda>n. (of_nat n, dropWhile is_ascii_digit s))
                (opt_filter (\<lambda>n. n < 2 ^ 64) (digits_value 0 d)))"

definition parse_literal :: "bytes \<Rightarrow> (Value \<times> bytes) option" where
  "parse_literal s =
     (case strip_prefix ''null'' s of Some r \<Rightarrow> Some (Null, r)
      | None \<Rightarrow> (case strip_prefix ''true'' s of Some r \<Rightarrow> Some (Bool True, r)
      | None \<Rightarrow> (case strip_prefix ''false'' s of Some r \<Rightarrow> Some (Bool False, r)
      | None \<Rightarrow> None)))"

fun parse_value :: "nat \<Rightarrow> bytes \<Rightarrow> (Value \<times> bytes) option"
  and parse_items :: "nat \<Rightarrow> bytes \<Rightarrow> (Value list \<times> bytes) option"
  and parse_members :: "nat \<Rightarrow> bytes \<Rightarrow> (jmap \<times> bytes) option" where
  "parse_value 0 s = None"
| "parse_value (Suc n) s =
     (case s of
        [] \<Rightarrow> None
      | c # r \<Rightarrow>
          if c = CHR 0x22 then map_option (\<lambda>(t, r'). (String t, r')) (parse_string s)
          else if c = CHR ''['' then
            (case r of
               d # r' \<Rightarrow> if d = CHR '']'' then Some (Array [], r')
                         else map_option (\<lambda>(vs, r''). (Array vs, r'')) (parse_items n r)
             | [] \<Rightarrow> None)
          else if c = CHR ''{'' then
            (case r of
               d # r' \<Rightarrow> if d = CHR ''}'' then Some (Object [], r')
                         else map_option (\<lambda>(m, r''). (Object (map_build m), r'')) (parse_members n r)
             | [] \<Rightarrow> None)
          else if c = CHR ''-'' then map_option (\<lambda>(w, r'). (Number (NegInt w), r')) (parse_digits r)
          else if is_ascii_digit c then map_option (\<lambda>(w, r'). (Number (PosInt w), r')) (parse_digits s)
          else parse_literal s)"
| "parse_items 0 s = None"
| "parse_items (Suc n) s =
     (case parse_value n s of
        Some (v, c # r) \<Rightarrow>
          if c = CHR '','' then map_option (\<lambda>(vs, r'). (v # vs, r')) (parse_items n r)
          else if c = CHR '']'' then Some ([v], r) else None
      | _ \<Rightarrow> None)"
| "parse_members 0 s = None"
| "parse_members (Suc n) s =
     (case parse_string s of
        Some (k, c # r) \<Rightarrow>
          if c = CHR '':'' then
            (case parse_value n r of
               Some (v, d # r') \<Rightarrow>
                 if d = CHR '','' then map_option (\<lambda>(m, r''). ((k, v) # m, r'')) (parse_members n r')
                 else if d = CHR ''}'' then Some ([(k, v)], r') else None
             | _ \<Rightarrow> None)
          else None
      | _ \<Rightarrow> None)"

definition parse_json :: "bytes \<Rightarrow> Value option" where
  "parse_json s = (case parse_value (Suc (length s)) s of Some (v, []) \<Rightarrow> Some v | _ \<Rightarrow> None)"

definition json_codec :: serde_json where
  "json_codec = \<lparr>from_str = parse_json, to_string = print_json\<rparr>"

section \<open>Scalars\<close>

lemma parse_chars_esc: "parse_chars (concat (map esc s) @ CHR 0x22 # r) = Some (s, r)"
  by (induction s) (simp_all add: esc_def)

lemma parse_print_string: "utf8_valid s \<Longrightarrow> parse_string (print_string s @ r) = Some (s, r)"
  by (simp add: parse_string_def print_string_def parse_chars_esc)

definition digit_free :: "bytes \<Rightarrow> bool" where
  "digit_free r = (case r of [] \<Rightarrow> True | c # _ \<Rightarrow> \<not> is_ascii_digit c)"

lemma parse_show_u64: "digit_free r \<Longrightarrow> parse_digits (show_u64 w @ r) = Some (w, r)"
proof -
  assume r: "digit_free r"
  have d: "\<forall>c \<in> set (show_nat (unat w)). is_ascii_digit c"
    using show_nat_digits [of "unat w"] by (simp add: list_all_iff)
  from r have "takeWhile is_ascii_digit r = []" "dropWhile is_ascii_digit r = r"
    by (auto simp: digit_free_def split: list.splits)
  moreover have "unat w < 2 ^ LENGTH(64)"
    by (rule unsigned_less)
  ultimately show ?thesis
    using d by (simp add: parse_digits_def show_u64_def Let_def digits_value_show_nat)
qed

lemma show_u64_first: "\<exists>c cs. show_u64 w = c # cs \<and> is_ascii_digit c"
  using show_nat_digits [of "unat w"] show_nat_nonempty [of "unat w"]
  by (cases "show_nat (unat w)") (auto simp: show_u64_def)

lemma show_u64_nonempty [simp]: "show_u64 w \<noteq> []" "[] \<noteq> show_u64 w"
  using show_u64_first [of w] by auto

section \<open>Round trip\<close>

lemma print_json_nonempty: "0 < length (print_json v)"
  by (cases v rule: print_json.cases) (auto simp: print_string_def elim!: print_number.elims)

lemma map_build_sorted: "map_ok m \<Longrightarrow> map_build m = m"
proof -
  have ins: "map_ok (m @ [(k, v)]) \<Longrightarrow> map_insert k v m = m @ [(k, v)]" for k v and m :: "('a::linorder \<times> 'b) list"
    by (induction m) (auto simp: map_ok_def sorted_wrt_append)
  show "map_ok m \<Longrightarrow> map_build m = m"
  proof (induction m rule: rev_induct)
    case (snoc kv m)
    then have "map_ok m" by (simp add: map_ok_def sorted_wrt_append)
    with snoc ins show ?case
      by (cases kv) (simp add: map_build_def)
  qed (simp add: map_build_def)
qed


lemma digit_free_delim [simp]:
  "digit_free (CHR '','' # r)" "digit_free (CHR '']'' # r)" "digit_free (CHR ''}'' # r)" "digit_free []"
  by (simp_all add: digit_free_def is_ascii_digit_def)

lemma print_json_first: "json_no_float v \<Longrightarrow> \<exists>c cs. print_json v = c # cs \<and> c \<noteq> CHR '']''"
proof (cases v)
  case (Number n)
  assume "json_no_float v"
  with Number consider w where "n = PosInt w" | w where "n = NegInt w"
    by (cases n) auto
  then show ?thesis
  proof cases
    case 1
    obtain c cs where "show_u64 w = c # cs" "is_ascii_digit c"
      using show_u64_first by blast
    with 1 Number show ?thesis by (auto simp: is_ascii_digit_def)
  qed (simp add: Number)
qed (auto simp: print_string_def)

definition parses :: "Value \<Rightarrow> bool" where
  "parses v = (\<forall>n r. length (print_json v) < n \<longrightarrow> digit_free r \<longrightarrow> parse_value n (print_json v @ r) = Some (v, r))"

lemma parse_items_print:
  "vs \<noteq> [] \<Longrightarrow> (\<And>v. v \<in> set vs \<Longrightarrow> parses v) \<Longrightarrow>
   length (join_with '','' (map print_json vs)) + 1 < n \<Longrightarrow>
   parse_items n (join_with '','' (map print_json vs) @ CHR '']'' # r) = Some (vs, r)"
proof (induction vs arbitrary: n)
  case (Cons v vs)
  then obtain n' where n: "n = Suc n'" by (cases n) auto
  have v: "length (print_json v) < n' \<Longrightarrow> digit_free r' \<Longrightarrow> parse_value n' (print_json v @ r') = Some (v, r')" for r'
    using Cons.prems(2) by (simp add: parses_def)
  show ?case
  proof (cases vs)
    case Nil
    with v [of "CHR '']'' # r"] Cons.prems(3) n show ?thesis by simp
  next
    case (Cons w ws)
    with Cons.IH [of n'] Cons.prems n v print_json_nonempty [of v] show ?thesis
      by simp
  qed
qed simp

abbreviation print_member :: "bytes \<times> Value \<Rightarrow> bytes" where
  "print_member kv \<equiv> print_string (fst kv) @ '':'' @ print_json (snd kv)"

lemma parse_members_print:
  "m \<noteq> [] \<Longrightarrow> (\<And>kv. kv \<in> set m \<Longrightarrow> utf8_valid (fst kv) \<and> parses (snd kv)) \<Longrightarrow>
   length (join_with '','' (map print_member m)) + 1 < n \<Longrightarrow>
   parse_members n (join_with '','' (map print_member m) @ CHR ''}'' # r) = Some (m, r)"
proof (induction m arbitrary: n)
  case (Cons kv m)
  then obtain n' where n: "n = Suc n'" by (cases n) auto
  have v: "length (print_json (snd kv)) < n' \<Longrightarrow> digit_free r' \<Longrightarrow>
      parse_value n' (print_json (snd kv) @ r') = Some (snd kv, r')" for r'
    using Cons.prems(2) by (simp add: parses_def)
  have k: "parse_string (print_string (fst kv) @ r') = Some (fst kv, r')" for r'
    using Cons.prems(2) by (simp add: parse_print_string)
  show ?case
  proof (cases m)
    case Nil
    with v [of "CHR ''}'' # r"] Cons.prems(3) n k show ?thesis by simp
  next
    case (Cons w ws)
    with Cons.IH [of n'] Cons.prems n v k show ?thesis
      by simp
  qed
qed simp

lemma parses_number: "json_no_float (Number x) \<Longrightarrow> parses (Number x)"
proof (cases x)
  case (PosInt w)
  obtain c cs where "show_u64 w = c # cs" "is_ascii_digit c"
    using show_u64_first by blast
  moreover from this(2) have "c \<noteq> CHR 0x22" "c \<noteq> CHR ''[''" "c \<noteq> CHR ''{''" "c \<noteq> CHR ''-''"
    by (auto simp: is_ascii_digit_def)
  ultimately show ?thesis
    using parse_show_u64 [of _ w] PosInt
    by (auto simp: parses_def gr0_conv_Suc split: nat.splits elim!: less_natE)
next
  case (NegInt w)
  then show ?thesis
    using parse_show_u64 [of _ w]
    by (auto simp: parses_def is_ascii_digit_def elim!: less_natE)
qed simp

lemma parses_value: "json_wf v \<Longrightarrow> json_no_float v \<Longrightarrow> parses v"
proof (induction v rule: print_json.induct)
  case (3 x)
  then show ?case by (simp add: parses_number)
next
  case (4 s)
  then show ?case
    using parse_print_string [of s]
    by (auto simp: parses_def print_string_def elim!: less_natE)
next
  case (5 vs)
  show ?case
  proof (cases "vs = []")
    case True
    then show ?thesis by (auto simp: parses_def elim!: less_natE)
  next
    case False
    then obtain v ws where vs: "vs = v # ws" by (cases vs) auto
    with "5.prems" obtain c cs where c: "print_json v = c # cs" "c \<noteq> CHR '']''"
      using print_json_first [of v] by auto
    obtain ds where ds: "join_with '','' (map print_json vs) = c # ds"
      using c vs by (cases ws) auto
    show ?thesis
      unfolding parses_def
    proof (intro allI impI)
      fix n r
      assume n: "length (print_json (Array vs)) < n" and "digit_free r"
      then obtain n' where n': "n = Suc n'" by (cases n) auto
      have "parse_items n' (join_with '','' (map print_json vs) @ CHR '']'' # r) = Some (vs, r)"
        using "5" n n' False by (intro parse_items_print) auto
      with ds c n' show "parse_value n (print_json (Array vs) @ r) = Some (Array vs, r)"
        by simp
    qed
  qed
next
  case (6 m)
  show ?case
  proof (cases "m = []")
    case True
    then show ?thesis by (auto simp: parses_def elim!: less_natE)
  next
    case False
    then obtain ds where ds: "join_with '','' (map print_member m) = CHR 0x22 # ds"
      by (cases m; cases "tl m") (auto simp: print_string_def)
    show ?thesis
      unfolding parses_def
    proof (intro allI impI)
      fix n r
      assume n: "length (print_json (Object m)) < n" and "digit_free r"
      then obtain n' where n': "n = Suc n'" by (cases n) auto
      have "parse_members n' (join_with '','' (map print_member m) @ CHR ''}'' # r) = Some (m, r)"
        using "6" n n' False by (intro parse_members_print) auto
      with ds n' "6.prems" show "parse_value n (print_json (Object m) @ r) = Some (Object m, r)"
        by (simp add: map_build_sorted)
    qed
  qed
qed (auto simp: parses_def parse_literal_def is_ascii_digit_def elim!: less_natE)

lemma parse_print_json: "json_exact v \<Longrightarrow> parse_json (print_json v) = Some v"
  using parses_value [of v] unfolding json_exact_def parses_def parse_json_def
  by (metis (no_types, lifting) append_Nil2 case_prod_conv digit_free_delim(4) lessI list.simps(4) option.simps(5))


section \<open>The codec meets the requirements\<close>

lemma parse_string_utf8: "parse_string s = Some (t, r) \<Longrightarrow> utf8_valid t"
  by (auto simp: parse_string_def split: list.splits if_splits)

lemma parse_literal_wf: "parse_literal s = Some (v, r) \<Longrightarrow> json_wf v"
  by (auto simp: parse_literal_def split: option.splits)

lemma parse_wf:
  "parse_value n s = Some (v, r) \<Longrightarrow> json_wf v"
  "parse_items n s = Some (vs, r) \<Longrightarrow> \<forall>v \<in> set vs. json_wf v"
  "parse_members n s = Some (m, r) \<Longrightarrow> \<forall>kv \<in> set m. utf8_valid (fst kv) \<and> json_wf (snd kv)"
proof (induction n s and n s and n s arbitrary: v r and vs r and m r
    rule: parse_value_parse_items_parse_members.induct)
  case (2 n s)
  have obj: "\<forall>kv \<in> set m. utf8_valid (fst kv) \<and> json_wf (snd kv) \<Longrightarrow> json_wf (Object (map_build m))" for m
    using map_build_set [of m] by (auto simp: map_ok_build)
  from "2.prems" show ?case
    by (auto simp del: json_wf.simps(3) simp: obj obj [of "[]", unfolded map_build_def, simplified] "2.IH" dest: parse_string_utf8 parse_literal_wf
        split: list.splits if_splits)
next
  case (4 n s)
  from "4.prems" obtain v c r1 where v: "parse_value n s = Some (v, c # r1)"
    by (auto split: option.splits list.splits)
  with "4.prems" "4.IH"(1) [OF v] "4.IH"(2) [OF v refl refl] show ?case
    by (auto split: if_splits)
next
  case (6 n s)
  from "6.prems" obtain k r1 v d r2 where k: "parse_string s = Some (k, CHR '':'' # r1)"
    and v: "parse_value n r1 = Some (v, d # r2)"
    by (auto split: option.splits list.splits if_splits)
  from "6.prems" "6.IH"(1) [OF k refl refl refl v] "6.IH"(2) [OF k refl refl refl v refl refl] k v
    parse_string_utf8 [OF k] show ?case
    by (auto split: if_splits) force+
qed simp_all

lemma esc_one_line: "LF \<notin> set (esc c)" "CR \<notin> set (esc c)"
  by (simp_all add: esc_def)

lemma print_string_line: "LF \<notin> set (print_string s)" "CR \<notin> set (print_string s)"
  by (simp_all add: print_string_def esc_one_line)

lemma show_u64_line: "LF \<notin> set (show_u64 w)" "CR \<notin> set (show_u64 w)"
  using show_nat_digits [of "unat w"]
  by (auto simp: show_u64_def list_all_iff is_ascii_digit_def)

lemma join_with_notin: "c \<notin> set sep \<Longrightarrow> (\<And>s. s \<in> set ss \<Longrightarrow> c \<notin> set s) \<Longrightarrow> c \<notin> set (join_with sep ss)"
  by (induction sep ss rule: join_with.induct) auto

lemma print_json_line: "LF \<notin> set (print_json v) \<and> CR \<notin> set (print_json v)"
proof (induction v rule: print_json.induct)
  case (3 n)
  then show ?case by (cases n) (simp_all add: show_u64_line)
next
  case (4 s)
  then show ?case by (simp add: print_string_line)
next
  case (5 vs)
  then show ?case by (auto dest!: join_with_notin [THEN notE, rotated 2])
next
  case (6 m)
  then have "c \<in> {LF, CR} \<Longrightarrow> c \<notin> set (join_with '','' (map print_member m))" for c
    by (intro join_with_notin) (auto simp: print_string_line)
  then show ?case by simp
qed auto

lemma utf8_join:
  "utf8_valid sep \<Longrightarrow> (\<And>s. s \<in> set ss \<Longrightarrow> utf8_valid s) \<Longrightarrow> utf8_valid (join_with sep ss)"
  by (induction sep ss rule: join_with.induct) (auto intro!: utf8_valid_append)

lemma esc_id: "\<not> byte c < 128 \<Longrightarrow> esc c = [c]"
  by (auto simp: esc_def)

lemma utf8_esc: "utf8_valid s \<Longrightarrow> utf8_valid (concat (map esc s))"
proof (induction "length s" arbitrary: s rule: less_induct)
  case less
  show ?case
  proof (cases "s = []")
    case False
    with less.prems obtain n r where step: "utf8_step s = Some (n, r)"
      by (auto simp: utf8_valid_def utf8_decode.simps [of s] split: option.splits)
    then have r: "utf8_valid (concat (map esc r))"
      using less utf8_step_shorter utf8_valid_step by blast
    from utf8_step_split [OF step] show ?thesis
    proof (elim disjE exE conjE)
      fix c assume "s = c # r" "byte c < 128"
      then show ?thesis
        using r by (simp add: esc_def)
    next
      fix p assume p: "s = p @ r" "\<forall>c \<in> set p. \<not> byte c < 128" "utf8_step p = Some (n, [])"
      have "concat (map esc p) = p"
        using p(2) by (induction p) (auto simp: esc_id)
      moreover have "utf8_valid p"
        using utf8_valid_step [OF p(3)] by simp
      ultimately show ?thesis
        using p(1) r by (simp add: utf8_valid_append)
    qed
  qed simp
qed

lemma utf8_print_string: "utf8_valid s \<Longrightarrow> utf8_valid (print_string s)"
  by (simp add: print_string_def utf8_valid_append utf8_esc)

lemma utf8_print_json: "json_wf v \<Longrightarrow> utf8_valid (print_json v)"
proof (induction v rule: print_json.induct)
  case (3 n)
  then show ?case by (cases n) (simp_all add: show_u64_def utf8_valid_append utf8_valid_ascii)
next
  case (4 s)
  then show ?case by (simp add: utf8_print_string)
next
  case (5 vs)
  then show ?case by (auto intro!: utf8_valid_append utf8_join)
next
  case (6 m)
  then have "utf8_valid (join_with '','' (map print_member m))"
    by (intro utf8_join) (auto intro!: utf8_valid_append simp: utf8_print_string)
  then show ?case by (simp add: utf8_valid_append)
qed auto

lemma parse_json_done: "parse_json ''[DONE]'' = None"
  by (simp add: parse_json_def parse_literal_def is_ascii_digit_def)

lemma json_codec_spec: "serde_json_spec json_codec"
proof -
  have "parse_json s = Some v \<Longrightarrow> json_wf v" for s v
    unfolding parse_json_def
    by (auto simp del: parse_value.simps dest: parse_wf(1) split: option.split_asm prod.split_asm list.split_asm)
  then show ?thesis
    by (auto simp: serde_json_spec_def json_codec_def parse_print_json utf8_print_json print_json_line
        parse_json_done)
qed

end
