(* ===== verification/Sse_Properties.thy ===== *)
theory Sse_Properties
  imports Sse_Chunking Json_Codec
begin

text \<open>
  The properties of the gateway's stream validator, over the frames a consumer receives by
  polling the stream to its end.
\<close>

section \<open>Transparency on valid streams\<close>

text \<open>A frame that leaves the stream open: forwarded, or dropped as a comment or metadata.\<close>

definition passes :: "serde_json \<Rightarrow> bytes \<Rightarrow> bool" where
  "passes sj f = (interim sj f \<or> (\<exists>ev. inspect_frame sj f = Ok (Drop ev)))"

lemma frames_of_Cons:
  assumes "frames_of b = f # fs"
  shows "\<exists>n. complete_frame_len b = Some n \<and> f = take n b \<and> fs = frames_of (drop n b) \<and> length f = n"
proof (cases "complete_frame_len b")
  case None
  with assms show ?thesis by (simp add: gateway_scanner.split_frames_None)
next
  case (Some n)
  with assms gateway_scanner.scan_bounds [OF Some] show ?thesis
    by (auto simp: gateway_scanner.split_frames_Some)
qed

lemma interim_keep:
  assumes "interim sj f"
  obtains ev where "inspect_frame sj f = Ok (Keep ev)"
    "event_kind ev \<notin> set [''error'', ''response.failed'', ''response.cancelled'']"
    "\<not> is_terminal_event (event_kind ev)"
  using assms
  by (auto simp: interim_def frame_kind_def frame_event_def is_terminal_event_def
      split: result.splits FrameDisposition.splits)

lemma closes_keep:
  assumes "closes sj f"
  obtains ev where "inspect_frame sj f = Ok (Keep ev)"
    "event_kind ev \<in> {''response.completed'', ''response.incomplete''}"
  using assms
  by (auto simp: closes_def frame_kind_def frame_event_def split: result.splits FrameDisposition.splits)

lemma handle_passes:
  assumes "passes sj f" "\<not> g_finished st"
  shows "\<not> g_finished (g_handle_frame sj now f st)" "g_buffer (g_handle_frame sj now f st) = g_buffer st"
    "g_max_event_bytes (g_handle_frame sj now f st) = g_max_event_bytes st"
    "g_pending (g_handle_frame sj now f st) = g_pending st @ filter (interim sj) [f]"
proof -
  consider (keep) "interim sj f" | (drop) ev where "\<not> interim sj f" "inspect_frame sj f = Ok (Drop ev)"
    using assms(1) passes_def by blast
  then have "\<not> g_finished (g_handle_frame sj now f st) \<and> g_buffer (g_handle_frame sj now f st) = g_buffer st \<and>
    g_max_event_bytes (g_handle_frame sj now f st) = g_max_event_bytes st \<and>
    g_pending (g_handle_frame sj now f st) = g_pending st @ filter (interim sj) [f]"
  proof cases
    case keep
    then obtain ev where "inspect_frame sj f = Ok (Keep ev)"
      "event_kind ev \<notin> set [''error'', ''response.failed'', ''response.cancelled'']"
      "\<not> is_terminal_event (event_kind ev)"
      by (rule interim_keep)
    with keep assms(2) show ?thesis
      by (simp add: g_handle_frame_def Let_def)
  next
    case drop
    with assms(2) show ?thesis
      by (simp add: g_handle_frame_def)
  qed
  then show "\<not> g_finished (g_handle_frame sj now f st)" "g_buffer (g_handle_frame sj now f st) = g_buffer st"
    "g_max_event_bytes (g_handle_frame sj now f st) = g_max_event_bytes st"
    "g_pending (g_handle_frame sj now f st) = g_pending st @ filter (interim sj) [f]"
    by simp_all
qed

lemma handle_closes:
  assumes "closes sj f" "\<not> g_finished st"
  shows "g_finished (g_handle_frame sj now f st) \<and> g_pending (g_handle_frame sj now f st) = g_pending st @ [f]"
proof -
  obtain ev where "inspect_frame sj f = Ok (Keep ev)"
    "event_kind ev \<in> {''response.completed'', ''response.incomplete''}"
    using assms(1) by (rule closes_keep)
  then show ?thesis
    by (auto simp: g_handle_frame_def Let_def is_terminal_event_def)
qed

text \<open>A frame that ends the stream with one more frame \<open>x\<close>, its own or a failure.\<close>

definition ends_stream :: "serde_json \<Rightarrow> u64 \<Rightarrow> bytes \<Rightarrow> (bytes \<Rightarrow> bool) \<Rightarrow> bool" where
  "ends_stream sj now g R = (\<forall>st. \<not> g_finished st \<longrightarrow> g_finished (g_handle_frame sj now g st) \<and>
     (\<exists>x. g_pending (g_handle_frame sj now g st) = g_pending st @ [x] \<and> R x))"

lemma closes_ends: "closes sj g \<Longrightarrow> ends_stream sj now g (\<lambda>x. x = g)"
  using handle_closes by (simp add: ends_stream_def)

lemma ends_streamE:
  assumes "ends_stream sj now g R" "\<not> g_finished st"
  obtains x where "g_finished (g_handle_frame sj now g st)" "g_pending (g_handle_frame sj now g st) = g_pending st @ [x]" "R x"
  using assms by (auto simp: ends_stream_def)

lemma drain_until:
  "\<not> g_finished st \<Longrightarrow> frames_of (g_buffer st) = fs @ g # hs \<Longrightarrow>
   \<forall>f \<in> set fs. passes sj f \<and> length f \<le> g_max_event_bytes st \<Longrightarrow>
   ends_stream sj now g R \<Longrightarrow> length g \<le> g_max_event_bytes st \<Longrightarrow>
   g_finished (drain_complete_frames sj now st) \<and>
   (\<exists>x. g_pending (drain_complete_frames sj now st) = g_pending st @ filter (interim sj) fs @ [x] \<and> R x)"
proof (induction fs arbitrary: st)
  case Nil
  then obtain n where n: "complete_frame_len (g_buffer st) = Some n" "g = take n (g_buffer st)" "length g = n"
    using frames_of_Cons [of "g_buffer st" g hs] by (metis append_Nil)
  let ?h = "g_handle_frame sj now g (st\<lparr>g_buffer := drop n (g_buffer st)\<rparr>)"
  obtain x where "g_finished ?h" "g_pending ?h = g_pending st @ [x]" "R x"
    using ends_streamE [OF Nil.prems(4), of "st\<lparr>g_buffer := drop n (g_buffer st)\<rparr>"] Nil.prems(1) by auto
  with Nil n show ?case
    by (subst (1 2) drain_complete_frames.simps) (auto simp: drain_complete_frames.simps [of _ _ ?h])
next
  case (Cons f fs)
  then obtain n where n: "complete_frame_len (g_buffer st) = Some n" "f = take n (g_buffer st)"
    "fs @ g # hs = frames_of (drop n (g_buffer st))" "length f = n"
    using frames_of_Cons [of "g_buffer st" f "fs @ g # hs"] by (metis append_Cons)
  let ?h = "g_handle_frame sj now f (st\<lparr>g_buffer := drop n (g_buffer st)\<rparr>)"
  have h: "\<not> g_finished ?h" "g_buffer ?h = drop n (g_buffer st)" "g_max_event_bytes ?h = g_max_event_bytes st"
    "g_pending ?h = g_pending st @ filter (interim sj) [f]"
    using handle_passes [of sj f "st\<lparr>g_buffer := drop n (g_buffer st)\<rparr>" now] Cons.prems by auto
  have "drain_complete_frames sj now st = drain_complete_frames sj now ?h"
    using Cons.prems n by (subst drain_complete_frames.simps) auto
  moreover have "g_finished (drain_complete_frames sj now ?h) \<and>
      (\<exists>x. g_pending (drain_complete_frames sj now ?h) = g_pending ?h @ filter (interim sj) fs @ [x] \<and> R x)"
    using Cons.prems n h by (intro Cons.IH) auto
  ultimately show ?case
    using h(4) by auto
qed

lemma validated_stream_chunks:
  "stops tail \<Longrightarrow> validated_stream sj now mx media (map Chunk cs @ tail) =
   g_pending (g_finish sj now tail ((g_new mx media)\<lparr>g_buffer := concat cs\<rparr>))"
  unfolding validated_stream_def
  by (subst g_drive_chunks)
     (simp_all add: g_new_def complete_frame_len_def complete_frame_len_from.simps)

lemma validated_until:
  assumes "frames_of (concat cs) = fs @ g # rest" "stops tail" "\<forall>f \<in> set fs. passes sj f \<and> length f \<le> mx"
    and "ends_stream sj now g R" "length g \<le> mx"
  shows "\<exists>x. validated_stream sj now mx media (map Chunk cs @ tail) = filter (interim sj) fs @ [x] \<and> R x"
proof -
  let ?st = "(g_new mx media)\<lparr>g_buffer := concat cs\<rparr>"
  have "g_finished (drain_complete_frames sj now ?st) \<and>
      (\<exists>x. g_pending (drain_complete_frames sj now ?st) = g_pending ?st @ filter (interim sj) fs @ [x] \<and> R x)"
    using assms by (intro drain_until [where hs = rest]) (simp_all add: g_new_def)
  then show ?thesis
    using assms(2) by (simp add: validated_stream_chunks g_finish_def) (simp add: g_new_def)
qed

lemma stream_yields_validated:
  "stream_yields (g_poll sj now) (g_new mx media) body out \<longleftrightarrow> out = validated_stream sj now mx media body"
  by (simp add: gateway_stream.yields_iff validated_stream_def)

section \<open>Properties\<close>

text \<open>C2: Whatever the upstream does (any bytes in any chunks, a transport error, an idle timeout, an
  early end), polling the validator ends after finitely many frames; the last one is a terminal event
  \<open>response.completed\<close>, \<open>response.incomplete\<close> or \<open>response.failed\<close>, and no frame before it is
  terminal. Every frame passes the gateway's own inspection.\<close>

theorem stream_ends_with_one_terminal:
  assumes "serde_json_spec sj" and "ident_ok media"
  shows "\<exists>ks g. stream_yields (g_poll sj now) (g_new max_event_bytes media) body (ks @ [g]) \<and>
     (\<forall>f \<in> set ks. interim sj f) \<and>
     frame_kind sj g \<in> {Some ''response.completed'', Some ''response.incomplete'', Some ''response.failed''}"
  using validated_stream_outcome [OF assms, of now max_event_bytes body] gateway_failure_event(1) [OF assms]
  by (fastforce simp: stream_yields_validated closes_def)

theorem stream_ends_with_one_terminal_witness:
  "\<exists>ks g. stream_yields (g_poll json_codec 7) (g_new 64 (Some ''text/html'')) [Chunk ''data: x'', IdleTimeout] (ks @ [g]) \<and>
     (\<forall>f \<in> set ks. interim json_codec f) \<and>
     frame_kind json_codec g \<in> {Some ''response.completed'', Some ''response.incomplete'', Some ''response.failed''}"
  using stream_ends_with_one_terminal [OF json_codec_spec, of "Some ''text/html''"] by simp



text \<open>When the stream ends in a failure, the failure carries a sequence number that is not below
  that of any frame delivered before it, also where the counter saturates at its maximum.\<close>

theorem failure_sequence_not_below:
  assumes "serde_json_spec sj" and "ident_ok media"
    and "stream_yields (g_poll sj now) (g_new max_event_bytes media) body (ks @ [g])"
    and "frame_kind sj g = Some ''response.failed''"
  shows "\<exists>n. frame_sequence sj g = Some n \<and>
     (\<forall>f \<in> set ks. \<forall>k. frame_sequence sj f = Some k \<longrightarrow> k \<le> n)"
  using validated_stream_outcome [OF assms(1,2), of now max_event_bytes body] assms(3,4)
    gateway_failure_event(2) [OF assms(1,2)]
  by (auto simp: stream_yields_validated closes_def seq_le_def)

theorem failure_sequence_not_below_witness:
  "\<exists>n. frame_sequence json_codec (protocol_failure_frame json_codec 7 None None 1
         ''upstream stream ended before a terminal response event'') = Some n \<and>
     (\<forall>f \<in> set []. \<forall>k. frame_sequence json_codec f = Some k \<longrightarrow> k \<le> n)"
proof (rule failure_sequence_not_below [OF json_codec_spec, where now = 7 and body = "[]" and max_event_bytes = 64 and media = None])
  show "stream_yields (g_poll json_codec 7) (g_new 64 None) []
     ([] @ [protocol_failure_frame json_codec 7 None None 1 ''upstream stream ended before a terminal response event''])"
    unfolding stream_yields_validated
    by (simp add: validated_stream_def drain_complete_frames.simps complete_frame_len_def
        complete_frame_len_from.simps g_new_def g_on_end_def g_fail_def g_fail_reason_def saturating_add_def)
  show "frame_kind json_codec (protocol_failure_frame json_codec 7 None None 1
         ''upstream stream ended before a terminal response event'') = Some ''response.failed''"
    by (simp add: frame_kind_def frame_event_def protocol_failure_frame_def protocol_failure_message_def
        failure_frame_inspect [OF json_codec_spec])
qed simp

text \<open>C23: The delivered frames depend on the upstream bytes and on how the upstream ends, not on how
  the network cuts those bytes into chunks.\<close>

theorem stream_chunking_irrelevant:
  assumes "concat cs = concat ds" and "stops tail"
    and "stream_yields (g_poll sj now) (g_new max_event_bytes media) (map Chunk cs @ tail) out"
  shows "stream_yields (g_poll sj now) (g_new max_event_bytes media) (map Chunk ds @ tail) out"
  using assms by (simp add: stream_yields_validated validated_stream_chunks)

theorem stream_chunking_irrelevant_witness:
  "stream_yields (g_poll json_codec 7) (g_new 64 None) (map Chunk [''da'', ''ta: x''] @ [ChunkErr])
     (validated_stream json_codec 7 64 None (map Chunk [''data: '', ''x''] @ [ChunkErr]))"
  by (rule stream_chunking_irrelevant [where cs = "[''data: '', ''x'']"])
     (simp_all add: stream_yields_validated stops_def)

text \<open>C25: A valid response stream passes through unchanged: when its frames fit the size limit, are
  forwardable or metadata, and are followed by a normal terminal frame, the consumer receives exactly the
  forwardable frames and that terminal frame, and nothing of what the upstream sends after it.\<close>

theorem valid_stream_transparent:
  assumes "frames_of (concat cs) = fs @ g # rest" and "stops tail"
    and "\<forall>f \<in> set fs. passes sj f \<and> length f \<le> max_event_bytes"
    and "closes sj g" and "length g \<le> max_event_bytes"
  shows "stream_yields (g_poll sj now) (g_new max_event_bytes media) (map Chunk cs @ tail)
           (filter (interim sj) fs @ [g])"
  using validated_until [OF assms(1-3) closes_ends [OF assms(4)] assms(5), of now media]
  by (simp add: stream_yields_validated)

definition sample_queued :: bytes where
  "sample_queued = sse_frame ''response.queued'' (print_json (json_object [(''type'', String ''response.queued'')]))"

definition sample_completed :: bytes where
  "sample_completed = sse_frame ''response.completed'' (print_json (json_object
     [(''type'', String ''response.completed''), (''response'', json_object [(''id'', String ''r'')])]))"

lemma sample_queued_interim: "interim json_codec sample_queued"
  by code_simp

lemma sample_completed_closes: "closes json_codec sample_completed"
  by code_simp

lemma sample_frames: "frames_of (concat [sample_queued, sample_completed, ''junk'']) = [sample_queued] @ sample_completed # []"
  by code_simp

lemma sample_lengths: "length sample_queued \<le> 200" "length sample_completed \<le> 200"
  by code_simp+

theorem valid_stream_transparent_witness:
  "stream_yields (g_poll json_codec 7) (g_new 200 None) (map Chunk [sample_queued, sample_completed, ''junk''] @ [])
     (filter (interim json_codec) [sample_queued] @ [sample_completed])"
  using sample_frames sample_lengths sample_queued_interim sample_completed_closes
  by (intro valid_stream_transparent [where rest = "[]"]) (simp_all add: stops_def passes_def)

end
