(* ===== verification/Errors.thy ===== *)
theory Errors
  imports Prelude
begin

text \<open>
  The error type of the transport crate (\<open>codex-transport/src/error.rs\<close>) and its \<open>Display\<close>
  texts. Errors of other crates (\<open>reqwest\<close>, \<open>std::io\<close>) are carried as their display text;
  a \<open>StatusCode\<close> is its number.
\<close>

datatype Error =
    DataDirectoryUnavailable
  | InvalidAuthHome bytes
  | Authentication bytes
  | NotAuthenticated
  | ZaiNotAuthenticated
  | Keyring bytes
  | ProviderUnsupported bytes
  | UnsupportedAuthMode
  | CustomBaseUrlRequiresApiKey
  | InvalidBaseUrl
  | EmptyApiKey
  | ApiKeyTooLong nat
  | ApiKeyNotUtf8
  | ApiKeyContainsWhitespace
  | ApiKeyContainsControlCharacters
  | InvalidRequest bytes
  | FastModeUnavailable
  | InvalidHeader bytes
  | Provider bytes
  | Http bytes
  | HttpClient bytes
  | CredentialRefreshLock bytes
  | Upstream nat bytes
  | InvalidUpstreamResponse bytes
  | Io bytes

text \<open>\<open>status_text\<close> is the \<open>Display\<close> of \<open>http::StatusCode\<close>.\<close>

fun error_display :: "(nat \<Rightarrow> bytes) \<Rightarrow> Error \<Rightarrow> bytes" where
  "error_display status_text DataDirectoryUnavailable = ''could not determine a local data directory for Muse Codex''"
| "error_display status_text (InvalidAuthHome m) = ''invalid Muse Codex home: '' @ m"
| "error_display status_text (Authentication m) = ''authentication failed: '' @ m"
| "error_display status_text NotAuthenticated =
     ''no Codex credentials are stored; run `muse-codex login` or `muse-codex auth set --provider codex --api-key-stdin`''"
| "error_display status_text ZaiNotAuthenticated =
     ''no Z.ai credentials are stored; run `muse-codex auth set --provider zai --api-key-stdin`''"
| "error_display status_text (Keyring m) = ''the isolated credential store is unavailable: '' @ m"
| "error_display status_text (ProviderUnsupported m) = m @ '' is not available with the selected provider''"
| "error_display status_text UnsupportedAuthMode = ''the active credential type is not supported by this adapter''"
| "error_display status_text CustomBaseUrlRequiresApiKey =
     ''a custom OpenAI base URL is allowed only with API-key authentication''"
| "error_display status_text InvalidBaseUrl =
     ''custom API base URL must use HTTPS and contain no credentials, query, or fragment''"
| "error_display status_text EmptyApiKey = ''API key input is empty''"
| "error_display status_text (ApiKeyTooLong n) = ''API key input exceeds the '' @ show_nat n @ ''-byte limit''"
| "error_display status_text ApiKeyNotUtf8 = ''API key input is not valid UTF-8''"
| "error_display status_text ApiKeyContainsWhitespace = ''API key input contains whitespace''"
| "error_display status_text ApiKeyContainsControlCharacters = ''API key input contains control characters''"
| "error_display status_text (InvalidRequest m) = ''Muse produced an invalid Responses request: '' @ m"
| "error_display status_text FastModeUnavailable = ''Fast mode is not available for the selected model''"
| "error_display status_text (InvalidHeader m) = ''invalid request header: '' @ m"
| "error_display status_text (Provider m) = ''failed to construct the pinned Codex provider: '' @ m"
| "error_display status_text (Http m) = ''upstream request failed: '' @ m"
| "error_display status_text (HttpClient m) = ''could not build the pinned Codex HTTP client: '' @ m"
| "error_display status_text (CredentialRefreshLock m) = ''credential refresh lock failed: '' @ m"
| "error_display status_text (Upstream s m) = ''upstream returned HTTP '' @ status_text s @ '': '' @ m"
| "error_display status_text (InvalidUpstreamResponse m) = ''upstream response was invalid: '' @ m"
| "error_display status_text (Io m) = m"

end
