(* ===== verification/Zai_Request.thy ===== *)
theory Zai_Request
  imports Json Errors
begin

text \<open>
  Translation of a Responses request into a Z.ai chat-completions body
  (\<open>codex-transport/src/zai/request.rs\<close>). \<open>&mut ToolNames\<close> is threaded through the functions
  that take it; an error discards it, as the callers do.
\<close>

section \<open>Tool names\<close>

abbreviation quoted :: "bytes \<Rightarrow> bytes" where
  "quoted s \<equiv> CHR 0x27 # s @ [CHR 0x27]"

record ToolNames =
  decoded :: "(bytes \<times> bytes) list"
  freeform :: "bytes set"

definition ToolNames_default :: ToolNames where
  "ToolNames_default = \<lparr>decoded = [], freeform = {}\<rparr>"

definition decode :: "ToolNames \<Rightarrow> bytes \<Rightarrow> bytes" where
  "decode names encoded = unwrap_or (map_get (decoded names) encoded) encoded"

definition is_freeform :: "ToolNames \<Rightarrow> bytes \<Rightarrow> bool" where
  "is_freeform names encoded = (encoded \<in> freeform names)"

definition MAX_FUNCTION_NAME_BYTES :: nat where
  "MAX_FUNCTION_NAME_BYTES = 64"

definition wire_byte :: "char \<Rightarrow> bool" where
  "wire_byte b = (is_ascii_alphanumeric b \<or> b \<in> set ''_-'')"

definition encode_function_name :: "bytes \<Rightarrow> (bytes, Error) result" where
  "encode_function_name original =
     (let encoded = replace_char (CHR ''.'') ''__'' original
      in if encoded = [] \<or> length encoded > MAX_FUNCTION_NAME_BYTES then
           Err (InvalidRequest (''tool name '' @ quoted original @ '' does not fit Z.ai'' @ [CHR 0x27] @
             ''s '' @ show_nat MAX_FUNCTION_NAME_BYTES @ ''-byte limit''))
         else if \<not> list_all wire_byte encoded then
           Err (InvalidRequest (''tool name '' @ quoted original @ '' contains characters Z.ai does not accept''))
         else Ok encoded)"

definition record_name :: "bytes \<Rightarrow> bool \<Rightarrow> ToolNames \<Rightarrow> (bytes \<times> ToolNames, Error) result" where
  "record_name original is_free names =
     and_then (encode_function_name original)
     (\<lambda>encoded.
       if is_some_and (\<lambda>existing. existing \<noteq> original) (map_get (decoded names) encoded) then
         Err (InvalidRequest (''tools '' @ quoted (unwrap_or (map_get (decoded names) encoded) []) @ '' and '' @
           quoted original @ '' collide after Z.ai name encoding''))
       else
         (let names = names\<lparr>decoded := map_insert encoded original (decoded names)\<rparr>;
              names = (if is_free then names\<lparr>freeform := insert encoded (freeform names)\<rparr> else names)
          in Ok (encoded, names)))"

section \<open>Tools\<close>

definition nonempty_str :: "jmap \<Rightarrow> bytes \<Rightarrow> bytes option" where
  "nonempty_str m k = opt_filter (\<lambda>s. s \<noteq> []) (map_str m k)"

definition qualified_name :: "jmap \<Rightarrow> bytes option \<Rightarrow> (bytes, Error) result" where
  "qualified_name tool namespace =
     and_then (ok_or (nonempty_str tool ''name'') (InvalidRequest ''a tool needs a name''))
     (\<lambda>name. Ok (case namespace of Some ns \<Rightarrow> ns @ ''.'' @ name | None \<Rightarrow> name))"

definition with_description :: "jmap \<Rightarrow> jmap \<Rightarrow> jmap" where
  "with_description tool function =
     (case map_str tool ''description'' of
        Some description \<Rightarrow> map_insert ''description'' (String description) function
      | None \<Rightarrow> function)"

definition wire_tool :: "jmap \<Rightarrow> Value" where
  "wire_tool function = json_object [(''type'', String ''function''), (''function'', Object function)]"

definition function_tool :: "jmap \<Rightarrow> bytes option \<Rightarrow> ToolNames \<Rightarrow> (Value \<times> ToolNames, Error) result" where
  "function_tool tool namespace names =
     and_then (qualified_name tool namespace) (\<lambda>original.
     and_then (record_name original False names) (\<lambda>(encoded, names).
       let function = with_description tool (map_insert ''name'' (String encoded) []);
           parameters = unwrap_or (map_get tool ''parameters'')
             (json_object [(''type'', String ''object''), (''properties'', Object [])])
       in Ok (wire_tool (map_insert ''parameters'' parameters function), names)))"

definition custom_tool :: "jmap \<Rightarrow> bytes option \<Rightarrow> ToolNames \<Rightarrow> (Value \<times> ToolNames, Error) result" where
  "custom_tool tool namespace names =
     and_then (qualified_name tool namespace) (\<lambda>original.
     and_then (record_name original True names) (\<lambda>(encoded, names).
       let function = with_description tool (map_insert ''name'' (String encoded) []);
           parameters = json_object [
             (''type'', String ''object''),
             (''properties'', json_object [(''input'', json_object [(''type'', String ''string'')])]),
             (''required'', Array [String ''input''])]
       in Ok (wire_tool (map_insert ''parameters'' parameters function), names)))"

definition unsupported_tool :: "bytes option \<Rightarrow> Error" where
  "unsupported_tool other =
     InvalidRequest (''tool type '' @ quoted (unwrap_or other ''(missing)'') @
       '' is not supported by the Z.ai provider'')"

text \<open>The two \<open>match\<close> arms shared by top-level and namespaced tools.\<close>

definition leaf_tool ::
  "jmap \<Rightarrow> bytes option \<Rightarrow> Value list \<times> ToolNames \<Rightarrow> (Value list \<times> ToolNames, Error) result" where
  "leaf_tool tool namespace acc =
     (case acc of (translated, names) \<Rightarrow>
       (let kind = map_str tool ''type''
        in if kind = Some ''function'' then
             and_then (function_tool tool namespace names) (\<lambda>(t, names). Ok (translated @ [t], names))
           else if kind = Some ''custom'' then
             and_then (custom_tool tool namespace names) (\<lambda>(t, names). Ok (translated @ [t], names))
           else Err (unsupported_tool kind)))"

definition namespace_tools ::
  "jmap \<Rightarrow> Value list \<times> ToolNames \<Rightarrow> (Value list \<times> ToolNames, Error) result" where
  "namespace_tools object acc =
     and_then (ok_or (nonempty_str object ''name'') (InvalidRequest ''a tool namespace needs a name''))
     (\<lambda>namespace.
     and_then (ok_or (Option.bind (map_get object ''tools'') as_array)
                 (InvalidRequest ''a tool namespace needs a tools array''))
     (\<lambda>nested.
       try_fold (\<lambda>acc tool.
         and_then (ok_or (as_object tool) (InvalidRequest ''each namespaced tool must be an object''))
           (\<lambda>tool. leaf_tool tool (Some namespace) acc)) acc nested))"

definition translate_tool ::
  "Value list \<times> ToolNames \<Rightarrow> Value \<Rightarrow> (Value list \<times> ToolNames, Error) result" where
  "translate_tool acc tool =
     and_then (ok_or (as_object tool) (InvalidRequest ''each tool must be an object''))
     (\<lambda>object.
       if map_str object ''type'' = Some ''namespace'' then namespace_tools object acc
       else leaf_tool object None acc)"

definition translate_tools :: "Value option \<Rightarrow> ToolNames \<Rightarrow> (Value list \<times> ToolNames, Error) result" where
  "translate_tools tools names =
     (case tools of
        None \<Rightarrow> Ok ([], names)
      | Some Null \<Rightarrow> Ok ([], names)
      | Some tools \<Rightarrow>
          and_then (ok_or (as_array tools) (InvalidRequest ''tools must be an array''))
            (try_fold translate_tool ([], names)))"

section \<open>Messages\<close>

record ModelLimits =
  accepts_images :: bool
  limit_output_tokens :: u64

definition text_message_part :: "bytes \<Rightarrow> Value" where
  "text_message_part value = json_object [(''type'', String ''text''), (''text'', String value)]"

text \<open>One iteration of the loop over content parts: text, multimodal parts, image flag.\<close>

definition content_part ::
  "ModelLimits \<Rightarrow> bytes \<times> Value list \<times> bool \<Rightarrow> Value \<Rightarrow> (bytes \<times> Value list \<times> bool, Error) result" where
  "content_part limits acc part =
     (case acc of (txt, multimodal, has_image) \<Rightarrow>
       and_then (ok_or (as_object part) (InvalidRequest ''each content part must be an object''))
       (\<lambda>part.
         let kind = map_str part ''type'';
             add = (\<lambda>value. Ok ((if txt \<noteq> [] then txt @ [LF] else txt) @ value,
                                multimodal @ [text_message_part value], has_image))
         in if kind \<in> set [Some ''input_text'', Some ''output_text'', Some ''text'', Some ''summary_text''] then
              add (unwrap_or (map_str part ''text'') [])
            else if kind = Some ''refusal'' then
              add (unwrap_or (map_str part ''refusal'') [])
            else if kind = Some ''input_image'' then
              if \<not> accepts_images limits then
                Err (InvalidRequest ''the selected Z.ai model does not accept image input'')
              else
                and_then (ok_or (map_str part ''image_url'')
                            (InvalidRequest ''an image content part needs an image_url''))
                (\<lambda>url. Ok (txt, multimodal @ [json_object [(''type'', String ''image_url''),
                           (''image_url'', json_object [(''url'', String url)])]], True))
            else Err (InvalidRequest (''content part type '' @ quoted (unwrap_or kind ''(missing)'') @
                        '' is not supported by the Z.ai provider''))))"

definition translate_content_parts :: "Value list \<Rightarrow> bytes \<Rightarrow> ModelLimits \<Rightarrow> (Value, Error) result" where
  "translate_content_parts parts role limits =
     and_then (try_fold (content_part limits) ([], [], False) parts)
     (\<lambda>(txt, multimodal, has_image).
       if has_image \<and> role = ''user'' then Ok (Array multimodal) else Ok (String txt))"

definition message_role :: "bytes option \<Rightarrow> (bytes, Error) result" where
  "message_role role =
     (if role = Some ''developer'' \<or> role = Some ''system'' then Ok ''system''
      else if role = Some ''user'' then Ok ''user''
      else if role = Some ''assistant'' then Ok ''assistant''
      else Err (InvalidRequest (''message role '' @ quoted (unwrap_or role ''(missing)'') @
             '' is not supported by the Z.ai provider'')))"

definition translate_message :: "jmap \<Rightarrow> ModelLimits \<Rightarrow> (Value, Error) result" where
  "translate_message item limits =
     and_then (message_role (map_str item ''role'')) (\<lambda>role.
     and_then (case map_get item ''content'' of
                 Some (String s) \<Rightarrow> Ok (String s)
               | Some (Array parts) \<Rightarrow> translate_content_parts parts role limits
               | None \<Rightarrow> Ok (String [])
               | Some Null \<Rightarrow> Ok (String [])
               | Some _ \<Rightarrow> Err (InvalidRequest ''message content must be a string or an array''))
     (\<lambda>content. Ok (json_object [(''role'', String role), (''content'', content)])))"

definition tool_call ::
  "serde_json \<Rightarrow> jmap \<Rightarrow> bytes \<Rightarrow> ToolNames \<Rightarrow> bool \<Rightarrow> (Value \<times> ToolNames, Error) result" where
  "tool_call sj item arguments_field names is_free =
     and_then (ok_or (nonempty_str item ''call_id'') (InvalidRequest ''a tool call needs a call_id'')) (\<lambda>call_id.
     and_then (ok_or (nonempty_str item ''name'') (InvalidRequest ''a tool call needs a name'')) (\<lambda>name.
     and_then (record_name name is_free names) (\<lambda>(encoded, names).
       let raw = unwrap_or (map_str item arguments_field) [];
           arguments = (if is_free then to_string sj (json_object [(''input'', String raw)])
                        else if raw = [] then ''{}'' else raw)
       in Ok (json_object [(''id'', String call_id), (''type'', String ''function''),
                (''function'', json_object [(''name'', String encoded), (''arguments'', String arguments)])],
              names))))"

definition tool_result :: "serde_json \<Rightarrow> jmap \<Rightarrow> (Value, Error) result" where
  "tool_result sj item =
     and_then (ok_or (nonempty_str item ''call_id'') (InvalidRequest ''a tool result needs a call_id''))
     (\<lambda>call_id.
       let content = (case map_get item ''output'' of
                        Some (String output) \<Rightarrow> output
                      | Some value \<Rightarrow> to_string sj value
                      | None \<Rightarrow> [])
       in Ok (json_object [(''role'', String ''tool''), (''tool_call_id'', String call_id),
                           (''content'', String content)]))"

definition new_call_message :: "Value \<Rightarrow> Value" where
  "new_call_message call =
     json_object [(''role'', String ''assistant''), (''content'', Null), (''tool_calls'', Array [call])]"

definition push_tool_call :: "Value list \<Rightarrow> Value \<Rightarrow> Value list" where
  "push_tool_call messages call =
     (case rev messages of
        Object m # before \<Rightarrow>
          (case map_get m ''tool_calls'' of
             Some (Array calls) \<Rightarrow>
               if map_str m ''role'' = Some ''assistant'' then
                 rev before @ [Object (map_insert ''tool_calls'' (Array (calls @ [call])) m)]
               else messages @ [new_call_message call]
           | _ \<Rightarrow> messages @ [new_call_message call])
      | _ \<Rightarrow> messages @ [new_call_message call])"

definition translate_item ::
  "serde_json \<Rightarrow> ModelLimits \<Rightarrow> Value list \<times> ToolNames \<Rightarrow> Value \<Rightarrow> (Value list \<times> ToolNames, Error) result" where
  "translate_item sj limits acc item =
     (case acc of (messages, names) \<Rightarrow>
       and_then (ok_or (as_object item) (InvalidRequest ''each input item must be an object''))
       (\<lambda>item.
         let kind = map_str item ''type''
         in if kind = Some ''message'' then
              and_then (translate_message item limits) (\<lambda>m. Ok (messages @ [m], names))
            else if kind = Some ''reasoning'' then Ok (messages, names)
            else if kind = Some ''function_call'' then
              and_then (tool_call sj item ''arguments'' names False)
                (\<lambda>(call, names). Ok (push_tool_call messages call, names))
            else if kind = Some ''custom_tool_call'' then
              and_then (tool_call sj item ''input'' names True)
                (\<lambda>(call, names). Ok (push_tool_call messages call, names))
            else if kind = Some ''function_call_output'' \<or> kind = Some ''custom_tool_call_output'' then
              and_then (tool_result sj item) (\<lambda>m. Ok (messages @ [m], names))
            else Err (InvalidRequest (''input item type '' @ quoted (unwrap_or kind ''(missing)'') @
                        '' is not supported by the Z.ai provider''))))"

definition translate_messages ::
  "serde_json \<Rightarrow> jmap \<Rightarrow> ToolNames \<Rightarrow> ModelLimits \<Rightarrow> (Value list \<times> ToolNames, Error) result" where
  "translate_messages sj request names limits =
     (let messages = (case nonempty_str request ''instructions'' of
            Some instructions \<Rightarrow>
              [json_object [(''role'', String ''system''), (''content'', String instructions)]]
          | None \<Rightarrow> [])
      in case map_get request ''input'' of
           None \<Rightarrow> Ok (messages, names)
         | Some Null \<Rightarrow> Ok (messages, names)
         | Some (Array input) \<Rightarrow> try_fold (translate_item sj limits) (messages, names) input
         | Some _ \<Rightarrow> Err (InvalidRequest ''input must be an array''))"

section \<open>The request\<close>

definition map_reasoning_effort :: "bytes \<Rightarrow> (bytes option, Error) result" where
  "map_reasoning_effort effort =
     (if effort = ''none'' then Ok None
      else if effort \<in> set [''minimal'', ''low'', ''medium'', ''high''] then Ok (Some effort)
      else if effort \<in> set [''xhigh'', ''max'', ''ultra''] then Ok (Some ''xhigh'')
      else Err (InvalidRequest (''reasoning effort '' @ quoted effort @
             '' is not supported by the Z.ai provider'')))"

text \<open>\<open>u64::clamp(1, max)\<close>; it is called with a maximum of at least 1 only.\<close>

definition clamp_tokens :: "u64 \<Rightarrow> u64 \<Rightarrow> u64" where
  "clamp_tokens n mx = (if n < 1 then 1 else if mx < n then mx else n)"

record TranslatedRequest =
  chat_body :: Value
  chat_tools :: ToolNames

definition reject_stateful :: "jmap \<Rightarrow> (unit, Error) result" where
  "reject_stateful object =
     try_fold (\<lambda>_ field.
         if is_some_and (\<lambda>v. v \<noteq> Null) (map_get object field)
         then Err (InvalidRequest (field @ '' is not supported by the Z.ai provider'')) else Ok ())
       () [''previous_response_id'', ''conversation'']"

definition add_tools :: "Value list \<Rightarrow> jmap \<Rightarrow> jmap" where
  "add_tools translated_tools body =
     (if translated_tools \<noteq> [] then
        map_insert ''tool_stream'' (Bool True)
          (map_insert ''tool_choice'' (String ''auto'')
            (map_insert ''tools'' (Array translated_tools) body))
      else body)"

definition add_reasoning :: "jmap \<Rightarrow> jmap \<Rightarrow> (jmap, Error) result" where
  "add_reasoning object body =
     (case Option.bind (Option.bind (Option.bind (map_get object ''reasoning'') as_object)
             (\<lambda>reasoning. map_get reasoning ''effort'')) as_str of
        None \<Rightarrow> Ok body
      | Some effort \<Rightarrow>
          and_then (map_reasoning_effort effort)
          (\<lambda>e. Ok (case e of
                  Some effort \<Rightarrow> map_insert ''reasoning_effort'' (String effort) body
                | None \<Rightarrow> map_insert ''thinking'' (json_object [(''type'', String ''disabled'')]) body)))"

definition add_max_tokens :: "jmap \<Rightarrow> ModelLimits \<Rightarrow> jmap \<Rightarrow> jmap" where
  "add_max_tokens object limits body =
     (case Option.bind (map_get object ''max_output_tokens'') as_u64 of
        Some n \<Rightarrow> map_insert ''max_tokens'' (json_u64 (clamp_tokens n (limit_output_tokens limits))) body
      | None \<Rightarrow> body)"

definition translate :: "serde_json \<Rightarrow> Value \<Rightarrow> ModelLimits \<Rightarrow> (TranslatedRequest, Error) result" where
  "translate sj request limits =
     and_then (ok_or (as_object request) (InvalidRequest ''the Responses request must be an object''))
     (\<lambda>object.
     and_then (ok_or (nonempty_str object ''model'') (InvalidRequest ''the Responses request needs a model''))
     (\<lambda>model.
     and_then (reject_stateful object) (\<lambda>_.
     and_then (translate_tools (map_get object ''tools'') ToolNames_default) (\<lambda>(translated_tools, names).
     and_then (translate_messages sj object names limits) (\<lambda>(messages, names).
     and_then (add_reasoning object (add_tools translated_tools
        (map_insert ''messages'' (Array messages) (map_insert ''model'' (String model) [])))) (\<lambda>body.
     Ok \<lparr>chat_body = Object (map_insert ''stream'' (Bool True) (add_max_tokens object limits body)),
         chat_tools = names\<rparr>))))))"

end
