(* ===== verification/Zai_Stream.thy ===== *)
theory Zai_Stream
  imports Zai_Request Sse_Framing Stream_Contract
begin

text \<open>
  The Z.ai stream synthesizer (\<open>codex-transport/src/zai/stream.rs\<close>): it reads a
  chat-completions SSE body and produces a Responses event stream. \<open>usize\<close> is \<open>nat\<close>, the
  sequence counter and token counts are 64-bit words whose addition wraps, as in a release
  build. The texts of foreign errors (\<open>serde_json\<close>, \<open>http\<close>) are fields of \<open>z_env\<close>.
\<close>

section \<open>State\<close>

record z_env =
  z_json :: serde_json
  z_json_error :: "bytes \<Rightarrow> bytes"
  z_status_text :: "nat \<Rightarrow> bytes"

record TextItem =
  item_key :: bytes
  item_index :: nat
  item_text :: bytes

record PendingCall =
  call_key :: bytes
  call_index :: nat
  call_id :: bytes
  call_encoded_name :: bytes
  call_name :: bytes
  call_arguments :: bytes
  call_freeform :: bool
  call_announced :: bool

definition PendingCall_default :: PendingCall where
  "PendingCall_default =
     \<lparr>call_key = [], call_index = 0, call_id = [], call_encoded_name = [], call_name = [],
      call_arguments = [], call_freeform = False, call_announced = False\<rparr>"

record z_state =
  z_model :: bytes
  z_response_id :: bytes
  z_id_stem :: bytes
  z_request_key :: bytes
  z_tools :: ToolNames
  z_buffer :: bytes
  z_pending :: "bytes list"
  z_output :: "Value list"
  z_calls :: "PendingCall list"
  z_reasoning :: "TextItem option"
  z_message :: "TextItem option"
  z_usage :: "Value option"
  z_next_output_index :: nat
  z_sequence :: u64
  z_started :: bool
  z_finished :: bool
  z_terminated :: bool

definition z_new :: "bytes \<Rightarrow> bytes \<Rightarrow> ToolNames \<Rightarrow> z_state" where
  "z_new model request_key tools =
     \<lparr>z_model = model, z_response_id = [], z_id_stem = [], z_request_key = request_key, z_tools = tools,
      z_buffer = [], z_pending = [], z_output = [], z_calls = [], z_reasoning = None, z_message = None,
      z_usage = None, z_next_output_index = 0, z_sequence = 0, z_started = False, z_finished = False,
      z_terminated = False\<rparr>"

definition MAX_BUFFERED_BYTES :: nat where
  "MAX_BUFFERED_BYTES = 8 * 1024 * 1024"

definition MAX_IDENTIFIER_BYTES :: nat where
  "MAX_IDENTIFIER_BYTES = 64"

section \<open>Emitting events\<close>

definition z_event :: "bytes \<Rightarrow> u64 \<Rightarrow> jmap \<Rightarrow> Value" where
  "z_event kind n body =
     Object (map_insert ''sequence_number'' (json_u64 n) (map_insert ''type'' (String kind) body))"

definition z_emit :: "z_env \<Rightarrow> bytes \<Rightarrow> jmap \<Rightarrow> z_state \<Rightarrow> z_state" where
  "z_emit env kind body st =
     (let payload = to_string (z_json env) (z_event kind (z_sequence st) body)
      in st\<lparr>z_sequence := z_sequence st + 1,
            z_pending := z_pending st @ [''event: '' @ kind @ [LF] @ ''data: '' @ payload @ [LF, LF]]\<rparr>)"

definition z_fail_body :: "bytes \<Rightarrow> z_state \<Rightarrow> jmap" where
  "z_fail_body message st =
     (let body = map_build [(''message'', String message), (''code'', String ''invalid_request'')]
      in if z_response_id st \<noteq> [] then map_insert ''response_id'' (String (z_response_id st)) body else body)"

definition z_fail :: "z_env \<Rightarrow> bytes \<Rightarrow> z_state \<Rightarrow> z_state" where
  "z_fail env message st =
     (if z_terminated st then st\<lparr>z_finished := True\<rparr>
      else (z_emit env ''error'' (z_fail_body message st) st)\<lparr>z_terminated := True, z_finished := True\<rparr>)"

definition sanitize_identifier :: "bytes \<Rightarrow> bytes" where
  "sanitize_identifier value =
     (let filtered = take MAX_IDENTIFIER_BYTES
            (filter (\<lambda>c. is_ascii_alphanumeric c \<or> c \<in> set ''_-'') value)
      in if filtered = [] then ''unknown'' else filtered)"

definition nat_json :: "nat \<Rightarrow> Value" where
  "nat_json n = json_u64 (of_nat n)"

definition response_envelope :: "bytes \<Rightarrow> bytes option \<Rightarrow> bool \<Rightarrow> z_state \<Rightarrow> Value" where
  "response_envelope status finish_reason include_output st =
     (let response = map_build [
            (''id'', String (z_response_id st)),
            (''object'', String ''response''),
            (''status'', String status),
            (''model'', String (z_model st)),
            (''output'', Array (if include_output then z_output st else []))];
          response = (case z_usage st of Some usage \<Rightarrow> map_insert ''usage'' usage response | None \<Rightarrow> response);
          response = (if finish_reason = Some ''length'' then
                        map_insert ''incomplete_details'' (json_object [(''reason'', String ''max_output_tokens'')]) response
                      else response)
      in Object response)"

definition derive_id_stem :: "Value \<Rightarrow> z_state \<Rightarrow> bytes" where
  "derive_id_stem chunk st =
     sanitize_identifier (unwrap_or (opt_filter (\<lambda>s. s \<noteq> []) (get_str chunk ''id'')) (z_request_key st))"

definition z_start :: "z_env \<Rightarrow> Value \<Rightarrow> z_state \<Rightarrow> z_state" where
  "z_start env chunk st =
     (if z_started st then st
      else
        let stem = derive_id_stem chunk st;
            st = st\<lparr>z_started := True, z_id_stem := stem, z_response_id := ''resp_'' @ stem\<rparr>;
            st = (case opt_filter (\<lambda>s. s \<noteq> []) (get_str chunk ''model'') of
                    Some model \<Rightarrow> st\<lparr>z_model := model\<rparr> | None \<Rightarrow> st);
            response = response_envelope ''in_progress'' None False st;
            st = z_emit env ''response.created'' (map_build [(''response'', response)]) st
        in z_emit env ''response.in_progress'' (map_build [(''response'', response)]) st)"

definition item_id :: "bytes \<Rightarrow> nat \<Rightarrow> z_state \<Rightarrow> bytes" where
  "item_id prefix output_index st = prefix @ ''_'' @ z_id_stem st @ ''_'' @ show_nat output_index"

section \<open>Text and reasoning items\<close>

definition close_reasoning :: "z_env \<Rightarrow> z_state \<Rightarrow> z_state" where
  "close_reasoning env st =
     (case z_reasoning st of
        None \<Rightarrow> st
      | Some current \<Rightarrow>
          let st = st\<lparr>z_reasoning := None\<rparr>;
              summary = json_object [(''type'', String ''summary_text''), (''text'', String (item_text current))];
              item = json_object [(''id'', String (item_key current)), (''type'', String ''reasoning''),
                        (''summary'', Array [summary])];
              st = z_emit env ''response.reasoning_summary_text.done'' (map_build [
                     (''item_id'', String (item_key current)), (''output_index'', nat_json (item_index current)),
                     (''summary_index'', nat_json 0), (''text'', String (item_text current))]) st;
              st = z_emit env ''response.reasoning_summary_part.done'' (map_build [
                     (''item_id'', String (item_key current)), (''output_index'', nat_json (item_index current)),
                     (''summary_index'', nat_json 0), (''part'', summary)]) st;
              st = z_emit env ''response.output_item.done'' (map_build [
                     (''output_index'', nat_json (item_index current)), (''item'', item)]) st
          in st\<lparr>z_output := z_output st @ [item]\<rparr>)"

definition close_message :: "z_env \<Rightarrow> z_state \<Rightarrow> z_state" where
  "close_message env st =
     (case z_message st of
        None \<Rightarrow> st
      | Some current \<Rightarrow>
          let st = st\<lparr>z_message := None\<rparr>;
              part = json_object [(''type'', String ''output_text''), (''text'', String (item_text current)),
                        (''annotations'', Array [])];
              item = json_object [(''id'', String (item_key current)), (''type'', String ''message''),
                        (''status'', String ''completed''), (''role'', String ''assistant''), (''content'', Array [part])];
              st = z_emit env ''response.output_text.done'' (map_build [
                     (''item_id'', String (item_key current)), (''output_index'', nat_json (item_index current)),
                     (''content_index'', nat_json 0), (''text'', String (item_text current))]) st;
              st = z_emit env ''response.content_part.done'' (map_build [
                     (''item_id'', String (item_key current)), (''output_index'', nat_json (item_index current)),
                     (''content_index'', nat_json 0), (''part'', part)]) st;
              st = z_emit env ''response.output_item.done'' (map_build [
                     (''output_index'', nat_json (item_index current)), (''item'', item)]) st
          in st\<lparr>z_output := z_output st @ [item]\<rparr>)"

definition open_reasoning :: "z_env \<Rightarrow> z_state \<Rightarrow> z_state" where
  "open_reasoning env st =
     (if z_reasoning st \<noteq> None then st
      else
        let output_index = z_next_output_index st;
            st = st\<lparr>z_next_output_index := output_index + 1\<rparr>;
            key = item_id ''rs'' output_index st;
            st = z_emit env ''response.output_item.added'' (map_build [
                   (''output_index'', nat_json output_index),
                   (''item'', json_object [(''id'', String key), (''type'', String ''reasoning''),
                      (''summary'', Array [])])]) st;
            st = z_emit env ''response.reasoning_summary_part.added'' (map_build [
                   (''item_id'', String key), (''output_index'', nat_json output_index),
                   (''summary_index'', nat_json 0),
                   (''part'', json_object [(''type'', String ''summary_text''), (''text'', String [])])]) st
        in st\<lparr>z_reasoning := Some \<lparr>item_key = key, item_index = output_index, item_text = []\<rparr>\<rparr>)"

definition push_reasoning :: "z_env \<Rightarrow> bytes \<Rightarrow> z_state \<Rightarrow> z_state" where
  "push_reasoning env delta st =
     (let st = open_reasoning env (close_message env st)
      in case z_reasoning st of
           None \<Rightarrow> st
         | Some current \<Rightarrow>
             z_emit env ''response.reasoning_summary_text.delta'' (map_build [
                 (''item_id'', String (item_key current)), (''output_index'', nat_json (item_index current)),
                 (''summary_index'', nat_json 0), (''delta'', String delta)])
               (st\<lparr>z_reasoning := Some (current\<lparr>item_text := item_text current @ delta\<rparr>)\<rparr>))"

definition open_message :: "z_env \<Rightarrow> z_state \<Rightarrow> z_state" where
  "open_message env st =
     (if z_message st \<noteq> None then st
      else
        let output_index = z_next_output_index st;
            st = st\<lparr>z_next_output_index := output_index + 1\<rparr>;
            key = item_id ''msg'' output_index st;
            st = z_emit env ''response.output_item.added'' (map_build [
                   (''output_index'', nat_json output_index),
                   (''item'', json_object [(''id'', String key), (''type'', String ''message''),
                      (''status'', String ''in_progress''), (''role'', String ''assistant''), (''content'', Array [])])]) st;
            st = z_emit env ''response.content_part.added'' (map_build [
                   (''item_id'', String key), (''output_index'', nat_json output_index),
                   (''content_index'', nat_json 0),
                   (''part'', json_object [(''type'', String ''output_text''), (''text'', String []),
                      (''annotations'', Array [])])]) st
        in st\<lparr>z_message := Some \<lparr>item_key = key, item_index = output_index, item_text = []\<rparr>\<rparr>)"

definition push_text :: "z_env \<Rightarrow> bytes \<Rightarrow> z_state \<Rightarrow> z_state" where
  "push_text env delta st =
     (let st = open_message env (close_reasoning env st)
      in case z_message st of
           None \<Rightarrow> st
         | Some current \<Rightarrow>
             z_emit env ''response.output_text.delta'' (map_build [
                 (''item_id'', String (item_key current)), (''output_index'', nat_json (item_index current)),
                 (''content_index'', nat_json 0), (''delta'', String delta)])
               (st\<lparr>z_message := Some (current\<lparr>item_text := item_text current @ delta\<rparr>)\<rparr>))"

section \<open>Tool calls\<close>

definition grow_calls :: "nat \<Rightarrow> PendingCall list \<Rightarrow> PendingCall list" where
  "grow_calls index calls = calls @ replicate (index + 1 - length calls) PendingCall_default"

definition set_call :: "nat \<Rightarrow> (PendingCall \<Rightarrow> PendingCall) \<Rightarrow> z_state \<Rightarrow> z_state" where
  "set_call index f st = st\<lparr>z_calls := (z_calls st)[index := f (z_calls st ! index)]\<rparr>"

text \<open>The slot of a call gets its output index and id when it is first seen.\<close>

definition register_call :: "nat \<Rightarrow> z_state \<Rightarrow> z_state" where
  "register_call index st =
     (if call_key (z_calls st ! index) = [] then
        let output_index = z_next_output_index st;
            st = st\<lparr>z_next_output_index := output_index + 1\<rparr>
        in set_call index (\<lambda>c. c\<lparr>call_index := output_index,
             call_key := ''fc_'' @ z_id_stem st @ ''_'' @ show_nat output_index\<rparr>) st
      else st)"

definition call_item :: "PendingCall \<Rightarrow> bytes \<Rightarrow> bytes \<Rightarrow> bytes \<Rightarrow> Value" where
  "call_item entry status arguments input =
     (if call_freeform entry then
        json_object [(''id'', String (call_key entry)), (''type'', String ''custom_tool_call''),
          (''status'', String status), (''call_id'', String (call_id entry)),
          (''name'', String (call_name entry)), (''input'', String input)]
      else
        json_object [(''id'', String (call_key entry)), (''type'', String ''function_call''),
          (''status'', String status), (''call_id'', String (call_id entry)),
          (''name'', String (call_name entry)), (''arguments'', String arguments)])"

definition identify_call :: "Value \<Rightarrow> jmap option \<Rightarrow> nat \<Rightarrow> z_state \<Rightarrow> z_state" where
  "identify_call call function index st =
     (let st = (case opt_filter (\<lambda>s. s \<noteq> []) (get_str call ''id'') of
                  Some cid \<Rightarrow>
                    if call_id (z_calls st ! index) = [] then
                      set_call index (\<lambda>c. c\<lparr>call_id := sanitize_identifier cid\<rparr>) st
                    else st
                | None \<Rightarrow> st)
      in case opt_filter (\<lambda>s. s \<noteq> []) (Option.bind function (\<lambda>f. map_str f ''name'')) of
           Some name \<Rightarrow>
             if call_encoded_name (z_calls st ! index) = [] then
               set_call index (\<lambda>c. c\<lparr>call_encoded_name := name, call_name := decode (z_tools st) name,
                 call_freeform := is_freeform (z_tools st) name\<rparr>) st
             else st
         | None \<Rightarrow> st)"

definition announce_call :: "z_env \<Rightarrow> nat \<Rightarrow> z_state \<Rightarrow> z_state" where
  "announce_call env index st =
     (let c = z_calls st ! index
      in if \<not> call_announced c \<and> call_encoded_name c \<noteq> [] \<and> call_id c \<noteq> [] then
           let st = set_call index (\<lambda>c. c\<lparr>call_announced := True\<rparr>) st
           in z_emit env ''response.output_item.added'' (map_build [
                (''output_index'', nat_json (call_index c)),
                (''item'', call_item c ''in_progress'' [] [])]) st
         else st)"

definition append_arguments :: "z_env \<Rightarrow> jmap option \<Rightarrow> nat \<Rightarrow> z_state \<Rightarrow> z_state" where
  "append_arguments env function index st =
     (case opt_filter (\<lambda>s. s \<noteq> []) (Option.bind function (\<lambda>f. map_str f ''arguments'')) of
        None \<Rightarrow> st
      | Some fragment \<Rightarrow>
          let st = set_call index (\<lambda>c. c\<lparr>call_arguments := call_arguments c @ fragment\<rparr>) st;
              c = z_calls st ! index
          in if \<not> call_freeform c \<and> call_announced c then
               z_emit env ''response.function_call_arguments.delta'' (map_build [
                 (''item_id'', String (call_key c)), (''output_index'', nat_json (call_index c)),
                 (''delta'', String fragment)]) st
             else st)"

definition z_push_tool_call :: "z_env \<Rightarrow> Value \<Rightarrow> z_state \<Rightarrow> z_state" where
  "z_push_tool_call env call st =
     (let st = close_message env (close_reasoning env st);
          index = unat (unwrap_or (Option.bind (value_get call ''index'') as_u64) 0);
          st = st\<lparr>z_calls := grow_calls index (z_calls st)\<rparr>;
          function = Option.bind (value_get call ''function'') as_object
      in append_arguments env function index
           (announce_call env index (identify_call call function index (register_call index st))))"

definition freeform_input :: "serde_json \<Rightarrow> bytes \<Rightarrow> bytes" where
  "freeform_input sj arguments =
     unwrap_or (Option.bind (from_str sj arguments) (\<lambda>value. get_str value ''input'')) arguments"

definition close_call :: "z_env \<Rightarrow> z_state \<Rightarrow> PendingCall \<Rightarrow> z_state" where
  "close_call env st call =
     (if call_freeform call then
        let input = freeform_input (z_json env) (call_arguments call);
            item = call_item call ''completed'' [] input;
            st = z_emit env ''response.custom_tool_call_input.delta'' (map_build [
                   (''item_id'', String (call_key call)), (''output_index'', nat_json (call_index call)),
                   (''delta'', String input)]) st;
            st = z_emit env ''response.custom_tool_call_input.done'' (map_build [
                   (''item_id'', String (call_key call)), (''output_index'', nat_json (call_index call)),
                   (''input'', String input)]) st;
            st = z_emit env ''response.output_item.done'' (map_build [
                   (''output_index'', nat_json (call_index call)), (''item'', item)]) st
        in st\<lparr>z_output := z_output st @ [item]\<rparr>
      else
        let arguments = (if call_arguments call = [] then ''{}'' else call_arguments call);
            item = call_item call ''completed'' arguments [];
            st = z_emit env ''response.function_call_arguments.done'' (map_build [
                   (''item_id'', String (call_key call)), (''output_index'', nat_json (call_index call)),
                   (''arguments'', String arguments)]) st;
            st = z_emit env ''response.output_item.done'' (map_build [
                   (''output_index'', nat_json (call_index call)), (''item'', item)]) st
        in st\<lparr>z_output := z_output st @ [item]\<rparr>)"

definition close_tool_calls :: "z_env \<Rightarrow> z_state \<Rightarrow> z_state" where
  "close_tool_calls env st =
     foldl (close_call env) (st\<lparr>z_calls := []\<rparr>) (filter call_announced (z_calls st))"

section \<open>Completion\<close>

definition complete :: "z_env \<Rightarrow> bytes option \<Rightarrow> z_state \<Rightarrow> z_state" where
  "complete env finish_reason st =
     (if z_terminated st then st
      else if \<not> z_started st then z_fail env ''the Z.ai stream ended before any content arrived'' st
      else
        let st = close_tool_calls env (close_message env (close_reasoning env st));
            truncated = (finish_reason = Some ''length'');
            response = response_envelope (if truncated then ''incomplete'' else ''completed'') finish_reason True st;
            st = z_emit env (if truncated then ''response.incomplete'' else ''response.completed'')
                   (map_build [(''response'', response)]) st
        in st\<lparr>z_terminated := True, z_finished := True\<rparr>)"

definition map_usage :: "Value \<Rightarrow> Value" where
  "map_usage usage =
     (let input = Option.bind (value_get usage ''prompt_tokens'') as_u64;
          out = Option.bind (value_get usage ''completion_tokens'') as_u64;
          total = or_else (Option.bind (value_get usage ''total_tokens'') as_u64)
                    (Some (unwrap_or input 0 + unwrap_or out 0));
          add = (\<lambda>k x m. case x of Some n \<Rightarrow> map_insert k (json_u64 n) m | None \<Rightarrow> m)
      in Object (add ''total_tokens'' total (add ''output_tokens'' out (add ''input_tokens'' input []))))"

section \<open>Frames and chunks\<close>

definition z_push_delta :: "z_env \<Rightarrow> jmap \<Rightarrow> z_state \<Rightarrow> z_state" where
  "z_push_delta env delta st =
     (let st = (case opt_filter (\<lambda>s. s \<noteq> []) (map_str delta ''reasoning_content'') of
                  Some reasoning \<Rightarrow> push_reasoning env reasoning st | None \<Rightarrow> st);
          st = (case opt_filter (\<lambda>s. s \<noteq> []) (map_str delta ''content'') of
                  Some content \<Rightarrow> push_text env content st | None \<Rightarrow> st)
      in case Option.bind (map_get delta ''tool_calls'') as_array of
           Some calls \<Rightarrow> foldl (\<lambda>st call. z_push_tool_call env call st) st calls | None \<Rightarrow> st)"

definition handle_chunk :: "z_env \<Rightarrow> Value \<Rightarrow> z_state \<Rightarrow> z_state" where
  "handle_chunk env chunk st =
     (case opt_filter (\<lambda>e. e \<noteq> Null) (value_get chunk ''error'') of
        Some error \<Rightarrow>
          z_fail env (unwrap_or (get_str error ''message'') ''the Z.ai stream reported an error'') st
      | None \<Rightarrow>
          let st = z_start env chunk st;
              st = (case opt_filter is_object (value_get chunk ''usage'') of
                      Some usage \<Rightarrow> st\<lparr>z_usage := Some (map_usage usage)\<rparr> | None \<Rightarrow> st)
          in case Option.bind (value_get chunk ''choices'') as_array of
               Some (choice # _) \<Rightarrow>
                 (let st = (case Option.bind (value_get choice ''delta'') as_object of
                              Some delta \<Rightarrow> z_push_delta env delta st | None \<Rightarrow> st)
                  in case opt_filter (\<lambda>s. s \<noteq> []) (get_str choice ''finish_reason'') of
                       Some reason \<Rightarrow> complete env (Some reason) st
                     | None \<Rightarrow> st)
             | _ \<Rightarrow> st)"

definition z_data_line :: "bytes \<Rightarrow> bytes \<Rightarrow> bytes" where
  "z_data_line data line =
     (let line = unwrap_or (strip_prefix [CHR 0xEF, CHR 0xBB, CHR 0xBF] line) line
      in if line = [] \<or> starts_with '':'' line then data
         else case split_once (CHR '':'') line of
                None \<Rightarrow> data
              | Some (field, value) \<Rightarrow>
                  if field \<noteq> ''data'' then data
                  else (if data \<noteq> [] then data @ [LF] else data) @ unwrap_or (strip_prefix '' '' value) value)"

definition z_handle_frame :: "z_env \<Rightarrow> bytes \<Rightarrow> z_state \<Rightarrow> (z_state, Error) result" where
  "z_handle_frame env frame st =
     (if \<not> utf8_valid frame then Err (InvalidUpstreamResponse ''the Z.ai stream was not UTF-8'')
      else
        let data = foldl z_data_line [] (lines_of frame)
        in if data = [] then Ok st
           else if trim data = ''[DONE]'' then
             let st = (if \<not> z_terminated st then
                         if z_started st then complete env None st
                         else z_fail env ''the Z.ai stream ended before any content arrived'' st
                       else st)
             in Ok (st\<lparr>z_finished := True\<rparr>)
           else case from_str (z_json env) data of
                  None \<Rightarrow> Err (InvalidUpstreamResponse
                     (''the Z.ai stream sent invalid JSON: '' @ z_json_error env data))
                | Some chunk \<Rightarrow> Ok (handle_chunk env chunk st))"

section \<open>Queue and buffer independence\<close>

text \<open>
  Only \<open>push\<close> touches the buffer and only \<open>emit\<close> the queue, to which it appends. \<open>z_shift\<close>
  replaces the buffer and prepends to the queue; every event-producing operation commutes
  with it.
\<close>

definition z_shift :: "bytes list \<Rightarrow> bytes \<Rightarrow> z_state \<Rightarrow> z_state" where
  "z_shift fs b st = st\<lparr>z_pending := fs @ z_pending st, z_buffer := b\<rparr>"

named_theorems z_shift_simps \<open>operations commute with \<open>z_shift\<close>\<close>

lemma z_shift_sel [simp]:
  "z_model (z_shift fs b st) = z_model st" "z_response_id (z_shift fs b st) = z_response_id st"
  "z_id_stem (z_shift fs b st) = z_id_stem st" "z_request_key (z_shift fs b st) = z_request_key st"
  "z_tools (z_shift fs b st) = z_tools st" "z_buffer (z_shift fs b st) = b"
  "z_pending (z_shift fs b st) = fs @ z_pending st" "z_output (z_shift fs b st) = z_output st"
  "z_calls (z_shift fs b st) = z_calls st" "z_reasoning (z_shift fs b st) = z_reasoning st"
  "z_message (z_shift fs b st) = z_message st" "z_usage (z_shift fs b st) = z_usage st"
  "z_next_output_index (z_shift fs b st) = z_next_output_index st"
  "z_sequence (z_shift fs b st) = z_sequence st" "z_started (z_shift fs b st) = z_started st"
  "z_finished (z_shift fs b st) = z_finished st" "z_terminated (z_shift fs b st) = z_terminated st"
  by (simp_all add: z_shift_def)

lemma z_shift_upd [z_shift_simps]:
  "(z_shift fs b st)\<lparr>z_finished := x1\<rparr> = z_shift fs b (st\<lparr>z_finished := x1\<rparr>)"
  "(z_shift fs b st)\<lparr>z_terminated := x1\<rparr> = z_shift fs b (st\<lparr>z_terminated := x1\<rparr>)"
  "(z_shift fs b st)\<lparr>z_started := x1\<rparr> = z_shift fs b (st\<lparr>z_started := x1\<rparr>)"
  "(z_shift fs b st)\<lparr>z_id_stem := x2\<rparr> = z_shift fs b (st\<lparr>z_id_stem := x2\<rparr>)"
  "(z_shift fs b st)\<lparr>z_response_id := x2\<rparr> = z_shift fs b (st\<lparr>z_response_id := x2\<rparr>)"
  "(z_shift fs b st)\<lparr>z_model := x2\<rparr> = z_shift fs b (st\<lparr>z_model := x2\<rparr>)"
  "(z_shift fs b st)\<lparr>z_output := x3\<rparr> = z_shift fs b (st\<lparr>z_output := x3\<rparr>)"
  "(z_shift fs b st)\<lparr>z_calls := x4\<rparr> = z_shift fs b (st\<lparr>z_calls := x4\<rparr>)"
  "(z_shift fs b st)\<lparr>z_reasoning := x5\<rparr> = z_shift fs b (st\<lparr>z_reasoning := x5\<rparr>)"
  "(z_shift fs b st)\<lparr>z_message := x5\<rparr> = z_shift fs b (st\<lparr>z_message := x5\<rparr>)"
  "(z_shift fs b st)\<lparr>z_usage := x6\<rparr> = z_shift fs b (st\<lparr>z_usage := x6\<rparr>)"
  "(z_shift fs b st)\<lparr>z_next_output_index := x7\<rparr> = z_shift fs b (st\<lparr>z_next_output_index := x7\<rparr>)"
  by (simp_all add: z_shift_def)

lemma z_emit_shift [z_shift_simps]: "z_emit env k body (z_shift fs b st) = z_shift fs b (z_emit env k body st)"
  by (simp add: z_emit_def Let_def z_shift_def)

lemma z_view_shift [z_shift_simps]:
  "z_fail_body m (z_shift fs b st) = z_fail_body m st"
  "response_envelope status r inc (z_shift fs b st) = response_envelope status r inc st"
  "derive_id_stem c (z_shift fs b st) = derive_id_stem c st"
  "item_id p i (z_shift fs b st) = item_id p i st"
  by (simp_all add: z_fail_body_def response_envelope_def derive_id_stem_def item_id_def z_shift_def
      Let_def split: option.split)

lemma z_fail_shift [z_shift_simps]: "z_fail env m (z_shift fs b st) = z_shift fs b (z_fail env m st)"
  by (simp add: z_fail_def z_shift_simps)

lemma z_start_shift [z_shift_simps]: "z_start env c (z_shift fs b st) = z_shift fs b (z_start env c st)"
  by (simp add: z_start_def Let_def z_shift_simps split: option.split)

lemma close_reasoning_shift [z_shift_simps]:
  "close_reasoning env (z_shift fs b st) = z_shift fs b (close_reasoning env st)"
  by (simp add: close_reasoning_def Let_def z_shift_simps split: option.split)

lemma close_message_shift [z_shift_simps]:
  "close_message env (z_shift fs b st) = z_shift fs b (close_message env st)"
  by (simp add: close_message_def Let_def z_shift_simps split: option.split)

lemma push_reasoning_shift [z_shift_simps]:
  "push_reasoning env d (z_shift fs b st) = z_shift fs b (push_reasoning env d st)"
  by (simp add: push_reasoning_def open_reasoning_def Let_def z_shift_simps split: option.split)

lemma push_text_shift [z_shift_simps]:
  "push_text env d (z_shift fs b st) = z_shift fs b (push_text env d st)"
  by (simp add: push_text_def open_message_def Let_def z_shift_simps split: option.split)

lemma set_call_shift [z_shift_simps]: "set_call i f (z_shift fs b st) = z_shift fs b (set_call i f st)"
  by (simp add: set_call_def z_shift_simps)

lemma register_call_shift [z_shift_simps]:
  "register_call i (z_shift fs b st) = z_shift fs b (register_call i st)"
  by (simp add: register_call_def Let_def z_shift_simps)

lemma identify_call_shift [z_shift_simps]:
  "identify_call c f i (z_shift fs b st) = z_shift fs b (identify_call c f i st)"
  by (simp add: identify_call_def Let_def z_shift_simps split: option.split)

lemma announce_call_shift [z_shift_simps]:
  "announce_call env i (z_shift fs b st) = z_shift fs b (announce_call env i st)"
  by (simp add: announce_call_def Let_def z_shift_simps)

lemma append_arguments_shift [z_shift_simps]:
  "append_arguments env f i (z_shift fs b st) = z_shift fs b (append_arguments env f i st)"
  by (simp add: append_arguments_def Let_def z_shift_simps split: option.split)

lemma z_push_tool_call_shift [z_shift_simps]:
  "z_push_tool_call env c (z_shift fs b st) = z_shift fs b (z_push_tool_call env c st)"
  by (simp add: z_push_tool_call_def Let_def z_shift_simps)

lemma close_call_shift [z_shift_simps]: "close_call env (z_shift fs b st) c = z_shift fs b (close_call env st c)"
  by (simp add: close_call_def Let_def z_shift_simps)

lemma foldl_shift:
  "(\<And>st x. f (z_shift fs b st) x = z_shift fs b (f st x)) \<Longrightarrow>
   foldl f (z_shift fs b st) xs = z_shift fs b (foldl f st xs)"
  by (induction xs arbitrary: st) simp_all

lemma complete_shift [z_shift_simps]: "complete env r (z_shift fs b st) = z_shift fs b (complete env r st)"
  by (simp add: complete_def close_tool_calls_def Let_def z_shift_simps foldl_shift)

lemma z_push_delta_shift [z_shift_simps]:
  "z_push_delta env d (z_shift fs b st) = z_shift fs b (z_push_delta env d st)"
  by (simp add: z_push_delta_def Let_def z_shift_simps foldl_shift split: option.split)

lemma handle_chunk_shift [z_shift_simps]:
  "handle_chunk env c (z_shift fs b st) = z_shift fs b (handle_chunk env c st)"
  by (simp add: handle_chunk_def Let_def z_shift_simps split: option.split list.split)

lemma z_handle_frame_shift [z_shift_simps]:
  "z_handle_frame env f (z_shift fs b st) =
     (case z_handle_frame env f st of Ok st' \<Rightarrow> Ok (z_shift fs b st') | Err e \<Rightarrow> Err e)"
  by (simp add: z_handle_frame_def Let_def z_shift_simps split: option.split)

lemma z_handle_frame_buffer: "z_handle_frame env f st = Ok st' \<Longrightarrow> z_buffer st' = z_buffer st"
proof -
  assume ok: "z_handle_frame env f st = Ok st'"
  have "z_shift [] (z_buffer st) st = st"
    by (simp add: z_shift_def)
  with ok z_handle_frame_shift [of env f "[]" "z_buffer st" st] have "st' = z_shift [] (z_buffer st) st'"
    by simp
  then show "z_buffer st' = z_buffer st"
    by (metis z_shift_sel(6))
qed

section \<open>The stream\<close>

function z_drain :: "z_env \<Rightarrow> z_state \<Rightarrow> z_state" where
  "z_drain env st =
     (case zai_complete_frame_len (z_buffer st) of
        None \<Rightarrow> st
      | Some n \<Rightarrow>
          (let frame = take n (z_buffer st);
               st = st\<lparr>z_buffer := drop n (z_buffer st)\<rparr>
           in case z_handle_frame env frame st of
                Err error \<Rightarrow> z_fail env (error_display (z_status_text env) error) st
              | Ok st \<Rightarrow> if z_terminated st then st else z_drain env st))"
  by pat_completeness auto
termination
proof (relation "measure (\<lambda>(env, st). length (z_buffer st))", goal_cases)
  case (2 env st n frame st1 st2)
  then have "0 < n" "n \<le> length (z_buffer st)"
    using zai_scanner.scan_bounds by blast+
  with 2 z_handle_frame_buffer show ?case by fastforce
qed simp

declare z_drain.simps [simp del]

definition z_push :: "z_env \<Rightarrow> bytes \<Rightarrow> z_state \<Rightarrow> z_state" where
  "z_push env chunk st =
     (if z_terminated st then st
      else if length (z_buffer st) + length chunk > MAX_BUFFERED_BYTES then
        z_fail env ''the Z.ai stream exceeded the buffered event limit'' st
      else z_drain env (st\<lparr>z_buffer := z_buffer st @ chunk\<rparr>))"

definition end_of_stream :: "z_env \<Rightarrow> z_state \<Rightarrow> z_state" where
  "end_of_stream env st =
     (if z_terminated st then st\<lparr>z_finished := True\<rparr>
      else (z_fail env ''the Z.ai stream ended before a terminal event'' st)\<lparr>z_finished := True\<rparr>)"

datatype z_upstream = ZChunk bytes | ZErr Error

fun z_on_event :: "z_env \<Rightarrow> z_upstream \<Rightarrow> z_state \<Rightarrow> z_state" where
  "z_on_event env (ZChunk chunk) st = z_push env chunk st"
| "z_on_event env (ZErr error) st =
     z_fail env (''upstream stream failed: '' @ error_display (z_status_text env) error) st"

lemma end_of_stream_finished [simp]: "z_finished (end_of_stream env st)"
  by (simp add: end_of_stream_def)

function z_poll :: "z_env \<Rightarrow> z_state \<Rightarrow> z_upstream list \<Rightarrow> bytes option \<times> z_state \<times> z_upstream list" where
  "z_poll env st body =
     (case z_pending st of
        frame # rest \<Rightarrow> (Some frame, st\<lparr>z_pending := rest\<rparr>, body)
      | [] \<Rightarrow>
          if z_finished st then (None, st, body)
          else (case body of
                  [] \<Rightarrow> z_poll env (end_of_stream env st) []
                | event # rest \<Rightarrow> z_poll env (z_on_event env event st) rest))"
  by pat_completeness auto
termination
  by (relation "measure (\<lambda>(env, st, body). 2 * length body + (if z_finished st then 0 else 1))") auto

declare z_poll.simps [simp del]

fun z_drive :: "z_env \<Rightarrow> z_state \<Rightarrow> z_upstream list \<Rightarrow> z_state" where
  "z_drive env st [] = (if z_finished st then st else end_of_stream env st)"
| "z_drive env st (event # rest) =
     (if z_finished st then st else z_drive env (z_on_event env event st) rest)"

section \<open>Polling delivers the batch\<close>

abbreviation z_prefix :: "bytes list \<Rightarrow> z_state \<Rightarrow> z_state" where
  "z_prefix fs st \<equiv> z_shift fs (z_buffer st) st"

lemma z_shift_buffer: "(z_shift fs b st)\<lparr>z_buffer := b'\<rparr> = z_shift fs b' (st\<lparr>z_buffer := b'\<rparr>)"
  by (simp add: z_shift_def)

lemma z_fail_buffer [simp]: "z_buffer (z_fail env m st) = z_buffer st"
  by (simp add: z_fail_def z_emit_def Let_def)

lemma z_drain_prefix: "z_drain env (z_prefix fs st) = z_prefix fs (z_drain env st)"
proof (induction env st rule: z_drain.induct)
  case (1 env st)
  show ?case
  proof (cases "zai_complete_frame_len (z_buffer st)")
    case None
    then show ?thesis by (simp add: z_drain.simps)
  next
    case (Some n)
    let ?st = "st\<lparr>z_buffer := drop n (z_buffer st)\<rparr>" and ?f = "take n (z_buffer st)"
    have ih: "z_handle_frame env ?f ?st = Ok st2 \<Longrightarrow> \<not> z_terminated st2 \<Longrightarrow>
        z_drain env (z_prefix fs st2) = z_prefix fs (z_drain env st2)" for st2
      by (rule "1.IH" [OF Some refl refl])
    show ?thesis
    proof (cases "z_handle_frame env ?f ?st")
      case (Ok st2)
      then have "z_buffer st2 = drop n (z_buffer st)"
        using z_handle_frame_buffer by fastforce
      with Some Ok ih [OF Ok] show ?thesis
        by (simp add: z_drain.simps [of env st] z_drain.simps [of env "z_prefix fs st"] z_shift_buffer z_shift_simps)
    next
      case (Err e)
      with Some show ?thesis
        by (simp add: z_drain.simps [of env st] z_drain.simps [of env "z_prefix fs st"] z_shift_buffer z_shift_simps)
    qed
  qed
qed

lemma z_on_event_prefix: "z_on_event env e (z_prefix fs st) = z_prefix fs (z_on_event env e st)"
proof (cases e)
  case (ZChunk c)
  have "z_drain env (z_shift fs (z_buffer st @ c) (st\<lparr>z_buffer := z_buffer st @ c\<rparr>)) =
      z_prefix fs (z_drain env (st\<lparr>z_buffer := z_buffer st @ c\<rparr>))"
    using z_drain_prefix [of env fs "st\<lparr>z_buffer := z_buffer st @ c\<rparr>"] by simp
  with ZChunk show ?thesis
    by (simp add: z_push_def z_shift_simps z_shift_buffer)
qed (simp add: z_shift_simps)

lemma end_of_stream_prefix: "end_of_stream env (z_prefix fs st) = z_prefix fs (end_of_stream env st)"
  by (simp add: end_of_stream_def z_shift_simps)

lemma z_drive_prefix: "z_drive env (z_prefix fs st) body = z_prefix fs (z_drive env st body)"
  by (induction body arbitrary: st) (simp_all add: end_of_stream_prefix z_on_event_prefix)

lemma z_drive_finished: "z_finished st \<Longrightarrow> z_drive env st body = st"
  by (cases body) simp_all

lemma z_drive_pop:
  assumes "z_pending st = f # fs"
  shows "z_pending (z_drive env st body) = f # z_pending (z_drive env (st\<lparr>z_pending := fs\<rparr>) body)"
proof -
  have "st = z_prefix [f] (st\<lparr>z_pending := fs\<rparr>)"
    using assms by (simp add: z_shift_def)
  then show ?thesis
    using z_drive_prefix [of env "[f]" "st\<lparr>z_pending := fs\<rparr>" body] by (metis append_Cons append_Nil z_shift_sel(7))
qed

lemma z_poll_drive:
  "z_poll env st body = (x, st', body') \<Longrightarrow>
   z_pending (z_drive env st body) =
     (case x of None \<Rightarrow> [] | Some f \<Rightarrow> f # z_pending (z_drive env st' body'))"
proof (induction env st body rule: z_poll.induct)
  case (1 env st body)
  show ?case
  proof (cases "z_pending st")
    case (Cons f fs)
    with "1.prems" show ?thesis by (auto simp: z_poll.simps z_drive_pop)
  next
    case Nil
    show ?thesis
    proof (cases "z_finished st")
      case True
      with Nil "1.prems" show ?thesis by (auto simp: z_poll.simps z_drive_finished)
    next
      case False
      with Nil "1.prems" "1.IH" [OF Nil False] show ?thesis
        by (cases body) (simp_all add: z_poll.simps [of env st] z_drive_finished)
    qed
  qed
qed

interpretation zai_stream: batch_stream "z_poll env" "\<lambda>st body. z_pending (z_drive env st body)"
  for env
  by unfold_locales (simp_all add: z_poll_drive)

end
