(* ===== verification/Zai_Outcome.thy ===== *)
theory Zai_Outcome
  imports Zai_Stream Sse_Outcome
begin

text \<open>
  What the Z.ai synthesizer emits: every event has a kind of the gateway's allowlist, the shape
  the gateway checks for it and the next sequence number; the stream ends with one terminal
  event. The lemmas follow the code: one emitted event, the item operations, a chunk, a frame,
  the stream.
\<close>

section \<open>Well-formed events\<close>

definition quiet :: "bytes \<Rightarrow> bool" where
  "quiet k = (k \<noteq> ''error'' \<and> \<not> is_terminal_event k)"

definition z_event_ok :: "u64 \<Rightarrow> bytes \<times> Value \<Rightarrow> bool" where
  "z_event_ok n e =
     (json_exact (snd e) \<and> get_str (snd e) ''type'' = Some (fst e) \<and>
      value_get (snd e) ''sequence_number'' = Some (json_u64 n) \<and> is_known_event (fst e) \<and>
      \<not> is_metadata_event (fst e) \<and> validate_event_shape (fst e) (snd e) = Ok ())"

fun events_ok :: "u64 \<Rightarrow> (bytes \<times> Value) list \<Rightarrow> bool" where
  "events_ok n [] = True"
| "events_ok n (e # es) = (z_event_ok n e \<and> events_ok (n + 1) es)"

lemma events_ok_append: "events_ok n (a @ b) \<longleftrightarrow> events_ok n a \<and> events_ok (n + of_nat (length a)) b"
  by (induction a arbitrary: n) (auto simp: algebra_simps)

definition z_frame :: "z_env \<Rightarrow> bytes \<times> Value \<Rightarrow> bytes" where
  "z_frame env e = sse_frame (fst e) (to_string (z_json env) (snd e))"

lemma known_event_text: "is_known_event k \<Longrightarrow> one_line k \<and> is_ascii k"
proof -
  have "list_all (\<lambda>k. one_line k \<and> is_ascii k) known_events"
    by (simp add: known_events_def)
  then show "is_known_event k \<Longrightarrow> one_line k \<and> is_ascii k"
    by (auto simp: is_known_event_def list_all_iff)
qed

lemma z_frame_inspect:
  assumes sj: "serde_json_spec (z_json env)" and ok: "z_event_ok n e"
  shows "inspect_frame (z_json env) (z_frame env e) =
     Ok (Keep \<lparr>event_kind = fst e, event_sequence = Some n, event_value = snd e\<rparr>)"
proof -
  let ?s = "to_string (z_json env) (snd e)"
  have exact: "json_exact (snd e)" and k: "one_line (fst e)" "utf8_valid (fst e)"
    using ok known_event_text [of "fst e"] by (auto simp: z_event_ok_def intro: utf8_valid_ascii)
  then have "one_line ?s" "utf8_valid ?s" "?s \<noteq> ''[DONE]''" "from_str (z_json env) ?s = Some (snd e)"
    using serde_line [OF sj json_exact_wf [OF exact]] serde_not_done [OF sj exact] serde_roundtrip [OF sj exact]
    by (auto simp: one_line_def)
  then have "inspect_frame (z_json env) (z_frame env e) = inspect_value (Some (fst e)) (snd e)"
    using k by (simp add: z_frame_def inspect_frame_sse_frame)
  also have "\<dots> = Ok (Keep \<lparr>event_kind = fst e, event_sequence = Some n, event_value = snd e\<rparr>)"
    using ok by (simp add: z_event_ok_def inspect_value_def json_u64_def)
  finally show ?thesis .
qed

text \<open>The shape requirement of each kind, on the body of an event.\<close>

definition z_shape :: "bytes \<Rightarrow> jmap \<Rightarrow> bool" where
  "z_shape k body \<longleftrightarrow>
     k \<noteq> ''response.cancelled'' \<and>
     (k \<in> set lifecycle_events \<longrightarrow>
        (\<exists>r i. map_get body ''response'' = Some (Object r) \<and> map_str r ''id'' = Some i \<and> safe_protocol_identifier i)) \<and>
     (k \<in> set delta_events \<longrightarrow> (\<exists>s. map_get body ''delta'' = Some (String s))) \<and>
     (k \<in> {''response.output_item.added'', ''response.output_item.done''} \<longrightarrow>
        (\<exists>m. map_get body ''item'' = Some (Object m))) \<and>
     (k = ''error'' \<longrightarrow> (\<exists>s. map_get body ''message'' = Some (String s) \<and> s \<noteq> []))"

lemma z_event_get: "x \<notin> {''type'', ''sequence_number''} \<Longrightarrow> value_get (z_event k n body) x = map_get body x"
  by (simp add: z_event_def)

lemma z_shape_valid: "z_shape k body \<Longrightarrow> validate_event_shape k (z_event k n body) = Ok ()"
proof -
  assume shape: "z_shape k body"
  let ?v = "z_event k n body"
  have get: "value_get ?v ''response'' = map_get body ''response''" "value_get ?v ''delta'' = map_get body ''delta''"
    "value_get ?v ''item'' = map_get body ''item''" "get_str ?v ''message'' = map_str body ''message''"
    by (simp_all add: z_event_get get_str_def map_str_def)
  note c = shape [unfolded z_shape_def]
  note cancelled = c [THEN conjunct1]
    and life = c [THEN conjunct2, THEN conjunct1, rule_format]
    and delta = c [THEN conjunct2, THEN conjunct2, THEN conjunct1, rule_format]
    and item = c [THEN conjunct2, THEN conjunct2, THEN conjunct2, THEN conjunct1, rule_format]
    and err = c [THEN conjunct2, THEN conjunct2, THEN conjunct2, THEN conjunct2, rule_format]
  have 1: "(if k \<in> set lifecycle_events then
          and_then (ok_or (Option.bind (map_get body ''response'') as_object)
                      ''upstream response lifecycle event had no response object'')
            (\<lambda>response.
               and_then (ok_or (opt_filter safe_protocol_identifier (map_str response ''id''))
                           ''upstream response lifecycle event had no valid response id'')
                 (\<lambda>_. Ok ()))
        else Ok ()) = Ok ()"
  proof (cases "k \<in> set lifecycle_events")
    case True
    from life [OF this] True show ?thesis by auto
  qed (simp only: if_False)
  have 2: "(k \<in> set delta_events \<and> \<not> is_some_and is_string (map_get body ''delta'')) = False"
  proof (cases "k \<in> set delta_events")
    case True
    from delta [OF this] show ?thesis by (auto simp: is_string_def)
  qed (simp only: simp_thms)
  have 3: "(k \<in> set [''response.output_item.added'', ''response.output_item.done''] \<and>
      \<not> is_some_and is_object (map_get body ''item'')) = False"
  proof (cases "k \<in> {''response.output_item.added'', ''response.output_item.done''}")
    case True
    from item [OF this] show ?thesis by (auto simp: is_object_def)
  qed simp
  have 4: "(k = ''error'' \<and> unwrap_or (map_option (\<lambda>m. m = []) (map_str body ''message'')) True) = False"
  proof (cases "k = ''error''")
    case True
    from err [OF this] show ?thesis by (auto simp: map_str_def)
  qed (simp only: simp_thms)
  show ?thesis
    unfolding validate_event_shape_def get 1 2 3 4 using cancelled
    by (simp only: and_then.simps if_False)
qed

lemma z_event_exact:
  assumes "\<And>x v. (x, v) \<in> set kvs \<Longrightarrow> utf8_valid x \<and> json_exact_le 8 v" and "utf8_valid k"
  shows "json_exact (z_event k n (map_build kvs))"
proof -
  have "json_exact_le (Suc 8) (Object (map_build kvs))"
    using json_exact_le_object [of kvs 8] assms(1) unfolding json_object_def by blast
  then have "json_exact_le (Suc 8) (z_event k n (map_build kvs))"
    unfolding z_event_def using assms(2)
    by (intro json_exact_le_insert) simp_all
  then show ?thesis
    by (rule json_exact_leI) simp
qed

lemma z_event_okI:
  assumes "is_known_event k" "\<not> is_metadata_event k" "z_shape k (map_build kvs)"
    and "\<And>x v. (x, v) \<in> set kvs \<Longrightarrow> utf8_valid x \<and> json_exact_le 8 v"
  shows "z_event_ok n (k, z_event k n (map_build kvs))"
proof -
  have "utf8_valid k"
    using known_event_text [OF assms(1)] by (simp add: utf8_valid_ascii)
  then have "json_exact (z_event k n (map_build kvs))"
    using assms(4) by (rule z_event_exact [rotated])
  then show ?thesis
    using assms(1,2) z_shape_valid [OF assms(3)] by (simp add: z_event_ok_def) (simp add: z_event_def get_str_def)
qed

section \<open>Invariant\<close>

definition id_bytes :: "bytes \<Rightarrow> bool" where
  "id_bytes s = (s \<noteq> [] \<and> list_all (\<lambda>c. is_ascii_alphanumeric c \<or> c \<in> set ''_-'') s)"

definition names_utf8 :: "ToolNames \<Rightarrow> bool" where
  "names_utf8 names = (\<forall>e x. map_get (decoded names) e = Some x \<longrightarrow> utf8_valid x)"

definition item_ok :: "TextItem option \<Rightarrow> bool" where
  "item_ok it = (\<forall>x. it = Some x \<longrightarrow> utf8_valid (item_key x) \<and> utf8_valid (item_text x))"

definition call_ok :: "PendingCall \<Rightarrow> bool" where
  "call_ok c = (utf8_valid (call_key c) \<and> utf8_valid (call_id c) \<and> utf8_valid (call_name c) \<and>
     utf8_valid (call_arguments c))"

definition z_inv :: "z_state \<Rightarrow> bool" where
  "z_inv st =
     (utf8_valid (z_model st) \<and> utf8_valid (z_response_id st) \<and> utf8_valid (z_id_stem st) \<and>
      (z_started st \<longrightarrow> safe_protocol_identifier (z_response_id st)) \<and>
      names_utf8 (z_tools st) \<and> (\<forall>v \<in> set (z_output st). json_exact_le 4 v) \<and>
      (\<forall>c \<in> set (z_calls st). call_ok c) \<and> item_ok (z_reasoning st) \<and> item_ok (z_message st) \<and>
      (\<forall>u. z_usage st = Some u \<longrightarrow> json_exact_le 2 u))"

lemma z_inv_new: "utf8_valid model \<Longrightarrow> names_utf8 tools \<Longrightarrow> z_inv (z_new model key tools)"
  by (simp add: z_inv_def z_new_def item_ok_def)

lemma id_bytes_ascii: "id_bytes s \<Longrightarrow> is_ascii s"
proof -
  have "is_ascii_alphanumeric c \<or> c \<in> set ''_-'' \<Longrightarrow> byte c < 128" for c
    by (auto dest: alphanumeric_ascii)
  then show "id_bytes s \<Longrightarrow> is_ascii s"
    by (auto simp: id_bytes_def is_ascii_def list_all_iff)
qed

lemma sanitize_identifier_ok: "id_bytes (sanitize_identifier x) \<and> length (sanitize_identifier x) \<le> 64"
proof -
  let ?p = "\<lambda>c. is_ascii_alphanumeric c \<or> c \<in> set ''_-''"
  have "list_all ?p (take n (filter ?p x))" for n
    by (auto simp: list_all_iff dest!: in_set_takeD)
  moreover have "id_bytes ''unknown''"
    by (simp add: id_bytes_def is_ascii_alphanumeric_def)
  ultimately show ?thesis
    by (auto simp: sanitize_identifier_def Let_def id_bytes_def MAX_IDENTIFIER_BYTES_def)
qed

lemma id_bytes_safe:
  assumes "id_bytes s" "length s \<le> 512"
  shows "safe_protocol_identifier s"
proof -
  have "is_ascii_alphanumeric c \<or> c \<in> set ''_-'' \<Longrightarrow> \<not> is_control (byte c) \<and> \<not> is_whitespace (byte c)" for c
    by (auto simp: is_ascii_alphanumeric_def is_ascii_digit_def is_control_def is_whitespace_def)
  with assms show ?thesis
    by (auto simp: safe_protocol_identifier_def chars_ascii id_bytes_ascii list_ex_iff id_bytes_def list_all_iff)
qed

lemma resp_stem_safe: "safe_protocol_identifier (''resp_'' @ sanitize_identifier x)"
proof (rule id_bytes_safe)
  show "id_bytes (''resp_'' @ sanitize_identifier x)"
    using sanitize_identifier_ok [of x] by (simp add: id_bytes_def is_ascii_alphanumeric_def)
  show "length (''resp_'' @ sanitize_identifier x) \<le> 512"
    using sanitize_identifier_ok [of x] by simp
qed

lemma sanitize_identifier_utf8 [simp]: "utf8_valid (sanitize_identifier x)"
  using sanitize_identifier_ok id_bytes_ascii utf8_valid_ascii by blast


section \<open>Emitting\<close>

definition z_emits :: "z_env \<Rightarrow> z_state \<Rightarrow> (bytes \<times> Value) list \<Rightarrow> z_state \<Rightarrow> bool" where
  "z_emits env st evs st' =
     (z_pending st' = z_pending st @ map (z_frame env) evs \<and>
      z_sequence st' = z_sequence st + of_nat (length evs) \<and> events_ok (z_sequence st) evs)"

definition z_runs :: "z_env \<Rightarrow> z_state \<Rightarrow> z_state \<Rightarrow> bool" where
  "z_runs env st st' =
     ((\<exists>evs. z_emits env st evs st' \<and> (\<forall>e \<in> set evs. quiet (fst e))) \<and> z_inv st' \<and>
      z_terminated st' = z_terminated st \<and> z_finished st' = z_finished st \<and>
      (z_started st \<longrightarrow> z_started st'))"

lemma z_emits_trans: "z_emits env a xs b \<Longrightarrow> z_emits env b ys c \<Longrightarrow> z_emits env a (xs @ ys) c"
  by (simp add: z_emits_def events_ok_append)

lemma z_runs_refl: "z_inv st \<Longrightarrow> z_runs env st st"
  by (auto simp: z_runs_def z_emits_def intro!: exI [of _ "[]"])

lemma z_runs_trans [trans]: "z_runs env a b \<Longrightarrow> z_runs env b c \<Longrightarrow> z_runs env a c"
proof -
  assume ab: "z_runs env a b" and bc: "z_runs env b c"
  from ab obtain xs where "z_emits env a xs b" "\<forall>e \<in> set xs. quiet (fst e)"
    by (auto simp: z_runs_def)
  moreover from bc obtain ys where "z_emits env b ys c" "\<forall>e \<in> set ys. quiet (fst e)"
    by (auto simp: z_runs_def)
  ultimately have "z_emits env a (xs @ ys) c" "\<forall>e \<in> set (xs @ ys). quiet (fst e)"
    using z_emits_trans by auto
  then have "\<exists>evs. z_emits env a evs c \<and> (\<forall>e \<in> set evs. quiet (fst e))" by blast
  moreover have "z_inv c" "z_terminated c = z_terminated a" "z_finished c = z_finished a"
    "z_started a \<longrightarrow> z_started c"
    using ab bc by (simp_all add: z_runs_def)
  ultimately show "z_runs env a c"
    by (simp add: z_runs_def)
qed

lemma z_runs_inv: "z_runs env a b \<Longrightarrow> z_inv b"
  by (simp add: z_runs_def)

text \<open>Updates of fields that neither the queue nor the flags depend on.\<close>

definition z_same_queue :: "z_state \<Rightarrow> z_state \<Rightarrow> bool" where
  "z_same_queue a b =
     (z_pending a = z_pending b \<and> z_sequence a = z_sequence b \<and> z_terminated a = z_terminated b \<and>
      z_finished a = z_finished b \<and> (z_started a \<longrightarrow> z_started b))"

lemma z_runs_update: "z_runs env a b \<Longrightarrow> z_same_queue b c \<Longrightarrow> z_inv c \<Longrightarrow> z_runs env a c"
  by (auto simp: z_runs_def z_emits_def z_same_queue_def)

lemma z_runs_fields:
  assumes "z_runs env a st"
  shows "json_exact_le 4 v \<Longrightarrow> z_runs env a (st\<lparr>z_output := z_output st @ [v]\<rparr>)"
    and "item_ok it \<Longrightarrow> z_runs env a (st\<lparr>z_reasoning := it\<rparr>)"
    and "item_ok it \<Longrightarrow> z_runs env a (st\<lparr>z_message := it\<rparr>)"
    and "z_runs env a (st\<lparr>z_next_output_index := i\<rparr>)"
    and "\<forall>c \<in> set cs. call_ok c \<Longrightarrow> z_runs env a (st\<lparr>z_calls := cs\<rparr>)"
    and "json_exact_le 2 u \<Longrightarrow> z_runs env a (st\<lparr>z_usage := Some u\<rparr>)"
  using z_runs_inv [OF assms]
  by (auto intro!: z_runs_update [OF assms] simp: z_inv_def z_same_queue_def)

lemma z_emit_sel [simp]:
  "z_reasoning (z_emit env k b st) = z_reasoning st" "z_message (z_emit env k b st) = z_message st"
  "z_output (z_emit env k b st) = z_output st" "z_calls (z_emit env k b st) = z_calls st"
  "z_next_output_index (z_emit env k b st) = z_next_output_index st"
  "z_id_stem (z_emit env k b st) = z_id_stem st" "z_tools (z_emit env k b st) = z_tools st"
  "z_started (z_emit env k b st) = z_started st" "z_terminated (z_emit env k b st) = z_terminated st"
  "z_finished (z_emit env k b st) = z_finished st" "z_response_id (z_emit env k b st) = z_response_id st"
  "z_model (z_emit env k b st) = z_model st" "z_usage (z_emit env k b st) = z_usage st"
  by (simp_all add: z_emit_def Let_def)

lemma z_runs_emit:
  assumes "z_runs env a st" "is_known_event k" "\<not> is_metadata_event k" "quiet k" "z_shape k (map_build kvs)"
    and "\<And>x v. (x, v) \<in> set kvs \<Longrightarrow> utf8_valid x \<and> json_exact_le 8 v"
  shows "z_runs env a (z_emit env k (map_build kvs) st)"
proof -
  let ?e = "(k, z_event k (z_sequence st) (map_build kvs))"
  have "z_event_ok (z_sequence st) ?e"
    using assms by (intro z_event_okI)
  then have "z_emits env st [?e] (z_emit env k (map_build kvs) st)"
    by (simp add: z_emits_def z_emit_def Let_def z_frame_def sse_frame_def)
  moreover have "z_inv (z_emit env k (map_build kvs) st)"
    using z_runs_inv [OF assms(1)] by (simp add: z_inv_def z_emit_def Let_def)
  ultimately have "z_runs env st (z_emit env k (map_build kvs) st)"
    using assms(4) unfolding z_runs_def by (auto simp: z_emit_def Let_def)
  with assms(1) show ?thesis by (rule z_runs_trans)
qed

text \<open>The kinds the item operations emit.\<close>

definition item_kinds :: "bytes list" where
  "item_kinds = [''response.created'', ''response.in_progress'', ''response.output_item.added'',
     ''response.output_item.done'', ''response.reasoning_summary_part.added'',
     ''response.reasoning_summary_part.done'', ''response.reasoning_summary_text.delta'',
     ''response.reasoning_summary_text.done'', ''response.content_part.added'', ''response.content_part.done'',
     ''response.output_text.delta'', ''response.output_text.done'', ''response.function_call_arguments.delta'',
     ''response.function_call_arguments.done'', ''response.custom_tool_call_input.delta'',
     ''response.custom_tool_call_input.done'']"

lemma item_kinds_ok:
  "k \<in> set item_kinds \<Longrightarrow> is_known_event k \<and> \<not> is_metadata_event k \<and> quiet k"
proof -
  have "list_all (\<lambda>k. is_known_event k \<and> \<not> is_metadata_event k \<and> quiet k) item_kinds"
    by (simp add: item_kinds_def is_known_event_def known_events_def is_metadata_event_def quiet_def
        is_terminal_event_def)
  then show "k \<in> set item_kinds \<Longrightarrow> is_known_event k \<and> \<not> is_metadata_event k \<and> quiet k"
    by (simp add: list_all_iff)
qed

lemma z_runs_item:
  assumes "z_runs env a st" "k \<in> set item_kinds" "z_shape k (map_build kvs)"
    and "list_all (\<lambda>kv. utf8_valid (fst kv) \<and> json_exact_le 8 (snd kv)) kvs"
  shows "z_runs env a (z_emit env k (map_build kvs) st)"
  using assms item_kinds_ok [OF assms(2)]
  by (intro z_runs_emit) (auto simp: list_all_iff)


section \<open>Item operations\<close>

lemma nat_json_exact [simp]: "json_exact_le n (nat_json i)"
  by (simp add: nat_json_def)

lemma json_object_exact:
  "list_all (\<lambda>kv. utf8_valid (fst kv) \<and> json_exact_le n (snd kv)) kvs \<Longrightarrow> json_exact_le (Suc n) (json_object kvs)"
  by (rule json_exact_le_object) (auto simp: list_all_iff)

lemma json_exact_le_mono: "json_exact_le n v \<Longrightarrow> n \<le> m \<Longrightarrow> json_exact_le m v"
proof -
  have "json_depth_le n v \<Longrightarrow> n \<le> m \<Longrightarrow> json_depth_le m v"
  proof (induction n v arbitrary: m rule: json_depth_le.induct)
    case (3 n vs)
    then show ?case by (cases m) auto
  next
    case (4 n kvs)
    then show ?case by (cases m) auto
  qed auto
  then show "json_exact_le n v \<Longrightarrow> n \<le> m \<Longrightarrow> json_exact_le m v"
    by (auto simp: json_exact_le_def)
qed

lemmas z_item_simps = item_kinds_def z_shape_def lifecycle_events_def delta_events_def map_get_build

lemma json_object_is_object: "\<exists>m. json_object kvs = Object m"
  by (simp add: json_object_def)

lemma shape_item:
  "k \<in> {''response.output_item.added'', ''response.output_item.done''} \<Longrightarrow> map_get body ''item'' = Some (json_object kvs) \<Longrightarrow>
   z_shape k body"
  by (auto simp: z_shape_def lifecycle_events_def delta_events_def json_object_def)

lemma close_reasoning_runs:
  assumes "z_inv st"
  shows "z_runs env st (close_reasoning env st)"
proof (cases "z_reasoning st")
  case None
  with assms show ?thesis by (simp add: close_reasoning_def z_runs_refl)
next
  case (Some c)
  let ?k = "String (item_key c)" and ?i = "nat_json (item_index c)"
  let ?sum = "json_object [(''type'', String ''summary_text''), (''text'', String (item_text c))]"
  let ?item = "json_object [(''id'', ?k), (''type'', String ''reasoning''), (''summary'', Array [?sum])]"
  let ?st0 = "st\<lparr>z_reasoning := None\<rparr>"
  let ?st1 = "z_emit env ''response.reasoning_summary_text.done'' (map_build [(''item_id'', ?k), (''output_index'', ?i),
                (''summary_index'', nat_json 0), (''text'', String (item_text c))]) ?st0"
  let ?st2 = "z_emit env ''response.reasoning_summary_part.done'' (map_build [(''item_id'', ?k), (''output_index'', ?i),
                (''summary_index'', nat_json 0), (''part'', ?sum)]) ?st1"
  let ?st3 = "z_emit env ''response.output_item.done'' (map_build [(''output_index'', ?i), (''item'', ?item)]) ?st2"
  have utf8: "utf8_valid (item_key c)" "utf8_valid (item_text c)"
    using assms Some by (simp_all add: z_inv_def item_ok_def)
  have sum: "json_exact_le (Suc n) ?sum" for n
    using utf8 by (intro json_object_exact) simp
  have item: "json_exact_le (Suc (Suc (Suc n))) ?item" for n
    using utf8 sum by (intro json_object_exact) (simp add: json_exact_le_array)
  have "z_runs env st ?st0"
    using assms by (intro z_runs_fields z_runs_refl) (simp_all add: item_ok_def)
  then have "z_runs env st ?st1"
    by (rule z_runs_item) (use utf8 in \<open>simp_all add: z_item_simps\<close>)
  then have "z_runs env st ?st2"
    by (rule z_runs_item) (use utf8 sum [of 7] in \<open>simp_all add: z_item_simps numeral_eq_Suc\<close>)
  then have "z_runs env st ?st3"
    by (rule z_runs_item) (use item [of 5] in \<open>simp_all add: shape_item map_get_build item_kinds_def numeral_eq_Suc\<close>)
  then have "z_runs env st (?st3\<lparr>z_output := z_output ?st3 @ [?item]\<rparr>)"
    by (rule z_runs_fields) (use item [of 1] in \<open>simp add: numeral_eq_Suc\<close>)
  then show ?thesis
    by (simp add: close_reasoning_def Some Let_def)
qed


lemma item_id_utf8: "z_inv st \<Longrightarrow> is_ascii p \<Longrightarrow> utf8_valid (item_id p i st)"
  by (simp add: item_id_def z_inv_def utf8_valid_append utf8_valid_ascii)

lemma close_message_runs:
  assumes "z_inv st"
  shows "z_runs env st (close_message env st)"
proof (cases "z_message st")
  case None
  with assms show ?thesis by (simp add: close_message_def z_runs_refl)
next
  case (Some c)
  have utf8: "utf8_valid (item_key c)" "utf8_valid (item_text c)"
    using assms Some by (simp_all add: z_inv_def item_ok_def)
  let ?part = "json_object [(''type'', String ''output_text''), (''text'', String (item_text c)), (''annotations'', Array [])]"
  let ?item = "json_object [(''id'', String (item_key c)), (''type'', String ''message''),
      (''status'', String ''completed''), (''role'', String ''assistant''), (''content'', Array [?part])]"
  have part: "json_exact_le (Suc (Suc n)) ?part" for n
    using utf8 by (intro json_object_exact) (simp add: json_exact_le_array)
  have item: "json_exact_le (Suc (Suc (Suc (Suc n)))) ?item" for n
    using utf8 part by (intro json_object_exact) (simp add: json_exact_le_array)
  show ?thesis
    unfolding close_message_def Some option.case Let_def
    by (intro z_runs_item z_runs_fields z_runs_refl assms)
       (use utf8 part [of 6] item [of 4] item [of 0] in
         \<open>simp_all add: z_item_simps shape_item item_ok_def numeral_eq_Suc json_object_is_object\<close>)
qed

lemma open_reasoning_runs:
  assumes "z_inv st"
  shows "z_runs env st (open_reasoning env st) \<and> z_reasoning (open_reasoning env st) \<noteq> None"
proof (cases "z_reasoning st")
  case (Some c)
  with assms show ?thesis by (simp add: open_reasoning_def z_runs_refl)
next
  case None
  let ?key = "item_id ''rs'' (z_next_output_index st) (st\<lparr>z_next_output_index := z_next_output_index st + 1\<rparr>)"
  have key: "utf8_valid ?key"
    using assms by (intro item_id_utf8) (simp_all add: z_inv_def)
  have item: "json_exact_le (Suc (Suc n)) (json_object [(''id'', String ?key), (''type'', String ''reasoning''), (''summary'', Array [])])" for n
    using key by (intro json_object_exact) (simp add: json_exact_le_array)
  have part: "json_exact_le (Suc n) (json_object [(''type'', String ''summary_text''), (''text'', String [])])" for n
    by (intro json_object_exact) simp
  have "z_runs env st (open_reasoning env st)"
    unfolding open_reasoning_def None Let_def
    by (simp only: not_None_eq simp_thms option.distinct if_False, intro z_runs_item z_runs_fields z_runs_refl assms)
       (use key item [of 6] part [of 7] in
         \<open>simp_all add: z_item_simps shape_item item_ok_def numeral_eq_Suc json_object_is_object\<close>)
  with None show ?thesis
    by (simp add: open_reasoning_def Let_def)
qed

lemma push_reasoning_runs:
  assumes "z_inv st" "utf8_valid delta"
  shows "z_runs env st (push_reasoning env delta st)"
proof -
  let ?st = "open_reasoning env (close_message env st)"
  have msg: "z_runs env st (close_message env st)"
    by (rule close_message_runs [OF assms(1)])
  obtain c where runs: "z_runs env st ?st" and c: "z_reasoning ?st = Some c"
    using open_reasoning_runs [OF z_runs_inv [OF msg], of env] z_runs_trans [OF msg] by blast
  have "utf8_valid (item_key c)" "utf8_valid (item_text c)"
    using z_runs_inv [OF runs] c by (simp_all add: z_inv_def item_ok_def)
  then show ?thesis
    unfolding push_reasoning_def Let_def c option.case
    by (intro z_runs_item z_runs_fields runs)
       (use assms in \<open>simp_all add: z_item_simps item_ok_def utf8_valid_append\<close>)
qed

lemma open_message_runs:
  assumes "z_inv st"
  shows "z_runs env st (open_message env st) \<and> z_message (open_message env st) \<noteq> None"
proof (cases "z_message st")
  case (Some c)
  with assms show ?thesis by (simp add: open_message_def z_runs_refl)
next
  case None
  let ?key = "item_id ''msg'' (z_next_output_index st) (st\<lparr>z_next_output_index := z_next_output_index st + 1\<rparr>)"
  have key: "utf8_valid ?key"
    using assms by (intro item_id_utf8) (simp_all add: z_inv_def)
  have item: "json_exact_le (Suc (Suc n)) (json_object [(''id'', String ?key), (''type'', String ''message''),
      (''status'', String ''in_progress''), (''role'', String ''assistant''), (''content'', Array [])])" for n
    using key by (intro json_object_exact) (simp add: json_exact_le_array)
  have part: "json_exact_le (Suc (Suc n)) (json_object [(''type'', String ''output_text''), (''text'', String []), (''annotations'', Array [])])" for n
    by (intro json_object_exact) (simp add: json_exact_le_array)
  have "z_runs env st (open_message env st)"
    unfolding open_message_def None Let_def
    by (simp only: not_None_eq simp_thms option.distinct if_False, intro z_runs_item z_runs_fields z_runs_refl assms)
       (use key item [of 6] part [of 6] in
         \<open>simp_all add: z_item_simps shape_item item_ok_def numeral_eq_Suc json_object_is_object\<close>)
  with None show ?thesis
    by (simp add: open_message_def Let_def)
qed

lemma push_text_runs:
  assumes "z_inv st" "utf8_valid delta"
  shows "z_runs env st (push_text env delta st)"
proof -
  let ?st = "open_message env (close_reasoning env st)"
  have msg: "z_runs env st (close_reasoning env st)"
    by (rule close_reasoning_runs [OF assms(1)])
  obtain c where runs: "z_runs env st ?st" and c: "z_message ?st = Some c"
    using open_message_runs [OF z_runs_inv [OF msg], of env] z_runs_trans [OF msg] by blast
  have "utf8_valid (item_key c)" "utf8_valid (item_text c)"
    using z_runs_inv [OF runs] c by (simp_all add: z_inv_def item_ok_def)
  then show ?thesis
    unfolding push_text_def Let_def c option.case
    by (intro z_runs_item z_runs_fields runs)
       (use assms in \<open>simp_all add: z_item_simps item_ok_def utf8_valid_append\<close>)
qed


section \<open>Tool calls\<close>

lemma z_runs_set_call:
  assumes "z_runs env a st" "i < length (z_calls st)" "call_ok (f (z_calls st ! i))"
  shows "z_runs env a (set_call i f st)"
  using assms(1)
  unfolding set_call_def
  by (rule z_runs_fields)
     (use assms z_runs_inv [OF assms(1)] in \<open>auto simp: z_inv_def dest!: set_update_subset_insert [THEN subsetD]\<close>)

lemma set_call_length [simp]: "length (z_calls (set_call i f st)) = length (z_calls st)"
  by (simp add: set_call_def)

lemma z_inv_call: "z_inv st \<Longrightarrow> i < length (z_calls st) \<Longrightarrow> call_ok (z_calls st ! i)"
  by (simp add: z_inv_def)

definition calls_run :: "z_env \<Rightarrow> nat \<Rightarrow> z_state \<Rightarrow> z_state \<Rightarrow> bool" where
  "calls_run env i a st = (z_runs env a st \<and> i < length (z_calls st))"

lemma register_call_runs:
  assumes "calls_run env i a st"
  shows "calls_run env i a (register_call i st)"
proof (cases "call_key (z_calls st ! i) = []")
  case True
  let ?st = "st\<lparr>z_next_output_index := z_next_output_index st + 1\<rparr>"
  have inv: "z_inv st" "call_ok (z_calls st ! i)"
    using assms z_runs_inv z_inv_call by (auto simp: calls_run_def)
  have "z_runs env a ?st"
    using assms by (intro z_runs_fields) (simp add: calls_run_def)
  then have "z_runs env a (set_call i (\<lambda>c. c\<lparr>call_index := z_next_output_index st,
             call_key := ''fc_'' @ z_id_stem ?st @ ''_'' @ show_nat (z_next_output_index st)\<rparr>) ?st)"
    by (rule z_runs_set_call)
       (use assms inv in \<open>auto simp: calls_run_def call_ok_def z_inv_def utf8_valid_append utf8_valid_ascii\<close>)
  with True assms show ?thesis
    by (simp add: register_call_def Let_def calls_run_def)
qed (use assms in \<open>simp add: register_call_def\<close>)

lemma identify_call_runs:
  assumes "calls_run env i a st" "json_wf call" "\<forall>f. function = Some f \<longrightarrow> json_wf (Object f)"
  shows "calls_run env i a (identify_call call function i st)"
proof -
  let ?st1 = "case opt_filter (\<lambda>s. s \<noteq> []) (get_str call ''id'') of
                  Some cid \<Rightarrow>
                    if call_id (z_calls st ! i) = [] then
                      set_call i (\<lambda>c. c\<lparr>call_id := sanitize_identifier cid\<rparr>) st
                    else st
                | None \<Rightarrow> st"
  have st: "z_runs env a st" "i < length (z_calls st)" "call_ok (z_calls st ! i)"
    using assms(1) z_inv_call z_runs_inv by (auto simp: calls_run_def)
  have "z_runs env a (set_call i (\<lambda>c. c\<lparr>call_id := sanitize_identifier cid\<rparr>) st)" for cid
    using st by (intro z_runs_set_call) (auto simp: call_ok_def)
  with st have 1: "z_runs env a ?st1" "i < length (z_calls ?st1)"
    by (auto split: option.split)
  have "utf8_valid (decode (z_tools ?st1) name)" if "map_str f ''name'' = Some name" "function = Some f" for f name
  proof -
    have "utf8_valid name"
      using that assms(3) json_wf_get_str [of "Object f" "''name''" name] by simp
    then show ?thesis
      using z_runs_inv [OF 1(1)]
      by (cases "map_get (decoded (z_tools ?st1)) name") (auto simp: decode_def z_inv_def names_utf8_def)
  qed
  then have "z_runs env a (set_call i (\<lambda>c. c\<lparr>call_encoded_name := name, call_name := decode (z_tools ?st1) name,
                 call_freeform := is_freeform (z_tools ?st1) name\<rparr>) ?st1)"
    if "Option.bind function (\<lambda>f. map_str f ''name'') = Some name" for name
    using 1 z_inv_call [OF z_runs_inv [OF 1(1)] 1(2)] that
    by (intro z_runs_set_call) (auto simp: call_ok_def bind_eq_Some_conv)
  with 1 show ?thesis
    unfolding identify_call_def Let_def calls_run_def
    by (auto split: option.split)
qed

lemma call_item_exact:
  assumes "call_ok c" "utf8_valid arguments" "utf8_valid input" "is_ascii status"
  shows "json_exact_le (Suc n) (call_item c status arguments input)"
  using assms unfolding call_item_def
  by (auto intro!: json_object_exact simp: call_ok_def utf8_valid_ascii)

lemma call_item_object: "\<exists>m. call_item c status arguments input = Object m"
  by (simp add: call_item_def json_object_def)

lemma announce_call_runs:
  assumes "calls_run env i a st"
  shows "calls_run env i a (announce_call env i st)"
proof -
  let ?c = "z_calls st ! i" and ?st = "set_call i (\<lambda>c. c\<lparr>call_announced := True\<rparr>) st"
  have st: "z_runs env a st" "i < length (z_calls st)" "call_ok ?c"
    using assms z_inv_call z_runs_inv by (auto simp: calls_run_def)
  have "z_runs env a ?st"
    using st by (intro z_runs_set_call) (auto simp: call_ok_def)
  then have "z_runs env a (z_emit env ''response.output_item.added'' (map_build [
                (''output_index'', nat_json (call_index ?c)), (''item'', call_item ?c ''in_progress'' [] [])]) ?st)"
    by (rule z_runs_item)
       (use st call_item_exact [of ?c "[]" "[]" "''in_progress''" 7] call_item_object in
         \<open>simp_all add: z_item_simps numeral_eq_Suc\<close>)
  with st show ?thesis
    by (auto simp: announce_call_def Let_def calls_run_def)
qed

lemma append_arguments_runs:
  assumes "calls_run env i a st" "\<forall>f. function = Some f \<longrightarrow> json_wf (Object f)"
  shows "calls_run env i a (append_arguments env function i st)"
proof (cases "opt_filter (\<lambda>s. s \<noteq> []) (Option.bind function (\<lambda>f. map_str f ''arguments''))")
  case None
  with assms show ?thesis by (simp add: append_arguments_def)
next
  case (Some fragment)
  let ?st = "set_call i (\<lambda>c. c\<lparr>call_arguments := call_arguments c @ fragment\<rparr>) st"
  have frag: "utf8_valid fragment"
    using Some assms(2) json_wf_get_str [of "Object f" "''arguments''" fragment for f]
    by (auto simp: bind_eq_Some_conv)
  have st: "z_runs env a st" "i < length (z_calls st)" "call_ok (z_calls st ! i)"
    using assms(1) z_inv_call z_runs_inv by (auto simp: calls_run_def)
  have runs: "z_runs env a ?st"
    using st frag by (intro z_runs_set_call) (auto simp: call_ok_def utf8_valid_append)
  have c: "call_ok (z_calls ?st ! i)"
    using z_inv_call [OF z_runs_inv [OF runs]] st(2) by simp
  have "z_runs env a (z_emit env ''response.function_call_arguments.delta'' (map_build [
                 (''item_id'', String (call_key (z_calls ?st ! i))),
                 (''output_index'', nat_json (call_index (z_calls ?st ! i))), (''delta'', String fragment)]) ?st)"
    using runs by (rule z_runs_item) (use c frag in \<open>simp_all add: z_item_simps call_ok_def\<close>)
  with Some runs st show ?thesis
    by (auto simp: append_arguments_def Let_def calls_run_def)
qed

lemma z_push_tool_call_runs:
  assumes "z_inv st" "json_wf call"
  shows "z_runs env st (z_push_tool_call env call st)"
proof -
  let ?st = "close_message env (close_reasoning env st)"
  let ?i = "unat (unwrap_or (Option.bind (value_get call ''index'') as_u64) 0)"
  let ?f = "Option.bind (value_get call ''function'') as_object"
  have "z_runs env st ?st"
    using close_reasoning_runs [OF assms(1)] close_message_runs z_runs_inv z_runs_trans by blast
  then have "z_runs env st (?st\<lparr>z_calls := grow_calls ?i (z_calls ?st)\<rparr>)"
    by (rule z_runs_fields)
       (use z_runs_inv [OF \<open>z_runs env st ?st\<close>] in
         \<open>auto simp: grow_calls_def z_inv_def PendingCall_default_def call_ok_def\<close>)
  then have "calls_run env ?i st (?st\<lparr>z_calls := grow_calls ?i (z_calls ?st)\<rparr>)"
    by (simp add: calls_run_def grow_calls_def)
  moreover have "\<forall>f. ?f = Some f \<longrightarrow> json_wf (Object f)"
    using json_wf_get [OF assms(2)] by (metis as_object_Some bind_eq_Some_conv)
  ultimately have "calls_run env ?i st (append_arguments env ?f ?i (announce_call env ?i (identify_call call ?f ?i
      (register_call ?i (?st\<lparr>z_calls := grow_calls ?i (z_calls ?st)\<rparr>)))))"
    by (intro append_arguments_runs announce_call_runs identify_call_runs register_call_runs assms(2))
  then show ?thesis
    by (simp add: z_push_tool_call_def Let_def calls_run_def)
qed

lemma freeform_input_utf8:
  assumes "serde_json_spec sj" "utf8_valid a"
  shows "utf8_valid (freeform_input sj a)"
proof (cases "Option.bind (from_str sj a) (\<lambda>value. get_str value ''input'')")
  case (Some s)
  then show ?thesis
    using json_wf_get_str [OF serde_parse_wf [OF assms(1)]] by (auto simp: freeform_input_def bind_eq_Some_conv)
qed (simp add: freeform_input_def assms)

lemma close_call_runs:
  assumes "z_runs env a st" "call_ok c" "serde_json_spec (z_json env)"
  shows "z_runs env a (close_call env st c)"
proof (cases "call_freeform c")
  case True
  let ?input = "freeform_input (z_json env) (call_arguments c)"
  have "utf8_valid ?input"
    using assms freeform_input_utf8 by (simp add: call_ok_def)
  moreover from this have "json_exact_le (Suc n) (call_item c ''completed'' [] ?input)" for n
    using assms(2) by (intro call_item_exact) simp_all
  ultimately show ?thesis
    unfolding close_call_def Let_def using True assms(2) call_item_object [of c "''completed''" "[]" ?input]
    by (simp only: if_True, intro z_runs_item z_runs_fields assms)
       (simp_all add: z_item_simps call_ok_def numeral_eq_Suc)
next
  case False
  let ?args = "if call_arguments c = [] then ''{}'' else call_arguments c"
  have "utf8_valid ?args"
    using assms(2) by (simp add: call_ok_def)
  moreover from this have "json_exact_le (Suc n) (call_item c ''completed'' ?args [])" for n
    using assms(2) by (intro call_item_exact) simp_all
  ultimately show ?thesis
    unfolding close_call_def Let_def using False assms(2) call_item_object [of c "''completed''" ?args "[]"]
    by (simp only: if_False, intro z_runs_item z_runs_fields assms)
       (simp_all add: z_item_simps call_ok_def numeral_eq_Suc split del: if_split)
qed

lemma close_tool_calls_runs:
  assumes "z_inv st" "serde_json_spec (z_json env)"
  shows "z_runs env st (close_tool_calls env st)"
proof -
  have fold: "z_runs env st s \<Longrightarrow> \<forall>c \<in> set cs. call_ok c \<Longrightarrow> z_runs env st (foldl (close_call env) s cs)" for s cs
    by (induction cs arbitrary: s) (auto intro: close_call_runs assms(2))
  have "z_runs env st (st\<lparr>z_calls := []\<rparr>)"
    using assms by (intro z_runs_fields z_runs_refl) simp_all
  then show ?thesis
    unfolding close_tool_calls_def by (rule fold) (use assms in \<open>auto simp: z_inv_def\<close>)
qed


lemma close_all_runs:
  assumes "z_inv st" "serde_json_spec (z_json env)"
  shows "z_runs env st (close_tool_calls env (close_message env (close_reasoning env st)))"
proof -
  note r = close_reasoning_runs [OF assms(1), of env]
  note m = z_runs_trans [OF r close_message_runs [OF z_runs_inv [OF r]]]
  show ?thesis
    by (rule z_runs_trans [OF m close_tool_calls_runs [OF z_runs_inv [OF m] assms(2)]])
qed

section \<open>Start and end of a response\<close>

lemma response_envelope_exact:
  assumes "z_inv st" "is_ascii status"
  shows "json_exact_le 6 (response_envelope status r inc st)"
proof -
  let ?kvs = "[(''id'', String (z_response_id st)), (''object'', String ''response''), (''status'', String status),
            (''model'', String (z_model st)), (''output'', Array (if inc then z_output st else []))]"
  have six: "(6::nat) = Suc 5" "(5::nat) = Suc 4" by simp_all
  have "json_exact_le 5 (Array (if inc then z_output st else []))"
    using assms(1) unfolding six(2) json_exact_le_array by (auto simp: z_inv_def)
  then have base: "json_exact_le 6 (Object (map_build ?kvs))"
    using assms json_object_exact [of 5 ?kvs] unfolding six(1) json_object_def
    by (simp add: z_inv_def utf8_valid_ascii)
  have usage: "z_usage st = Some u \<Longrightarrow> json_exact_le 5 u" for u
    using assms(1) by (auto simp: z_inv_def intro: json_exact_le_mono)
  have details: "json_exact_le 5 (json_object [(''reason'', String ''max_output_tokens'')])"
    unfolding six(2) by (intro json_object_exact) simp
  have ins: "json_exact_le 6 (Object m) \<Longrightarrow> utf8_valid k \<Longrightarrow> json_exact_le 5 v \<Longrightarrow> json_exact_le 6 (Object (map_insert k v m))" for m k v
    unfolding six(1) by (rule json_exact_le_insert)
  show ?thesis
    unfolding response_envelope_def Let_def
    using base usage details by (auto intro!: ins split: option.split)
qed

lemma response_envelope_shape:
  "\<exists>m. response_envelope status r inc st = Object m \<and> map_str m ''id'' = Some (z_response_id st)"
  by (auto simp: response_envelope_def Let_def map_str_def map_get_build split: option.split)

lemma lifecycle_shape:
  assumes "k \<in> {''response.created'', ''response.in_progress'', ''response.completed'', ''response.incomplete''}"
    and "safe_protocol_identifier (z_response_id st)"
  shows "z_shape k (map_build [(''response'', response_envelope status r inc st)])"
  using assms response_envelope_shape [of status r inc st]
  by (auto simp: z_shape_def lifecycle_events_def delta_events_def map_get_build)

lemma z_start_runs:
  assumes "z_inv st" "json_wf chunk"
  shows "z_runs env st (z_start env chunk st) \<and> z_started (z_start env chunk st)"
proof (cases "z_started st")
  case True
  with assms show ?thesis by (simp add: z_start_def z_runs_refl)
next
  case False
  let ?stem = "derive_id_stem chunk st"
  let ?st1 = "st\<lparr>z_started := True, z_id_stem := ?stem, z_response_id := ''resp_'' @ ?stem\<rparr>"
  let ?st2 = "case opt_filter (\<lambda>s. s \<noteq> []) (get_str chunk ''model'') of
                    Some model \<Rightarrow> ?st1\<lparr>z_model := model\<rparr> | None \<Rightarrow> ?st1"
  let ?r = "response_envelope ''in_progress'' None False ?st2"
  have model: "get_str chunk ''model'' = Some m \<Longrightarrow> utf8_valid m" for m
    using assms(2) by (rule json_wf_get_str)
  have "z_inv ?st1"
    using assms(1) resp_stem_safe by (simp add: z_inv_def derive_id_stem_def)
  then have inv: "z_inv ?st2"
    using model by (auto simp: z_inv_def split: option.split)
  then have st2: "z_runs env st ?st2"
    using assms(1)
    by (intro z_runs_update [OF z_runs_refl]) (auto simp: z_same_queue_def split: option.split)
  have safe: "safe_protocol_identifier (z_response_id ?st2)"
    using resp_stem_safe by (auto simp: derive_id_stem_def split: option.split)
  have exact: "json_exact_le 8 ?r"
    using response_envelope_exact [OF inv, of "''in_progress''" None False] by (simp add: json_exact_le_mono)
  have "z_runs env st (z_emit env ''response.created'' (map_build [(''response'', ?r)]) ?st2)"
    by (rule z_runs_item [OF st2]) (use safe exact in \<open>simp_all add: lifecycle_shape item_kinds_def\<close>)
  then have "z_runs env st (z_emit env ''response.in_progress'' (map_build [(''response'', ?r)])
      (z_emit env ''response.created'' (map_build [(''response'', ?r)]) ?st2))"
    by (rule z_runs_item) (use safe exact in \<open>simp_all add: lifecycle_shape item_kinds_def\<close>)
  moreover have "z_started ?st2"
    by (simp split: option.split)
  moreover have "z_start env chunk st = z_emit env ''response.in_progress'' (map_build [(''response'', ?r)])
      (z_emit env ''response.created'' (map_build [(''response'', ?r)]) ?st2)"
    unfolding z_start_def Let_def by (simp only: False if_False)
  ultimately show ?thesis
    by (simp only: z_emit_sel simp_thms)
qed

text \<open>The last event: a normal end, or an \<open>error\<close> event, accepted unless its message is empty.\<close>

definition final_event :: "u64 \<Rightarrow> bytes \<times> Value \<Rightarrow> bool" where
  "final_event n e =
     (fst e \<in> {''response.completed'', ''response.incomplete'', ''error''} \<and>
      (z_event_ok n e \<or>
       fst e = ''error'' \<and> json_exact (snd e) \<and> get_str (snd e) ''type'' = Some ''error'' \<and>
       value_get (snd e) ''sequence_number'' = Some (json_u64 n) \<and> get_str (snd e) ''message'' = Some []))"

definition z_ends :: "z_env \<Rightarrow> z_state \<Rightarrow> z_state \<Rightarrow> bool" where
  "z_ends env st st' =
     ((\<exists>evs e. z_pending st' = z_pending st @ map (z_frame env) (evs @ [e]) \<and> events_ok (z_sequence st) evs \<and>
         (\<forall>x \<in> set evs. quiet (fst x)) \<and> final_event (z_sequence st + of_nat (length evs)) e) \<and>
      z_terminated st' \<and> z_finished st')"

lemma z_runs_ends:
  assumes "z_runs env a b" "z_ends env b c"
  shows "z_ends env a c"
proof -
  from assms(1) obtain xs where xs: "z_emits env a xs b" "\<forall>e \<in> set xs. quiet (fst e)"
    by (auto simp: z_runs_def)
  from assms(2) obtain ys e where ys: "z_pending c = z_pending b @ map (z_frame env) (ys @ [e])"
    "events_ok (z_sequence b) ys" "\<forall>x \<in> set ys. quiet (fst x)" "final_event (z_sequence b + of_nat (length ys)) e"
    by (auto simp: z_ends_def)
  have "z_pending c = z_pending a @ map (z_frame env) ((xs @ ys) @ [e])" "events_ok (z_sequence a) (xs @ ys)"
    "\<forall>x \<in> set (xs @ ys). quiet (fst x)" "final_event (z_sequence a + of_nat (length (xs @ ys))) e"
    using xs ys by (auto simp: z_emits_def events_ok_append algebra_simps)
  then show ?thesis
    using assms(2) unfolding z_ends_def by blast
qed

lemma z_ends_finish: "z_ends env a b \<Longrightarrow> z_ends env a (b\<lparr>z_finished := True\<rparr>)"
  by (simp add: z_ends_def)

lemma z_fail_ends:
  assumes "z_inv st" "utf8_valid msg" "\<not> z_terminated st"
  shows "z_ends env st (z_fail env msg st)"
proof -
  let ?kvs = "[(''message'', String msg), (''code'', String ''invalid_request'')] @
     (if z_response_id st \<noteq> [] then [(''response_id'', String (z_response_id st))] else [])"
  let ?e = "(''error'', z_event ''error'' (z_sequence st) (z_fail_body msg st))"
  have body: "z_fail_body msg st = map_build ?kvs"
    by (simp add: z_fail_body_def Let_def map_build_def)
  have get: "map_get (z_fail_body msg st) ''message'' = Some (String msg)"
    by (simp add: body map_get_build)
  have "msg \<noteq> [] \<Longrightarrow> z_shape ''error'' (map_build ?kvs)"
    using get unfolding body by (simp add: z_shape_def lifecycle_events_def delta_events_def)
  then have "msg \<noteq> [] \<Longrightarrow> z_event_ok (z_sequence st) ?e"
    unfolding body
    by (rule z_event_okI [rotated 2])
       (use assms(1,2) in \<open>auto simp: is_known_event_def known_events_def is_metadata_event_def
          z_inv_def split: if_split_asm\<close>)
  moreover have "json_exact (snd ?e)"
    unfolding body snd_conv
    by (rule z_event_exact) (use assms(1,2) in \<open>auto simp: z_inv_def split: if_split_asm\<close>)
  moreover have "get_str (snd ?e) ''type'' = Some ''error''"
    "value_get (snd ?e) ''sequence_number'' = Some (json_u64 (z_sequence st))"
    by (simp_all add: z_event_def get_str_def)
  ultimately have "final_event (z_sequence st) ?e"
    using get by (auto simp: final_event_def get_str_def z_event_get)
  moreover have "z_pending (z_fail env msg st) = z_pending st @ map (z_frame env) ([] @ [?e])"
    using assms(3) by (simp add: z_fail_def z_emit_def Let_def z_frame_def sse_frame_def)
  ultimately show ?thesis
    using assms(3) unfolding z_ends_def
    by (intro conjI exI [of _ "[]"] exI [of _ ?e]) (simp_all add: z_fail_def)
qed

lemma complete_ends:
  assumes "z_inv st" "\<not> z_terminated st" "serde_json_spec (z_json env)"
  shows "z_ends env st (complete env reason st)"
proof (cases "z_started st")
  case False
  with assms z_fail_ends [OF assms(1)] show ?thesis
    by (simp add: complete_def)
next
  case True
  let ?st = "close_tool_calls env (close_message env (close_reasoning env st))"
  let ?k = "if reason = Some ''length'' then ''response.incomplete'' else ''response.completed''"
  let ?s = "if reason = Some ''length'' then ''incomplete'' else ''completed''"
  let ?r = "response_envelope ?s reason True ?st"
  let ?e = "(?k, z_event ?k (z_sequence ?st) (map_build [(''response'', ?r)]))"
  have runs: "z_runs env st ?st"
    using close_all_runs [OF assms(1,3)] .
  have "z_started ?st"
    using runs True by (simp add: z_runs_def)
  then have safe: "safe_protocol_identifier (z_response_id ?st)"
    using z_runs_inv [OF runs] by (simp add: z_inv_def)
  have "is_ascii ?s" by simp
  then have "json_exact_le 8 ?r"
    by (rule json_exact_le_mono [OF response_envelope_exact [OF z_runs_inv [OF runs]]]) simp
  then have "z_event_ok (z_sequence ?st) ?e"
    using lifecycle_shape [OF _ safe, of ?k ?s reason True]
    by (intro z_event_okI) (auto simp: is_known_event_def known_events_def is_metadata_event_def)
  then have "final_event (z_sequence ?st) ?e"
    by (simp add: final_event_def)
  then have "z_ends env ?st (complete env reason st)"
    using True assms(2) unfolding z_ends_def
    by (intro conjI exI [of _ "[]"] exI [of _ ?e])
       (simp_all add: complete_def Let_def z_emit_def z_frame_def sse_frame_def)
  with runs show ?thesis by (rule z_runs_ends)
qed


section \<open>Chunks, frames and the stream\<close>

definition z_env_ok :: "z_env \<Rightarrow> bool" where
  "z_env_ok env =
     (serde_json_spec (z_json env) \<and> (\<forall>s. utf8_valid (z_json_error env s)) \<and> (\<forall>n. utf8_valid (z_status_text env n)))"

definition z_moves :: "z_env \<Rightarrow> z_state \<Rightarrow> z_state \<Rightarrow> bool" where
  "z_moves env st st' = (z_runs env st st' \<or> z_ends env st st')"

lemma z_moves_trans: "z_runs env a b \<Longrightarrow> z_moves env b c \<Longrightarrow> z_moves env a c"
  using z_runs_trans z_runs_ends by (auto simp: z_moves_def)

lemma z_runs_buffer: "z_runs env a st \<Longrightarrow> z_runs env a (st\<lparr>z_buffer := b\<rparr>)"
  by (rule z_runs_update) (auto simp: z_same_queue_def z_inv_def dest!: z_runs_inv)

lemma json_wf_map_str: "json_wf (Object m) \<Longrightarrow> map_str m k = Some s \<Longrightarrow> utf8_valid s"
  using json_wf_get_str [of "Object m" k s] by simp

lemma z_push_delta_runs:
  assumes "z_inv st" "json_wf (Object delta)"
  shows "z_runs env st (z_push_delta env delta st)"
proof -
  let ?a = "case opt_filter (\<lambda>s. s \<noteq> []) (map_str delta ''reasoning_content'') of
                  Some reasoning \<Rightarrow> push_reasoning env reasoning st | None \<Rightarrow> st"
  let ?b = "case opt_filter (\<lambda>s. s \<noteq> []) (map_str delta ''content'') of
                  Some content \<Rightarrow> push_text env content ?a | None \<Rightarrow> ?a"
  have a: "z_runs env st ?a"
    using z_runs_refl [OF assms(1)] push_reasoning_runs [OF assms(1)] json_wf_map_str [OF assms(2)]
    by (auto split: option.split)
  have b: "z_runs env st ?b"
  proof (cases "opt_filter (\<lambda>s. s \<noteq> []) (map_str delta ''content'')")
    case None
    with a show ?thesis by (simp only: option.case)
  next
    case (Some content)
    then have "utf8_valid content"
      using json_wf_map_str [OF assms(2)] by auto
    then show ?thesis
      unfolding Some option.case by (rule z_runs_trans [OF a push_text_runs [OF z_runs_inv [OF a]]])
  qed
  have fold: "z_runs env st s \<Longrightarrow> \<forall>c \<in> set cs. json_wf c \<Longrightarrow>
      z_runs env st (foldl (\<lambda>st call. z_push_tool_call env call st) s cs)" for s cs
  proof (induction cs arbitrary: s)
    case (Cons c cs)
    then have "z_runs env st (z_push_tool_call env c s)"
      by (intro z_runs_trans [OF Cons.prems(1) z_push_tool_call_runs [OF z_runs_inv [OF Cons.prems(1)]]]) simp
    with Cons show ?case by simp
  qed simp
  have "\<forall>c \<in> set cs. json_wf c" if "map_get delta ''tool_calls'' = Some (Array cs)" for cs
    using json_wf_get [of "Object delta" "''tool_calls''" "Array cs"] assms(2) that by simp
  with b fold [OF b] show ?thesis
    unfolding z_push_delta_def Let_def by (auto simp: bind_eq_Some_conv split: option.split)
qed

lemma map_usage_exact: "json_exact_le 2 (map_usage u)"
proof -
  have two: "(2::nat) = Suc 1" by simp
  have base: "json_exact_le 2 (Object [])"
    unfolding two json_exact_le_Object by simp
  have ins: "json_exact_le 2 (Object m) \<Longrightarrow> utf8_valid k \<Longrightarrow> json_exact_le 2 (Object (map_insert k (json_u64 n) m))" for m k n
    unfolding two by (rule json_exact_le_insert) simp_all
  show ?thesis
    unfolding map_usage_def Let_def
    by (auto intro!: ins base split: option.split simp del: map_insert.simps)
qed

lemma handle_chunk_moves:
  assumes "z_env_ok env" "z_inv st" "\<not> z_terminated st" "json_wf chunk"
  shows "z_moves env st (handle_chunk env chunk st)"
proof (cases "opt_filter (\<lambda>e. e \<noteq> Null) (value_get chunk ''error'')")
  case (Some err)
  then have "json_wf err"
    using json_wf_get [OF assms(4)] by auto
  then have "utf8_valid (unwrap_or (get_str err ''message'') ''the Z.ai stream reported an error'')"
    by (cases "get_str err ''message''") (auto dest: json_wf_get_str)
  then have "z_ends env st (handle_chunk env chunk st)"
    using z_fail_ends [OF assms(2) _ assms(3)] Some by (simp add: handle_chunk_def)
  then show ?thesis by (simp add: z_moves_def)
next
  case None
  let ?a = "z_start env chunk st"
  let ?b = "case opt_filter is_object (value_get chunk ''usage'') of
              Some usage \<Rightarrow> ?a\<lparr>z_usage := Some (map_usage usage)\<rparr> | None \<Rightarrow> ?a"
  have a: "z_runs env st ?a"
    using z_start_runs [OF assms(2,4)] by blast
  have b: "z_runs env st ?b"
    using a z_runs_fields(6) [OF a map_usage_exact] by (simp split: option.split)
  have chunk: "handle_chunk env chunk st = (case Option.bind (value_get chunk ''choices'') as_array of
               Some (choice # _) \<Rightarrow>
                 (let st = (case Option.bind (value_get choice ''delta'') as_object of
                              Some delta \<Rightarrow> z_push_delta env delta ?b | None \<Rightarrow> ?b)
                  in case opt_filter (\<lambda>s. s \<noteq> []) (get_str choice ''finish_reason'') of
                       Some reason \<Rightarrow> complete env (Some reason) st
                     | None \<Rightarrow> st)
             | _ \<Rightarrow> ?b)"
    unfolding handle_chunk_def None option.case Let_def ..
  show ?thesis
  proof (cases "\<exists>choice cs. value_get chunk ''choices'' = Some (Array (choice # cs))")
    case False
    then have "handle_chunk env chunk st = ?b"
      unfolding chunk by (auto simp: bind_eq_Some_conv split: option.split list.split)
    with b show ?thesis by (simp add: z_moves_def)
  next
    case True
    then obtain choice cs where choice: "value_get chunk ''choices'' = Some (Array (choice # cs))" by blast
    have wf: "json_wf choice"
      using json_wf_get [OF assms(4) choice] by simp
    let ?c = "case Option.bind (value_get choice ''delta'') as_object of
                Some delta \<Rightarrow> z_push_delta env delta ?b | None \<Rightarrow> ?b"
    have "json_wf (Object d)" if "value_get choice ''delta'' = Some (Object d)" for d
      using json_wf_get [OF wf that] .
    then have c: "z_runs env st ?c"
      using b z_runs_trans [OF b z_push_delta_runs [OF z_runs_inv [OF b]]]
      by (auto simp: bind_eq_Some_conv split: option.split)
    then have "\<not> z_terminated ?c"
      using assms(3) by (simp add: z_runs_def)
    then have "z_ends env st (complete env r ?c)" for r
      using z_runs_ends [OF c complete_ends [OF z_runs_inv [OF c]]] assms(1) by (simp add: z_env_ok_def)
    with c show ?thesis
      unfolding chunk choice by (auto simp: z_moves_def Let_def split: option.split)
  qed
qed

lemma z_handle_frame_moves:
  assumes "z_env_ok env" "z_inv st" "\<not> z_terminated st" "z_handle_frame env f st = Ok st'"
  shows "z_moves env st st'"
proof -
  let ?d = "foldl z_data_line [] (lines_of f)"
  have spec: "serde_json_spec (z_json env)"
    using assms(1) by (simp add: z_env_ok_def)
  consider "?d = []" "st' = st"
    | "?d \<noteq> []" "trim ?d = ''[DONE]''" "z_started st" "st' = (complete env None st)\<lparr>z_finished := True\<rparr>"
    | "?d \<noteq> []" "trim ?d = ''[DONE]''"
        "st' = (z_fail env ''the Z.ai stream ended before any content arrived'' st)\<lparr>z_finished := True\<rparr>"
    | chunk where "from_str (z_json env) ?d = Some chunk" "st' = handle_chunk env chunk st"
    using assms(3,4) unfolding z_handle_frame_def Let_def
    by (cases "z_started st") (auto split: if_split_asm option.split_asm)
  then show ?thesis
  proof cases
    case 1
    with assms(2) show ?thesis by (simp add: z_moves_def z_runs_refl)
  next
    case 2
    with complete_ends [OF assms(2,3) spec] show ?thesis by (simp add: z_moves_def z_ends_finish)
  next
    case 3
    with z_fail_ends [OF assms(2) _ assms(3)] show ?thesis by (simp add: z_moves_def z_ends_finish)
  next
    case 4
    with handle_chunk_moves [OF assms(1-3)] serde_parse_wf [OF spec] show ?thesis by auto
  qed
qed

lemma z_handle_frame_error:
  assumes "z_env_ok env" "z_handle_frame env f st = Err e"
  shows "utf8_valid (error_display (z_status_text env) e)"
  using assms unfolding z_handle_frame_def z_env_ok_def
  by (auto simp: Let_def utf8_valid_append split: if_split_asm option.split_asm)

lemma z_drain_moves:
  "z_env_ok env \<Longrightarrow> z_inv st \<Longrightarrow> \<not> z_terminated st \<Longrightarrow> z_moves env st (z_drain env st)"
proof (induction env st rule: z_drain.induct)
  case (1 env st)
  show ?case
  proof (cases "zai_complete_frame_len (z_buffer st)")
    case None
    with "1.prems" show ?thesis by (simp add: z_drain.simps z_moves_def z_runs_refl)
  next
    case (Some n)
    let ?st = "st\<lparr>z_buffer := drop n (z_buffer st)\<rparr>" and ?f = "take n (z_buffer st)"
    have b: "z_runs env st ?st"
      using "1.prems" by (intro z_runs_buffer z_runs_refl)
    have st: "z_inv ?st" "\<not> z_terminated ?st"
      using z_runs_inv [OF b] "1.prems" by simp_all
    show ?thesis
    proof (cases "z_handle_frame env ?f ?st")
      case (Err e)
      with z_fail_ends [OF st(1) z_handle_frame_error [OF "1.prems"(1) Err] st(2)] Some have
        "z_ends env ?st (z_drain env st)"
        by (simp add: z_drain.simps [of env st])
      with b z_runs_ends show ?thesis by (auto simp: z_moves_def)
    next
      case (Ok st2)
      have drain: "z_drain env st = (if z_terminated st2 then st2 else z_drain env st2)"
        using Some Ok by (simp add: z_drain.simps [of env st])
      from z_handle_frame_moves [OF "1.prems"(1) st Ok] consider "z_runs env ?st st2" | "z_ends env ?st st2"
        by (auto simp: z_moves_def)
      then show ?thesis
      proof cases
        case 1
        then have "z_inv st2" "\<not> z_terminated st2"
          using st by (simp_all add: z_runs_def)
        with "1.IH" [OF Some refl refl Ok _ "1.prems"(1)] drain have "z_moves env st2 (z_drain env st)"
          by simp
        with 1 b show ?thesis using z_moves_trans by blast
      next
        case 2
        then have "z_drain env st = st2"
          using drain by (simp add: z_ends_def)
        with 2 b show ?thesis
          using z_runs_ends by (auto simp: z_moves_def)
      qed
    qed
  qed
qed

definition z_event_utf8 :: "z_env \<Rightarrow> z_upstream \<Rightarrow> bool" where
  "z_event_utf8 env e = (case e of ZChunk _ \<Rightarrow> True | ZErr err \<Rightarrow> utf8_valid (error_display (z_status_text env) err))"

lemma z_on_event_moves:
  assumes "z_env_ok env" "z_inv st" "\<not> z_terminated st" "z_event_utf8 env e"
  shows "z_moves env st (z_on_event env e st)"
proof (cases e)
  case (ZChunk c)
  let ?st = "st\<lparr>z_buffer := z_buffer st @ c\<rparr>"
  have b: "z_runs env st ?st"
    using assms by (intro z_runs_buffer z_runs_refl)
  have "z_moves env st (z_drain env ?st)"
    using assms(3) by (intro z_moves_trans [OF b] z_drain_moves assms(1) z_runs_inv [OF b]) simp
  moreover have "z_moves env st (z_fail env ''the Z.ai stream exceeded the buffered event limit'' st)"
    using z_fail_ends [OF assms(2) _ assms(3)] by (simp add: z_moves_def)
  ultimately show ?thesis
    using ZChunk assms(3) by (simp add: z_push_def)
next
  case (ZErr err)
  with assms z_fail_ends [OF assms(2) _ assms(3)] show ?thesis
    by (auto simp: z_moves_def z_event_utf8_def utf8_valid_append)
qed

lemma z_drive_ends:
  assumes "z_env_ok env"
  shows "z_inv st \<Longrightarrow> \<not> z_terminated st \<Longrightarrow> \<not> z_finished st \<Longrightarrow> \<forall>e \<in> set body. z_event_utf8 env e \<Longrightarrow>
     z_ends env st (z_drive env st body)"
proof (induction body arbitrary: st)
  case Nil
  with z_fail_ends [of st "''the Z.ai stream ended before a terminal event''" env] show ?case
    by (simp add: end_of_stream_def z_ends_finish)
next
  case (Cons e es)
  have "z_moves env st (z_on_event env e st)"
    using Cons.prems by (intro z_on_event_moves assms) simp_all
  then consider "z_runs env st (z_on_event env e st)" | "z_ends env st (z_on_event env e st)"
    by (auto simp: z_moves_def)
  then show ?case
  proof cases
    case 1
    then have "z_ends env (z_on_event env e st) (z_drive env (z_on_event env e st) es)"
      using Cons.prems by (intro Cons.IH) (auto simp: z_runs_def)
    with 1 Cons.prems z_runs_ends show ?thesis by simp
  next
    case 2
    then have "z_drive env (z_on_event env e st) es = z_on_event env e st"
      by (simp add: z_drive_finished z_ends_def)
    with 2 Cons.prems show ?thesis by simp
  qed
qed

end
