(* ===== verification/Zai_Request_Props.thy ===== *)
theory Zai_Request_Props
  imports Zai_Request Json_Codec
begin

text \<open>
  What the translated chat request preserves: tool names survive the wire encoding, no tool
  call or result of the history is lost or reordered, and only the documented fields are sent.
\<close>

section \<open>Tool names\<close>

definition names_le :: "ToolNames \<Rightarrow> ToolNames \<Rightarrow> bool" where
  "names_le n n' = (\<forall>e o'. map_get (decoded n) e = Some o' \<longrightarrow> map_get (decoded n') e = Some o')"

lemma names_le_refl: "names_le n n"
  by (simp add: names_le_def)

lemma names_le_trans: "names_le a b \<Longrightarrow> names_le b c \<Longrightarrow> names_le a c"
  by (simp add: names_le_def)

lemma record_name_Ok:
  assumes "record_name original is_free names = Ok (e, names')"
  shows "encode_function_name original = Ok e" and "map_get (decoded names') e = Some original"
    and "names_le names names'" and "is_free \<longrightarrow> is_freeform names' e"
  using assms
  by (auto simp: record_name_def and_then_Ok Let_def names_le_def is_freeform_def is_some_and_iff
      split: if_split_asm)

lemma encode_function_name_wire:
  "encode_function_name original = Ok e \<Longrightarrow> e \<noteq> [] \<and> length e \<le> 64 \<and> list_all wire_byte e"
  by (auto simp: encode_function_name_def Let_def MAX_FUNCTION_NAME_BYTES_def split: if_split_asm)

definition wire_name :: "Value \<Rightarrow> bytes option" where
  "wire_name v = Option.bind (value_get v ''function'') (\<lambda>f. get_str f ''name'')"

definition leaf_name :: "bytes option \<Rightarrow> jmap \<Rightarrow> bytes" where
  "leaf_name ns m =
     (case ns of Some n \<Rightarrow> n @ ''.'' | None \<Rightarrow> []) @ unwrap_or (map_str m ''name'') []"

text \<open>\<open>carries\<close>: a wire object names the tool that \<open>names\<close> decodes to the original.\<close>

definition carries :: "ToolNames \<Rightarrow> Value \<Rightarrow> bytes \<Rightarrow> bool" where
  "carries names v original =
     (\<exists>e. wire_name v = Some e \<and> map_get (decoded names) e = Some original \<and>
          encode_function_name original = Ok e)"

lemma carries_mono: "carries n v x \<Longrightarrow> names_le n n' \<Longrightarrow> carries n' v x"
  by (auto simp: carries_def names_le_def)

lemma qualified_name_Ok: "qualified_name m ns = Ok x \<Longrightarrow> x = leaf_name ns m"
  by (auto simp: qualified_name_def and_then_Ok leaf_name_def nonempty_str_def split: option.splits)

lemma wire_name_tool:
  "wire_name (wire_tool (map_insert ''parameters'' p (with_description m [(''name'', String e)]))) = Some e"
  by (simp add: wire_name_def wire_tool_def with_description_def map_str_def split: option.split)

lemma function_tool_Ok:
  "function_tool m ns names = Ok (w, names') \<Longrightarrow> carries names' w (leaf_name ns m) \<and> names_le names names'"
  by (auto simp: function_tool_def and_then_Ok Let_def carries_def wire_name_tool
      dest!: qualified_name_Ok dest: record_name_Ok)

lemma custom_tool_Ok:
  "custom_tool m ns names = Ok (w, names') \<Longrightarrow> carries names' w (leaf_name ns m) \<and> names_le names names'"
  by (auto simp: custom_tool_def and_then_Ok Let_def carries_def wire_name_tool
      dest!: qualified_name_Ok dest: record_name_Ok)

lemma leaf_tool_Ok:
  assumes "leaf_tool m ns (out, names) = Ok (out', names')"
  shows "\<exists>w. out' = out @ [w] \<and> carries names' w (leaf_name ns m) \<and> names_le names names'"
  using assms
  by (auto simp: leaf_tool_def Let_def and_then_Ok dest: function_tool_Ok custom_tool_Ok split: if_split_asm)

text \<open>The tools a request declares, flattened, by their Muse-facing names.\<close>

definition nested_tools :: "jmap \<Rightarrow> Value list" where
  "nested_tools m = unwrap_or (Option.bind (map_get m ''tools'') as_array) []"

definition tool_names_of :: "Value \<Rightarrow> bytes list" where
  "tool_names_of v =
     (case v of
        Object m \<Rightarrow>
          if map_str m ''type'' = Some ''namespace'' then
            map (\<lambda>t. leaf_name (map_str m ''name'') (unwrap_or (as_object t) [])) (nested_tools m)
          else [leaf_name None m]
      | _ \<Rightarrow> [])"

definition tools_rel :: "ToolNames \<Rightarrow> bytes list \<Rightarrow> Value list \<times> ToolNames \<Rightarrow> bool" where
  "tools_rel names0 xs acc = (names_le names0 (snd acc) \<and> list_all2 (carries (snd acc)) (fst acc) xs)"

lemma tools_rel_snoc:
  assumes "tools_rel n0 xs (out, names)" and "names_le names names'" and "carries names' w x"
  shows "tools_rel n0 (xs @ [x]) (out @ [w], names')"
proof -
  have "list_all2 (carries names') out xs"
    using assms(1,2) by (auto simp: tools_rel_def intro: carries_mono elim!: list_all2_mono)
  with assms show ?thesis
    by (auto simp: tools_rel_def intro: names_le_trans list_all2_appendI)
qed

lemma leaf_tool_rel:
  "tools_rel n0 xs acc \<Longrightarrow> leaf_tool m ns acc = Ok acc' \<Longrightarrow> tools_rel n0 (xs @ [leaf_name ns m]) acc'"
  by (cases acc, cases acc') (auto dest!: leaf_tool_Ok intro: tools_rel_snoc)

lemma namespace_tools_rel:
  assumes "tools_rel n0 xs acc" and "namespace_tools m acc = Ok acc'"
    and "map_str m ''type'' = Some ''namespace''"
  shows "tools_rel n0 (xs @ tool_names_of (Object m)) acc'"
proof -
  from assms(2) obtain ns nested where ns: "map_str m ''name'' = Some ns" "map_get m ''tools'' = Some (Array nested)"
    and fold: "try_fold (\<lambda>acc tool.
         and_then (ok_or (as_object tool) (InvalidRequest ''each namespaced tool must be an object''))
           (\<lambda>tool. leaf_tool tool (Some ns) acc)) acc nested = Ok acc'"
    by (auto simp: namespace_tools_def and_then_Ok nonempty_str_def bind_eq_Some_conv)
  from try_fold_prefix [OF fold, of "\<lambda>ts acc. tools_rel n0
      (xs @ map (\<lambda>t. leaf_name (Some ns) (unwrap_or (as_object t) [])) ts) acc"] assms(1)
  have "tools_rel n0 (xs @ map (\<lambda>t. leaf_name (Some ns) (unwrap_or (as_object t) [])) nested) acc'"
    using leaf_tool_rel by (fastforce simp: and_then_Ok)
  then show ?thesis
    using ns assms(3) by (simp add: tool_names_of_def nested_tools_def)
qed

lemma translate_tool_rel:
  "tools_rel n0 xs acc \<Longrightarrow> translate_tool acc t = Ok acc' \<Longrightarrow> tools_rel n0 (xs @ tool_names_of t) acc'"
proof -
  assume rel: "tools_rel n0 xs acc" and ok: "translate_tool acc t = Ok acc'"
  then obtain m where t: "t = Object m"
    by (auto simp: translate_tool_def and_then_Ok)
  show "tools_rel n0 (xs @ tool_names_of t) acc'"
  proof (cases "map_str m ''type'' = Some ''namespace''")
    case True
    with rel ok t show ?thesis
      by (simp add: translate_tool_def namespace_tools_rel)
  next
    case False
    with rel ok t show ?thesis
      by (simp add: translate_tool_def tool_names_of_def leaf_tool_rel)
  qed
qed

lemma translate_tools_rel:
  assumes "translate_tools tools names = Ok acc"
  shows "tools_rel names (concat (map tool_names_of (unwrap_or (Option.bind tools as_array) []))) acc"
proof -
  have base: "tools_rel names [] ([], names)"
    by (simp add: tools_rel_def names_le_refl)
  show ?thesis
  proof (cases "Option.bind tools as_array")
    case None
    with assms base show ?thesis
      by (auto simp: translate_tools_def and_then_Ok split: option.splits Value.splits)
  next
    case (Some ts)
    then have "try_fold translate_tool ([], names) ts = Ok acc"
      using assms by (auto simp: translate_tools_def bind_eq_Some_conv split: Value.splits)
    from try_fold_prefix [OF this, of "\<lambda>ts. tools_rel names (concat (map tool_names_of ts))"] base Some show ?thesis
      by (simp add: translate_tool_rel)
  qed
qed

section \<open>History\<close>

definition calls_of :: "Value list \<Rightarrow> Value list" where
  "calls_of messages =
     concat (map (\<lambda>m. case value_get m ''tool_calls'' of Some (Array cs) \<Rightarrow> cs | _ \<Rightarrow> []) messages)"

definition results_of :: "Value list \<Rightarrow> bytes list" where
  "results_of messages =
     concat (map (\<lambda>m. if get_str m ''role'' = Some ''tool'' then [unwrap_or (get_str m ''tool_call_id'') []] else []) messages)"

lemma calls_of_Nil [simp]: "calls_of [] = []" "results_of [] = []"
  by (simp_all add: calls_of_def results_of_def)

lemma calls_of_append [simp]: "calls_of (a @ b) = calls_of a @ calls_of b"
  by (simp add: calls_of_def)

lemma results_of_append [simp]: "results_of (a @ b) = results_of a @ results_of b"
  by (simp add: results_of_def)

lemma new_call_message_sel [simp]:
  "calls_of [new_call_message c] = [c]" "results_of [new_call_message c] = []"
  by (simp_all add: calls_of_def results_of_def new_call_message_def get_str_def)

lemma push_tool_call_calls: "calls_of (push_tool_call ms c) = calls_of ms @ [c]"
proof (cases "rev ms")
  case (Cons v before)
  then have ms: "ms = rev before @ [v]"
    by (metis rev.simps(2) rev_rev_ident)
  show ?thesis
    unfolding push_tool_call_def Cons
    by (auto simp: ms calls_of_def new_call_message_def split: Value.split option.split)
qed (simp add: push_tool_call_def)

lemma push_tool_call_results: "results_of (push_tool_call ms c) = results_of ms"
proof (cases "rev ms")
  case (Cons v before)
  then have ms: "ms = rev before @ [v]"
    by (metis rev.simps(2) rev_rev_ident)
  show ?thesis
    unfolding push_tool_call_def Cons
    by (auto simp: ms results_of_def new_call_message_def get_str_def map_str_def split: Value.split option.split)
qed (simp add: push_tool_call_def)

lemma translate_message_plain:
  "translate_message item limits = Ok m \<Longrightarrow> calls_of [m] = [] \<and> results_of [m] = []"
  by (auto simp: translate_message_def and_then_Ok calls_of_def results_of_def get_str_def message_role_def
      split: if_split_asm)

lemma tool_result_plain:
  "tool_result sj item = Ok m \<Longrightarrow>
   calls_of [m] = [] \<and> results_of [m] = [unwrap_or (map_str item ''call_id'') []]"
  by (auto simp: tool_result_def and_then_Ok Let_def calls_of_def results_of_def get_str_def nonempty_str_def)

text \<open>A translated call carries the id and, through the names, the tool of its input item.\<close>

definition call_for :: "ToolNames \<Rightarrow> Value \<Rightarrow> jmap \<Rightarrow> bool" where
  "call_for names c item =
     (get_str c ''id'' = map_str item ''call_id'' \<and> carries names c (unwrap_or (map_str item ''name'') []))"

lemma call_for_mono: "call_for n c i \<Longrightarrow> names_le n n' \<Longrightarrow> call_for n' c i"
  by (auto simp: call_for_def carries_mono)

lemma tool_call_Ok:
  "tool_call sj item f names is_free = Ok (c, names') \<Longrightarrow> call_for names' c item \<and> names_le names names'"
  by (auto simp: tool_call_def and_then_Ok Let_def call_for_def carries_def wire_name_def get_str_def
      nonempty_str_def dest: record_name_Ok)

definition items_of :: "bytes list \<Rightarrow> Value list \<Rightarrow> jmap list" where
  "items_of kinds input =
     [m. Object m \<leftarrow> input, is_some_and (\<lambda>k. k \<in> set kinds) (map_str m ''type'')]"

abbreviation call_items :: "Value list \<Rightarrow> jmap list" where
  "call_items \<equiv> items_of [''function_call'', ''custom_tool_call'']"

abbreviation result_items :: "Value list \<Rightarrow> jmap list" where
  "result_items \<equiv> items_of [''function_call_output'', ''custom_tool_call_output'']"

definition history_rel :: "ToolNames \<Rightarrow> Value list \<Rightarrow> Value list \<times> ToolNames \<Rightarrow> bool" where
  "history_rel n0 input acc =
     (names_le n0 (snd acc) \<and> list_all2 (call_for (snd acc)) (calls_of (fst acc)) (call_items input) \<and>
      results_of (fst acc) = map (\<lambda>m. unwrap_or (map_str m ''call_id'') []) (result_items input))"

lemma items_of_append [simp]: "items_of ks (a @ b) = items_of ks a @ items_of ks b"
  by (simp add: items_of_def)

lemma history_rel_call:
  assumes "history_rel n0 xs (ms, names)" "call_for names' c m" "names_le names names'"
    and "map_str m ''type'' = Some ''function_call'' \<or> map_str m ''type'' = Some ''custom_tool_call''"
  shows "history_rel n0 (xs @ [Object m]) (push_tool_call ms c, names')"
proof -
  have "list_all2 (call_for names') (calls_of ms) (call_items xs)"
    using assms(1,3) by (auto simp: history_rel_def intro: call_for_mono elim!: list_all2_mono)
  moreover have "call_items [Object m] = [m]" "result_items [Object m] = []"
    using assms(4) by (auto simp: items_of_def)
  ultimately show ?thesis
    using assms by (auto simp: history_rel_def push_tool_call_calls push_tool_call_results
        intro: names_le_trans list_all2_appendI)
qed

lemma translate_item_rel:
  assumes rel: "history_rel n0 xs acc" and ok: "translate_item sj limits acc item = Ok acc'"
  shows "history_rel n0 (xs @ [item]) acc'"
proof -
  obtain ms names where acc: "acc = (ms, names)" by (cases acc)
  from ok acc obtain m where item: "item = Object m"
    by (auto simp: translate_item_def and_then_Ok)
  let ?k = "map_str m ''type''"
  consider (message) "?k = Some ''message''" | (reasoning) "?k = Some ''reasoning''"
    | (call) "?k = Some ''function_call''" | (custom) "?k = Some ''custom_tool_call''"
    | (outcome) "?k = Some ''function_call_output'' \<or> ?k = Some ''custom_tool_call_output''"
    using ok acc item by (auto simp: translate_item_def Let_def split: if_split_asm)
  then show ?thesis
  proof cases
    case message
    then have "call_items [item] = []" "result_items [item] = []"
      by (simp_all add: items_of_def item)
    with message rel ok acc item show ?thesis
      by (auto simp: translate_item_def and_then_Ok history_rel_def dest!: translate_message_plain)
  next
    case reasoning
    then have "call_items [item] = []" "result_items [item] = []"
      by (simp_all add: items_of_def item)
    with reasoning rel ok acc item show ?thesis
      by (auto simp: translate_item_def history_rel_def)
  next
    case call
    with rel ok acc item show ?thesis
      by (auto simp: translate_item_def and_then_Ok dest!: tool_call_Ok intro: history_rel_call)
  next
    case custom
    with rel ok acc item show ?thesis
      by (auto simp: translate_item_def and_then_Ok dest!: tool_call_Ok intro: history_rel_call)
  next
    case outcome
    then have "call_items [item] = []" "result_items [item] = [m]"
      by (auto simp: items_of_def item)
    with outcome rel ok acc item show ?thesis
      by (auto simp: translate_item_def and_then_Ok history_rel_def dest!: tool_result_plain)
  qed
qed

lemma translate_messages_rel:
  assumes "translate_messages sj request names limits = Ok acc"
  shows "history_rel names (unwrap_or (Option.bind (map_get request ''input'') as_array) []) acc"
proof -
  let ?m0 = "case nonempty_str request ''instructions'' of
      Some instructions \<Rightarrow> [json_object [(''role'', String ''system''), (''content'', String instructions)]]
    | None \<Rightarrow> []"
  have base: "history_rel names [] (?m0, names)"
    by (cases "nonempty_str request ''instructions''")
       (simp_all add: history_rel_def names_le_refl calls_of_def results_of_def items_of_def get_str_def)
  show ?thesis
  proof (cases "Option.bind (map_get request ''input'') as_array")
    case None
    with assms base show ?thesis
      by (auto simp: translate_messages_def Let_def split: option.splits Value.splits)
  next
    case (Some input)
    then have "try_fold (translate_item sj limits) (?m0, names) input = Ok acc"
      using assms by (auto simp: translate_messages_def Let_def bind_eq_Some_conv)
    from try_fold_prefix [OF this, of "history_rel names"] base Some show ?thesis
      by (simp add: translate_item_rel)
  qed
qed


section \<open>The translated body\<close>

definition array_at :: "Value \<Rightarrow> bytes \<Rightarrow> Value list" where
  "array_at v k = unwrap_or (Option.bind (value_get v k) as_array) []"

definition body_keys :: "bytes list" where
  "body_keys = [''model'', ''messages'', ''tools'', ''tool_choice'', ''tool_stream'', ''reasoning_effort'',
     ''thinking'', ''max_tokens'', ''stream'']"

lemma add_reasoning_get:
  "add_reasoning m b = Ok b' \<Longrightarrow> k \<notin> {''reasoning_effort'', ''thinking''} \<Longrightarrow> map_get b' k = map_get b k"
  by (auto simp: add_reasoning_def and_then_Ok split: option.splits)

lemma reject_stateful_Ok:
  "reject_stateful m = Ok u \<Longrightarrow> f \<in> {''previous_response_id'', ''conversation''} \<Longrightarrow>
   map_get m f \<in> {None, Some Null}"
  by (cases "map_get m f") (auto simp: reject_stateful_def is_some_and_iff split: if_split_asm)

lemma add_max_tokens_get:
  "map_get (add_max_tokens m limits b) k =
     (if k = ''max_tokens'' \<and> Option.bind (map_get m ''max_output_tokens'') as_u64 \<noteq> None
      then map_option (\<lambda>n. json_u64 (clamp_tokens n (limit_output_tokens limits)))
             (Option.bind (map_get m ''max_output_tokens'') as_u64)
      else map_get b k)"
  by (auto simp: add_max_tokens_def split: option.splits)

lemma add_tools_get:
  "map_get (add_tools ts b) k =
     (if ts \<noteq> [] \<and> k = ''tools'' then Some (Array ts)
      else if ts \<noteq> [] \<and> k = ''tool_choice'' then Some (String ''auto'')
      else if ts \<noteq> [] \<and> k = ''tool_stream'' then Some (Bool True) else map_get b k)"
  by (simp add: add_tools_def)

lemma translate_Ok:
  assumes "translate sj (Object m) limits = Ok t"
  obtains model tools names where
    "nonempty_str m ''model'' = Some model"
    "translate_tools (map_get m ''tools'') ToolNames_default = Ok (tools, names)"
    "translate_messages sj m names limits = Ok (array_at (chat_body t) ''messages'', chat_tools t)"
    "array_at (chat_body t) ''tools'' = tools"
    "value_get (chat_body t) ''model'' = Some (String model)"
    "value_get (chat_body t) ''stream'' = Some (Bool True)"
    "\<And>f. f \<in> {''previous_response_id'', ''conversation''} \<Longrightarrow> map_get m f \<in> {None, Some Null}"
    "\<And>k. k \<notin> set body_keys \<Longrightarrow> value_get (chat_body t) k = None"
    "value_get (chat_body t) ''max_tokens'' =
       map_option (\<lambda>n. json_u64 (clamp_tokens n (limit_output_tokens limits)))
         (Option.bind (map_get m ''max_output_tokens'') as_u64)"
proof -
  from assms obtain model u tools names messages body where ok:
    "nonempty_str m ''model'' = Some model" "reject_stateful m = Ok u"
    "translate_tools (map_get m ''tools'') ToolNames_default = Ok (tools, names)"
    "translate_messages sj m names limits = Ok (messages, chat_tools t)"
    "add_reasoning m (add_tools tools (map_insert ''messages'' (Array messages) (map_insert ''model'' (String model) []))) = Ok body"
    "chat_body t = Object (map_insert ''stream'' (Bool True) (add_max_tokens m limits body))"
    by (auto simp: translate_def and_then_Ok)
  have get: "value_get (chat_body t) k =
      (if k = ''stream'' then Some (Bool True) else map_get (add_max_tokens m limits body) k)" for k
    using ok(6) by simp
  have body: "k \<notin> {''reasoning_effort'', ''thinking''} \<Longrightarrow> map_get body k =
      map_get (add_tools tools (map_insert ''messages'' (Array messages) (map_insert ''model'' (String model) []))) k" for k
    using add_reasoning_get [OF ok(5)] by simp
  show thesis
  proof (rule that)
    show "array_at (chat_body t) ''tools'' = tools"
      by (simp add: array_at_def get add_max_tokens_get body add_tools_get)
    show "value_get (chat_body t) k = None" if "k \<notin> set body_keys" for k
      using that by (auto simp: body_keys_def get add_max_tokens_get body add_tools_get)
    show "map_get m f \<in> {None, Some Null}" if "f \<in> {''previous_response_id'', ''conversation''}" for f
      using reject_stateful_Ok [OF ok(2) that] .
    show "translate_messages sj m names limits = Ok (array_at (chat_body t) ''messages'', chat_tools t)"
      using ok(4) by (simp add: array_at_def get add_max_tokens_get body add_tools_get)
  qed (use ok in \<open>simp_all add: get add_max_tokens_get body add_tools_get split: option.split\<close>)
qed

lemma carries_decode:
  "carries names w x \<Longrightarrow> map_option (decode names) (wire_name w) = Some x"
  by (auto simp: carries_def decode_def)

lemma carries_wire:
  "carries names w x \<Longrightarrow> wire_name w = Some e \<Longrightarrow> e \<noteq> [] \<and> length e \<le> 64 \<and> list_all wire_byte e"
  by (auto simp: carries_def dest: encode_function_name_wire)

lemma list_all2_map_eq: "list_all2 (\<lambda>x y. f x = g y) xs ys \<Longrightarrow> map f xs = map g ys"
  by (induction rule: list_all2_induct) auto


section \<open>Properties\<close>

text \<open>C26: Tool names survive the wire: when a request is translated, the tools sent to Z.ai are exactly
  the declared ones (namespaces flattened, in order); every name sent fits Z.ai's grammar and decodes,
  with the name table kept for the reply, to the name Muse declared.\<close>

theorem tool_names_round_trip:
  assumes "translate sj (Object m) limits = Ok t"
  shows "map (\<lambda>w. map_option (decode (chat_tools t)) (wire_name w)) (array_at (chat_body t) ''tools'') =
           map Some (concat (map tool_names_of (array_at (Object m) ''tools''))) \<and>
         (\<forall>w \<in> set (array_at (chat_body t) ''tools''). \<exists>e. wire_name w = Some e \<and>
           e \<noteq> [] \<and> length e \<le> 64 \<and> list_all wire_byte e)"
proof -
  from assms obtain names where
    tools: "translate_tools (map_get m ''tools'') ToolNames_default = Ok (array_at (chat_body t) ''tools'', names)"
    and msgs: "translate_messages sj m names limits = Ok (array_at (chat_body t) ''messages'', chat_tools t)"
    by (rule translate_Ok) blast
  have "names_le names (chat_tools t)"
    using translate_messages_rel [OF msgs] by (simp add: history_rel_def)
  then have rel: "list_all2 (carries (chat_tools t)) (array_at (chat_body t) ''tools'')
      (concat (map tool_names_of (array_at (Object m) ''tools'')))"
    using translate_tools_rel [OF tools]
    by (auto simp: tools_rel_def array_at_def intro: carries_mono elim!: list_all2_mono)
  then have "map (\<lambda>w. map_option (decode (chat_tools t)) (wire_name w)) (array_at (chat_body t) ''tools'') =
      map Some (concat (map tool_names_of (array_at (Object m) ''tools'')))"
    by (intro list_all2_map_eq) (auto dest: carries_decode elim!: list_all2_mono)
  moreover have "\<forall>w \<in> set (array_at (chat_body t) ''tools''). \<exists>e. wire_name w = Some e \<and>
      e \<noteq> [] \<and> length e \<le> 64 \<and> list_all wire_byte e"
  proof
    fix w assume "w \<in> set (array_at (chat_body t) ''tools'')"
    with rel obtain x where "carries (chat_tools t) w x"
      by (metis in_set_conv_nth list_all2_conv_all_nth)
    then show "\<exists>e. wire_name w = Some e \<and> e \<noteq> [] \<and> length e \<le> 64 \<and> list_all wire_byte e"
      using carries_wire by (auto simp: carries_def dest: encode_function_name_wire)
  qed
  ultimately show ?thesis ..
qed


text \<open>The chat request names the requested model, asks for a stream, keeps \<open>max_tokens\<close> between 1
  and the model's limit, and carries no field outside Z.ai's documented set; a request that refers to
  server-side state is never translated.\<close>

theorem translated_body_fields:
  assumes "translate sj (Object m) limits = Ok t" and "1 \<le> limit_output_tokens limits"
  shows "value_get (chat_body t) ''model'' = map_get m ''model'' \<and>
     value_get (chat_body t) ''stream'' = Some (Bool True) \<and>
     (\<forall>k. k \<notin> set body_keys \<longrightarrow> value_get (chat_body t) k = None) \<and>
     (\<forall>n. value_get (chat_body t) ''max_tokens'' = Some (json_u64 n) \<longrightarrow> 1 \<le> n \<and> n \<le> limit_output_tokens limits) \<and>
     map_get m ''previous_response_id'' \<in> {None, Some Null} \<and> map_get m ''conversation'' \<in> {None, Some Null}"
proof -
  have clamp: "1 \<le> clamp_tokens n (limit_output_tokens limits) \<and>
      clamp_tokens n (limit_output_tokens limits) \<le> limit_output_tokens limits" for n
    using assms(2) by (auto simp: clamp_tokens_def word_le_nat_alt word_less_nat_alt)
  from assms(1) show ?thesis
    by (rule translate_Ok) (use clamp in \<open>auto simp: json_u64_def nonempty_str_def map_str_Some\<close>)
qed

text \<open>The text of a list of parts does not depend on its images.\<close>

definition is_image_part :: "Value \<Rightarrow> bool" where
  "is_image_part p = (get_str p ''type'' = Some ''input_image'')"

lemma content_part_image:
  assumes "is_image_part p" and "content_part limits (body, mm, b) p = Ok (body', mm', b')"
  shows "body' = body"
proof -
  from assms(1) obtain m where "p = Object m" "map_str m ''type'' = Some ''input_image''"
    by (cases p) (auto simp: is_image_part_def get_str_Some value_get_def map_str_Some)
  with assms(2) show ?thesis
    by (auto simp: content_part_def and_then_Ok Let_def split: if_splits)
qed

lemma content_part_text:
  assumes "\<not> is_image_part p" and "content_part limits (body, mm, b) p = Ok (body', mm', b')"
  shows "\<exists>mm' b'. content_part limits (body, nn, c) p = Ok (body', mm', b')"
proof -
  from assms(2) obtain m where p: "p = Object m"
    by (auto simp: content_part_def and_then_Ok)
  with assms(1) have "map_str m ''type'' \<noteq> Some ''input_image''"
    by (simp add: is_image_part_def)
  with assms(2) p show ?thesis
    unfolding content_part_def by (auto simp: Let_def split: if_splits)
qed

lemma content_parts_without_images:
  assumes "try_fold (content_part limits) (body, mm, b) ps = Ok (body', mm', b')"
  shows "\<exists>mm' b'. try_fold (content_part limits) (body, nn, c) (filter (\<lambda>p. \<not> is_image_part p) ps) = Ok (body', mm', b')"
  using assms
proof (induction ps arbitrary: body mm b nn c)
  case (Cons p ps)
  then obtain t1 m1 b1 where step: "content_part limits (body, mm, b) p = Ok (t1, m1, b1)"
    and rest: "try_fold (content_part limits) (t1, m1, b1) ps = Ok (body', mm', b')"
    by (auto simp: and_then_Ok)
  show ?case
  proof (cases "is_image_part p")
    case True
    with content_part_image [OF True step] Cons.IH [OF rest, of nn c] show ?thesis by simp
  next
    case False
    from content_part_text [OF False step, of nn c] obtain m2 b2
      where "content_part limits (body, nn, c) p = Ok (t1, m2, b2)" by blast
    with False Cons.IH [OF rest, of m2 b2] show ?thesis by simp
  qed
qed simp

text \<open>Contrary to the module's own rule that what cannot be expressed is rejected rather than
  dropped, the images of a message whose role is not \<open>user\<close> are discarded: whenever such a message is
  accepted, deleting all its image parts gives the same message, plain text.\<close>

theorem non_user_images_dropped:
  assumes "role \<noteq> ''user''" and "translate_content_parts parts role limits = Ok v"
  shows "translate_content_parts (filter (\<lambda>p. \<not> is_image_part p) parts) role limits = Ok v \<and> (\<exists>s. v = String s)"
proof -
  from assms obtain body mm b where fold: "try_fold (content_part limits) ([], [], False) parts = Ok (body, mm, b)"
    and v: "v = String body"
    by (auto simp: translate_content_parts_def and_then_Ok)
  from content_parts_without_images [OF fold, of "[]" False] v assms(1) show ?thesis
    by (auto simp: translate_content_parts_def)
qed

text \<open>Concrete requests.\<close>

definition sample_limits :: ModelLimits where
  "sample_limits = \<lparr>accepts_images = True, limit_output_tokens = 131072\<rparr>"

definition sample_request :: jmap where
  "sample_request = map_build [
     (''model'', String ''glm-5.3''),
     (''max_output_tokens'', json_u64 999999),
     (''tools'', Array [json_object [(''type'', String ''namespace''), (''name'', String ''muse''),
        (''tools'', Array [json_object [(''type'', String ''function''), (''name'', String ''read'')]])]]),
     (''input'', Array [
        json_object [(''type'', String ''message''), (''role'', String ''user''), (''content'', String ''hi'')],
        json_object [(''type'', String ''function_call''), (''call_id'', String ''a''), (''name'', String ''muse.read'')],
        json_object [(''type'', String ''function_call''), (''call_id'', String ''b''), (''name'', String ''muse.read'')],
        json_object [(''type'', String ''function_call_output''), (''call_id'', String ''a''), (''output'', String ''x'')]])]"

definition sample_translated :: TranslatedRequest where
  "sample_translated = (case translate json_codec (Object sample_request) sample_limits of
     Ok t \<Rightarrow> t | Err _ \<Rightarrow> \<lparr>chat_body = Null, chat_tools = ToolNames_default\<rparr>)"

lemma sample_translate: "translate json_codec (Object sample_request) sample_limits = Ok sample_translated"
proof -
  have "is_ok (translate json_codec (Object sample_request) sample_limits)"
    by code_simp
  then show ?thesis
    by (auto simp: sample_translated_def is_ok_def split: result.splits)
qed

theorem tool_names_round_trip_witness:
  "map (\<lambda>w. map_option (decode (chat_tools sample_translated)) (wire_name w)) (array_at (chat_body sample_translated) ''tools'') =
     map Some (concat (map tool_names_of (array_at (Object sample_request) ''tools'')))"
  using tool_names_round_trip [OF sample_translate] by blast


theorem translated_body_fields_witness:
  "value_get (chat_body sample_translated) ''stream'' = Some (Bool True)"
  using translated_body_fields [OF sample_translate] by (simp add: sample_limits_def)

theorem non_user_images_dropped_witness:
  "\<exists>v. translate_content_parts [json_object [(''type'', String ''input_image''), (''image_url'', String ''u'')]]
      ''system'' sample_limits = Ok v \<and> translate_content_parts [] ''system'' sample_limits = Ok v"
proof -
  let ?img = "json_object [(''type'', String ''input_image''), (''image_url'', String ''u'')]"
  have "is_ok (translate_content_parts [?img] ''system'' sample_limits)"
    by code_simp
  then obtain v where v: "translate_content_parts [?img] ''system'' sample_limits = Ok v"
    by (auto simp: is_ok_def split: result.splits)
  have "is_image_part ?img"
    by (simp add: is_image_part_def get_str_Some)
  with non_user_images_dropped [OF _ v] v show ?thesis
    by simp
qed

end
