(* ===== verification/Zai_Properties.thy ===== *)
theory Zai_Properties
  imports Zai_Outcome Zai_Request_Props
begin

text \<open>
  Properties of the Z.ai synthesizer: its event stream as the gateway reads it, the text it
  accumulates, and the round trip of freeform tool input.
\<close>

section \<open>Delivered frames\<close>

lemma z_frame_event:
  assumes "serde_json_spec (z_json env)" "z_event_ok n e"
  shows "frame_kind (z_json env) (z_frame env e) = Some (fst e)"
    and "frame_sequence (z_json env) (z_frame env e) = Some n"
  using z_frame_inspect [OF assms] by (simp_all add: frame_kind_def frame_sequence_def frame_event_def)

lemma z_frame_empty_error:
  assumes sj: "serde_json_spec (z_json env)"
    and "fst e = ''error''" "json_exact (snd e)" "get_str (snd e) ''type'' = Some ''error''"
      "value_get (snd e) ''sequence_number'' = Some (json_u64 n)" "get_str (snd e) ''message'' = Some []"
  shows "inspect_frame (z_json env) (z_frame env e) = Err ''upstream error event had no message''"
proof -
  let ?s = "to_string (z_json env) (snd e)"
  have "one_line ?s" "utf8_valid ?s" "?s \<noteq> ''[DONE]''" "from_str (z_json env) ?s = Some (snd e)"
    using serde_line [OF sj json_exact_wf [OF assms(3)]] serde_not_done [OF sj assms(3)] serde_roundtrip [OF sj assms(3)]
    by (auto simp: one_line_def)
  then have "inspect_frame (z_json env) (z_frame env e) = inspect_value (Some ''error'') (snd e)"
    using assms(2) by (simp add: z_frame_def inspect_frame_sse_frame)
  also have "\<dots> = Err ''upstream error event had no message''"
    using assms(4-6)
    by (simp add: inspect_value_def json_u64_def is_metadata_event_def is_known_event_def known_events_def
        validate_event_shape_def lifecycle_events_def delta_events_def)
  finally show ?thesis .
qed

lemma events_ok_nth: "events_ok n evs \<Longrightarrow> i < length evs \<Longrightarrow> z_event_ok (n + of_nat i) (evs ! i)"
proof (induction evs arbitrary: n i)
  case (Cons e es)
  then show ?case
  proof (cases i)
    case (Suc j)
    with Cons.IH [of "n + 1" j] Cons.prems show ?thesis by (simp add: algebra_simps)
  qed simp
qed simp

lemma zai_delivers:
  assumes "z_env_ok env" "utf8_valid model" "names_utf8 tools" "\<forall>e \<in> set body. z_event_utf8 env e"
  obtains evs e where
    "stream_yields (z_poll env) (z_new model key tools) body (map (z_frame env) (evs @ [e]))"
    "events_ok 0 evs" "\<forall>x \<in> set evs. quiet (fst x)" "final_event (of_nat (length evs)) e"
proof -
  have "z_ends env (z_new model key tools) (z_drive env (z_new model key tools) body)"
    using assms by (intro z_drive_ends z_inv_new) (simp_all add: z_new_def)
  then obtain evs e where
    "z_pending (z_drive env (z_new model key tools) body) = map (z_frame env) (evs @ [e])" "events_ok 0 evs"
    "\<forall>x \<in> set evs. quiet (fst x)" "final_event (of_nat (length evs)) e"
    by (auto simp: z_ends_def z_new_def)
  then show thesis
    using that by (metis zai_stream.yields_batch)
qed

lemma z_quiet_interim:
  assumes "serde_json_spec (z_json env)" "events_ok n evs" "\<forall>x \<in> set evs. quiet (fst x)"
  shows "\<forall>f \<in> set (map (z_frame env) evs). interim (z_json env) f"
proof -
  have "interim (z_json env) (z_frame env x)" if "x \<in> set evs" for x
  proof -
    obtain i where "i < length evs" "x = evs ! i"
      using \<open>x \<in> set evs\<close> by (auto simp: in_set_conv_nth)
    with events_ok_nth [OF assms(2)] have "z_event_ok (n + of_nat i) x" by blast
    with z_frame_event(1) [OF assms(1) this] assms(3) that show ?thesis
      by (simp add: interim_def quiet_def)
  qed
  then show ?thesis by simp
qed

text \<open>A codec environment with the reference codec and fixed foreign error texts.\<close>

definition sample_env :: z_env where
  "sample_env = \<lparr>z_json = json_codec, z_json_error = (\<lambda>_. ''bad JSON''), z_status_text = show_nat\<rparr>"

lemma sample_env_ok: "z_env_ok sample_env"
  by (simp add: z_env_ok_def sample_env_def json_codec_spec utf8_valid_ascii)

section \<open>Accumulated text\<close>

definition message_text :: "Value \<Rightarrow> bytes" where
  "message_text v =
     (if get_str v ''type'' = Some ''message'' then
        (case Option.bind (value_get v ''content'') as_array of
           Some (p # _) \<Rightarrow> unwrap_or (get_str p ''text'') [] | _ \<Rightarrow> [])
      else [])"

definition summary_text :: "Value \<Rightarrow> bytes" where
  "summary_text v =
     (if get_str v ''type'' = Some ''reasoning'' then
        (case Option.bind (value_get v ''summary'') as_array of
           Some (p # _) \<Rightarrow> unwrap_or (get_str p ''text'') [] | _ \<Rightarrow> [])
      else [])"

definition open_text :: "TextItem option \<Rightarrow> bytes" where
  "open_text it = (case it of Some c \<Rightarrow> item_text c | None \<Rightarrow> [])"

text \<open>The assistant text and the reasoning text the synthesizer holds: closed items, then the open one.\<close>

definition spoken :: "z_state \<Rightarrow> bytes" where
  "spoken st = concat (map message_text (z_output st)) @ open_text (z_message st)"

definition thought :: "z_state \<Rightarrow> bytes" where
  "thought st = concat (map summary_text (z_output st)) @ open_text (z_reasoning st)"

lemma z_fail_text [simp]:
  "spoken (z_fail env m st) = spoken st" "thought (z_fail env m st) = thought st"
  by (simp_all add: z_fail_def spoken_def thought_def)

lemma z_start_text [simp]:
  "spoken (z_start env c st) = spoken st" "thought (z_start env c st) = thought st"
  by (simp_all add: z_start_def Let_def spoken_def thought_def split: option.split)

lemma close_reasoning_text [simp]:
  "spoken (close_reasoning env st) = spoken st" "thought (close_reasoning env st) = thought st"
  "z_reasoning (close_reasoning env st) = None" "z_message (close_reasoning env st) = z_message st"
  by (simp_all add: close_reasoning_def Let_def spoken_def thought_def message_text_def summary_text_def
      open_text_def get_str_def split: option.split)

lemma close_message_text [simp]:
  "spoken (close_message env st) = spoken st" "thought (close_message env st) = thought st"
  "z_message (close_message env st) = None" "z_reasoning (close_message env st) = z_reasoning st"
  by (simp_all add: close_message_def Let_def spoken_def thought_def message_text_def summary_text_def
      open_text_def get_str_def split: option.split)

lemma open_message_text:
  "\<exists>c. z_message (open_message env st) = Some c" "spoken (open_message env st) = spoken st"
  "thought (open_message env st) = thought st"
  by (cases "z_message st"; simp add: open_message_def Let_def spoken_def thought_def open_text_def)+

lemma open_reasoning_text:
  "\<exists>c. z_reasoning (open_reasoning env st) = Some c" "spoken (open_reasoning env st) = spoken st"
  "thought (open_reasoning env st) = thought st"
  by (cases "z_reasoning st"; simp add: open_reasoning_def Let_def spoken_def thought_def open_text_def)+

lemma push_text_text:
  "spoken (push_text env d st) = spoken st @ d \<and> thought (push_text env d st) = thought st"
proof -
  let ?st = "open_message env (close_reasoning env st)"
  obtain c where c: "z_message ?st = Some c"
    using open_message_text(1) by blast
  have "spoken ?st = spoken st" "thought ?st = thought st"
    by (simp_all add: open_message_text)
  with c show ?thesis
    by (simp add: push_text_def Let_def spoken_def thought_def open_text_def)
qed

lemma push_reasoning_text:
  "spoken (push_reasoning env d st) = spoken st \<and> thought (push_reasoning env d st) = thought st @ d"
proof -
  let ?st = "open_reasoning env (close_message env st)"
  obtain c where c: "z_reasoning ?st = Some c"
    using open_reasoning_text(1) by blast
  have "spoken ?st = spoken st" "thought ?st = thought st"
    by (simp_all add: open_reasoning_text)
  with c show ?thesis
    by (simp add: push_reasoning_def Let_def spoken_def thought_def open_text_def)
qed

lemma call_item_text [simp]:
  "message_text (call_item c s a i) = []" "summary_text (call_item c s a i) = []"
  by (simp_all add: call_item_def message_text_def summary_text_def get_str_def)

definition same_text :: "z_state \<Rightarrow> z_state \<Rightarrow> bool" where
  "same_text a b = (spoken a = spoken b \<and> thought a = thought b)"

lemma z_push_tool_call_text:
  "spoken (z_push_tool_call env c st) = spoken st" "thought (z_push_tool_call env c st) = thought st"
proof -
  have set: "same_text (set_call i f s) s" for i f s
    by (simp add: same_text_def set_call_def spoken_def thought_def)
  have emit: "same_text (z_emit env k b s) s" for k b s
    by (simp add: same_text_def spoken_def thought_def)
  have "same_text (register_call i s) s" for i s
    using set by (auto simp: register_call_def Let_def same_text_def spoken_def thought_def set_call_def)
  moreover have "same_text (identify_call cc f i s) s" for cc f i s
    using set by (auto simp: identify_call_def Let_def same_text_def split: option.split)
  moreover have "same_text (announce_call env i s) s" for i s
    using set emit by (auto simp: announce_call_def Let_def same_text_def)
  moreover have "same_text (append_arguments env f i s) s" for f i s
    using set emit by (auto simp: append_arguments_def Let_def same_text_def split: option.split)
  moreover have "same_text (s\<lparr>z_calls := cs\<rparr>) s" for s cs
    by (simp add: same_text_def spoken_def thought_def)
  ultimately have "same_text (z_push_tool_call env c st) (close_message env (close_reasoning env st))"
    unfolding z_push_tool_call_def Let_def same_text_def by metis
  then show "spoken (z_push_tool_call env c st) = spoken st" "thought (z_push_tool_call env c st) = thought st"
    by (simp_all add: same_text_def)
qed

definition items_closed :: "z_state \<Rightarrow> bool" where
  "items_closed st = (z_message st = None \<and> z_reasoning st = None)"

lemma close_call_text:
  "items_closed st \<Longrightarrow> same_text (close_call env st c) st \<and> items_closed (close_call env st c)"
  by (simp add: close_call_def Let_def same_text_def spoken_def thought_def items_closed_def open_text_def)

lemma close_tool_calls_text:
  assumes "items_closed st"
  shows "same_text (close_tool_calls env st) st \<and> items_closed (close_tool_calls env st)"
proof -
  have fold: "items_closed s \<Longrightarrow> same_text (foldl (close_call env) s cs) s \<and> items_closed (foldl (close_call env) s cs)" for s cs
  proof (induction cs arbitrary: s)
    case (Cons c cs)
    with close_call_text [of s env c] Cons.IH [of "close_call env s c"] show ?case
      by (simp add: same_text_def)
  qed (simp add: same_text_def)
  have "items_closed (st\<lparr>z_calls := []\<rparr>)" "same_text (st\<lparr>z_calls := []\<rparr>) st"
    using assms by (simp_all add: items_closed_def same_text_def spoken_def thought_def)
  with fold [of "st\<lparr>z_calls := []\<rparr>" "filter call_announced (z_calls st)"] show ?thesis
    by (simp add: close_tool_calls_def same_text_def)
qed

lemma complete_text:
  "spoken (complete env r st) = spoken st \<and> thought (complete env r st) = thought st"
proof -
  let ?a = "close_message env (close_reasoning env st)"
  let ?b = "close_tool_calls env ?a"
  have "same_text ?b ?a"
    using close_tool_calls_text [of ?a env] by (simp add: items_closed_def)
  then have b: "spoken ?b = spoken st" "thought ?b = thought st"
    by (simp_all add: same_text_def)
  have same: "spoken (z_emit env k m s\<lparr>z_terminated := x, z_finished := y\<rparr>) = spoken s"
    "thought (z_emit env k m s\<lparr>z_terminated := x, z_finished := y\<rparr>) = thought s" for k m s x y
    by (simp_all add: spoken_def thought_def)
  show ?thesis
    unfolding complete_def Let_def using b by (simp add: same)
qed

lemma z_push_delta_text:
  "spoken (z_push_delta env d st) = spoken st @ unwrap_or (map_str d ''content'') [] \<and>
   thought (z_push_delta env d st) = thought st @ unwrap_or (map_str d ''reasoning_content'') []"
proof -
  have fold: "spoken (foldl (\<lambda>st call. z_push_tool_call env call st) s cs) = spoken s \<and>
      thought (foldl (\<lambda>st call. z_push_tool_call env call st) s cs) = thought s" for s cs
    by (induction cs arbitrary: s) (simp_all add: z_push_tool_call_text)
  let ?a = "case opt_filter (\<lambda>s. s \<noteq> []) (map_str d ''reasoning_content'') of
                  Some reasoning \<Rightarrow> push_reasoning env reasoning st | None \<Rightarrow> st"
  let ?b = "case opt_filter (\<lambda>s. s \<noteq> []) (map_str d ''content'') of
                  Some content \<Rightarrow> push_text env content ?a | None \<Rightarrow> ?a"
  have a: "spoken ?a = spoken st" "thought ?a = thought st @ unwrap_or (map_str d ''reasoning_content'') []"
    by (cases "map_str d ''reasoning_content''"; simp add: push_reasoning_text)+
  have b: "spoken ?b = spoken ?a @ unwrap_or (map_str d ''content'') []" "thought ?b = thought ?a"
    by (cases "map_str d ''content''"; simp add: push_text_text)+
  show ?thesis
    unfolding z_push_delta_def Let_def using a b fold [of ?b]
    by (cases "Option.bind (map_get d ''tool_calls'') as_array") simp_all
qed

section \<open>Properties\<close>



text \<open>An error that Z.ai reports with an empty message becomes an \<open>error\<close> event that the gateway's
  own shape check rejects, although the synthesizer promises that every event it emits satisfies it.\<close>

theorem zai_empty_error_event_rejected:
  assumes "z_env_ok env" and "utf8_valid model" and "names_utf8 tools"
    and "value_get chunk ''error'' = Some err" and "get_str err ''message'' = Some []"
  shows "\<exists>f. z_pending (handle_chunk env chunk (z_new model request_key tools)) = [f] \<and>
     inspect_frame (z_json env) f = Err ''upstream error event had no message''"
proof -
  let ?st = "z_new model request_key tools"
  let ?v = "z_event ''error'' 0 (z_fail_body [] ?st)"
  have err: "err \<noteq> Null"
    using assms(5) by (auto simp: get_str_def value_get_def)
  then have pending: "z_pending (handle_chunk env chunk ?st) = [z_frame env (''error'', ?v)]"
    using assms(4,5) by (simp add: handle_chunk_def z_fail_def z_emit_def Let_def z_new_def z_frame_def sse_frame_def)
  have "z_fail_body [] ?st = map_build [(''message'', String []), (''code'', String ''invalid_request'')]"
    by (simp add: z_fail_body_def z_new_def)
  then have body: "?v = z_event ''error'' 0 (map_build [(''message'', String []), (''code'', String ''invalid_request'')])"
    by simp
  have "json_exact ?v"
    unfolding body by (rule z_event_exact) auto
  moreover have "get_str ?v ''type'' = Some ''error''" "value_get ?v ''sequence_number'' = Some (json_u64 0)"
    "get_str ?v ''message'' = Some []"
    unfolding body by (simp_all add: z_event_def map_str_def map_get_build)
  ultimately have "json_exact ?v" "get_str ?v ''type'' = Some ''error''" "value_get ?v ''sequence_number'' = Some (json_u64 0)"
    "get_str ?v ''message'' = Some []"
    by simp_all
  with z_frame_empty_error [of env "(''error'', ?v)" 0] assms(1) pending show ?thesis
    by (simp add: z_env_ok_def)
qed

theorem zai_empty_error_event_rejected_witness:
  "\<exists>f. z_pending (handle_chunk sample_env (json_object [(''error'', json_object [(''message'', String [])])])
        (z_new ''glm-5.3'' ''k'' ToolNames_default)) = [f] \<and>
     inspect_frame (z_json sample_env) f = Err ''upstream error event had no message''"
  by (rule zai_empty_error_event_rejected [OF sample_env_ok, where err = "json_object [(''message'', String [])]"])
     (simp_all add: names_utf8_def ToolNames_default_def get_str_Some)

text \<open>No text is lost, duplicated or reordered: handling a chunk appends exactly its content delta
  to the accumulated assistant text and exactly its reasoning delta to the accumulated reasoning text,
  whichever items have to be opened or closed for it.\<close>

theorem chunk_text_accumulates:
  assumes "value_get chunk ''error'' \<in> {None, Some Null}"
    and "value_get chunk ''choices'' = Some (Array (choice # others))"
    and "value_get choice ''delta'' = Some (Object delta)"
  shows "spoken (handle_chunk env chunk st) = spoken st @ unwrap_or (map_str delta ''content'') [] \<and>
     thought (handle_chunk env chunk st) = thought st @ unwrap_or (map_str delta ''reasoning_content'') []"
proof -
  have none: "opt_filter (\<lambda>e. e \<noteq> Null) (value_get chunk ''error'') = None"
    using assms(1) by auto
  have usage: "spoken (s\<lparr>z_usage := u\<rparr>) = spoken s" "thought (s\<lparr>z_usage := u\<rparr>) = thought s" for s u
    by (simp_all add: spoken_def thought_def)
  show ?thesis
    unfolding handle_chunk_def none option.case Let_def assms(2,3) bind.simps as_array.simps as_object.simps list.case
    by (simp add: complete_text z_push_delta_text usage split: option.split)
qed

theorem chunk_text_accumulates_witness:
  "spoken (handle_chunk sample_env (json_object [(''choices'', Array [json_object [(''delta'',
      json_object [(''content'', String ''hi'')])]])]) (z_new ''m'' ''k'' ToolNames_default)) = ''hi''"
  using chunk_text_accumulates [of "json_object [(''choices'', Array [json_object [(''delta'',
      json_object [(''content'', String ''hi'')])]])]" "json_object [(''delta'', json_object [(''content'', String ''hi'')])]"
      "[]" "map_build [(''content'', String ''hi'')]" sample_env "z_new ''m'' ''k'' ToolNames_default"]
  by (simp add: json_object_def map_get_build map_str_def spoken_def z_new_def open_text_def)

text \<open>Freeform tool input survives the detour through Z.ai's JSON-only tools: the arguments the
  request translator builds for a freeform call are unwrapped by the synthesizer to the original input.\<close>

theorem freeform_input_round_trip:
  assumes "serde_json_spec sj" and "utf8_valid raw"
    and "tool_call sj item ''input'' names True = Ok (call, names')"
    and "map_str item ''input'' = Some raw"
  shows "\<exists>f arguments. value_get call ''function'' = Some f \<and> get_str f ''arguments'' = Some arguments \<and>
     freeform_input sj arguments = raw"
proof -
  let ?v = "json_object [(''input'', String raw)]"
  have "json_exact ?v"
    using assms(2) by (intro json_exact_leI [of "Suc 0"] json_object_exact) simp_all
  then have "freeform_input sj (to_string sj ?v) = raw"
    by (simp add: freeform_input_def serde_roundtrip [OF assms(1)] get_str_def)
  with assms(3,4) show ?thesis
    by (auto simp: tool_call_def and_then_Ok Let_def get_str_def)
qed

theorem freeform_input_round_trip_witness:
  "\<exists>call names'. tool_call json_codec (map_build [(''call_id'', String ''c''), (''name'', String ''exec''), (''input'', String ''ls'')])
       ''input'' ToolNames_default True = Ok (call, names') \<and>
     (\<exists>f arguments. value_get call ''function'' = Some f \<and> get_str f ''arguments'' = Some arguments \<and>
        freeform_input json_codec arguments = ''ls'')"
proof -
  let ?item = "map_build [(''call_id'', String ''c''), (''name'', String ''exec''), (''input'', String ''ls'')]"
  have "is_ok (tool_call json_codec ?item ''input'' ToolNames_default True)"
    by code_simp
  then obtain call names' where ok: "tool_call json_codec ?item ''input'' ToolNames_default True = Ok (call, names')"
    by (auto simp: is_ok_def split: result.splits)
  have "map_str ?item ''input'' = Some ''ls''"
    by (simp add: map_str_def map_get_build)
  with freeform_input_round_trip [OF json_codec_spec _ ok] ok show ?thesis
    by auto
qed

end
