(* ===== verification/Http.thy ===== *)
theory Http
  imports Json
begin

text \<open>
  HTTP vocabulary of the transport and the gateway. An \<open>http::HeaderMap\<close> is the list of its
  (lower-case name, value) pairs: \<open>get\<close> reads the first value of a name, \<open>insert\<close> replaces
  every value of a name, \<open>append\<close> keeps them, and iteration visits every pair. The conversions
  between header values and strings belong to the \<open>http\<close> crate and are the parameter record
  \<open>http_crate\<close>. A \<open>StatusCode\<close> is its number.
\<close>

type_synonym HeaderMap = "(bytes \<times> bytes) list"
type_synonym StatusCode = nat

record http_crate =
  hv_to_str :: "bytes \<Rightarrow> bytes option"
  hv_from_str :: "bytes \<Rightarrow> bytes option"

definition http_crate_spec :: "http_crate \<Rightarrow> bool" where
  "http_crate_spec h =
     ((\<forall>v s. hv_to_str h v = Some s \<longrightarrow> s = v) \<and> (\<forall>s v. hv_from_str h s = Some v \<longrightarrow> v = s))"

text \<open>A conversion that accepts the printable ASCII strings, for concrete runs.\<close>

definition printable :: "bytes \<Rightarrow> bool" where
  "printable s = list_all (\<lambda>c. 32 \<le> byte c \<and> byte c < 127) s"

definition ascii_http :: http_crate where
  "ascii_http = \<lparr>hv_to_str = (\<lambda>s. if printable s then Some s else None),
                 hv_from_str = (\<lambda>s. if printable s then Some s else None)\<rparr>"

lemma ascii_http_spec: "http_crate_spec ascii_http"
  by (auto simp: http_crate_spec_def ascii_http_def split: if_splits)

definition hm_remove :: "bytes \<Rightarrow> HeaderMap \<Rightarrow> HeaderMap" where
  "hm_remove k m = filter (\<lambda>(k', v). k' \<noteq> k) m"

definition hm_insert :: "bytes \<Rightarrow> bytes \<Rightarrow> HeaderMap \<Rightarrow> HeaderMap" where
  "hm_insert k v m = hm_remove k m @ [(k, v)]"

definition hm_append :: "bytes \<Rightarrow> bytes \<Rightarrow> HeaderMap \<Rightarrow> HeaderMap" where
  "hm_append k v m = m @ [(k, v)]"

text \<open>All values of a name.\<close>

definition hm_values :: "HeaderMap \<Rightarrow> bytes \<Rightarrow> bytes list" where
  "hm_values m k = map snd (filter (\<lambda>(k', v). k' = k) m)"

definition hm_get_str :: "http_crate \<Rightarrow> HeaderMap \<Rightarrow> bytes \<Rightarrow> bytes option" where
  "hm_get_str h m k = Option.bind (map_get m k) (hv_to_str h)"

lemma map_get_append: "map_get (xs @ ys) k = or_else (map_get xs k) (map_get ys k)"
  by (induction xs) auto

lemma hm_get_remove [simp]: "map_get (hm_remove k m) k' = (if k' = k then None else map_get m k')"
  by (induction m) (auto simp: hm_remove_def)

lemma hm_get_insert [simp]: "map_get (hm_insert k v m) k' = (if k' = k then Some v else map_get m k')"
  by (auto simp: hm_insert_def map_get_append)

lemma hm_values_remove [simp]: "hm_values (hm_remove k m) k' = (if k' = k then [] else hm_values m k')"
  by (induction m) (auto simp: hm_values_def hm_remove_def)

lemma hm_values_append [simp]: "hm_values (xs @ ys) k = hm_values xs k @ hm_values ys k"
  by (simp add: hm_values_def)

lemma hm_values_insert [simp]: "hm_values (hm_insert k v m) k' = (if k' = k then [v] else hm_values m k')"
  by (auto simp: hm_insert_def) (auto simp: hm_values_def)

lemma hm_values_snoc [simp]: "hm_values (hm_append k v m) k' = hm_values m k' @ (if k' = k then [v] else [])"
  by (auto simp: hm_append_def) (auto simp: hm_values_def)

text \<open>The header map is another provider of the map contract.\<close>

interpretation headers: ordered_map "[]" map_get hm_insert hm_remove
  by unfold_locales auto

lemma hm_values_Nil [simp]: "hm_values [] k = []"
  by (simp add: hm_values_def)

lemma hm_values_Cons [simp]: "hm_values ((k', v) # m) k = (if k' = k then v # hm_values m k else hm_values m k)"
  by (simp add: hm_values_def)

lemma hm_values_in: "v \<in> set (hm_values m k) \<longleftrightarrow> (k, v) \<in> set m"
  by (force simp: hm_values_def)

lemma hm_get_values: "map_get m k = (case hm_values m k of [] \<Rightarrow> None | v # _ \<Rightarrow> Some v)"
  by (induction m) (auto simp: hm_values_def)

section \<open>Status classes\<close>

definition is_success :: "StatusCode \<Rightarrow> bool" where
  "is_success s = (200 \<le> s \<and> s < 300)"

definition is_client_error :: "StatusCode \<Rightarrow> bool" where
  "is_client_error s = (400 \<le> s \<and> s < 500)"

definition is_server_error :: "StatusCode \<Rightarrow> bool" where
  "is_server_error s = (500 \<le> s \<and> s < 600)"

abbreviation (input) BAD_REQUEST :: StatusCode where "BAD_REQUEST \<equiv> 400"
abbreviation (input) UNAUTHORIZED :: StatusCode where "UNAUTHORIZED \<equiv> 401"
abbreviation (input) FORBIDDEN :: StatusCode where "FORBIDDEN \<equiv> 403"
abbreviation (input) TOO_MANY_REQUESTS :: StatusCode where "TOO_MANY_REQUESTS \<equiv> 429"

end
