(* ===== verification/Transport_Request.thy ===== *)
theory Transport_Request
  imports Http Errors
begin

text \<open>
  Request preparation of the Codex transport (\<open>codex-transport/src/transport.rs\<close>): the checks
  against the model catalog, the Fast tier, the stateless normalization of a Responses body, its
  Responses Lite form and the outgoing headers.

  A function that edits \<open>&mut Map\<close> takes the map and returns the edited one; an error drops it,
  as every caller does. Code of other crates is a parameter: the typed round trip through
  \<open>codex_protocol::models::ResponseItem\<close> (record \<open>response_items\<close>), SHA-256, the spelling of the
  Fast tier, credentials of \<open>codex_login\<close> (record \<open>CodexAuth\<close>, the answers of its methods) and
  the provider table of \<open>codex_model_provider_info\<close>.
\<close>

abbreviation invalid_request :: "bytes \<Rightarrow> ('a, Error) result" where
  "invalid_request m \<equiv> Err (InvalidRequest m)"

text \<open>\<open>matches!(v, Some("a" | ...))\<close> on an optional string.\<close>

abbreviation one_of :: "bytes option \<Rightarrow> bytes list \<Rightarrow> bool" where
  "one_of x ss \<equiv> x \<in> Some ` set ss"

section \<open>Catalog checks\<close>

record ModelCapabilities =
  cap_is_visible :: bool
  cap_use_responses_lite :: bool
  cap_tool_mode :: "bytes option"
  cap_input_modalities :: "bytes list"
  cap_supported_reasoning_efforts :: "bytes list"
  cap_supports_fast_mode :: bool

definition is_image :: "Value \<Rightarrow> bool" where
  "is_image part = one_of (get_str part ''type'') [''input_image'', ''image_url'']"

definition images_at :: "Value \<Rightarrow> bytes \<Rightarrow> bool" where
  "images_at item field = is_some_and (list_ex is_image) (Option.bind (value_get item field) as_array)"

definition request_contains_image :: "Value \<Rightarrow> bool" where
  "request_contains_image body =
     is_some_and (list_ex (\<lambda>item. images_at item ''content'' \<or> images_at item ''output''))
       (Option.bind (value_get body ''input'') as_array)"

definition requested_effort :: "Value \<Rightarrow> bytes option" where
  "requested_effort body =
     Option.bind (Option.bind (value_get body ''reasoning'') as_object) (\<lambda>r. map_str r ''effort'')"

definition validate_model_request ::
  "(bytes \<times> ModelCapabilities) list \<Rightarrow> Value \<Rightarrow> bool \<Rightarrow> (ModelCapabilities option, Error) result" where
  "validate_model_request model_capabilities body api_key_auth =
     and_then (ok_or (get_str body ''model'') (InvalidRequest ''model must be a string'')) (\<lambda>model.
       case map_get model_capabilities model of
         None \<Rightarrow>
           if api_key_auth then Ok None
           else invalid_request ''model is not available in the authenticated Codex catalog''
       | Some capabilities \<Rightarrow>
           if \<not> cap_is_visible capabilities then
             invalid_request ''model is not available for interactive use''
           else if cap_tool_mode capabilities = Some ''code_mode_only'' \<and> \<not> cap_use_responses_lite capabilities then
             invalid_request ''model requires the Responses Lite tool protocol''
           else if request_contains_image body \<and> ''image'' \<notin> set (cap_input_modalities capabilities) then
             invalid_request ''model does not accept image input''
           else if is_some_and (\<lambda>effort. cap_supported_reasoning_efforts capabilities \<noteq> [] \<and>
                      effort \<notin> set (cap_supported_reasoning_efforts capabilities)) (requested_effort body) then
             invalid_request ''reasoning effort is not supported by the selected model''
           else Ok (Some capabilities))"

section \<open>Fast mode\<close>

definition validate_fast_mode_availability ::
  "bool \<Rightarrow> bool \<Rightarrow> ModelCapabilities option \<Rightarrow> (unit, Error) result" where
  "validate_fast_mode_availability enabled custom_base_url capabilities =
     (if \<not> enabled \<or> custom_base_url \<or> capabilities = None then Ok ()
      else if is_some_and cap_supports_fast_mode capabilities then Ok ()
      else Err FastModeUnavailable)"

definition apply_fast_service_tier :: "bytes \<Rightarrow> Value \<Rightarrow> bool \<Rightarrow> (Value, Error) result" where
  "apply_fast_service_tier fast_tier body enabled =
     and_then (ok_or (as_object body) (InvalidRequest ''request body must be an object'')) (\<lambda>object.
       let object = map_remove ''service_tier'' object
       in Ok (Object (if enabled then map_insert ''service_tier'' (String fast_tier) object else object)))"

definition subscription_routing_hint :: "http_crate \<Rightarrow> Value \<Rightarrow> (bytes, Error) result" where
  "subscription_routing_hint http body =
     and_then (ok_or (get_str body ''model'') (InvalidRequest ''model must be a string'')) (\<lambda>model.
       let hint = (case get_str body ''service_tier'' of
                     Some tier \<Rightarrow> ''model='' @ model @ '';tier='' @ tier
                   | None \<Rightarrow> ''model='' @ model)
       in ok_or (hv_from_str http hint) (InvalidHeader ''generated Codex routing hint''))"

section \<open>Fields of the body\<close>

definition MAX_MODEL_ID_BYTES :: nat where
  "MAX_MODEL_ID_BYTES = 256"

definition validate_model_id :: "bytes \<Rightarrow> (unit, bytes) result" where
  "validate_model_id model =
     (if model = [] \<or> length model > MAX_MODEL_ID_BYTES \<or> starts_with ''-'' model then
        Err (''model must contain between 1 and '' @ show_nat MAX_MODEL_ID_BYTES @ '' bytes'')
      else if list_ex is_whitespace (chars model) \<or> list_ex is_control (chars model) then
        Err ''model must not contain whitespace or control characters''
      else Ok ())"

definition normalize_instructions :: "jmap \<Rightarrow> (jmap, Error) result" where
  "normalize_instructions object =
     (case map_get object ''instructions'' of
        None \<Rightarrow> Ok (map_insert ''instructions'' (String []) object)
      | Some (String _) \<Rightarrow> Ok object
      | Some _ \<Rightarrow> invalid_request ''instructions must be a string'')"

definition reject_stateful_reference :: "bytes \<Rightarrow> jmap \<Rightarrow> (jmap, Error) result" where
  "reject_stateful_reference field object =
     (if map_get object field \<in> {None, Some Null} then Ok (map_remove field object)
      else invalid_request (field @ '' cannot be used because Muse sends complete stateless history''))"

definition typed_tool :: "Value \<Rightarrow> bool" where
  "typed_tool tool = is_some_and (\<lambda>tool. is_some_and is_string (map_get tool ''type'')) (as_object tool)"

definition normalize_tools :: "jmap \<Rightarrow> (jmap, Error) result" where
  "normalize_tools object =
     (case map_get object ''tools'' of
        None \<Rightarrow> Ok (map_insert ''tools'' (Array []) object)
      | Some (Array tools) \<Rightarrow>
          if list_all typed_tool tools then Ok object
          else invalid_request ''each tool must be an object with a string type''
      | Some _ \<Rightarrow> invalid_request ''tools must be an array'')"

definition normalize_tool_choice :: "bool \<Rightarrow> jmap \<Rightarrow> (jmap, Error) result" where
  "normalize_tool_choice api_key_auth object =
     (case map_get object ''tool_choice'' of
        None \<Rightarrow> Ok (map_insert ''tool_choice'' (String ''auto'') object)
      | Some (String _) \<Rightarrow> Ok object
      | Some (Object _) \<Rightarrow>
          if api_key_auth then Ok object else invalid_request ''tool_choice has an unsupported shape''
      | Some _ \<Rightarrow> invalid_request ''tool_choice has an unsupported shape'')"

definition normalize_parallel_tool_calls :: "jmap \<Rightarrow> (jmap, Error) result" where
  "normalize_parallel_tool_calls object =
     (case map_get object ''parallel_tool_calls'' of
        None \<Rightarrow> Ok (map_insert ''parallel_tool_calls'' (Bool True) object)
      | Some (Bool _) \<Rightarrow> Ok object
      | Some _ \<Rightarrow> invalid_request ''parallel_tool_calls must be a boolean'')"

definition reasoning_efforts :: "bytes list" where
  "reasoning_efforts = [''none'', ''minimal'', ''low'', ''medium'', ''high'', ''xhigh'', ''max'', ''ultra'']"

definition is_reasoning_effort :: "bytes \<Rightarrow> bool" where
  "is_reasoning_effort value = (value \<in> set reasoning_efforts)"

definition is_reasoning_summary :: "bytes \<Rightarrow> bool" where
  "is_reasoning_summary value = (value \<in> set [''auto'', ''concise'', ''detailed'', ''none''])"

definition unsupported_option :: "(bytes \<Rightarrow> bool) \<Rightarrow> Value option \<Rightarrow> bool" where
  "unsupported_option supported v =
     is_some_and (\<lambda>v. v \<noteq> Null \<and> \<not> is_some_and supported (as_str v)) v"

text \<open>The result flag of \<open>normalize_reasoning\<close> is not used by its caller.\<close>

definition normalize_reasoning :: "bool \<Rightarrow> jmap \<Rightarrow> (bool \<times> jmap, Error) result" where
  "normalize_reasoning api_key_auth object =
     (case map_get object ''reasoning'' of
        None \<Rightarrow> Ok (False, object)
      | Some Null \<Rightarrow> Ok (False, object)
      | Some (Object reasoning) \<Rightarrow>
          if unsupported_option is_reasoning_effort (map_get reasoning ''effort'') then
            invalid_request ''reasoning effort is not supported''
          else if unsupported_option is_reasoning_summary (map_get reasoning ''summary'') then
            invalid_request ''reasoning summary is not supported''
          else
            let reasoning = (if api_key_auth then reasoning
                  else (let r = map_retain (\<lambda>key. key \<in> {''effort'', ''summary''}) reasoning
                        in if map_str r ''summary'' = Some ''none'' then map_remove ''summary'' r else r))
            in Ok (True, map_insert ''reasoning'' (Object reasoning) object)
      | Some _ \<Rightarrow> invalid_request ''reasoning must be an object or null'')"

definition push_unique :: "'a list \<Rightarrow> 'a \<Rightarrow> 'a list" where
  "push_unique xs x = (if x \<in> set xs then xs else xs @ [x])"

definition encrypted_reasoning :: Value where
  "encrypted_reasoning = String ''reasoning.encrypted_content''"

definition normalize_include :: "jmap \<Rightarrow> (jmap, Error) result" where
  "normalize_include object =
     (case unwrap_or (map_get object ''include'') (Array []) of
        Array include \<Rightarrow>
          if \<not> list_all is_string include then invalid_request ''include entries must be strings''
          else Ok (map_insert ''include''
                 (Array (push_unique (foldl push_unique [] include) encrypted_reasoning)) object)
      | _ \<Rightarrow> invalid_request ''include must be an array'')"

definition validate_optional_positive_integer :: "jmap \<Rightarrow> bytes \<Rightarrow> (unit, Error) result" where
  "validate_optional_positive_integer object field =
     (if is_some_and (\<lambda>v. v \<noteq> Null \<and> \<not> is_some_and (\<lambda>n. n \<noteq> 0) (as_u64 v)) (map_get object field)
      then invalid_request (field @ '' must be a positive integer or null'') else Ok ())"

section \<open>Namespaced tools\<close>

type_synonym NamespaceCallMap = "(bytes \<times> (bytes \<times> bytes)) list"

definition standalone_names :: "Value list \<Rightarrow> bytes list" where
  "standalone_names tools =
     List.map_filter (\<lambda>tool. map_str tool ''name'')
       (filter (\<lambda>tool. map_str tool ''type'' = Some ''function'') (List.map_filter as_object tools))"

definition namespace_call ::
  "bytes list \<Rightarrow> bytes \<Rightarrow> NamespaceCallMap \<Rightarrow> Value \<Rightarrow> (NamespaceCallMap, Error) result" where
  "namespace_call standalone namespace calls namespace_tool =
     (case as_object namespace_tool of
        None \<Rightarrow> Ok calls
      | Some tool \<Rightarrow>
          if map_str tool ''type'' \<noteq> Some ''function'' then Ok calls
          else (case map_str tool ''name'' of
                  None \<Rightarrow> Ok calls
                | Some name \<Rightarrow>
                    let flattened = namespace @ ''.'' @ name
                    in if flattened \<in> set standalone then
                         invalid_request (''namespace tool conflicts with standalone function '' @ flattened)
                       else if is_some_and (\<lambda>previous. previous \<noteq> (namespace, name)) (map_get calls flattened) then
                         invalid_request (''namespace tools have ambiguous flattened call name '' @ flattened)
                       else Ok (map_insert flattened (namespace, name) calls)))"

definition namespace_calls_of ::
  "bytes list \<Rightarrow> NamespaceCallMap \<Rightarrow> Value \<Rightarrow> (NamespaceCallMap, Error) result" where
  "namespace_calls_of standalone calls tool =
     (case as_object tool of
        None \<Rightarrow> Ok calls
      | Some tool \<Rightarrow>
          if map_str tool ''type'' \<noteq> Some ''namespace'' then Ok calls
          else (case (map_str tool ''name'', Option.bind (map_get tool ''tools'') as_array) of
                  (Some namespace, Some namespace_tools) \<Rightarrow>
                    try_fold (namespace_call standalone namespace) calls namespace_tools
                | _ \<Rightarrow> Ok calls))"

definition collect_namespace_calls :: "Value list \<Rightarrow> (NamespaceCallMap, Error) result" where
  "collect_namespace_calls tools = try_fold (namespace_calls_of (standalone_names tools)) [] tools"

section \<open>Input items\<close>

definition part_error :: "nat \<Rightarrow> nat \<Rightarrow> bytes \<Rightarrow> ('a, Error) result" where
  "part_error item_index part_index what =
     invalid_request (''message item '' @ show_nat item_index @ '' content part '' @ show_nat part_index @ what)"

definition normalize_image_url :: "nat \<Rightarrow> nat \<Rightarrow> jmap \<Rightarrow> (jmap, Error) result" where
  "normalize_image_url item_index part_index object =
     (case map_get object ''image_url'' of
        None \<Rightarrow> part_error item_index part_index '' has no image_url''
      | Some (String url) \<Rightarrow>
          Ok (map_insert ''type'' (String ''input_image'')
               (map_insert ''image_url'' (String url) (map_remove ''image_url'' object)))
      | Some (Object img) \<Rightarrow>
          (case opt_filter is_string (map_get img ''url'') of
             None \<Rightarrow> part_error item_index part_index '' has no image URL''
           | Some url \<Rightarrow>
               let object = map_insert ''image_url'' url (map_remove ''image_url'' object);
                   object = (case map_get img ''detail'' of
                               Some detail \<Rightarrow> map_insert ''detail'' detail object | None \<Rightarrow> object)
               in Ok (map_insert ''type'' (String ''input_image'') object))
      | Some _ \<Rightarrow> part_error item_index part_index '' has invalid image_url'')"

definition text_type :: "bool \<Rightarrow> bytes" where
  "text_type assistant = (if assistant then ''output_text'' else ''input_text'')"

definition normalize_content_part :: "bool \<Rightarrow> nat \<Rightarrow> nat \<times> Value \<Rightarrow> (Value, Error) result" where
  "normalize_content_part assistant item_index indexed =
     (case indexed of (part_index, part) \<Rightarrow>
       (case as_object part of
          None \<Rightarrow> part_error item_index part_index '' must be an object''
        | Some object \<Rightarrow>
            (case map_str object ''type'' of
               None \<Rightarrow> part_error item_index part_index '' has no string type''
             | Some part_type \<Rightarrow>
                 if part_type \<in> {''text'', ''input_text'', ''output_text''} then
                   if \<not> is_some_and is_string (map_get object ''text'') then
                     part_error item_index part_index '' has no string text''
                   else Ok (Object (map_insert ''type'' (String (text_type assistant)) object))
                 else if part_type = ''image_url'' then
                   and_then (normalize_image_url item_index part_index object) (\<lambda>obj. Ok (Object obj))
                 else if part_type = ''input_image'' \<and> \<not> assistant then Ok part
                 else part_error item_index part_index '' has unsupported type'')))"

definition message_error :: "nat \<Rightarrow> bytes \<Rightarrow> ('a, Error) result" where
  "message_error index what = invalid_request (''message item '' @ show_nat index @ what)"

definition normalize_message_item :: "jmap \<Rightarrow> nat \<Rightarrow> (jmap, Error) result" where
  "normalize_message_item object index =
     (case map_str object ''role'' of
        None \<Rightarrow> message_error index '' has no string role''
      | Some role \<Rightarrow>
          if role \<notin> {''assistant'', ''developer'', ''system'', ''user''} then
            message_error index '' has unsupported role''
          else
            let assistant = (role = ''assistant'')
            in case map_get object ''content'' of
                 None \<Rightarrow> message_error index '' has no content''
               | Some content \<Rightarrow>
                   (case (case content of
                            String s \<Rightarrow> Array [json_object [(''type'', String (text_type assistant)), (''text'', String s)]]
                          | _ \<Rightarrow> content) of
                      Array ps \<Rightarrow>
                        and_then (collect_results (normalize_content_part assistant index) (zip [0..<length ps] ps))
                          (\<lambda>ps'. Ok (map_insert ''content'' (Array ps') object))
                    | _ \<Rightarrow> message_error index '' content must be a string or array''))"

definition supported_items :: "bytes list" where
  "supported_items = [''message'', ''reasoning'', ''local_shell_call'', ''function_call'',
     ''function_call_output'', ''custom_tool_call'', ''custom_tool_call_output'', ''tool_search_call'',
     ''tool_search_output'', ''web_search_call'', ''image_generation_call'', ''compaction'',
     ''compaction_summary'', ''compaction_trigger'', ''context_compaction'']"

record 'i response_items =
  ri_from_value :: "Value \<Rightarrow> ('i, bytes) result"
  ri_other :: "'i \<Rightarrow> bool"
  ri_id_prefixed :: "'i \<Rightarrow> bool option"
  ri_clear_id :: "'i \<Rightarrow> 'i"
  ri_to_value :: "'i \<Rightarrow> (Value, bytes) result"

definition item_error :: "nat \<Rightarrow> bytes \<Rightarrow> Error" where
  "item_error index what = InvalidRequest (''input item '' @ show_nat index @ what)"

text \<open>The typed round trip of one item.\<close>

definition retype_item :: "'i response_items \<Rightarrow> nat \<Rightarrow> Value \<Rightarrow> (Value, Error) result" where
  "retype_item ri index item =
     (case ri_from_value ri item of
        Err e \<Rightarrow> Err (item_error index ('' is invalid: '' @ e))
      | Ok parsed \<Rightarrow>
          if ri_other ri parsed then Err (item_error index '' has unsupported type'')
          else
            let parsed = (if ri_id_prefixed ri parsed = Some False then ri_clear_id ri parsed else parsed)
            in case ri_to_value ri parsed of
                 Err e \<Rightarrow> Err (item_error index ('' could not be normalized: '' @ e))
               | Ok v \<Rightarrow> Ok v)"

definition split_namespace :: "NamespaceCallMap \<Rightarrow> Value \<Rightarrow> Value" where
  "split_namespace namespace_calls normalized =
     (case normalized of
        Object m \<Rightarrow>
          if map_str m ''type'' = Some ''function_call'' \<and> map_get m ''namespace'' = None then
            (case Option.bind (map_str m ''name'') (map_get namespace_calls) of
               Some (namespace, name) \<Rightarrow>
                 Object (map_insert ''name'' (String name) (map_insert ''namespace'' (String namespace) m))
             | None \<Rightarrow> normalized)
          else normalized
      | _ \<Rightarrow> normalized)"

definition drop_result_name :: "Value \<Rightarrow> Value" where
  "drop_result_name normalized =
     (case normalized of
        Object m \<Rightarrow>
          if one_of (map_str m ''type'') [''function_call_output'', ''custom_tool_call_output'']
          then Object (map_remove ''name'' m) else normalized
      | _ \<Rightarrow> normalized)"

definition normalize_response_item ::
  "'i response_items \<Rightarrow> NamespaceCallMap \<Rightarrow> nat \<times> Value \<Rightarrow> (Value, Error) result" where
  "normalize_response_item ri namespace_calls indexed =
     (case indexed of (index, item) \<Rightarrow>
       and_then (ok_or (as_object item) (item_error index '' must be an object'')) (\<lambda>object.
       and_then (ok_or (map_str object ''type'') (item_error index '' has no string type'')) (\<lambda>item_type.
         if item_type \<notin> set supported_items then Err (item_error index '' has unsupported type'')
         else
           and_then (if item_type = ''message'' then normalize_message_item object index else Ok object) (\<lambda>object.
           and_then (retype_item ri index (Object object)) (\<lambda>normalized.
             Ok (drop_result_name (split_namespace namespace_calls normalized)))))))"

definition normalize_response_input ::
  "'i response_items \<Rightarrow> Value \<Rightarrow> NamespaceCallMap \<Rightarrow> (Value, Error) result" where
  "normalize_response_input ri input namespace_calls =
     and_then (case input of
                 String s \<Rightarrow> Ok [json_object [(''type'', String ''message''), (''role'', String ''user''),
                    (''content'', Array [json_object [(''type'', String ''input_text''), (''text'', String s)]])]]
               | Array items \<Rightarrow>
                   if items \<noteq> [] then Ok items else invalid_request ''input must contain at least one item''
               | _ \<Rightarrow> invalid_request ''input must be a string or an array'')
     (\<lambda>items. and_then (collect_results (normalize_response_item ri namespace_calls) (zip [0..<length items] items))
        (\<lambda>normalized. Ok (Array normalized)))"

section \<open>Responses Lite\<close>

definition hosted_tools :: "bytes list" where
  "hosted_tools = [''web_search'', ''web_search_preview'', ''file_search'', ''computer_use'',
     ''computer_use_preview'', ''code_interpreter'', ''image_generation'']"

definition is_hosted_responses_tool :: "bytes \<Rightarrow> bool" where
  "is_hosted_responses_tool tool_type = (tool_type \<in> set hosted_tools)"

record lite_tools =
  lite_functions :: "Value list"
  lite_description :: bytes
  lite_index :: "nat option"
  lite_grouped :: "Value list"

definition group_lite_tool :: "lite_tools \<Rightarrow> Value \<Rightarrow> (lite_tools, Error) result" where
  "group_lite_tool acc tool =
     and_then (ok_or (get_str tool ''type'') (InvalidRequest ''each tool must have a string type'')) (\<lambda>tool_type.
       if is_hosted_responses_tool tool_type then Ok acc
       else
         let index = Some (unwrap_or (lite_index acc) (length (lite_grouped acc)))
         in if tool_type \<in> {''function'', ''custom''} then
              Ok (acc\<lparr>lite_index := index, lite_functions := lite_functions acc @ [tool]\<rparr>)
            else if tool_type = ''namespace'' \<and> get_str tool ''name'' = Some ''functions'' then
              let description = unwrap_or (opt_filter (\<lambda>d. trim d \<noteq> []) (get_str tool ''description''))
                                  (lite_description acc)
              in and_then (ok_or (Option.bind (value_get tool ''tools'') as_array)
                             (InvalidRequest ''functions namespace tools must be an array''))
                 (\<lambda>namespace_tools. Ok (acc\<lparr>lite_index := index, lite_description := description,
                    lite_functions := lite_functions acc @ namespace_tools\<rparr>))
            else Ok (acc\<lparr>lite_grouped := lite_grouped acc @ [tool]\<rparr>))"

definition functions_namespace :: "bytes \<Rightarrow> Value list \<Rightarrow> Value" where
  "functions_namespace description functions = json_object [
     (''type'', String ''namespace''), (''name'', String ''functions''),
     (''description'', String description), (''tools'', Array functions)]"

definition group_responses_lite_tools :: "Value list \<Rightarrow> (Value list, Error) result" where
  "group_responses_lite_tools tools =
     and_then (try_fold group_lite_tool
        \<lparr>lite_functions = [], lite_description = [], lite_index = None, lite_grouped = []\<rparr> tools)
     (\<lambda>acc. case lite_index acc of
        Some index \<Rightarrow>
          if lite_functions acc \<noteq> [] then
            Ok (take index (lite_grouped acc)
                @ functions_namespace (lite_description acc) (lite_functions acc) # drop index (lite_grouped acc))
          else Ok (lite_grouped acc)
      | None \<Rightarrow> Ok (lite_grouped acc))"

definition strip_image_detail :: "Value \<Rightarrow> Value" where
  "strip_image_detail part =
     (case part of
        Object m \<Rightarrow> if map_str m ''type'' = Some ''input_image'' then Object (map_remove ''detail'' m) else part
      | _ \<Rightarrow> part)"

definition strip_parts_at :: "bytes \<Rightarrow> jmap \<Rightarrow> jmap" where
  "strip_parts_at field m =
     (case map_get m field of
        Some (Array ps) \<Rightarrow> map_insert field (Array (map strip_image_detail ps)) m
      | _ \<Rightarrow> m)"

definition strip_item_details :: "Value \<Rightarrow> Value" where
  "strip_item_details item =
     (case item of
        Object m \<Rightarrow>
          if map_str m ''type'' = Some ''message'' then Object (strip_parts_at ''content'' m)
          else if one_of (map_str m ''type'') [''function_call_output'', ''custom_tool_call_output'']
          then Object (strip_parts_at ''output'' m)
          else item
      | _ \<Rightarrow> item)"

definition strip_responses_lite_image_details :: "Value list \<Rightarrow> Value list" where
  "strip_responses_lite_image_details input = map strip_item_details input"

definition hex_digit :: "nat \<Rightarrow> char" where
  "hex_digit d = ''0123456789abcdef'' ! d"

definition hex_byte :: "char \<Rightarrow> bytes" where
  "hex_byte c = [hex_digit (byte c div 16), hex_digit (byte c mod 16)]"

definition stable_prefix_item_id ::
  "serde_json \<Rightarrow> (bytes \<Rightarrow> bytes) \<Rightarrow> bytes \<Rightarrow> bytes \<Rightarrow> Value \<Rightarrow> bytes" where
  "stable_prefix_item_id sj sha256 prefix request_namespace value =
     prefix @ ''_'' @ concat (map hex_byte (take 16 (sha256 (request_namespace @ [CHR 0x00] @ to_string sj value))))"

definition lite_prefix :: "serde_json \<Rightarrow> (bytes \<Rightarrow> bytes) \<Rightarrow> bytes \<Rightarrow> bytes \<Rightarrow> Value list \<Rightarrow> Value list" where
  "lite_prefix sj sha256 request_namespace instructions tools =
     json_object [
       (''id'', String (stable_prefix_item_id sj sha256 ''at'' request_namespace (Array tools))),
       (''type'', String ''additional_tools''), (''role'', String ''developer''), (''tools'', Array tools)]
     # (if instructions = [] then [] else [json_object [
       (''id'', String (stable_prefix_item_id sj sha256 ''msg'' request_namespace (String instructions))),
       (''type'', String ''message''), (''role'', String ''developer''),
       (''content'', Array [json_object [(''type'', String ''input_text''), (''text'', String instructions)]]),
       (''internal_chat_message_metadata_passthrough'',
          json_object [(''content_item_kinds'', Array [String ''model.base_instructions''])])]])"

definition normalize_responses_lite_request ::
  "serde_json \<Rightarrow> (bytes \<Rightarrow> bytes) \<Rightarrow> bytes \<Rightarrow> jmap \<Rightarrow> (jmap, Error) result" where
  "normalize_responses_lite_request sj sha256 request_namespace object =
     and_then (ok_or (map_str object ''instructions'') (InvalidRequest ''instructions must be a string'')) (\<lambda>instructions.
     and_then (ok_or (Option.bind (map_get object ''tools'') as_array) (InvalidRequest ''tools must be an array'')) (\<lambda>tools.
     and_then (group_responses_lite_tools tools) (\<lambda>tools.
     and_then (ok_or (Option.bind (map_get object ''input'') as_array) (InvalidRequest ''input must be an array'')) (\<lambda>input.
       let object = map_remove ''tools'' (map_remove ''instructions'' object);
           input = lite_prefix sj sha256 request_namespace instructions tools @ strip_responses_lite_image_details input;
           object = map_insert ''parallel_tool_calls'' (Bool False) (map_insert ''input'' (Array input) object)
       in case unwrap_or (map_get object ''reasoning'') (Object []) of
            Object reasoning \<Rightarrow>
              Ok (map_insert ''reasoning'' (Object (map_insert ''context'' (String ''all_turns'') reasoning)) object)
          | _ \<Rightarrow> invalid_request ''reasoning must be an object''))))"

text \<open>
  The request id names the prefix items; without one, the process id and a wrapping counter do.
\<close>

definition responses_lite_request_namespace ::
  "http_crate \<Rightarrow> nat \<Rightarrow> HeaderMap \<Rightarrow> u64 \<Rightarrow> bytes \<times> u64" where
  "responses_lite_request_namespace http pid headers sequence =
     (case opt_filter (\<lambda>v. v \<noteq> [] \<and> length v \<le> 512) (hm_get_str http headers ''x-request-id'') of
        Some request_id \<Rightarrow> (''request:'' @ request_id, sequence)
      | None \<Rightarrow> (''process:'' @ show_nat pid @ '':'' @ show_u64 sequence, sequence + 1))"

section \<open>The whole body\<close>

definition strip_subscription_fields :: "jmap \<Rightarrow> jmap" where
  "strip_subscription_fields object =
     map_remove ''metadata'' (map_remove ''client_metadata'' (map_remove ''max_output_tokens'' object))"

record 'i body_env =
  be_json :: serde_json
  be_items :: "'i response_items"
  be_sha256 :: "bytes \<Rightarrow> bytes"

definition normalize_input_field :: "'i body_env \<Rightarrow> jmap \<Rightarrow> (jmap, Error) result" where
  "normalize_input_field env object =
     and_then (collect_namespace_calls (unwrap_or (Option.bind (map_get object ''tools'') as_array) []))
     (\<lambda>namespace_calls.
     and_then (ok_or (map_get object ''input'') (InvalidRequest ''input is required'')) (\<lambda>input.
     and_then (normalize_response_input (be_items env) input namespace_calls) (\<lambda>input.
       Ok (map_insert ''input'' input (map_remove ''input'' object)))))"

definition normalize_token_limit :: "bool \<Rightarrow> jmap \<Rightarrow> (jmap, Error) result" where
  "normalize_token_limit api_key_auth object =
     (if api_key_auth then
        and_then (validate_optional_positive_integer object ''max_output_tokens'') (\<lambda>_. Ok object)
      else Ok (strip_subscription_fields object))"

definition normalize_lite_form :: "'i body_env \<Rightarrow> bool \<Rightarrow> bytes option \<Rightarrow> jmap \<Rightarrow> (jmap, Error) result" where
  "normalize_lite_form env use_responses_lite lite_request_namespace object =
     (if use_responses_lite then
        and_then (ok_or lite_request_namespace (InvalidRequest ''Responses Lite request namespace was not initialized''))
          (\<lambda>ns. normalize_responses_lite_request (be_json env) (be_sha256 env) ns object)
      else Ok object)"

definition normalize_responses_request ::
  "'i body_env \<Rightarrow> Value \<Rightarrow> bool \<Rightarrow> bool \<Rightarrow> bytes option \<Rightarrow> (Value, Error) result" where
  "normalize_responses_request env body api_key_auth use_responses_lite lite_request_namespace =
     and_then (ok_or (as_object body) (InvalidRequest ''request body must be an object'')) (\<lambda>object.
     and_then (ok_or (map_str object ''model'') (InvalidRequest ''model must be a string'')) (\<lambda>model.
     and_then (map_err InvalidRequest (validate_model_id model)) (\<lambda>_.
     and_then (normalize_instructions object) (\<lambda>object.
     and_then (reject_stateful_reference ''previous_response_id'' object) (\<lambda>object.
     and_then (reject_stateful_reference ''conversation'' object) (\<lambda>object.
     and_then (normalize_tools object) (\<lambda>object.
     and_then (normalize_input_field env object) (\<lambda>object.
     and_then (normalize_tool_choice api_key_auth object) (\<lambda>object.
     and_then (normalize_parallel_tool_calls object) (\<lambda>object.
     and_then (normalize_reasoning api_key_auth object) (\<lambda>(_, object).
     and_then (normalize_include object) (\<lambda>object.
     and_then (normalize_token_limit api_key_auth object) (\<lambda>object.
     and_then (normalize_lite_form env use_responses_lite lite_request_namespace object) (\<lambda>object.
       Ok (Object (map_insert ''stream'' (Bool True) (map_insert ''store'' (Bool False) object)))))))))))))))))"

section \<open>Lists without repetitions\<close>

lemma push_unique_set [simp]: "set (push_unique xs x) = insert x (set xs)"
  by (auto simp: push_unique_def)

lemma push_unique_distinct: "distinct xs \<Longrightarrow> distinct (push_unique xs x)"
  by (simp add: push_unique_def)

lemma push_unique_fold: "set (foldl push_unique acc xs) = set acc \<union> set xs"
  by (induction xs arbitrary: acc) auto

lemma push_unique_fold_distinct: "distinct acc \<Longrightarrow> distinct (foldl push_unique acc xs)"
  by (induction xs arbitrary: acc) (auto simp: push_unique_distinct)

end
