(* ===== verification/Transport_Headers.thy ===== *)
theory Transport_Headers
  imports Transport_Request
begin

text \<open>
  Credentials and headers of an outgoing request
  (\<open>codex-transport/src/transport.rs\<close>, \<open>resolve_auth\<close> to \<open>is_forbidden_forwarded_header\<close>).
  \<open>CodexAuth\<close> holds the answers of the credential methods of \<open>codex_login\<close>, \<open>Url\<close> those of the
  \<open>url\<close> crate; the provider table, the URL parser and the agent string are fields of \<open>send_env\<close>.
\<close>

section \<open>Credentials\<close>

record CodexAuth =
  is_api_key_auth :: bool
  is_chatgpt_auth :: bool
  get_token :: "bytes option"
  get_account_id :: "bytes option"
  is_fedramp_account :: bool

record Url =
  url_scheme :: bytes
  url_host_str :: "bytes option"
  url_username :: bytes
  url_password :: "bytes option"
  url_query :: "bytes option"
  url_fragment :: "bytes option"
  url_text :: bytes

definition validate_base_url :: "Url \<Rightarrow> (unit, Error) result" where
  "validate_base_url url =
     (if url_scheme url \<noteq> ''https'' \<or> url_host_str url = None \<or> url_username url \<noteq> [] \<or> url_password url \<noteq> None
         \<or> url_query url \<noteq> None \<or> url_fragment url \<noteq> None
      then Err InvalidBaseUrl else Ok ())"

text \<open>
  The credential choice: the process override wins; otherwise the stored credential, which may be
  absent. \<open>from_api_key\<close> is the constructor of \<open>codex_login\<close>.
\<close>

definition resolve_auth ::
  "(bytes \<Rightarrow> CodexAuth) \<Rightarrow> bytes option \<Rightarrow> CodexAuth option \<Rightarrow> Url option \<Rightarrow> (CodexAuth, Error) result" where
  "resolve_auth from_api_key api_key_override stored api_key_base_url =
     and_then (case api_key_override of
                 Some api_key \<Rightarrow> Ok (from_api_key api_key)
               | None \<Rightarrow> ok_or stored NotAuthenticated) (\<lambda>auth.
       if \<not> is_api_key_auth auth \<and> \<not> is_chatgpt_auth auth then Err UnsupportedAuthMode
       else if api_key_base_url \<noteq> None \<and> \<not> is_api_key_auth auth then Err CustomBaseUrlRequiresApiKey
       else Ok auth)"

section \<open>Headers\<close>

definition RESPONSES_LITE_HEADER :: bytes where
  "RESPONSES_LITE_HEADER = ''x-openai-internal-codex-responses-lite''"

definition CODEX_ROUTING_HINT_HEADER :: bytes where
  "CODEX_ROUTING_HINT_HEADER = ''x-codex-routing-hint''"

definition forbidden_headers :: "bytes list" where
  "forbidden_headers = [''authorization'', ''proxy-authorization'', ''cookie'', ''host'', ''content-length'',
     ''connection'', ''keep-alive'', ''proxy-authenticate'', ''te'', ''trailer'', ''transfer-encoding'',
     ''upgrade'', ''chatgpt-account-id'', ''x-openai-fedramp'', ''x-api-key'', ''api-key'',
     ''openai-organization'', ''openai-project'', ''originator'', ''user-agent'', ''version'',
     RESPONSES_LITE_HEADER, CODEX_ROUTING_HINT_HEADER]"

definition is_forbidden_forwarded_header :: "bytes \<Rightarrow> bool" where
  "is_forbidden_forwarded_header name = (name \<in> set forbidden_headers)"

definition merge_safe_request_headers :: "HeaderMap \<Rightarrow> HeaderMap \<Rightarrow> HeaderMap" where
  "merge_safe_request_headers destination source =
     foldl (\<lambda>d (name, value). if is_forbidden_forwarded_header name then d else hm_insert name value d)
       destination source"

definition set_internal_responses_lite_header :: "bool \<Rightarrow> HeaderMap \<Rightarrow> HeaderMap" where
  "set_internal_responses_lite_header enabled headers =
     (if enabled then hm_insert RESPONSES_LITE_HEADER ''true'' headers
      else hm_remove RESPONSES_LITE_HEADER headers)"

definition set_internal_routing_hint_header :: "bytes option \<Rightarrow> HeaderMap \<Rightarrow> HeaderMap" where
  "set_internal_routing_hint_header value headers =
     (case value of
        Some v \<Rightarrow> hm_insert CODEX_ROUTING_HINT_HEADER v headers
      | None \<Rightarrow> hm_remove CODEX_ROUTING_HINT_HEADER headers)"

definition attach_auth_headers :: "http_crate \<Rightarrow> CodexAuth \<Rightarrow> HeaderMap \<Rightarrow> (HeaderMap, Error) result" where
  "attach_auth_headers http auth headers =
     and_then (ok_or (get_token auth) (Authentication ''credential has no bearer token'')) (\<lambda>token.
     and_then (ok_or (hv_from_str http (''Bearer '' @ token))
                 (Authentication ''credential is not a valid header value'')) (\<lambda>authorization.
     and_then (case get_account_id auth of
                 None \<Rightarrow> Ok (hm_insert ''authorization'' authorization headers)
               | Some account_id \<Rightarrow>
                   and_then (ok_or (hv_from_str http account_id)
                               (Authentication ''account id is not a valid header value''))
                     (\<lambda>account. Ok (hm_insert ''chatgpt-account-id'' account
                        (hm_insert ''authorization'' authorization headers)))) (\<lambda>headers.
       Ok (if is_fedramp_account auth then hm_insert ''x-openai-fedramp'' ''true'' headers else headers))))"

section \<open>A prepared request\<close>

record provider =
  url_for_path :: "bytes \<Rightarrow> bytes"
  provider_headers :: HeaderMap

record send_env =
  se_http :: http_crate
  se_provider :: "bytes option \<Rightarrow> CodexAuth \<Rightarrow> (provider, bytes) result"
  se_url_parse :: "bytes \<Rightarrow> (Url, bytes) result"
  se_upstream_agent :: bytes

definition CODEX_WIRE_COMPATIBILITY_VERSION :: bytes where
  "CODEX_WIRE_COMPATIBILITY_VERSION = ''0.153.4''"

definition MUSE_CODEX_USER_AGENT :: bytes where
  "MUSE_CODEX_USER_AGENT = ''muse-codex/0.1.0''"

definition prepare_request ::
  "send_env \<Rightarrow> CodexAuth \<Rightarrow> Url option \<Rightarrow> bytes \<Rightarrow> HeaderMap \<Rightarrow> bytes \<Rightarrow> (Url \<times> HeaderMap, Error) result" where
  "prepare_request env auth api_key_base_url path extra_headers accept =
     and_then (map_err Provider (se_provider env
        (if is_api_key_auth auth then map_option url_text api_key_base_url else None) auth)) (\<lambda>provider.
     and_then (map_err Provider (se_url_parse env (url_for_path provider path))) (\<lambda>url.
     let headers = hm_insert ''version'' CODEX_WIRE_COMPATIBILITY_VERSION
           (merge_safe_request_headers (provider_headers provider) extra_headers)
     in and_then (attach_auth_headers (se_http env) auth headers) (\<lambda>headers.
        let headers = hm_insert ''accept'' accept (hm_insert ''content-type'' ''application/json'' headers)
        in and_then (ok_or (hv_from_str (se_http env)
                 (MUSE_CODEX_USER_AGENT @ '' wire/'' @ CODEX_WIRE_COMPATIBILITY_VERSION @ '' '' @ se_upstream_agent env))
               (InvalidHeader ''generated user-agent'')) (\<lambda>user_agent.
             Ok (url, hm_insert ''user-agent'' user_agent headers)))))"

record JsonRequestOptions =
  opt_accept :: bytes
  opt_use_responses_lite :: bool
  opt_routing_hint :: "bytes option"

text \<open>The request that \<open>send_json_once\<close> hands to the HTTP client.\<close>

record outgoing =
  out_method :: bytes
  out_url :: Url
  out_headers :: HeaderMap
  out_body :: Value

definition json_request ::
  "send_env \<Rightarrow> CodexAuth \<Rightarrow> Url option \<Rightarrow> bytes \<Rightarrow> bytes \<Rightarrow> Value \<Rightarrow> HeaderMap \<Rightarrow> JsonRequestOptions
    \<Rightarrow> (outgoing, Error) result" where
  "json_request env auth base method path body extra_headers options =
     and_then (prepare_request env auth base path extra_headers (opt_accept options)) (\<lambda>(url, headers).
       Ok \<lparr>out_method = method, out_url = url,
           out_headers = set_internal_routing_hint_header (opt_routing_hint options)
             (set_internal_responses_lite_header (opt_use_responses_lite options) headers),
           out_body = body\<rparr>)"

section \<open>Lemmas\<close>

lemma forbidden_members [simp]:
  "is_forbidden_forwarded_header ''authorization''" "is_forbidden_forwarded_header ''chatgpt-account-id''"
  "is_forbidden_forwarded_header ''x-openai-fedramp''" "is_forbidden_forwarded_header ''version''"
  "is_forbidden_forwarded_header ''user-agent''" "is_forbidden_forwarded_header RESPONSES_LITE_HEADER"
  "is_forbidden_forwarded_header CODEX_ROUTING_HINT_HEADER"
  by (simp_all add: is_forbidden_forwarded_header_def forbidden_headers_def)

lemma merge_safe_Cons:
  "merge_safe_request_headers d ((k, v) # src) =
     merge_safe_request_headers (if is_forbidden_forwarded_header k then d else hm_insert k v d) src"
  by (simp add: merge_safe_request_headers_def)

lemma merge_safe_Nil [simp]: "merge_safe_request_headers d [] = d"
  by (simp add: merge_safe_request_headers_def)

lemma merge_safe_forbidden:
  "is_forbidden_forwarded_header k \<Longrightarrow> hm_values (merge_safe_request_headers d src) k = hm_values d k"
proof (induction src arbitrary: d)
  case (Cons kv src)
  then show ?case by (cases kv) (auto simp: merge_safe_Cons)
qed simp

lemma merge_safe_allowed:
  "\<not> is_forbidden_forwarded_header k \<Longrightarrow>
   hm_values (merge_safe_request_headers d src) k = (case rev (hm_values src k) of [] \<Rightarrow> hm_values d k | v # _ \<Rightarrow> [v])"
proof (induction src arbitrary: d)
  case (Cons kv src)
  then show ?case
    by (cases kv) (auto simp: merge_safe_Cons split: list.splits)
qed simp

lemma attach_auth_form:
  assumes "http_crate_spec http" and "attach_auth_headers http auth headers = Ok headers'"
  obtains token where "get_token auth = Some token"
    and "headers' = (let h = hm_insert ''authorization'' (''Bearer '' @ token) headers;
            h = (case get_account_id auth of Some a \<Rightarrow> hm_insert ''chatgpt-account-id'' a h | None \<Rightarrow> h)
          in if is_fedramp_account auth then hm_insert ''x-openai-fedramp'' ''true'' h else h)"
proof -
  have same: "hv_from_str http s = Some v \<Longrightarrow> v = s" for s v
    using assms(1) by (simp add: http_crate_spec_def)
  show thesis
    using assms(2) that
    by (cases "get_account_id auth") (auto simp: attach_auth_headers_def and_then_Ok dest!: same)
qed

lemma attach_auth_values:
  assumes "http_crate_spec http" and "attach_auth_headers http auth headers = Ok headers'"
  shows "\<exists>token. get_token auth = Some token \<and> hm_values headers' ''authorization'' = [''Bearer '' @ token]"
    and "hm_values headers' ''chatgpt-account-id'' =
      (case get_account_id auth of Some a \<Rightarrow> [a] | None \<Rightarrow> hm_values headers ''chatgpt-account-id'')"
    and "hm_values headers' ''x-openai-fedramp'' =
      (if is_fedramp_account auth then [''true''] else hm_values headers ''x-openai-fedramp'')"
    and "k \<notin> {''authorization'', ''chatgpt-account-id'', ''x-openai-fedramp''} \<Longrightarrow> hm_values headers' k = hm_values headers k"
  by (rule attach_auth_form [OF assms]; simp add: Let_def split: option.split)+

lemma attach_auth_agree:
  assumes "http_crate_spec http" "attach_auth_headers http auth h1 = Ok a1" "attach_auth_headers http auth h2 = Ok a2"
    and "hm_values h1 k = hm_values h2 k"
  shows "hm_values a1 k = hm_values a2 k"
proof -
  note v1 = attach_auth_values [OF assms(1,2)] and v2 = attach_auth_values [OF assms(1,3)]
  consider "k = ''authorization''" | "k = ''chatgpt-account-id''" | "k = ''x-openai-fedramp''"
    | "k \<notin> {''authorization'', ''chatgpt-account-id'', ''x-openai-fedramp''}"
    by blast
  then show ?thesis
  proof cases
    case 1
    with v1(1) v2(1) show ?thesis by auto
  next
    case 2
    with v1(2) v2(2) assms(4) show ?thesis by (simp split: option.split)
  next
    case 3
    with v1(3) v2(3) assms(4) show ?thesis by simp
  next
    case 4
    with v1(4) v2(4) assms(4) show ?thesis by simp
  qed
qed

lemma routing_hint_values [simp]:
  "hm_values (set_internal_routing_hint_header v h) k =
     (if k = CODEX_ROUTING_HINT_HEADER then (case v of Some x \<Rightarrow> [x] | None \<Rightarrow> []) else hm_values h k)"
  by (auto simp: set_internal_routing_hint_header_def split: option.split)

lemma responses_lite_values [simp]:
  "hm_values (set_internal_responses_lite_header b h) k =
     (if k = RESPONSES_LITE_HEADER then (if b then [''true''] else []) else hm_values h k)"
  by (auto simp: set_internal_responses_lite_header_def)

text \<open>The headers of a prepared request, with the forwarded ones visible.\<close>

lemma json_request_headers:
  assumes "http_crate_spec (se_http env)"
    and "json_request env auth base method path body extra options = Ok r"
  obtains p h where
    "se_provider env (if is_api_key_auth auth then map_option url_text base else None) auth = Ok p"
    "attach_auth_headers (se_http env) auth (hm_insert ''version'' CODEX_WIRE_COMPATIBILITY_VERSION
        (merge_safe_request_headers (provider_headers p) extra)) = Ok h"
    "out_headers r = set_internal_routing_hint_header (opt_routing_hint options)
       (set_internal_responses_lite_header (opt_use_responses_lite options)
         (hm_insert ''user-agent'' (MUSE_CODEX_USER_AGENT @ '' wire/'' @ CODEX_WIRE_COMPATIBILITY_VERSION @ '' '' @ se_upstream_agent env)
           (hm_insert ''accept'' (opt_accept options) (hm_insert ''content-type'' ''application/json'' h))))"
proof -
  have same: "hv_from_str (se_http env) s = Some v \<Longrightarrow> v = s" for s v
    using assms(1) by (simp add: http_crate_spec_def)
  show thesis
    using assms(2) that
    by (auto simp: json_request_def prepare_request_def and_then_Ok Let_def dest!: same)
qed

end
