(* ===== verification/Transport_Request_Props.thy ===== *)
theory Transport_Request_Props
  imports Transport_Headers Json_Codec
begin

text \<open>
  Properties of request preparation in the Codex transport: what a normalized body holds, the
  recovery of namespaced tool calls, the Responses Lite regrouping of tools, and that forwarded
  headers cannot touch credentials.
\<close>

section \<open>The stages of normalization\<close>

text \<open>\<open>edits ks m m'\<close>: outside the keys \<open>ks\<close> a stage leaves the body alone.\<close>

definition edits :: "bytes list \<Rightarrow> jmap \<Rightarrow> jmap \<Rightarrow> bool" where
  "edits ks m m' = (\<forall>k. k \<notin> set ks \<longrightarrow> map_get m' k = map_get m k)"

lemma edits_get: "edits ks m m' \<Longrightarrow> k \<notin> set ks \<Longrightarrow> map_get m' k = map_get m k"
  by (simp add: edits_def)

lemma edits_refl: "edits ks m m"
  by (simp add: edits_def)

lemma edits_insert: "edits ks m m' \<Longrightarrow> k \<in> set ks \<Longrightarrow> edits ks m (map_insert k v m')"
  by (auto simp: edits_def)

lemma edits_remove: "edits ks m m' \<Longrightarrow> k \<in> set ks \<Longrightarrow> edits ks m (map_remove k m')"
  by (auto simp: edits_def)

lemmas edits_intros = edits_refl edits_insert edits_remove

lemma normalize_instructions_edits: "normalize_instructions m = Ok m' \<Longrightarrow> edits [''instructions''] m m'"
  by (auto simp: normalize_instructions_def intro!: edits_intros split: option.splits Value.splits)

lemma reject_stateful_reference_Ok:
  "reject_stateful_reference field m = Ok m' \<longleftrightarrow> map_get m field \<in> {None, Some Null} \<and> m' = map_remove field m"
  by (auto simp: reject_stateful_reference_def)

lemma reject_stateful_reference_edits: "reject_stateful_reference field m = Ok m' \<Longrightarrow> edits [field] m m'"
  by (auto simp: reject_stateful_reference_Ok intro!: edits_intros)

lemma normalize_tools_edits: "normalize_tools m = Ok m' \<Longrightarrow> edits [''tools''] m m'"
  by (auto simp: normalize_tools_def intro!: edits_intros split: option.splits Value.splits if_splits)

lemma normalize_input_field_edits: "normalize_input_field env m = Ok m' \<Longrightarrow> edits [''input''] m m'"
  by (auto simp: normalize_input_field_def and_then_Ok intro!: edits_intros)

lemma normalize_tool_choice_edits: "normalize_tool_choice api m = Ok m' \<Longrightarrow> edits [''tool_choice''] m m'"
  by (auto simp: normalize_tool_choice_def intro!: edits_intros split: option.splits Value.splits if_splits)

lemma normalize_parallel_tool_calls_edits:
  "normalize_parallel_tool_calls m = Ok m' \<Longrightarrow> edits [''parallel_tool_calls''] m m'"
  by (auto simp: normalize_parallel_tool_calls_def intro!: edits_intros split: option.splits Value.splits)

lemma normalize_reasoning_edits: "normalize_reasoning api m = Ok (b, m') \<Longrightarrow> edits [''reasoning''] m m'"
  by (auto simp: normalize_reasoning_def Let_def intro!: edits_intros split: option.splits Value.splits if_splits)

lemma normalize_include_edits: "normalize_include m = Ok m' \<Longrightarrow> edits [''include''] m m'"
  by (auto simp: normalize_include_def intro!: edits_intros split: Value.splits if_splits)

lemma normalize_token_limit_edits:
  "normalize_token_limit api m = Ok m' \<Longrightarrow> edits [''max_output_tokens'', ''client_metadata'', ''metadata''] m m'"
  by (auto simp: normalize_token_limit_def and_then_Ok strip_subscription_fields_def intro!: edits_intros split: if_splits)

lemma normalize_lite_form_edits:
  "normalize_lite_form env lite ns m = Ok m' \<Longrightarrow>
   edits [''instructions'', ''tools'', ''input'', ''parallel_tool_calls'', ''reasoning''] m m'"
  by (cases "unwrap_or (map_get m ''reasoning'') (Object [])")
     (auto simp: normalize_lite_form_def normalize_responses_lite_request_def and_then_Ok Let_def
        intro!: edits_intros split: if_splits)

lemmas stage_edits = normalize_instructions_edits reject_stateful_reference_edits normalize_tools_edits
  normalize_input_field_edits normalize_tool_choice_edits normalize_parallel_tool_calls_edits
  normalize_reasoning_edits normalize_include_edits normalize_token_limit_edits normalize_lite_form_edits

text \<open>The intermediate bodies of a successful normalization.\<close>

lemma normalize_responses_request_Ok:
  assumes "normalize_responses_request env (Object m) api lite ns = Ok v"
  obtains model m1 m2 m3 m4 m5 m6 m7 b m8 m9 m10 m11 where
    "map_get m ''model'' = Some (String model)" "validate_model_id model = Ok ()"
    "normalize_instructions m = Ok m1"
    "reject_stateful_reference ''previous_response_id'' m1 = Ok m2"
    "reject_stateful_reference ''conversation'' m2 = Ok m3"
    "normalize_tools m3 = Ok m4" "normalize_input_field env m4 = Ok m5"
    "normalize_tool_choice api m5 = Ok m6" "normalize_parallel_tool_calls m6 = Ok m7"
    "normalize_reasoning api m7 = Ok (b, m8)" "normalize_include m8 = Ok m9"
    "normalize_token_limit api m9 = Ok m10" "normalize_lite_form env lite ns m10 = Ok m11"
    "v = Object (map_insert ''stream'' (Bool True) (map_insert ''store'' (Bool False) m11))"
  using assms
  by (auto simp: normalize_responses_request_def and_then_Ok map_str_Some)

section \<open>Namespaced calls\<close>

text \<open>The namespaced functions a list of tools declares.\<close>

definition function_name_of :: "Value \<Rightarrow> bytes option" where
  "function_name_of t = (if get_str t ''type'' = Some ''function'' then get_str t ''name'' else None)"

definition declared_functions :: "Value \<Rightarrow> bytes list" where
  "declared_functions tool =
     List.map_filter function_name_of (unwrap_or (Option.bind (value_get tool ''tools'') as_array) [])"

definition declared_calls :: "Value \<Rightarrow> (bytes \<times> bytes) list" where
  "declared_calls tool =
     (case get_str tool ''name'' of
        Some namespace \<Rightarrow>
          if get_str tool ''type'' = Some ''namespace'' then map (Pair namespace) (declared_functions tool) else []
      | None \<Rightarrow> [])"

definition flat_name :: "bytes \<times> bytes \<Rightarrow> bytes" where
  "flat_name c = fst c @ ''.'' @ snd c"

text \<open>The call map holds exactly the declared calls seen so far, none of them standalone.\<close>

definition calls_rel :: "bytes list \<Rightarrow> (bytes \<times> bytes) list \<Rightarrow> NamespaceCallMap \<Rightarrow> bool" where
  "calls_rel standalone seen calls =
     ((\<forall>k c. map_get calls k = Some c \<longleftrightarrow> c \<in> set seen \<and> k = flat_name c) \<and>
     (\<forall>c \<in> set seen. flat_name c \<notin> set standalone))"

lemma calls_rel_snoc:
  assumes "calls_rel standalone seen calls" and "flat_name c \<notin> set standalone"
    and "\<not> is_some_and (\<lambda>previous. previous \<noteq> c) (map_get calls (flat_name c))"
  shows "calls_rel standalone (seen @ [c]) (map_insert (flat_name c) c calls)"
proof -
  have "d = c" if "d \<in> set seen" "flat_name d = flat_name c" for d
    using assms(1,3) that by (cases d) (auto simp: calls_rel_def is_some_and_iff)
  then show ?thesis
    using assms by (auto simp: calls_rel_def)
qed

lemma namespace_call_rel:
  assumes "namespace_call standalone namespace calls t = Ok calls'" and "calls_rel standalone seen calls"
  shows "calls_rel standalone (seen @ map (Pair namespace) (List.map_filter function_name_of [t])) calls'"
proof (cases "function_name_of t")
  case None
  with assms show ?thesis
    by (cases t) (auto simp: namespace_call_def function_name_of_def List.map_filter_def split: option.splits if_splits)
next
  case (Some name)
  then obtain m where "t = Object m" "map_str m ''type'' = Some ''function''" "map_str m ''name'' = Some name"
    by (cases t) (auto simp: function_name_of_def get_str_def value_get_def map_str_def split: if_splits)
  with assms Some calls_rel_snoc [OF assms(2), of "(namespace, name)"] show ?thesis
    by (auto simp: namespace_call_def Let_def List.map_filter_def flat_name_def split: if_splits)
qed

lemma namespace_tool_calls_rel:
  assumes "try_fold (namespace_call standalone namespace) calls ts = Ok calls'" and "calls_rel standalone seen calls"
  shows "calls_rel standalone (seen @ map (Pair namespace) (List.map_filter function_name_of ts)) calls'"
  using assms
proof (induction ts arbitrary: calls seen)
  case (Cons t ts)
  then obtain c1 where "namespace_call standalone namespace calls t = Ok c1"
    and rest: "try_fold (namespace_call standalone namespace) c1 ts = Ok calls'"
    by (auto simp: and_then_Ok)
  from Cons.IH [OF rest namespace_call_rel [OF this(1) Cons.prems(2)]] show ?case
    by (auto simp: List.map_filter_def split: if_splits)
qed (simp add: List.map_filter_def)

lemma namespace_calls_of_rel:
  assumes "namespace_calls_of standalone calls t = Ok calls'" and "calls_rel standalone seen calls"
  shows "calls_rel standalone (seen @ declared_calls t) calls'"
proof (cases "\<exists>m namespace ts. t = Object m \<and> map_str m ''type'' = Some ''namespace'' \<and>
    map_str m ''name'' = Some namespace \<and> Option.bind (map_get m ''tools'') as_array = Some ts")
  case True
  then obtain m namespace ts where t: "t = Object m" "map_str m ''type'' = Some ''namespace''"
    "map_str m ''name'' = Some namespace" "Option.bind (map_get m ''tools'') as_array = Some ts"
    by blast
  then have "declared_calls t = map (Pair namespace) (List.map_filter function_name_of ts)"
    by (simp add: declared_calls_def declared_functions_def)
  with assms t namespace_tool_calls_rel [of standalone namespace calls ts calls' seen] show ?thesis
    by (simp add: namespace_calls_of_def)
next
  case False
  then have "declared_calls t = []"
    by (cases t) (auto simp: declared_calls_def declared_functions_def List.map_filter_def get_str_def map_str_def
        value_get_def split: option.splits)
  with False assms show ?thesis
    by (cases t) (auto simp: namespace_calls_of_def split: if_splits option.splits prod.splits)
qed

lemma collect_namespace_calls_rel:
  assumes "collect_namespace_calls tools = Ok calls"
  shows "calls_rel (standalone_names tools) (concat (map declared_calls tools)) calls"
  by (rule try_fold_prefix [OF assms [unfolded collect_namespace_calls_def],
        where Q = "\<lambda>ts. calls_rel (standalone_names tools) (concat (map declared_calls ts))"])
     (auto simp: calls_rel_def [of _ "[]"] dest: namespace_calls_of_rel)

section \<open>Responses Lite tools\<close>

text \<open>The reference view of a tool: the functions it contributes, and whether it stays as it is.\<close>

definition feeds_functions :: "Value \<Rightarrow> bool" where
  "feeds_functions t = (one_of (get_str t ''type'') [''function'', ''custom''] \<or>
     get_str t ''type'' = Some ''namespace'' \<and> get_str t ''name'' = Some ''functions'')"

definition client_functions :: "Value \<Rightarrow> Value list" where
  "client_functions t =
     (if one_of (get_str t ''type'') [''function'', ''custom''] then [t]
      else if feeds_functions t then unwrap_or (Option.bind (value_get t ''tools'') as_array) [] else [])"

definition stays_grouped :: "Value \<Rightarrow> bool" where
  "stays_grouped t = (\<not> feeds_functions t \<and> \<not> is_some_and is_hosted_responses_tool (get_str t ''type''))"

definition lite_rel :: "Value list \<Rightarrow> lite_tools \<Rightarrow> bool" where
  "lite_rel seen acc =
     (lite_functions acc = concat (map client_functions seen) \<and>
      lite_grouped acc = filter stays_grouped seen \<and>
      lite_index acc = (if list_ex feeds_functions seen
        then Some (length (filter stays_grouped (takeWhile (\<lambda>t. \<not> feeds_functions t) seen))) else None))"

lemma takeWhile_snoc_ex:
  "takeWhile (\<lambda>t. \<not> P t) (xs @ [x]) =
     (if list_ex P xs then takeWhile (\<lambda>t. \<not> P t) xs else xs @ (if P x then [] else [x]))"
  by (induction xs) auto

lemma hosted_tool_names [simp]:
  "\<not> is_hosted_responses_tool ''function''" "\<not> is_hosted_responses_tool ''custom''"
  "\<not> is_hosted_responses_tool ''namespace''"
  by (simp_all add: is_hosted_responses_tool_def hosted_tools_def)

lemma group_lite_tool_rel:
  assumes "lite_rel seen acc" and "group_lite_tool acc t = Ok acc'"
  shows "lite_rel (seen @ [t]) acc'"
proof -
  from assms(2) obtain ty where ty: "get_str t ''type'' = Some ty"
    by (auto simp: group_lite_tool_def and_then_Ok)
  consider (hosted) "is_hosted_responses_tool ty" | (leaf) "\<not> is_hosted_responses_tool ty" "ty \<in> {''function'', ''custom''}"
    | (ns) "ty = ''namespace''" "get_str t ''name'' = Some ''functions''"
    | (other) "\<not> is_hosted_responses_tool ty" "ty \<notin> {''function'', ''custom''}" "\<not> (ty = ''namespace'' \<and> get_str t ''name'' = Some ''functions'')"
    by blast
  then show ?thesis
  proof cases
    case hosted
    then have "\<not> feeds_functions t" "client_functions t = []" "\<not> stays_grouped t"
      using ty by (auto simp: feeds_functions_def client_functions_def stays_grouped_def)
    with hosted ty assms show ?thesis
      by (simp add: group_lite_tool_def lite_rel_def takeWhile_snoc_ex)
  next
    case leaf
    then have "feeds_functions t" "client_functions t = [t]" "\<not> stays_grouped t"
      using ty by (auto simp: feeds_functions_def client_functions_def stays_grouped_def)
    with leaf ty assms show ?thesis
      by (auto simp: group_lite_tool_def lite_rel_def takeWhile_snoc_ex Let_def)
  next
    case ns
    then have "\<not> is_hosted_responses_tool ty" "feeds_functions t" "\<not> stays_grouped t"
      "client_functions t = unwrap_or (Option.bind (value_get t ''tools'') as_array) []"
      using ty by (auto simp: feeds_functions_def client_functions_def stays_grouped_def)
    with ns ty assms show ?thesis
      by (auto simp: group_lite_tool_def lite_rel_def takeWhile_snoc_ex Let_def and_then_Ok)
  next
    case other
    then have "\<not> feeds_functions t" "client_functions t = []" "stays_grouped t"
      using ty by (auto simp: feeds_functions_def client_functions_def stays_grouped_def)
    with other ty assms show ?thesis
      by (auto simp: group_lite_tool_def lite_rel_def takeWhile_snoc_ex Let_def)
  qed
qed

lemma group_lite_tools_rel:
  assumes "try_fold group_lite_tool \<lparr>lite_functions = [], lite_description = [], lite_index = None, lite_grouped = []\<rparr> tools = Ok acc"
  shows "lite_rel tools acc"
  by (rule try_fold_prefix [OF assms, where Q = lite_rel])
     (simp_all add: group_lite_tool_rel lite_rel_def [of "[]"])

lemma take_filter_takeWhile:
  "take (length (filter P (takeWhile Q xs))) (filter P xs) = filter P (takeWhile Q xs)"
  by (induction xs) auto

lemma client_functions_none: "\<not> feeds_functions t \<Longrightarrow> client_functions t = []"
  unfolding client_functions_def by (simp only: feeds_functions_def de_Morgan_disj if_False simp_thms)

lemma no_functions_fed: "\<not> list_ex feeds_functions tools \<Longrightarrow> concat (map client_functions tools) = []"
  by (induction tools) (simp_all add: client_functions_none)

section \<open>Include list\<close>

lemma normalize_include_Ok:
  assumes "normalize_include m = Ok m'"
  shows "\<exists>vs. map_get m' ''include'' = Some (Array vs) \<and> distinct vs \<and> encrypted_reasoning \<in> set vs \<and>
    (\<forall>ws. map_get m ''include'' = Some (Array ws) \<longrightarrow> set vs = insert encrypted_reasoning (set ws))"
  using assms
  by (cases "unwrap_or (map_get m ''include'') (Array [])")
     (auto simp: normalize_include_def push_unique_fold intro!: push_unique_distinct push_unique_fold_distinct split: if_splits)

section \<open>Properties\<close>

text \<open>C28: A normalized request is stateless and owned by the adapter: it asks for a stream and for no
  storage, carries no server-side history handle (one in the request is refused, never dropped), keeps
  the requested model, whose id is a valid one, and lists the encrypted-reasoning inclusion once among
  distinct inclusions; for a subscription no token limit and no telemetry field survives.\<close>

theorem normalized_request_stateless:
  assumes "normalize_responses_request env (Object m) api_key_auth lite ns = Ok v"
  shows "value_get v ''stream'' = Some (Bool True) \<and> value_get v ''store'' = Some (Bool False) \<and>
     (\<forall>k \<in> {''previous_response_id'', ''conversation''}. value_get v k = None \<and> map_get m k \<in> {None, Some Null}) \<and>
     (\<exists>model. value_get v ''model'' = Some (String model) \<and> map_get m ''model'' = Some (String model) \<and>
        validate_model_id model = Ok ()) \<and>
     (\<exists>vs. value_get v ''include'' = Some (Array vs) \<and> distinct vs \<and> encrypted_reasoning \<in> set vs \<and>
        (\<forall>ws. map_get m ''include'' = Some (Array ws) \<longrightarrow> set vs = insert encrypted_reasoning (set ws))) \<and>
     (\<not> api_key_auth \<longrightarrow>
        (\<forall>k \<in> {''max_output_tokens'', ''client_metadata'', ''metadata''}. value_get v k = None))"
proof -
  from assms obtain model m1 m2 m3 m4 m5 m6 m7 b m8 m9 m10 m11 where
    model: "map_get m ''model'' = Some (String model)" "validate_model_id model = Ok ()" and
    stages: "normalize_instructions m = Ok m1"
    "reject_stateful_reference ''previous_response_id'' m1 = Ok m2"
    "reject_stateful_reference ''conversation'' m2 = Ok m3"
    "normalize_tools m3 = Ok m4" "normalize_input_field env m4 = Ok m5"
    "normalize_tool_choice api_key_auth m5 = Ok m6" "normalize_parallel_tool_calls m6 = Ok m7"
    "normalize_reasoning api_key_auth m7 = Ok (b, m8)" "normalize_include m8 = Ok m9"
    "normalize_token_limit api_key_auth m9 = Ok m10" "normalize_lite_form env lite ns m10 = Ok m11" and
    v: "v = Object (map_insert ''stream'' (Bool True) (map_insert ''store'' (Bool False) m11))"
    by (rule normalize_responses_request_Ok)
  note frame = stages(1) [THEN normalize_instructions_edits] stages(2,3) [THEN reject_stateful_reference_edits]
    stages(4) [THEN normalize_tools_edits] stages(5) [THEN normalize_input_field_edits]
    stages(6) [THEN normalize_tool_choice_edits] stages(7) [THEN normalize_parallel_tool_calls_edits]
    stages(8) [THEN normalize_reasoning_edits] stages(9) [THEN normalize_include_edits]
    stages(10) [THEN normalize_token_limit_edits] stages(11) [THEN normalize_lite_form_edits]
  note get = frame [THEN edits_get]
  have handles: "map_get m2 ''previous_response_id'' = None" "map_get m3 ''conversation'' = None"
    "map_get m1 ''previous_response_id'' \<in> {None, Some Null}" "map_get m2 ''conversation'' \<in> {None, Some Null}"
    using stages(2,3) by (auto simp: reject_stateful_reference_Ok)
  have incl: "\<exists>vs. map_get m9 ''include'' = Some (Array vs) \<and> distinct vs \<and> encrypted_reasoning \<in> set vs \<and>
      (\<forall>ws. map_get m8 ''include'' = Some (Array ws) \<longrightarrow> set vs = insert encrypted_reasoning (set ws))"
    using stages(9) by (rule normalize_include_Ok)
  have strip: "\<not> api_key_auth \<Longrightarrow> \<forall>k \<in> {''max_output_tokens'', ''client_metadata'', ''metadata''}. map_get m10 k = None"
    using stages(10) by (auto simp: normalize_token_limit_def strip_subscription_fields_def)
  have "value_get v ''model'' = Some (String model)"
    by (simp add: v get model)
  moreover have "\<forall>k \<in> {''previous_response_id'', ''conversation''}. value_get v k = None \<and> map_get m k \<in> {None, Some Null}"
    using handles by (simp add: v get)
  moreover have "\<exists>vs. value_get v ''include'' = Some (Array vs) \<and> distinct vs \<and> encrypted_reasoning \<in> set vs \<and>
      (\<forall>ws. map_get m ''include'' = Some (Array ws) \<longrightarrow> set vs = insert encrypted_reasoning (set ws))"
    using incl by (simp add: v get)
  moreover have "\<not> api_key_auth \<longrightarrow>
      (\<forall>k \<in> {''max_output_tokens'', ''client_metadata'', ''metadata''}. value_get v k = None)"
    using strip by (simp add: v get)
  ultimately show ?thesis
    using model by (simp add: v)
qed

text \<open>Replayed calls of namespaced tools get their namespace back: whenever the declared tools are
  accepted, a recorded function call whose name is the flattened name of a declared namespaced function is
  split into exactly that namespace and that name, and a call whose name is not such a flattened name,
  in particular every call of a standalone function, is left as it is.\<close>

theorem namespace_split_round_trip:
  assumes "collect_namespace_calls tools = Ok calls"
    and "map_str m ''type'' = Some ''function_call''" and "map_get m ''namespace'' = None"
    and "map_str m ''name'' = Some n"
  shows "(\<forall>ns f. (ns, f) \<in> set (concat (map declared_calls tools)) \<longrightarrow> n = ns @ ''.'' @ f \<longrightarrow>
       split_namespace calls (Object m) =
         Object (map_insert ''name'' (String f) (map_insert ''namespace'' (String ns) m))) \<and>
     (n \<notin> flat_name ` set (concat (map declared_calls tools)) \<longrightarrow> split_namespace calls (Object m) = Object m) \<and>
     (n \<in> set (standalone_names tools) \<longrightarrow> split_namespace calls (Object m) = Object m)"
proof -
  have rel: "calls_rel (standalone_names tools) (concat (map declared_calls tools)) calls"
    by (rule collect_namespace_calls_rel [OF assms(1)])
  have hit: "map_get calls n = Some (ns, f)" if "(ns, f) \<in> set (concat (map declared_calls tools))" "n = ns @ ''.'' @ f" for ns f
    using rel that unfolding calls_rel_def flat_name_def by simp
  have miss: "map_get calls n = None" if "n \<notin> flat_name ` set (concat (map declared_calls tools))"
    using rel that unfolding calls_rel_def by (cases "map_get calls n") auto
  have "n \<notin> flat_name ` set (concat (map declared_calls tools))" if "n \<in> set (standalone_names tools)"
    using rel that unfolding calls_rel_def by blast
  with hit miss assms(2-4) show ?thesis
    by (simp add: split_namespace_def)
qed

text \<open>The Responses Lite regrouping of tools is the reference regrouping: every client-side function
  and custom tool, and every tool of a \<open>functions\<close> namespace, moves in order into one \<open>functions\<close>
  namespace, placed where the first of them stood; hosted tools are left out; all other tools stay in
  order.\<close>

theorem lite_tools_regrouped:
  assumes "group_responses_lite_tools tools = Ok out"
  shows "\<exists>description. out =
     (let functions = concat (map client_functions tools);
          before = filter stays_grouped (takeWhile (\<lambda>t. \<not> feeds_functions t) tools);
          others = filter stays_grouped tools
      in if functions = [] then others
         else before @ functions_namespace description functions # drop (length before) others)"
proof -
  from assms obtain acc where
    acc: "try_fold group_lite_tool \<lparr>lite_functions = [], lite_description = [], lite_index = None, lite_grouped = []\<rparr> tools = Ok acc"
    by (auto simp: group_responses_lite_tools_def and_then_Ok)
  then have rel: "lite_rel tools acc"
    by (rule group_lite_tools_rel)
  with acc assms show ?thesis
    by (intro exI [of _ "lite_description acc"], cases "concat (map client_functions tools) = []";
        cases "list_ex feeds_functions tools")
       (simp_all add: group_responses_lite_tools_def lite_rel_def Let_def take_filter_takeWhile no_functions_fed
          del: concat_eq_Nil_conv)
qed

text \<open>C29: Headers that come from Muse can neither replace nor extend what identifies the adapter: with the
  same credential, two requests that differ only in the forwarded headers agree on every protected header,
  and the authorization header is exactly the bearer form of the credential's token.\<close>

theorem credentials_not_forwardable:
  assumes "http_crate_spec (se_http env)"
    and "json_request env auth base method path body extra options = Ok r"
    and "json_request env auth base method path body extra' options = Ok r'"
  shows "(\<forall>k. is_forbidden_forwarded_header k \<or> k = ''content-type'' \<or> k = ''accept'' \<longrightarrow>
       hm_values (out_headers r) k = hm_values (out_headers r') k) \<and>
     (\<exists>token. get_token auth = Some token \<and> hm_values (out_headers r) ''authorization'' = [''Bearer '' @ token]) \<and>
     hm_values (out_headers r) RESPONSES_LITE_HEADER = (if opt_use_responses_lite options then [''true''] else [])"
proof -
  let ?base = "if is_api_key_auth auth then map_option url_text base else None"
  from json_request_headers [OF assms(1,2)] obtain p h where p: "se_provider env ?base auth = Ok p"
    and h: "attach_auth_headers (se_http env) auth (hm_insert ''version'' CODEX_WIRE_COMPATIBILITY_VERSION
        (merge_safe_request_headers (provider_headers p) extra)) = Ok h"
    and r: "out_headers r = set_internal_routing_hint_header (opt_routing_hint options)
       (set_internal_responses_lite_header (opt_use_responses_lite options)
         (hm_insert ''user-agent'' (MUSE_CODEX_USER_AGENT @ '' wire/'' @ CODEX_WIRE_COMPATIBILITY_VERSION @ '' '' @ se_upstream_agent env)
           (hm_insert ''accept'' (opt_accept options) (hm_insert ''content-type'' ''application/json'' h))))"
    by blast
  from json_request_headers [OF assms(1,3)] p obtain h' where
    h': "attach_auth_headers (se_http env) auth (hm_insert ''version'' CODEX_WIRE_COMPATIBILITY_VERSION
        (merge_safe_request_headers (provider_headers p) extra')) = Ok h'"
    and r': "out_headers r' = set_internal_routing_hint_header (opt_routing_hint options)
       (set_internal_responses_lite_header (opt_use_responses_lite options)
         (hm_insert ''user-agent'' (MUSE_CODEX_USER_AGENT @ '' wire/'' @ CODEX_WIRE_COMPATIBILITY_VERSION @ '' '' @ se_upstream_agent env)
           (hm_insert ''accept'' (opt_accept options) (hm_insert ''content-type'' ''application/json'' h'))))"
    by auto
  have "hm_values h k = hm_values h' k" if "is_forbidden_forwarded_header k" for k
    using attach_auth_agree [OF assms(1) h h'] merge_safe_forbidden [OF that] by simp
  then have agree: "hm_values (out_headers r) k = hm_values (out_headers r') k"
    if "is_forbidden_forwarded_header k \<or> k = ''content-type'' \<or> k = ''accept''" for k
    using that by (auto simp: r r')
  have "''authorization'' \<noteq> RESPONSES_LITE_HEADER" "''authorization'' \<noteq> CODEX_ROUTING_HINT_HEADER"
    "RESPONSES_LITE_HEADER \<noteq> CODEX_ROUTING_HINT_HEADER"
    by (simp_all add: RESPONSES_LITE_HEADER_def CODEX_ROUTING_HINT_HEADER_def)
  then show ?thesis
    using agree attach_auth_values(1) [OF assms(1) h] by (simp add: r)
qed

text \<open>Responses Lite refuses what the same request is allowed to say otherwise: a null \<open>reasoning\<close>
  is accepted by \<open>normalize_reasoning\<close>, which documents that it takes an object or null, and left in
  place, and the Lite form then always rejects the body.\<close>

theorem lite_null_reasoning_rejected:
  assumes "map_get m ''reasoning'' = Some Null"
  shows "normalize_reasoning api_key_auth m = Ok (False, m) \<and>
     \<not> is_ok (normalize_responses_lite_request sj sha256 ns m)"
  using assms
  by (auto simp: normalize_reasoning_def normalize_responses_lite_request_def is_ok_def and_then_Ok Let_def split: result.split)

text \<open>Normalizing content parts is not idempotent: an assistant part of type \<open>image_url\<close> is
  accepted and rewritten to an \<open>input_image\<close> part, which the same function refuses for an assistant, so
  the image that a first request may carry makes the replay of its own normalized history fail.\<close>

theorem assistant_image_not_replayable:
  assumes "map_str m ''type'' = Some ''image_url''" and "map_get m ''image_url'' = Some (String url)"
  shows "\<exists>part. normalize_content_part True i (j, Object m) = Ok part \<and>
     \<not> is_ok (normalize_content_part True i (j, part)) \<and>
     is_ok (normalize_content_part False i (j, part))"
  using assms
  by (auto simp: normalize_content_part_def normalize_image_url_def part_error_def is_ok_def)

section \<open>Witnesses\<close>

text \<open>Items that pass through unchanged stand for the typed round trip.\<close>

definition plain_items :: "Value response_items" where
  "plain_items = \<lparr>ri_from_value = Ok, ri_other = (\<lambda>_. False), ri_id_prefixed = (\<lambda>_. None),
     ri_clear_id = (\<lambda>v. v), ri_to_value = Ok\<rparr>"

definition sample_body_env :: "Value body_env" where
  "sample_body_env = \<lparr>be_json = json_codec, be_items = plain_items, be_sha256 = (\<lambda>s. s)\<rparr>"

definition sample_tools :: "Value list" where
  "sample_tools = [json_object [(''type'', String ''web_search'')],
     json_object [(''type'', String ''namespace''), (''name'', String ''muse''),
       (''tools'', Array [json_object [(''type'', String ''function''), (''name'', String ''read'')]])],
     json_object [(''type'', String ''function''), (''name'', String ''run'')]]"

definition sample_responses_request :: jmap where
  "sample_responses_request = map_build [(''model'', String ''gpt''), (''tools'', Array sample_tools),
     (''conversation'', Null), (''metadata'', Object []), (''input'', String ''hi'')]"

theorem normalized_request_stateless_witness:
  "\<exists>v. normalize_responses_request sample_body_env (Object sample_responses_request) False True (Some ''n'') = Ok v \<and>
     value_get v ''metadata'' = None \<and> value_get v ''store'' = Some (Bool False)"
proof -
  have "is_ok (normalize_responses_request sample_body_env (Object sample_responses_request) False True (Some ''n''))"
    by code_simp
  then obtain v where v: "normalize_responses_request sample_body_env (Object sample_responses_request) False True (Some ''n'') = Ok v"
    by (auto simp: is_ok_def split: result.splits)
  with normalized_request_stateless [OF v] show ?thesis by simp
qed

theorem namespace_split_round_trip_witness:
  "\<exists>calls. collect_namespace_calls sample_tools = Ok calls \<and>
     split_namespace calls (Object (map_build [(''type'', String ''function_call''), (''name'', String ''muse.read'')])) =
       Object (map_insert ''name'' (String ''read'') (map_insert ''namespace'' (String ''muse'')
         (map_build [(''type'', String ''function_call''), (''name'', String ''muse.read'')])))"
proof -
  have "is_ok (collect_namespace_calls sample_tools)"
    by code_simp
  then obtain calls where calls: "collect_namespace_calls sample_tools = Ok calls"
    by (auto simp: is_ok_def split: result.splits)
  have declared: "(''muse'', ''read'') \<in> set (concat (map declared_calls sample_tools))"
    by code_simp
  let ?m = "map_build [(''type'', String ''function_call''), (''name'', String ''muse.read'')]"
  have m: "map_str ?m ''type'' = Some ''function_call''" "map_get ?m ''namespace'' = None" "map_str ?m ''name'' = Some ''muse.read''"
    by (simp_all add: map_str_def map_get_build)
  from namespace_split_round_trip [OF calls m, THEN conjunct1, rule_format, OF declared] calls show ?thesis
    by simp
qed

theorem lite_tools_regrouped_witness:
  "\<exists>out description. group_responses_lite_tools sample_tools = Ok out \<and>
     out = [sample_tools ! 1, functions_namespace description [sample_tools ! 2]]"
proof -
  have "is_ok (group_responses_lite_tools sample_tools)"
    by code_simp
  then obtain out where out: "group_responses_lite_tools sample_tools = Ok out"
    by (auto simp: is_ok_def split: result.splits)
  have "concat (map client_functions sample_tools) = [sample_tools ! 2]"
    "filter stays_grouped (takeWhile (\<lambda>t. \<not> feeds_functions t) sample_tools) = [sample_tools ! 1]"
    "filter stays_grouped sample_tools = [sample_tools ! 1]"
    by code_simp+
  with lite_tools_regrouped [OF out] out show ?thesis
    by auto
qed

definition sample_send_env :: send_env where
  "sample_send_env = \<lparr>se_http = ascii_http,
     se_provider = (\<lambda>_ _. Ok \<lparr>url_for_path = (\<lambda>p. ''https://h/'' @ p), provider_headers = []\<rparr>),
     se_url_parse = (\<lambda>t. Ok \<lparr>url_scheme = ''https'', url_host_str = Some ''h'', url_username = [], url_password = None,
       url_query = None, url_fragment = None, url_text = t\<rparr>), se_upstream_agent = ''codex''\<rparr>"

definition sample_auth :: CodexAuth where
  "sample_auth = \<lparr>is_api_key_auth = True, is_chatgpt_auth = False, get_token = Some ''k'', get_account_id = None,
     is_fedramp_account = False\<rparr>"

definition sample_options :: JsonRequestOptions where
  "sample_options = \<lparr>opt_accept = ''application/json'', opt_use_responses_lite = False, opt_routing_hint = None\<rparr>"

theorem credentials_not_forwardable_witness:
  "\<exists>r. json_request sample_send_env sample_auth None ''POST'' ''responses'' Null
       [(''authorization'', ''Bearer stolen''), (RESPONSES_LITE_HEADER, ''true'')] sample_options = Ok r \<and>
     hm_values (out_headers r) ''authorization'' = [''Bearer k'']"
proof -
  have "is_ok (json_request sample_send_env sample_auth None ''POST'' ''responses'' Null
       [(''authorization'', ''Bearer stolen''), (RESPONSES_LITE_HEADER, ''true'')] sample_options)"
    by code_simp
  then obtain r where r: "json_request sample_send_env sample_auth None ''POST'' ''responses'' Null
       [(''authorization'', ''Bearer stolen''), (RESPONSES_LITE_HEADER, ''true'')] sample_options = Ok r"
    by (auto simp: is_ok_def split: result.splits)
  have "http_crate_spec (se_http sample_send_env)"
    by (simp add: sample_send_env_def ascii_http_spec)
  with credentials_not_forwardable [OF _ r r] r show ?thesis
    by (auto simp: sample_auth_def)
qed

theorem lite_null_reasoning_rejected_witness:
  "normalize_reasoning False [(''reasoning'', Null)] = Ok (False, [(''reasoning'', Null)]) \<and>
   \<not> is_ok (normalize_responses_lite_request json_codec (\<lambda>s. s) ''n'' [(''reasoning'', Null)])"
  by (rule lite_null_reasoning_rejected) simp

theorem assistant_image_not_replayable_witness:
  "\<exists>part. normalize_content_part True 0 (0, json_object [(''type'', String ''image_url''), (''image_url'', String ''u'')]) = Ok part \<and>
     \<not> is_ok (normalize_content_part True 0 (0, part)) \<and> is_ok (normalize_content_part False 0 (0, part))"
  unfolding json_object_def
  by (rule assistant_image_not_replayable) (simp_all add: map_str_def map_get_build)

end
