(* ===== verification/Transport_Retry.thy ===== *)
theory Transport_Retry
  imports Http Errors
begin

text \<open>
  The send loop of the Codex transport (\<open>execute_with_401_recovery\<close> in
  \<open>codex-transport/src/transport.rs\<close>): one transient retry, then credential recovery under the
  refresh lock. The network is a parameter: \<open>send n\<close> is the outcome of the \<open>n\<close>-th request. The
  recovery object of \<open>codex_login\<close> is its state with \<open>has_next\<close> and \<open>next\<close>. Every effect of the
  loop is appended to a trace, so that order and number of effects can be stated.
\<close>

section \<open>Responses\<close>

record http_response =
  resp_status :: StatusCode
  resp_headers :: HeaderMap

text \<open>Kinds a \<open>reqwest::Error\<close> reports.\<close>

record reqwest_error =
  is_timeout :: bool
  is_connect :: bool
  is_request :: bool
  is_body :: bool

definition is_retryable_send_error :: "reqwest_error \<Rightarrow> bool" where
  "is_retryable_send_error e = (is_timeout e \<or> is_connect e \<or> is_request e \<or> is_body e)"

definition MAX_RETRY_AFTER :: nat where
  "MAX_RETRY_AFTER = 2"

definition retry_after :: "http_crate \<Rightarrow> http_response \<Rightarrow> nat option" where
  "retry_after http response =
     map_option (\<lambda>secs. min secs MAX_RETRY_AFTER)
       (Option.bind (hm_get_str http (resp_headers response) ''retry-after'')
          (\<lambda>v. parse_unsigned (2 ^ 64) (trim v)))"

section \<open>The loop\<close>

definition MAX_PRESTREAM_ATTEMPTS :: nat where
  "MAX_PRESTREAM_ATTEMPTS = 2"

datatype effect = Send | Sleep nat | Lock | Refresh

record 'r retry_env =
  re_http :: http_crate
  re_send :: "nat \<Rightarrow> (http_response, Error) result"
  re_error_kind :: "bytes \<Rightarrow> reqwest_error"
  re_has_next :: "'r \<Rightarrow> bool"
  re_next :: "'r \<Rightarrow> ('r, Error) result"
  re_lock :: "(unit, Error) result option"

text \<open>\<open>re_lock\<close> is the outcome of taking the lock, absent when there is no refresh-lock home.\<close>

record 'r retry_state =
  rs_sent :: nat
  rs_transient :: nat
  rs_locked :: bool
  rs_recovery :: "'r option"
  rs_trace :: "effect list"

definition retry_new :: "'r option \<Rightarrow> 'r retry_state" where
  "retry_new recovery =
     \<lparr>rs_sent = 0, rs_transient = 0, rs_locked = False, rs_recovery = recovery, rs_trace = []\<rparr>"

definition trace_add :: "effect list \<Rightarrow> 'r retry_state \<Rightarrow> 'r retry_state" where
  "trace_add es st = st\<lparr>rs_trace := rs_trace st @ es\<rparr>"

definition may_retry :: "'r retry_state \<Rightarrow> bool" where
  "may_retry st = (rs_transient st + 1 < MAX_PRESTREAM_ATTEMPTS)"

definition count_transient :: "'r retry_state \<Rightarrow> 'r retry_state" where
  "count_transient st = st\<lparr>rs_transient := rs_transient st + 1\<rparr>"

text \<open>What one iteration does: go round again, or leave the loop with a result.\<close>

datatype ('s, 'a) turn = Continue 's | Return 'a 's

type_synonym 'r retry_turn = "('r retry_state, (http_response, Error) result) turn"

definition refresh_credentials :: "'r retry_env \<Rightarrow> 'r \<Rightarrow> 'r retry_state \<Rightarrow> 'r retry_turn" where
  "refresh_credentials env r st =
     (case re_next env r of
        Err e \<Rightarrow> Return (Err e) (trace_add [Refresh] st)
      | Ok r' \<Rightarrow> Continue (trace_add [Refresh] st\<lparr>rs_recovery := Some r'\<rparr>))"

definition recover_unauthorized :: "'r retry_env \<Rightarrow> http_response \<Rightarrow> 'r retry_state \<Rightarrow> 'r retry_turn" where
  "recover_unauthorized env response st =
     (case rs_recovery st of
        None \<Rightarrow> Return (Ok response) st
      | Some r \<Rightarrow>
          if \<not> re_has_next env r then Return (Ok response) st
          else if rs_locked st then refresh_credentials env r st
          else (case re_lock env of
                  None \<Rightarrow> refresh_credentials env r st
                | Some (Err e) \<Rightarrow> Return (Err e) (trace_add [Lock] st)
                | Some (Ok _) \<Rightarrow> refresh_credentials env r (trace_add [Lock] st\<lparr>rs_locked := True\<rparr>)))"

definition sleep_before_retry :: "'r retry_env \<Rightarrow> http_response \<Rightarrow> effect list" where
  "sleep_before_retry env response =
     (case retry_after (re_http env) response of
        Some delay \<Rightarrow> if delay \<noteq> 0 then [Sleep delay] else []
      | None \<Rightarrow> [])"

definition retry_step :: "'r retry_env \<Rightarrow> 'r retry_state \<Rightarrow> 'r retry_turn" where
  "retry_step env st =
     (let outcome = re_send env (rs_sent st);
          st = trace_add [Send] st\<lparr>rs_sent := rs_sent st + 1\<rparr>
      in case outcome of
           Err e \<Rightarrow>
             (case e of
                Http m \<Rightarrow>
                  if may_retry st \<and> is_retryable_send_error (re_error_kind env m)
                  then Continue (count_transient st) else Return (Err e) st
              | _ \<Rightarrow> Return (Err e) st)
         | Ok response \<Rightarrow>
             if is_server_error (resp_status response) \<and> may_retry st then
               Continue (trace_add (sleep_before_retry env response) (count_transient st))
             else if resp_status response \<noteq> UNAUTHORIZED then Return (Ok response) st
             else recover_unauthorized env response st)"

partial_function (option) execute_with_401_recovery ::
  "'r retry_env \<Rightarrow> 'r retry_state \<Rightarrow> ((http_response, Error) result \<times> 'r retry_state) option" where
  "execute_with_401_recovery env st =
     (case retry_step env st of
        Continue st' \<Rightarrow> execute_with_401_recovery env st'
      | Return r st' \<Rightarrow> Some (r, st'))"

section \<open>One iteration\<close>

definition effects :: "effect \<Rightarrow> effect list \<Rightarrow> nat" where
  "effects e es = count_list es e"

definition sleeps :: "effect list \<Rightarrow> nat list" where
  "sleeps es = List.map_filter (\<lambda>e. case e of Sleep n \<Rightarrow> Some n | _ \<Rightarrow> None) es"

text \<open>Every refresh in a trace comes after the lock: none happens before the first \<open>Lock\<close>.\<close>

definition refresh_guarded :: "effect list \<Rightarrow> bool" where
  "refresh_guarded es = (Refresh \<notin> set (takeWhile (\<lambda>e. e \<noteq> Lock) es))"

lemma refresh_guarded_simps [simp]:
  "refresh_guarded []" "refresh_guarded (Lock # es)" "\<not> refresh_guarded (Refresh # es)"
  "refresh_guarded (Send # es) = refresh_guarded es" "refresh_guarded (Sleep n # es) = refresh_guarded es"
  "refresh_guarded (es @ fs) \<longleftrightarrow> refresh_guarded es \<and> (Lock \<in> set es \<or> refresh_guarded fs)"
  by (auto simp: refresh_guarded_def takeWhile_append iff: takeWhile_eq_all_conv [THEN iffD2] dest: set_takeWhileD)

lemma effects_mem: "Lock \<in> set es \<longleftrightarrow> effects Lock es \<noteq> 0"
  by (auto simp: effects_def count_list_0_iff)

text \<open>
  The loop's invariant: the counters agree with the trace, at most one transient retry happened,
  every pause is bounded, and the lock, if the process has one, is taken once, before any refresh.
\<close>

definition retry_inv :: "'r retry_env \<Rightarrow> 'r retry_state \<Rightarrow> bool" where
  "retry_inv env st =
     (rs_transient st < MAX_PRESTREAM_ATTEMPTS \<and>
      effects Send (rs_trace st) = rs_sent st \<and>
      effects Lock (rs_trace st) = (if rs_locked st then 1 else 0) \<and>
      length (sleeps (rs_trace st)) \<le> rs_transient st \<and> list_all (\<lambda>n. 0 < n \<and> n \<le> MAX_RETRY_AFTER) (sleeps (rs_trace st)) \<and>
      rs_sent st = rs_transient st + effects Refresh (rs_trace st) \<and>
      (re_lock env \<noteq> None \<longrightarrow> refresh_guarded (rs_trace st)))"

lemma effects_simps [simp]:
  "effects e [] = 0" "effects e (x # xs) = (if x = e then 1 else 0) + effects e xs"
  "effects e (xs @ ys) = effects e xs + effects e ys"
  by (auto simp: effects_def)

lemma sleeps_simps [simp]:
  "sleeps [] = []" "sleeps (Sleep n # xs) = n # sleeps xs" "sleeps (Send # xs) = sleeps xs"
  "sleeps (Lock # xs) = sleeps xs" "sleeps (Refresh # xs) = sleeps xs" "sleeps (xs @ ys) = sleeps xs @ sleeps ys"
  by (simp_all add: sleeps_def List.map_filter_def)

lemma trace_add_sel [simp]:
  "rs_trace (trace_add es st) = rs_trace st @ es" "rs_sent (trace_add es st) = rs_sent st"
  "rs_transient (trace_add es st) = rs_transient st" "rs_locked (trace_add es st) = rs_locked st"
  "rs_recovery (trace_add es st) = rs_recovery st"
  by (simp_all add: trace_add_def)

lemma count_transient_sel [simp]:
  "rs_trace (count_transient st) = rs_trace st" "rs_sent (count_transient st) = rs_sent st"
  "rs_transient (count_transient st) = rs_transient st + 1" "rs_locked (count_transient st) = rs_locked st"
  "rs_recovery (count_transient st) = rs_recovery st"
  by (simp_all add: count_transient_def)

lemma retry_after_bound: "retry_after http response = Some n \<Longrightarrow> n \<le> MAX_RETRY_AFTER"
  by (auto simp: retry_after_def)

lemma sleep_before_retry_effects [simp]:
  "effects Send (sleep_before_retry env r) = 0" "effects Lock (sleep_before_retry env r) = 0"
  "effects Refresh (sleep_before_retry env r) = 0" "length (sleeps (sleep_before_retry env r)) \<le> 1"
  "list_all (\<lambda>n. 0 < n \<and> n \<le> MAX_RETRY_AFTER) (sleeps (sleep_before_retry env r))"
  by (auto simp: sleep_before_retry_def dest: retry_after_bound split: option.split)

lemma sleep_before_retry_guarded [simp]: "refresh_guarded (sleep_before_retry env r)"
  by (auto simp: sleep_before_retry_def split: option.split)

text \<open>The four ways an iteration can go.\<close>

inductive retry_turn_of :: "'r retry_env \<Rightarrow> 'r retry_state \<Rightarrow> 'r retry_turn \<Rightarrow> bool" for env st where
  transient_error:
    "re_send env (rs_sent st) = Err e \<Longrightarrow> Suc (rs_transient st) < MAX_PRESTREAM_ATTEMPTS \<Longrightarrow>
     retry_turn_of env st (Continue (count_transient (trace_add [Send] st\<lparr>rs_sent := Suc (rs_sent st)\<rparr>)))"
| transient_response:
    "re_send env (rs_sent st) = Ok response \<Longrightarrow> Suc (rs_transient st) < MAX_PRESTREAM_ATTEMPTS \<Longrightarrow>
     is_server_error (resp_status response) \<Longrightarrow>
     retry_turn_of env st (Continue (trace_add (sleep_before_retry env response)
       (count_transient (trace_add [Send] st\<lparr>rs_sent := Suc (rs_sent st)\<rparr>))))"
| refreshed:
    "re_send env (rs_sent st) = Ok response \<Longrightarrow> resp_status response = UNAUTHORIZED \<Longrightarrow>
     rs_recovery st = Some r \<Longrightarrow> re_has_next env r \<Longrightarrow> re_next env r = Ok r' \<Longrightarrow>
     lock = (re_lock env \<noteq> None \<and> \<not> rs_locked st) \<Longrightarrow>
     retry_turn_of env st (Continue (st\<lparr>rs_sent := Suc (rs_sent st), rs_locked := rs_locked st \<or> lock,
       rs_trace := rs_trace st @ Send # (if lock then [Lock] else []) @ [Refresh], rs_recovery := Some r'\<rparr>))"
| finished:
    "rs_sent st' = Suc (rs_sent st) \<Longrightarrow> rs_transient st' = rs_transient st \<Longrightarrow>
     rs_trace st' = rs_trace st @ Send # es \<Longrightarrow> es \<in> {[], [Lock], [Refresh], [Lock, Refresh]} \<Longrightarrow>
     (Lock \<in> set es \<longrightarrow> re_lock env \<noteq> None \<and> \<not> rs_locked st) \<Longrightarrow>
     (Refresh \<in> set es \<and> re_lock env \<noteq> None \<and> \<not> rs_locked st \<longrightarrow> Lock \<in> set es) \<Longrightarrow>
     (Refresh \<in> set es \<longrightarrow> (\<exists>r. rs_recovery st = Some r \<and> re_has_next env r)) \<Longrightarrow>
     (\<forall>response. res = Ok response \<longrightarrow> re_send env (rs_sent st) = Ok response \<and> es = []) \<Longrightarrow>
     retry_turn_of env st (Return res st')"

lemma refresh_credentials_turn:
  assumes send: "re_send env (rs_sent st) = Ok response" "resp_status response = UNAUTHORIZED"
    and rec: "rs_recovery st = Some r" "re_has_next env r"
    and st': "st' = st\<lparr>rs_sent := rs_sent st + 1, rs_locked := rs_locked st \<or> lock,
       rs_trace := rs_trace st @ Send # (if lock then [Lock] else [])\<rparr>"
    and lock: "lock = (re_lock env \<noteq> None \<and> \<not> rs_locked st)"
  shows "retry_turn_of env st (refresh_credentials env r st')"
proof (cases "re_next env r")
  case (Ok r')
  from refreshed [OF send rec Ok lock] Ok show ?thesis
    by (cases lock) (simp_all add: refresh_credentials_def st' trace_add_def)
next
  case (Err e)
  then show ?thesis
    using lock rec by (auto simp: refresh_credentials_def st' intro!: finished [where es = "(if lock then [Lock] else []) @ [Refresh]"])
qed

lemma recover_unauthorized_turn:
  assumes send: "re_send env (rs_sent st) = Ok response" "resp_status response = UNAUTHORIZED"
  shows "retry_turn_of env st (recover_unauthorized env response (trace_add [Send] st\<lparr>rs_sent := rs_sent st + 1\<rparr>))"
proof -
  let ?st = "trace_add [Send] st\<lparr>rs_sent := rs_sent st + 1\<rparr>"
  have stop: "retry_turn_of env st (Return (Ok response) ?st)"
    using send by (auto intro!: finished [where es = "[]"])
  show ?thesis
  proof (cases "rs_recovery st")
    case None
    with stop show ?thesis by (simp add: recover_unauthorized_def)
  next
    case (Some r)
    show ?thesis
    proof (cases "re_has_next env r")
      case False
      with Some stop show ?thesis by (simp add: recover_unauthorized_def)
    next
      case True
      note turn = refresh_credentials_turn [OF send Some True]
      show ?thesis
      proof (cases "rs_locked st \<or> re_lock env = None")
        case True
        with turn [of ?st False] Some \<open>re_has_next env r\<close> show ?thesis
          by (auto simp: recover_unauthorized_def trace_add_def)
      next
        case False
        then obtain l where l: "re_lock env = Some l" "\<not> rs_locked st" by auto
        with turn [of "trace_add [Lock] ?st\<lparr>rs_locked := True\<rparr>" True] Some \<open>re_has_next env r\<close> show ?thesis
          by (cases l) (auto simp: recover_unauthorized_def trace_add_def intro!: finished [where es = "[Lock]"])
      qed
    qed
  qed
qed

lemma retry_step_turn: "retry_turn_of env st (retry_step env st)"
proof (cases "re_send env (rs_sent st)")
  case (Err e)
  then show ?thesis
    by (auto simp: retry_step_def Let_def may_retry_def split: Error.split
        intro!: transient_error finished [where es = "[]"])
next
  case (Ok response)
  then show ?thesis
    using recover_unauthorized_turn [OF Ok]
    by (auto simp: retry_step_def Let_def may_retry_def intro!: transient_response finished [where es = "[]"])
qed

inductive_cases retry_continueE: "retry_turn_of env st (Continue st')"
inductive_cases retry_returnE: "retry_turn_of env st (Return res st')"

lemma retry_inv_new: "retry_inv env (retry_new recovery)"
  by (simp add: retry_inv_def retry_new_def MAX_PRESTREAM_ATTEMPTS_def)

lemma retry_inv_continue:
  assumes "retry_inv env st" and "retry_step env st = Continue st'"
  shows "retry_inv env st'"
proof -
  have "retry_turn_of env st (Continue st')"
    using retry_step_turn [of env st] assms(2) by simp
  then show ?thesis
  proof (rule retry_continueE)
    fix response
    assume "st' = trace_add (sleep_before_retry env response) (count_transient (trace_add [Send] st\<lparr>rs_sent := Suc (rs_sent st)\<rparr>))"
      "Suc (rs_transient st) < MAX_PRESTREAM_ATTEMPTS"
    with assms(1) sleep_before_retry_effects(4) [of env response] show ?thesis
      unfolding retry_inv_def by simp
  qed (use assms(1) in \<open>auto simp: retry_inv_def effects_mem\<close>)
qed

section \<open>The whole loop\<close>

text \<open>What holds of the state in which the loop returns.\<close>

definition retry_final :: "'r retry_env \<Rightarrow> (http_response, Error) result \<Rightarrow> 'r retry_state \<Rightarrow> bool" where
  "retry_final env res st =
     (0 < rs_sent st \<and> effects Send (rs_trace st) = rs_sent st \<and>
      rs_sent st \<le> MAX_PRESTREAM_ATTEMPTS + effects Refresh (rs_trace st) \<and>
      effects Lock (rs_trace st) \<le> 1 \<and> (re_lock env \<noteq> None \<longrightarrow> refresh_guarded (rs_trace st)) \<and>
      length (sleeps (rs_trace st)) \<le> 1 \<and> list_all (\<lambda>n. n \<le> MAX_RETRY_AFTER) (sleeps (rs_trace st)) \<and>
      (\<forall>response. res = Ok response \<longrightarrow> re_send env (rs_sent st - 1) = Ok response))"

lemma retry_final_return:
  assumes "retry_inv env st" and "retry_step env st = Return res st'"
  shows "retry_final env res st'"
proof -
  have "retry_turn_of env st (Return res st')"
    using retry_step_turn [of env st] assms(2) by simp
  then obtain es where st': "rs_sent st' = Suc (rs_sent st)" "rs_trace st' = rs_trace st @ Send # es"
    and es: "es \<in> {[], [Lock], [Refresh], [Lock, Refresh]}"
      "Lock \<in> set es \<longrightarrow> re_lock env \<noteq> None \<and> \<not> rs_locked st"
      "Refresh \<in> set es \<and> re_lock env \<noteq> None \<and> \<not> rs_locked st \<longrightarrow> Lock \<in> set es"
    and res: "\<forall>response. res = Ok response \<longrightarrow> re_send env (rs_sent st) = Ok response \<and> es = []"
    by (elim retry_returnE) blast
  have "list_all (\<lambda>n. n \<le> MAX_RETRY_AFTER) (sleeps (rs_trace st))"
    using assms(1) by (auto simp: retry_inv_def list_all_iff)
  moreover have "effects Send es = 0 \<and> sleeps es = []"
    using es(1) by auto
  moreover have "effects Lock es \<le> (if rs_locked st then 0 else 1)"
    using es(1,2) by auto
  moreover have "re_lock env \<noteq> None \<Longrightarrow> rs_locked st \<or> refresh_guarded es"
    using es(1,3) by auto
  ultimately show ?thesis
    using assms(1) res unfolding retry_final_def retry_inv_def st' MAX_PRESTREAM_ATTEMPTS_def
    by (simp add: effects_mem split: if_splits)
qed

definition recovery_left :: "('r \<Rightarrow> nat) \<Rightarrow> 'r option \<Rightarrow> nat" where
  "recovery_left m r = (case r of None \<Rightarrow> 0 | Some r \<Rightarrow> m r)"

text \<open>
  \<open>finite_recovery\<close>: the steps of the recovery object run out, with \<open>m\<close> counting those left.
\<close>

definition finite_recovery :: "'r retry_env \<Rightarrow> ('r \<Rightarrow> nat) \<Rightarrow> bool" where
  "finite_recovery env m =
     (\<forall>r. re_has_next env r \<longrightarrow> 0 < m r \<and> (\<forall>r'. re_next env r = Ok r' \<longrightarrow> m r' < m r))"

lemma retry_continue_bound:
  assumes "finite_recovery env m" and "retry_step env st = Continue st'"
  shows "rs_transient st' \<le> MAX_PRESTREAM_ATTEMPTS \<and>
    MAX_PRESTREAM_ATTEMPTS - rs_transient st' + recovery_left m (rs_recovery st')
      < MAX_PRESTREAM_ATTEMPTS - rs_transient st + recovery_left m (rs_recovery st) \<or>
    MAX_PRESTREAM_ATTEMPTS \<le> rs_transient st"
proof -
  have "retry_turn_of env st (Continue st')"
    using retry_step_turn [of env st] assms(2) by simp
  then show ?thesis
    using assms(1) by (elim retry_continueE) (auto simp: recovery_left_def finite_recovery_def)
qed

lemma refresh_count:
  assumes "finite_recovery env m" and "retry_step env st = t" and "t = Continue st' \<or> t = Return res st'"
  shows "effects Refresh (rs_trace st') + (if t = Continue st' then recovery_left m (rs_recovery st') else 0)
    \<le> effects Refresh (rs_trace st) + recovery_left m (rs_recovery st)"
proof -
  have "retry_turn_of env st t"
    using retry_step_turn [of env st] assms(2) by simp
  then show ?thesis
    using assms(1,3)
    by (elim disjE)
       (auto elim!: retry_continueE retry_returnE simp: recovery_left_def finite_recovery_def Suc_le_eq
          simp flip: One_nat_def)
qed

lemma retry_loop_returns:
  assumes "finite_recovery env m" and "retry_inv env st"
  shows "\<exists>res st'. execute_with_401_recovery env st = Some (res, st') \<and> retry_final env res st' \<and>
    effects Refresh (rs_trace st') \<le> effects Refresh (rs_trace st) + recovery_left m (rs_recovery st)"
  using assms(2)
proof (induction "MAX_PRESTREAM_ATTEMPTS - rs_transient st + recovery_left m (rs_recovery st)" arbitrary: st rule: less_induct)
  case less
  note unfold = execute_with_401_recovery.simps [of env st]
  show ?case
  proof (cases "retry_step env st")
    case (Return res st')
    with unfold retry_final_return [OF less.prems Return] refresh_count [OF assms(1) Return, of st' res]
    show ?thesis by auto
  next
    case (Continue st')
    have inv: "retry_inv env st'"
      by (rule retry_inv_continue [OF less.prems Continue])
    have "rs_transient st < MAX_PRESTREAM_ATTEMPTS"
      using less.prems by (simp add: retry_inv_def)
    with retry_continue_bound [OF assms(1) Continue] less.hyps [of st'] inv
    obtain res st'' where "execute_with_401_recovery env st' = Some (res, st'')" "retry_final env res st''"
      "effects Refresh (rs_trace st'') \<le> effects Refresh (rs_trace st') + recovery_left m (rs_recovery st')"
      by auto
    with unfold Continue refresh_count [OF assms(1) Continue, of st' res] show ?thesis
      by auto
  qed
qed

section \<open>Property\<close>

text \<open>C7: Sending always ends: if credential recovery offers finitely many steps, the loop returns a
  result after at most two requests plus one per refresh step, and never refreshes more often than
  recovery has steps. It pauses at most once, for at most two seconds; it takes the refresh lock at most
  once and, where there is a lock, before any refresh; and a response it returns is the response to
  its last request.\<close>

theorem send_loop_bounded:
  assumes "finite_recovery env m"
  shows "\<exists>res st. execute_with_401_recovery env (retry_new recovery) = Some (res, st) \<and>
     effects Send (rs_trace st) = rs_sent st \<and>
     rs_sent st \<le> MAX_PRESTREAM_ATTEMPTS + effects Refresh (rs_trace st) \<and>
     effects Refresh (rs_trace st) \<le> recovery_left m recovery \<and>
     length (sleeps (rs_trace st)) \<le> 1 \<and> list_all (\<lambda>n. n \<le> MAX_RETRY_AFTER) (sleeps (rs_trace st)) \<and>
     effects Lock (rs_trace st) \<le> 1 \<and> (re_lock env \<noteq> None \<longrightarrow> refresh_guarded (rs_trace st)) \<and>
     (\<forall>response. res = Ok response \<longrightarrow> re_send env (rs_sent st - 1) = Ok response)"
  using retry_loop_returns [OF assms retry_inv_new, of recovery]
  by (auto simp: retry_final_def retry_new_def)

text \<open>A run: a server error with a long \<open>retry-after\<close>, an expired credential, then success.\<close>

definition sample_retry_env :: "nat retry_env" where
  "sample_retry_env = \<lparr>re_http = ascii_http,
     re_send = (\<lambda>n. Ok (if n = 0 then \<lparr>resp_status = 503, resp_headers = [(''retry-after'', ''60'')]\<rparr>
                       else if n = 1 then \<lparr>resp_status = 401, resp_headers = []\<rparr>
                       else \<lparr>resp_status = 200, resp_headers = []\<rparr>)),
     re_error_kind = (\<lambda>_. \<lparr>is_timeout = False, is_connect = True, is_request = False, is_body = False\<rparr>),
     re_has_next = (\<lambda>n. 0 < n), re_next = (\<lambda>n. Ok (n - 1)), re_lock = Some (Ok ())\<rparr>"

theorem send_loop_bounded_witness:
  "\<exists>res st. execute_with_401_recovery sample_retry_env (retry_new (Some 2)) = Some (res, st) \<and>
     rs_sent st \<le> 2 + effects Refresh (rs_trace st) \<and> effects Refresh (rs_trace st) \<le> 2"
proof -
  have "finite_recovery sample_retry_env (\<lambda>n. n)"
    by (simp add: finite_recovery_def sample_retry_env_def)
  from send_loop_bounded [OF this, of "Some 2"] show ?thesis
    by (auto simp: recovery_left_def MAX_PRESTREAM_ATTEMPTS_def)
qed

end
