(* ===== verification/Model_Catalog.thy ===== *)
theory Model_Catalog
  imports Transport_Headers
begin

text \<open>
  Model catalogs: the normalization of the upstream \<open>/models\<close> response
  (\<open>codex-transport/src/transport.rs\<close>) and the pinned Z.ai catalog
  (\<open>codex-transport/src/zai/catalog.rs\<close>). The derived \<open>serde\<close> decoder of the response is the
  parameter \<open>decode_models\<close>. An \<open>i64\<close> or \<open>i32\<close> is a word read with \<open>sint\<close>.
\<close>

section \<open>Data\<close>

record ModelInfo =
  mi_id :: bytes
  mi_display_name :: "bytes option"
  mi_description :: "bytes option"
  mi_context_window :: "u64 option"
  mi_max_output_tokens :: "u64 option"
  mi_supported_reasoning_efforts :: "bytes list"
  mi_default_reasoning_effort :: "bytes option"
  mi_is_visible :: bool
  mi_is_default :: bool
  mi_use_responses_lite :: bool
  mi_tool_mode :: "bytes option"
  mi_input_modalities :: "bytes list"
  mi_supported_in_api :: bool
  mi_supports_fast_mode :: bool

datatype UpstreamClientVersion = Text bytes | Triple "u64 \<times> u64 \<times> u64"

record UpstreamModel =
  um_slug :: bytes
  um_display_name :: "bytes option"
  um_description :: "bytes option"
  um_context_window :: "64 word option"
  um_max_output_tokens :: "64 word option"
  um_supported_reasoning_levels :: "bytes list"
  um_default_reasoning_level :: "bytes option"
  um_priority :: "32 word"
  um_visibility :: "bytes option"
  um_minimal_client_version :: "UpstreamClientVersion option"
  um_use_responses_lite :: bool
  um_tool_mode :: "bytes option"
  um_input_modalities :: "bytes list"
  um_supported_in_api :: bool
  um_service_tiers :: "bytes list"
  um_additional_speed_tiers :: "bytes list"

record UpstreamModelsResponse =
  ur_models :: "UpstreamModel list"
  ur_data :: "UpstreamModel list"

abbreviation invalid_upstream :: "bytes \<Rightarrow> ('a, Error) result" where
  "invalid_upstream m \<equiv> Err (InvalidUpstreamResponse m)"

section \<open>Single fields\<close>

definition catalog_text_char :: "bool \<Rightarrow> nat \<Rightarrow> bool" where
  "catalog_text_char allow_newlines c = (\<not> is_control c \<or> allow_newlines \<and> c \<in> {10, 13, 9})"

definition normalize_catalog_text :: "bytes option \<Rightarrow> nat \<Rightarrow> bool \<Rightarrow> (bytes option, Error) result" where
  "normalize_catalog_text v max_bytes allow_newlines =
     (case v of
        None \<Rightarrow> Ok None
      | Some s \<Rightarrow>
          if trim s = [] then Ok None
          else if length s > max_bytes \<or> \<not> list_all (catalog_text_char allow_newlines) (chars s) then
            invalid_upstream ''model catalog returned invalid display text''
          else Ok (Some s))"

definition normalize_model_limit :: "64 word option \<Rightarrow> (u64 option, Error) result" where
  "normalize_model_limit v =
     (case v of
        None \<Rightarrow> Ok None
      | Some n \<Rightarrow>
          if sint n > 0 then Ok (Some n)
          else invalid_upstream ''model catalog returned a non-positive token limit'')"

definition normalize_input_modality :: "bytes list \<Rightarrow> bytes \<Rightarrow> (bytes list, Error) result" where
  "normalize_input_modality normalized modality =
     (if modality = [] \<or> length modality > 32 \<or> list_ex is_whitespace (chars modality) \<or> list_ex is_control (chars modality)
      then invalid_upstream ''model catalog returned an invalid input modality''
      else Ok (push_unique normalized modality))"

definition normalize_input_modalities :: "bytes list \<Rightarrow> (bytes list, Error) result" where
  "normalize_input_modalities modalities = try_fold normalize_input_modality [] modalities"

definition parse_u64 :: "bytes \<Rightarrow> u64 option" where
  "parse_u64 s = map_option of_nat (parse_unsigned (2 ^ 64) s)"

definition parse_version :: "bytes \<Rightarrow> (u64 \<times> u64 \<times> u64) option" where
  "parse_version version =
     (case split_on (\<lambda>c. c = CHR ''.'') version of
        [a, b, c] \<Rightarrow>
          (case (parse_u64 a, parse_u64 b, parse_u64 c) of
             (Some x, Some y, Some z) \<Rightarrow> Some (x, y, z) | _ \<Rightarrow> None)
      | _ \<Rightarrow> None)"

definition version_greater :: "u64 \<times> u64 \<times> u64 \<Rightarrow> u64 \<times> u64 \<times> u64 \<Rightarrow> bool" where
  "version_greater l r =
     (case (l, r) of ((a, b, c), (x, y, z)) \<Rightarrow> a > x \<or> a = x \<and> (b > y \<or> b = y \<and> c > z))"

text \<open>
  Only \<open>Ordering::Greater\<close> is tested by the caller. The right operand is the constant wire version,
  so the \<open>expect\<close> of the source never fires (\<open>wire_version_parses\<close> below).
\<close>

definition newer_than_wire :: "UpstreamClientVersion \<Rightarrow> (bool, Error) result" where
  "newer_than_wire left =
     and_then (case left of
                 Text version \<Rightarrow> ok_or (parse_version version)
                   (InvalidUpstreamResponse ''model catalog returned an invalid minimum client version'')
               | Triple version \<Rightarrow> Ok version)
     (\<lambda>l. Ok (version_greater l (unwrap_or (parse_version CODEX_WIRE_COMPATIBILITY_VERSION) (0, 0, 0))))"

lemma wire_version_parses: "parse_version CODEX_WIRE_COMPATIBILITY_VERSION = Some (0, 153, 4)"
  by (simp add: parse_version_def CODEX_WIRE_COMPATIBILITY_VERSION_def parse_u64_def parse_unsigned_def
      is_ascii_digit_def)

section \<open>One model\<close>

definition listed_visibility :: "bytes option \<Rightarrow> (bool, Error) result" where
  "listed_visibility v =
     (if v = None \<or> v = Some ''list'' then Ok True
      else if one_of v [''hide'', ''none''] then Ok False
      else invalid_upstream ''model catalog returned unknown visibility'')"

definition catalog_efforts :: "bytes list \<Rightarrow> bytes list" where
  "catalog_efforts levels = foldl (\<lambda>acc e. if is_reasoning_effort e then push_unique acc e else acc) [] levels"

definition model_supports_fast :: "bytes \<Rightarrow> UpstreamModel \<Rightarrow> bool" where
  "model_supports_fast fast_tier model =
     (fast_tier \<in> set (um_service_tiers model) \<or> ''fast'' \<in> set (um_additional_speed_tiers model))"

definition normalize_model :: "bytes \<Rightarrow> UpstreamModel \<Rightarrow> (ModelInfo, Error) result" where
  "normalize_model fast_tier model =
     and_then (listed_visibility (um_visibility model)) (\<lambda>listed.
     and_then (case um_minimal_client_version model of
                 None \<Rightarrow> Ok False | Some minimal \<Rightarrow> newer_than_wire minimal) (\<lambda>newer.
     let efforts = catalog_efforts (um_supported_reasoning_levels model) in
     and_then (normalize_input_modalities (um_input_modalities model)) (\<lambda>input_modalities.
     and_then (normalize_catalog_text (um_display_name model) 512 False) (\<lambda>display_name.
     and_then (normalize_catalog_text (um_description model) (16 * 1024) True) (\<lambda>description.
     and_then (normalize_model_limit (um_context_window model)) (\<lambda>context_window.
     and_then (normalize_model_limit (um_max_output_tokens model)) (\<lambda>max_output_tokens.
       Ok \<lparr>mi_id = um_slug model, mi_display_name = display_name, mi_description = description,
           mi_context_window = context_window, mi_max_output_tokens = max_output_tokens,
           mi_supported_reasoning_efforts = efforts,
           mi_default_reasoning_effort = opt_filter (\<lambda>d. d \<in> set efforts) (um_default_reasoning_level model),
           mi_is_visible = (listed \<and> \<not> newer
             \<and> \<not> is_some_and (\<lambda>mode. mode \<notin> {''direct'', ''code_mode'', ''code_mode_only''}) (um_tool_mode model)
             \<and> \<not> (um_supported_reasoning_levels model \<noteq> [] \<and> efforts = [])
             \<and> \<not> (input_modalities \<noteq> [] \<and> ''text'' \<notin> set input_modalities)),
           mi_is_default = False, mi_use_responses_lite = um_use_responses_lite model,
           mi_tool_mode = um_tool_mode model, mi_input_modalities = input_modalities,
           mi_supported_in_api = um_supported_in_api model,
           mi_supports_fast_mode = model_supports_fast fast_tier model\<rparr>)))))))"

definition catalog_entry ::
  "bytes \<Rightarrow> bytes list \<times> ModelInfo list \<Rightarrow> UpstreamModel \<Rightarrow> (bytes list \<times> ModelInfo list, Error) result" where
  "catalog_entry fast_tier acc model =
     (case acc of (seen_ids, models) \<Rightarrow>
       and_then (map_err (\<lambda>_. InvalidUpstreamResponse ''model catalog returned an invalid id'')
                   (validate_model_id (um_slug model))) (\<lambda>_.
       if um_slug model \<in> set seen_ids then invalid_upstream ''model catalog returned duplicate ids''
       else and_then (normalize_model fast_tier model)
              (\<lambda>m. Ok (um_slug model # seen_ids, models @ [m]))))"

section \<open>The whole catalog\<close>

definition MAX_MODELS :: nat where
  "MAX_MODELS = 4096"

text \<open>The first visible model becomes the default; a catalog with none is refused.\<close>

fun mark_default :: "ModelInfo list \<Rightarrow> ModelInfo list option" where
  "mark_default [] = None"
| "mark_default (m # ms) =
     (if mi_is_visible m then Some (m\<lparr>mi_is_default := True\<rparr> # ms)
      else map_option (Cons m) (mark_default ms))"

definition with_default :: "ModelInfo list \<Rightarrow> (ModelInfo list, Error) result" where
  "with_default models =
     ok_or (mark_default models) (InvalidUpstreamResponse ''model catalog has no visible models'')"

definition normalize_catalog :: "bytes \<Rightarrow> UpstreamModelsResponse \<Rightarrow> (ModelInfo list, Error) result" where
  "normalize_catalog fast_tier upstream =
     (if ur_models upstream \<noteq> [] \<and> ur_data upstream \<noteq> [] then
        invalid_upstream ''models response mixed subscription and public API catalog shapes''
      else
        let subscription_catalog = (ur_models upstream \<noteq> []);
            upstream_models = (if subscription_catalog then ur_models upstream else ur_data upstream)
        in if upstream_models = [] then invalid_upstream ''models response contained no models''
           else if length upstream_models > MAX_MODELS then
             invalid_upstream (''models response exceeded the '' @ show_nat MAX_MODELS @ ''-model limit'')
           else
             and_then (try_fold (catalog_entry fast_tier) ([], [])
                (if subscription_catalog then sort_key (\<lambda>m. sint (um_priority m)) upstream_models else upstream_models))
             (\<lambda>(_, models). with_default models))"

definition normalize_models ::
  "(bytes \<Rightarrow> (UpstreamModelsResponse, bytes) result) \<Rightarrow> bytes \<Rightarrow> bytes \<Rightarrow> (ModelInfo list, Error) result" where
  "normalize_models decode_models fast_tier body =
     and_then (map_err (\<lambda>e. InvalidUpstreamResponse (''could not decode models response: '' @ e)) (decode_models body))
       (normalize_catalog fast_tier)"

text \<open>One bundled row: it is kept if the account's catalog lists it and the API serves it.\<close>

definition merge_bundled ::
  "ModelInfo list \<times> ModelInfo list \<Rightarrow> ModelInfo \<Rightarrow> ModelInfo list \<times> ModelInfo list" where
  "merge_bundled acc metadata =
     (case acc of (available, merged) \<Rightarrow>
       (case filter (\<lambda>m. mi_id m = mi_id metadata) available of
          [] \<Rightarrow> (available, merged)
        | account_model # _ \<Rightarrow>
            (remove1 account_model available,
             if \<not> mi_supported_in_api metadata then merged
             else merged @ [metadata\<lparr>mi_is_visible := mi_is_visible metadata \<and> mi_is_visible account_model,
                                     mi_is_default := False\<rparr>])))"

definition normalize_api_models_with_bundled_metadata ::
  "(bytes \<Rightarrow> (UpstreamModelsResponse, bytes) result) \<Rightarrow> bytes \<Rightarrow> bytes \<Rightarrow> bytes \<Rightarrow> (ModelInfo list, Error) result" where
  "normalize_api_models_with_bundled_metadata decode_models fast_tier bundled_catalog body =
     and_then (normalize_models decode_models fast_tier body) (\<lambda>available.
     and_then (normalize_models decode_models fast_tier bundled_catalog) (\<lambda>bundled.
       with_default (snd (foldl merge_bundled (available, []) bundled))))"

text \<open>What the transport remembers of a listed catalog for the checks of later requests.\<close>

definition capabilities_of :: "ModelInfo \<Rightarrow> ModelCapabilities" where
  "capabilities_of model = \<lparr>cap_is_visible = mi_is_visible model, cap_use_responses_lite = mi_use_responses_lite model,
     cap_tool_mode = mi_tool_mode model, cap_input_modalities = mi_input_modalities model,
     cap_supported_reasoning_efforts = mi_supported_reasoning_efforts model,
     cap_supports_fast_mode = mi_supports_fast_mode model\<rparr>"

definition model_capabilities :: "ModelInfo list \<Rightarrow> (bytes \<times> ModelCapabilities) list" where
  "model_capabilities models = map_build (map (\<lambda>m. (mi_id m, capabilities_of m)) models)"

section \<open>The pinned Z.ai catalog\<close>

record PinnedModel =
  pm_id :: bytes
  pm_display_name :: bytes
  pm_description :: bytes
  pm_context_window :: "u64 option"
  pm_accepts_images :: bool

definition MAX_OUTPUT_TOKENS :: u64 where
  "MAX_OUTPUT_TOKENS = 131072"

definition REASONING_EFFORTS :: "bytes list" where
  "REASONING_EFFORTS = [''minimal'', ''low'', ''medium'', ''high'', ''xhigh'', ''ultra'']"

definition PINNED_MODELS :: "PinnedModel list" where
  "PINNED_MODELS = [
     \<lparr>pm_id = ''glm-5.3'', pm_display_name = ''GLM-5.3'',
      pm_description = ''Z.ai GLM Coding Plan default coding model'',
      pm_context_window = Some 1048576, pm_accepts_images = False\<rparr>,
     \<lparr>pm_id = ''glm-5.3-flash'', pm_display_name = ''GLM-5.3 Flash'',
      pm_description = ''Faster multimodal GLM Coding Plan model'',
      pm_context_window = None, pm_accepts_images = True\<rparr>,
     \<lparr>pm_id = ''glm-4.7'', pm_display_name = ''GLM-4.7'',
      pm_description = ''Previous-generation GLM coding model'',
      pm_context_window = None, pm_accepts_images = False\<rparr>,
     \<lparr>pm_id = ''glm-4.6'', pm_display_name = ''GLM-4.6'',
      pm_description = ''Previous-generation GLM coding model'',
      pm_context_window = None, pm_accepts_images = False\<rparr>]"

definition pinned_model :: "nat \<Rightarrow> PinnedModel \<Rightarrow> ModelInfo" where
  "pinned_model index model =
     \<lparr>mi_id = pm_id model, mi_display_name = Some (pm_display_name model),
      mi_description = Some (pm_description model), mi_context_window = pm_context_window model,
      mi_max_output_tokens = Some MAX_OUTPUT_TOKENS, mi_supported_reasoning_efforts = REASONING_EFFORTS,
      mi_default_reasoning_effort = Some ''medium'', mi_is_visible = True, mi_is_default = (index = 0),
      mi_use_responses_lite = False, mi_tool_mode = Some ''direct'',
      mi_input_modalities = (if pm_accepts_images model then [''text'', ''image''] else [''text'']),
      mi_supported_in_api = True, mi_supports_fast_mode = False\<rparr>"

definition pinned_models :: "ModelInfo list" where
  "pinned_models = map (\<lambda>(i, m). pinned_model i m) (zip [0..<length PINNED_MODELS] PINNED_MODELS)"

definition find_pinned :: "bytes \<Rightarrow> ModelInfo option" where
  "find_pinned model_id = List.find (\<lambda>m. mi_id m = model_id) pinned_models"

end
