(* ===== verification/Launcher_Ready.thy ===== *)
theory Launcher_Ready
  imports Model_Catalog
begin

text \<open>
  The readiness handshake between the launcher (\<open>muse-codex/src/lib.rs\<close>) and the gateway
  (\<open>muse-codex-gateway/src/server.rs\<close>, \<open>main.rs\<close>): the ready file the gateway publishes and its
  validation, the startup error codes and the messages for them, the private-file checks, and the wait
  loop. Errors of the launcher are their messages; base64 decoding and the file system's answers are
  parameters.
\<close>

section \<open>Ready file\<close>

datatype PublicProvider = Codex | Zai

fun provider_str :: "PublicProvider \<Rightarrow> bytes" where
  "provider_str Codex = ''codex''"
| "provider_str Zai = ''zai''"

record GatewayModel =
  gm_id :: bytes
  gm_display_name :: "bytes option"
  gm_description :: "bytes option"
  gm_context_window :: "u64 option"
  gm_max_output_tokens :: "u64 option"
  gm_supported_reasoning_efforts :: "bytes list"
  gm_default_reasoning_effort :: "bytes option"
  gm_is_visible :: bool
  gm_is_default :: bool

record GatewayReady =
  gr_schema_version :: nat
  gr_provider :: bytes
  gr_base_url :: bytes
  gr_token :: bytes
  gr_default_model :: bytes
  gr_models :: "GatewayModel list"

definition GATEWAY_READY_SCHEMA_VERSION :: nat where
  "GATEWAY_READY_SCHEMA_VERSION = 4"

definition MAX_GATEWAY_MODELS :: nat where
  "MAX_GATEWAY_MODELS = 4096"

definition validate_loopback_base_url :: "bytes \<Rightarrow> (unit, bytes) result" where
  "validate_loopback_base_url v =
     and_then (ok_or (strip_prefix ''http://127.0.0.1:'' v) ''gateway returned a non-loopback base_url'') (\<lambda>port.
       if port = [] \<or> list_ex (\<lambda>c. c \<in> set ''/?#@'') port then
         Err ''gateway returned an invalid loopback base_url''
       else and_then (ok_or (parse_unsigned (2 ^ 16) port) ''gateway returned an invalid loopback port'') (\<lambda>n.
         if n = 0 then Err ''gateway returned loopback port zero'' else Ok ()))"

text \<open>The two base64 decoders the launcher tries.\<close>

record base64 =
  url_safe_no_pad_encode :: "bytes \<Rightarrow> bytes"
  url_safe_no_pad_decode :: "bytes \<Rightarrow> bytes option"
  url_safe_decode :: "bytes \<Rightarrow> bytes option"

definition validate_gateway_token :: "base64 \<Rightarrow> bytes \<Rightarrow> (unit, bytes) result" where
  "validate_gateway_token b64 token =
     and_then (ok_or (or_else (url_safe_no_pad_decode b64 token) (url_safe_decode b64 token))
                 ''gateway returned a malformed bearer token'') (\<lambda>decoded.
       if length decoded \<noteq> 32 then Err ''gateway bearer token is not 256 bits'' else Ok ())"

definition plain_word :: "bytes \<Rightarrow> bool" where
  "plain_word s = (\<not> list_ex (\<lambda>c. is_control c \<or> is_whitespace c) (chars s))"

definition validate_gateway_model :: "bytes \<Rightarrow> (unit, bytes) result" where
  "validate_gateway_model model =
     (if model = [] \<or> length model > 256 \<or> starts_with ''-'' model \<or> \<not> plain_word model
      then Err ''gateway returned an invalid default model id'' else Ok ())"

definition bad_limit :: "u64 option \<Rightarrow> bool" where
  "bad_limit v = is_some_and (\<lambda>limit. limit = 0 \<or> unat limit > 2 ^ 63 - 1) v"

definition validate_effort :: "bytes list \<Rightarrow> bytes \<Rightarrow> (bytes list, bytes) result" where
  "validate_effort seen effort =
     (if effort = [] \<or> length effort > 64 \<or> \<not> plain_word effort \<or> effort \<in> set seen
      then Err ''gateway returned an invalid reasoning effort variant'' else Ok (effort # seen))"

text \<open>The loop over the models: ids seen, matching defaults, visible models.\<close>

definition validate_gateway_row ::
  "bytes \<Rightarrow> bytes list \<times> nat \<times> nat \<Rightarrow> GatewayModel \<Rightarrow> (bytes list \<times> nat \<times> nat, bytes) result" where
  "validate_gateway_row default_model acc model =
     (case acc of (ids, matching_default, visible) \<Rightarrow>
       and_then (validate_gateway_model (gm_id model)) (\<lambda>_.
       if gm_id model \<in> set ids then Err ''gateway returned duplicate model ids''
       else if is_some_and (\<lambda>label. label = [] \<or> length label > 512 \<or> list_ex is_control (chars label)) (gm_display_name model) then
         Err ''gateway returned an invalid model display name''
       else if is_some_and (\<lambda>d. length d > 16 * 1024 \<or> 0 \<in> set (chars d)) (gm_description model) then
         Err ''gateway returned an invalid model description''
       else if bad_limit (gm_context_window model) \<or> bad_limit (gm_max_output_tokens model) then
         Err ''gateway returned an invalid model limit''
       else if length (gm_supported_reasoning_efforts model) > 32 then
         Err ''gateway returned too many reasoning effort variants''
       else and_then (try_fold validate_effort [] (gm_supported_reasoning_efforts model)) (\<lambda>_.
         if is_some_and (\<lambda>e. e \<notin> set (gm_supported_reasoning_efforts model)) (gm_default_reasoning_effort model) then
           Err ''gateway returned an unsupported default reasoning effort''
         else
           let visible = (if gm_is_visible model then visible + 1 else visible)
           in if gm_is_default model then
                if \<not> gm_is_visible model \<or> gm_id model \<noteq> default_model then
                  Err ''gateway default model metadata is inconsistent''
                else Ok (gm_id model # ids, matching_default + 1, visible)
              else Ok (gm_id model # ids, matching_default, visible))))"

definition validate_gateway_models :: "GatewayModel list \<Rightarrow> bytes \<Rightarrow> (unit, bytes) result" where
  "validate_gateway_models models default_model =
     (if models = [] \<or> length models > MAX_GATEWAY_MODELS then Err ''gateway returned an invalid model count''
      else and_then (try_fold (validate_gateway_row default_model) ([], 0, 0) models)
        (\<lambda>(_, matching_default, visible).
           if visible = 0 \<or> matching_default \<noteq> 1 then Err ''gateway returned no unique visible default model''
           else Ok ()))"

definition validate_ready :: "base64 \<Rightarrow> PublicProvider \<Rightarrow> GatewayReady \<Rightarrow> (GatewayReady, bytes) result" where
  "validate_ready b64 provider ready =
     (if gr_schema_version ready \<noteq> GATEWAY_READY_SCHEMA_VERSION then
        Err (''unsupported gateway readiness schema '' @ show_nat (gr_schema_version ready) @ ''; expected '' @
          show_nat GATEWAY_READY_SCHEMA_VERSION)
      else if gr_provider ready \<noteq> provider_str provider then
        Err (''gateway served provider '' @ [CHR 0x27] @ gr_provider ready @ [CHR 0x27] @ '' but '' @ [CHR 0x27] @
          provider_str provider @ [CHR 0x27] @ '' was selected'')
      else
        and_then (validate_loopback_base_url (gr_base_url ready)) (\<lambda>_.
        and_then (validate_gateway_token b64 (gr_token ready)) (\<lambda>_.
        and_then (validate_gateway_model (gr_default_model ready)) (\<lambda>_.
        and_then (validate_gateway_models (gr_models ready) (gr_default_model ready)) (\<lambda>_. Ok ready)))))"

section \<open>What the gateway publishes\<close>

definition READY_SCHEMA_VERSION :: nat where
  "READY_SCHEMA_VERSION = 4"

text \<open>The row a \<open>ModelInfo\<close> serializes to: the fields not marked \<open>#[serde(skip)]\<close>.\<close>

definition gateway_row :: "ModelInfo \<Rightarrow> GatewayModel" where
  "gateway_row m = \<lparr>gm_id = mi_id m, gm_display_name = mi_display_name m, gm_description = mi_description m,
     gm_context_window = mi_context_window m, gm_max_output_tokens = mi_max_output_tokens m,
     gm_supported_reasoning_efforts = mi_supported_reasoning_efforts m,
     gm_default_reasoning_effort = mi_default_reasoning_effort m,
     gm_is_visible = mi_is_visible m, gm_is_default = mi_is_default m\<rparr>"

text \<open>
  \<open>ReadyFile\<close> as \<open>server::run\<close> fills it: the listener is bound to the loopback address and a port the
  system chose, the token is the encoding of 32 random bytes, the default is the catalog's.
\<close>

definition ready_file :: "base64 \<Rightarrow> PublicProvider \<Rightarrow> nat \<Rightarrow> bytes \<Rightarrow> ModelInfo list \<Rightarrow> (GatewayReady, bytes) result" where
  "ready_file b64 provider port random models =
     and_then (ok_or (List.find mi_is_default models) ''the upstream model catalog has no default model'') (\<lambda>default_model.
       Ok \<lparr>gr_schema_version = READY_SCHEMA_VERSION, gr_provider = provider_str provider,
           gr_base_url = ''http://127.0.0.1:'' @ show_nat port, gr_token = url_safe_no_pad_encode b64 random,
           gr_default_model = mi_id default_model, gr_models = map gateway_row models\<rparr>)"

section \<open>Startup errors\<close>

datatype StartupErrorCode =
    AuthenticationRequired | AuthenticationFailed | CustomBaseUrlRequiresApiKeyCode | InvalidBaseUrlCode
  | CredentialStoreUnavailable | CatalogRateLimited | CatalogRejected | CatalogInvalid | CatalogTimeout
  | NetworkUnavailable | ProviderOptionUnsupported | GatewayStartFailed

text \<open>\<open>#[serde(rename_all = "snake_case")]\<close>.\<close>

fun startup_code_str :: "StartupErrorCode \<Rightarrow> bytes" where
  "startup_code_str AuthenticationRequired = ''authentication_required''"
| "startup_code_str AuthenticationFailed = ''authentication_failed''"
| "startup_code_str CustomBaseUrlRequiresApiKeyCode = ''custom_base_url_requires_api_key''"
| "startup_code_str InvalidBaseUrlCode = ''invalid_base_url''"
| "startup_code_str CredentialStoreUnavailable = ''credential_store_unavailable''"
| "startup_code_str CatalogRateLimited = ''catalog_rate_limited''"
| "startup_code_str CatalogRejected = ''catalog_rejected''"
| "startup_code_str CatalogInvalid = ''catalog_invalid''"
| "startup_code_str CatalogTimeout = ''catalog_timeout''"
| "startup_code_str NetworkUnavailable = ''network_unavailable''"
| "startup_code_str ProviderOptionUnsupported = ''provider_option_unsupported''"
| "startup_code_str GatewayStartFailed = ''gateway_start_failed''"

fun classify_transport_error :: "Error \<Rightarrow> StartupErrorCode" where
  "classify_transport_error NotAuthenticated = AuthenticationRequired"
| "classify_transport_error (Authentication _) = AuthenticationFailed"
| "classify_transport_error UnsupportedAuthMode = AuthenticationFailed"
| "classify_transport_error EmptyApiKey = AuthenticationFailed"
| "classify_transport_error (ApiKeyTooLong _) = AuthenticationFailed"
| "classify_transport_error ApiKeyNotUtf8 = AuthenticationFailed"
| "classify_transport_error ApiKeyContainsWhitespace = AuthenticationFailed"
| "classify_transport_error ApiKeyContainsControlCharacters = AuthenticationFailed"
| "classify_transport_error CustomBaseUrlRequiresApiKey = CustomBaseUrlRequiresApiKeyCode"
| "classify_transport_error InvalidBaseUrl = InvalidBaseUrlCode"
| "classify_transport_error DataDirectoryUnavailable = CredentialStoreUnavailable"
| "classify_transport_error (InvalidAuthHome _) = CredentialStoreUnavailable"
| "classify_transport_error (CredentialRefreshLock _) = CredentialStoreUnavailable"
| "classify_transport_error (Io _) = CredentialStoreUnavailable"
| "classify_transport_error (Upstream status _) =
     (if status = UNAUTHORIZED \<or> status = FORBIDDEN then AuthenticationFailed
      else if status = TOO_MANY_REQUESTS then CatalogRateLimited
      else if is_client_error status then CatalogRejected
      else NetworkUnavailable)"
| "classify_transport_error (Http _) = NetworkUnavailable"
| "classify_transport_error (InvalidUpstreamResponse _) = CatalogInvalid"
| "classify_transport_error ZaiNotAuthenticated = AuthenticationRequired"
| "classify_transport_error (Keyring _) = CredentialStoreUnavailable"
| "classify_transport_error (ProviderUnsupported _) = ProviderOptionUnsupported"
| "classify_transport_error (InvalidRequest _) = GatewayStartFailed"
| "classify_transport_error FastModeUnavailable = GatewayStartFailed"
| "classify_transport_error (InvalidHeader _) = GatewayStartFailed"
| "classify_transport_error (Provider _) = GatewayStartFailed"
| "classify_transport_error (HttpClient _) = GatewayStartFailed"

text \<open>A cause in an \<open>anyhow\<close> chain, as far as the classification looks at it.\<close>

datatype cause = Elapsed | Transport Error | OtherCause

definition classify_startup_error :: "cause list \<Rightarrow> StartupErrorCode" where
  "classify_startup_error chain =
     (if Elapsed \<in> set chain then CatalogTimeout
      else case List.map_filter (\<lambda>c. case c of Transport e \<Rightarrow> Some e | _ \<Rightarrow> None) chain of
             [] \<Rightarrow> GatewayStartFailed
           | e # _ \<Rightarrow> classify_transport_error e)"

definition startup_failure_message :: "PublicProvider \<Rightarrow> bytes \<Rightarrow> bytes" where
  "startup_failure_message provider failure_code =
     (let zai = (provider = Zai)
      in if failure_code = ''authentication_required'' \<and> zai then
           ''No Z.ai credentials are saved. Run `muse-codex auth set --provider zai --api-key-stdin`.''
         else if failure_code = ''authentication_required'' then
           ''No Codex credentials are saved. Run `muse-codex login` or `muse-codex auth set --provider codex --api-key-stdin`.''
         else if failure_code = ''authentication_failed'' \<and> zai then
           ''Z.ai rejected the stored key. Store a current key with `muse-codex auth set --provider zai --api-key-stdin`.''
         else if failure_code = ''authentication_failed'' then
           ''Codex authentication was rejected. Run `muse-codex login` to sign in again.''
         else if failure_code = ''provider_option_unsupported'' then
           ''An option was selected that the chosen provider does not support. Restart without it.''
         else if failure_code = ''custom_base_url_requires_api_key'' then
           ''A custom base URL is allowed only with API-key authentication. Remove --base-url/OPENAI_BASE_URL to use your ChatGPT subscription.''
         else if failure_code = ''invalid_base_url'' then
           ''The custom API base URL must use HTTPS and contain no credentials, query, or fragment.''
         else if failure_code = ''credential_store_unavailable'' then
           ''The isolated credential store could not be opened. Check macOS Keychain access and run `muse-codex auth status`.''
         else if failure_code = ''catalog_rate_limited'' then
           ''Codex model discovery is rate limited. Wait for the account limit to reset and retry.''
         else if failure_code = ''catalog_rejected'' then
           ''The provider rejected model discovery. Check account access with `muse-codex auth status`.''
         else if failure_code = ''catalog_invalid'' then
           ''The provider returned an incompatible model catalog. Update muse-codex before retrying.''
         else if failure_code = ''catalog_timeout'' then
           ''Codex model discovery timed out. Check your connection and any pending macOS Keychain prompt, then retry.''
         else if failure_code = ''network_unavailable'' then
           ''Could not reach the Codex provider. Check your connection and retry.''
         else ''The private gateway could not start. Check the installed launcher/gateway pair and retry.'')"

section \<open>Private files\<close>

text \<open>What \<open>open\<close> and \<open>metadata\<close> report about a file; \<open>file_mode\<close> holds the permission bits.\<close>

record file_meta =
  file_regular :: bool
  file_len :: nat
  file_mode :: nat
  file_nlink :: nat
  file_uid :: nat
  file_bytes :: bytes

datatype open_result = NotFound | OpenFailed bytes | Opened file_meta

definition open_private_gateway_file :: "nat \<Rightarrow> open_result \<Rightarrow> nat \<Rightarrow> (file_meta option, bytes) result" where
  "open_private_gateway_file euid opened limit =
     (case opened of
        NotFound \<Rightarrow> Ok None
      | OpenFailed e \<Rightarrow> Err e
      | Opened file \<Rightarrow>
          if \<not> file_regular file then Err ''gateway readiness path is not a regular file''
          else if file_len file > limit then Err ''gateway readiness file exceeds the size limit''
          else if file_mode file mod 512 \<noteq> 384 then Err ''gateway readiness file permissions are not 0600''
          else if file_nlink file \<noteq> 1 then Err ''gateway readiness file has an unexpected link count''
          else if file_uid file \<noteq> euid then Err ''gateway readiness file is not owned by the current user''
          else Ok (Some file))"

definition MAX_GATEWAY_READY_BYTES :: nat where
  "MAX_GATEWAY_READY_BYTES = 10 * 1024 * 1024"

text \<open>The derived decoders of the two private files.\<close>

record ready_codec =
  rc_ready :: "bytes \<Rightarrow> GatewayReady option"
  rc_failure :: "bytes \<Rightarrow> (nat \<times> bytes) option"

definition read_gateway_ready :: "ready_codec \<Rightarrow> nat \<Rightarrow> open_result \<Rightarrow> (GatewayReady option, bytes) result" where
  "read_gateway_ready rc euid opened =
     and_then (open_private_gateway_file euid opened MAX_GATEWAY_READY_BYTES) (\<lambda>file.
       case file of
         None \<Rightarrow> Ok None
       | Some file \<Rightarrow>
           let content = take (MAX_GATEWAY_READY_BYTES + 1) (file_bytes file)
           in if length content > MAX_GATEWAY_READY_BYTES then Err ''gateway readiness file exceeds the size limit''
              else if content = [] then Ok None
              else and_then (ok_or (rc_ready rc content) ''invalid gateway readiness JSON'') (\<lambda>ready. Ok (Some ready)))"

definition read_gateway_startup_failure ::
  "ready_codec \<Rightarrow> nat \<Rightarrow> open_result \<Rightarrow> PublicProvider \<Rightarrow> (bytes option, bytes) result" where
  "read_gateway_startup_failure rc euid opened provider =
     and_then (open_private_gateway_file euid opened 4096) (\<lambda>file.
       case file of
         None \<Rightarrow> Ok None
       | Some file \<Rightarrow>
           and_then (ok_or (rc_failure rc (take 4097 (file_bytes file))) ''invalid private gateway startup error'')
           (\<lambda>(version, failure_code).
             if version \<noteq> 1 then Err ''unsupported gateway startup error schema''
             else Ok (Some (startup_failure_message provider failure_code))))"

section \<open>Waiting\<close>

text \<open>
  One round of the wait loop sees the child's status, the error file, the ready file and whether the
  deadline has passed by then.
\<close>

record poll =
  poll_exit :: "(bytes option, bytes) result"
  poll_failure :: open_result
  poll_failure_after_exit :: open_result
  poll_ready :: open_result
  poll_late :: bool

definition wait_round ::
  "ready_codec \<Rightarrow> base64 \<Rightarrow> nat \<Rightarrow> PublicProvider \<Rightarrow> bytes option \<Rightarrow> poll
     \<Rightarrow> (GatewayReady, bytes) result + bytes option" where
  "wait_round rc b64 euid provider last_parse_error p =
     (case poll_exit p of
        Err e \<Rightarrow> Inl (Err e)
      | Ok (Some status) \<Rightarrow>
          (case read_gateway_startup_failure rc euid (poll_failure_after_exit p) provider of
             Err e \<Rightarrow> Inl (Err e)
           | Ok (Some message) \<Rightarrow> Inl (Err message)
           | Ok None \<Rightarrow> Inl (Err (''gateway could not initialize authentication or load the upstream model catalog ('' @
               status @ ''); run `muse-codex auth status`'')))
      | Ok None \<Rightarrow>
          (case read_gateway_startup_failure rc euid (poll_failure p) provider of
             Err e \<Rightarrow> Inl (Err e)
           | Ok (Some message) \<Rightarrow> Inl (Err message)
           | Ok None \<Rightarrow>
               (case read_gateway_ready rc euid (poll_ready p) of
                  Ok (Some ready) \<Rightarrow> Inl (validate_ready b64 provider ready)
                | r \<Rightarrow>
                    let last_parse_error = (case r of Err e \<Rightarrow> Some e | Ok _ \<Rightarrow> last_parse_error)
                    in if poll_late p then
                         Inl (Err (case last_parse_error of
                                Some e \<Rightarrow> ''gateway readiness file never became valid: '' @ e
                              | None \<Rightarrow> ''the upstream model catalog did not load before the gateway startup timeout; check your connection and retry''))
                       else Inr last_parse_error)))"

text \<open>The loop over the rounds the clock allows; \<open>None\<close> when the given rounds end before it does.\<close>

fun wait_for_gateway_ready ::
  "ready_codec \<Rightarrow> base64 \<Rightarrow> nat \<Rightarrow> PublicProvider \<Rightarrow> bytes option \<Rightarrow> poll list \<Rightarrow> (GatewayReady, bytes) result option" where
  "wait_for_gateway_ready rc b64 euid provider err [] = None"
| "wait_for_gateway_ready rc b64 euid provider err (p # ps) =
     (case wait_round rc b64 euid provider err p of
        Inl r \<Rightarrow> Some r
      | Inr err' \<Rightarrow> wait_for_gateway_ready rc b64 euid provider err' ps)"

end
