(* ===== verification/Catalog_Contract.thy ===== *)
theory Catalog_Contract
  imports Launcher_Ready
begin

text \<open>
  The contract between whoever lists models and the launcher that validates the list: \<open>catalog_ok\<close>
  says what a published catalog promises, the locale \<open>catalog_source\<close> is the interface of a source
  of catalogs, and the three sources of the system (the subscription or public API catalog, the API
  catalog enriched from the bundled one, and the pinned Z.ai catalog) are interpretations of it.
\<close>

section \<open>Abstract catalogs\<close>

definition row_ok :: "ModelInfo \<Rightarrow> bool" where
  "row_ok m =
     (mi_id m \<noteq> [] \<and> length (mi_id m) \<le> 256 \<and> \<not> starts_with ''-'' (mi_id m) \<and> plain_word (mi_id m) \<and>
      (\<forall>s. mi_display_name m = Some s \<longrightarrow> s \<noteq> [] \<and> length s \<le> 512 \<and> \<not> list_ex is_control (chars s)) \<and>
      (\<forall>s. mi_description m = Some s \<longrightarrow> length s \<le> 16 * 1024 \<and> 0 \<notin> set (chars s)) \<and>
      \<not> bad_limit (mi_context_window m) \<and> \<not> bad_limit (mi_max_output_tokens m) \<and>
      distinct (mi_supported_reasoning_efforts m) \<and> set (mi_supported_reasoning_efforts m) \<subseteq> set reasoning_efforts \<and>
      (\<forall>e. mi_default_reasoning_effort m = Some e \<longrightarrow> e \<in> set (mi_supported_reasoning_efforts m)))"

definition catalog_ok :: "ModelInfo list \<Rightarrow> bool" where
  "catalog_ok ms =
     (length ms \<le> 4096 \<and> distinct (map mi_id ms) \<and> list_all row_ok ms \<and>
      (\<exists>d. filter mi_is_default ms = [d] \<and> mi_is_visible d))"

locale catalog_source =
  fixes produce :: "'x \<Rightarrow> (ModelInfo list, Error) result"
  assumes produce_ok: "produce x = Ok ms \<Longrightarrow> catalog_ok ms"
begin

lemma one_default:
  assumes "produce x = Ok ms"
  obtains d where "filter mi_is_default ms = [d]" "mi_is_visible d" "List.find mi_is_default ms = Some d"
proof -
  from produce_ok [OF assms] obtain d where "filter mi_is_default ms = [d]" "mi_is_visible d"
    by (auto simp: catalog_ok_def)
  moreover from this(1) have "List.find mi_is_default ms = Some d"
    by (induction ms) (auto split: if_splits)
  ultimately show thesis by (rule that)
qed

lemma ids_distinct: "produce x = Ok ms \<Longrightarrow> distinct (map mi_id ms)"
  by (auto simp: catalog_ok_def dest: produce_ok)

end

section \<open>Acceptance by the launcher\<close>

lemma validate_effort_fold:
  assumes "distinct es" and "set es \<inter> set seen = {}" and "set es \<subseteq> set reasoning_efforts"
  shows "try_fold validate_effort seen es = Ok (rev es @ seen)"
  using assms
proof (induction es arbitrary: seen)
  case (Cons e es)
  have "e \<noteq> [] \<and> length e \<le> 64 \<and> plain_word e" if "e \<in> set reasoning_efforts"
    using that by (auto simp: reasoning_efforts_def plain_word_def chars_ascii is_control_def is_whitespace_def)
  with Cons.prems have "validate_effort seen e = Ok (e # seen)"
    by (auto simp: validate_effort_def)
  with Cons.IH [of "e # seen"] Cons.prems show ?case by auto
qed simp

lemma efforts_few: "distinct es \<Longrightarrow> set es \<subseteq> set reasoning_efforts \<Longrightarrow> length es \<le> 32"
proof -
  assume "distinct es" "set es \<subseteq> set reasoning_efforts"
  then have "length es \<le> card (set reasoning_efforts)"
    by (metis List.finite_set card_mono distinct_card)
  also have "\<dots> \<le> length reasoning_efforts"
    by (rule card_length)
  finally show ?thesis
    by (simp add: reasoning_efforts_def)
qed

lemma validate_gateway_row_ok:
  assumes "row_ok m" and "mi_id m \<notin> set ids" and "mi_is_default m \<Longrightarrow> mi_is_visible m \<and> mi_id m = d"
  shows "validate_gateway_row d (ids, md, v) (gateway_row m) =
    Ok (mi_id m # ids, md + (if mi_is_default m then 1 else 0), v + (if mi_is_visible m then 1 else 0))"
proof -
  have "validate_gateway_model (mi_id m) = Ok ()"
    using assms(1) by (simp add: validate_gateway_model_def row_ok_def)
  moreover have "\<not> is_some_and (\<lambda>label. label = [] \<or> length label > 512 \<or> list_ex is_control (chars label)) (mi_display_name m)"
    "\<not> is_some_and (\<lambda>d. length d > 16 * 1024 \<or> 0 \<in> set (chars d)) (mi_description m)"
    "\<not> is_some_and (\<lambda>e. e \<notin> set (mi_supported_reasoning_efforts m)) (mi_default_reasoning_effort m)"
    using assms(1) by (auto simp: row_ok_def is_some_and_iff)
  moreover have "try_fold validate_effort [] (mi_supported_reasoning_efforts m) = Ok (rev (mi_supported_reasoning_efforts m))"
    "\<not> length (mi_supported_reasoning_efforts m) > 32"
    using assms(1) validate_effort_fold [of "mi_supported_reasoning_efforts m" "[]"] efforts_few
    by (auto simp: row_ok_def not_less)
  moreover have "\<not> bad_limit (mi_context_window m)" "\<not> bad_limit (mi_max_output_tokens m)"
    using assms(1) by (simp_all add: row_ok_def)
  ultimately show ?thesis
    using assms(2,3) by (simp add: validate_gateway_row_def gateway_row_def)
qed

lemma validate_gateway_rows_ok:
  assumes "list_all row_ok ms" and "distinct (map mi_id ms)" and "mi_id ` set ms \<inter> set ids = {}"
    and "\<forall>m \<in> set ms. mi_is_default m \<longrightarrow> mi_is_visible m \<and> mi_id m = d"
  shows "try_fold (validate_gateway_row d) (ids, md, v) (map gateway_row ms) =
    Ok (rev (map mi_id ms) @ ids, md + length (filter mi_is_default ms), v + length (filter mi_is_visible ms))"
  using assms
proof (induction ms arbitrary: ids md v)
  case (Cons m ms)
  have "validate_gateway_row d (ids, md, v) (gateway_row m) =
    Ok (mi_id m # ids, md + (if mi_is_default m then 1 else 0), v + (if mi_is_visible m then 1 else 0))"
    by (rule validate_gateway_row_ok) (use Cons.prems in auto)
  with Cons.IH [of "mi_id m # ids"] Cons.prems show ?case
    by auto
qed simp

lemma catalog_accepted:
  assumes "catalog_ok ms" and d: "filter mi_is_default ms = [d]"
  shows "validate_gateway_models (map gateway_row ms) (mi_id d) = Ok () \<and> validate_gateway_model (mi_id d) = Ok ()"
proof -
  have vis: "mi_is_visible d"
    using assms by (auto simp: catalog_ok_def)
  have in_ms: "d \<in> set ms"
    using arg_cong [OF d, of set] by auto
  have "m = d" if "m \<in> set ms" "mi_is_default m" for m
    using arg_cong [OF d, of set] that by auto
  then have "try_fold (validate_gateway_row (mi_id d)) ([], 0, 0) (map gateway_row ms) =
      Ok (rev (map mi_id ms) @ [], 0 + length (filter mi_is_default ms), 0 + length (filter mi_is_visible ms))"
    by (intro validate_gateway_rows_ok) (use assms vis in \<open>auto simp: catalog_ok_def\<close>)
  moreover have "length (filter mi_is_visible ms) \<noteq> 0"
    using in_ms vis by (auto simp: filter_empty_conv)
  moreover have "row_ok d"
    using assms(1) in_ms by (simp add: catalog_ok_def list_all_iff)
  ultimately show ?thesis
    using assms in_ms
    by (auto simp: validate_gateway_models_def MAX_GATEWAY_MODELS_def catalog_ok_def validate_gateway_model_def row_ok_def)
qed

section \<open>Normalized catalogs\<close>

lemma row_ok_flags [simp]:
  "row_ok (m\<lparr>mi_is_default := b\<rparr>) = row_ok m" "row_ok (m\<lparr>mi_is_visible := b\<rparr>) = row_ok m"
  by (simp_all add: row_ok_def)

lemma validate_model_id_word:
  "validate_model_id s = Ok () \<longleftrightarrow> s \<noteq> [] \<and> length s \<le> 256 \<and> \<not> starts_with ''-'' s \<and> plain_word s"
  by (auto simp: validate_model_id_def MAX_MODEL_ID_BYTES_def plain_word_def list_ex_iff)

lemma normalize_catalog_text_Ok:
  "normalize_catalog_text v n nl = Ok (Some s) \<Longrightarrow> s \<noteq> [] \<and> length s \<le> n \<and> list_all (catalog_text_char nl) (chars s)"
  by (auto simp: normalize_catalog_text_def trim_def chars_def split: option.splits if_splits)

lemma sint_pos_bound: "0 < sint (n :: 64 word) \<Longrightarrow> unat n \<le> 2 ^ 63 - 1"
proof -
  assume "0 < sint n"
  then have top: "\<not> bit n 63"
    using bit_last_iff [of n] by simp
  have "take_bit 63 n = n"
  proof (rule bit_word_eqI)
    fix i assume "i < LENGTH(64)"
    then have "i < 63 \<or> i = 63" by auto
    with top show "bit (take_bit 63 n) i = bit n i" by (auto simp: bit_take_bit_iff)
  qed
  then have "unat n = take_bit 63 (unat n)"
    by (metis unsigned_take_bit_eq)
  then show ?thesis
    using take_bit_nat_less_exp [of 63 "unat n"] by simp
qed

lemma normalize_model_limit_Ok: "normalize_model_limit v = Ok r \<Longrightarrow> \<not> bad_limit r"
  by (auto simp: normalize_model_limit_def bad_limit_def is_some_and_iff dest: sint_pos_bound split: option.splits if_splits)

lemma catalog_efforts_ok: "distinct (catalog_efforts ls) \<and> set (catalog_efforts ls) \<subseteq> set reasoning_efforts"
proof -
  have "distinct acc \<Longrightarrow> set acc \<subseteq> set reasoning_efforts \<Longrightarrow>
      distinct (foldl (\<lambda>acc e. if is_reasoning_effort e then push_unique acc e else acc) acc ls) \<and>
      set (foldl (\<lambda>acc e. if is_reasoning_effort e then push_unique acc e else acc) acc ls) \<subseteq> set reasoning_efforts" for acc
    by (induction ls arbitrary: acc) (auto simp: push_unique_distinct is_reasoning_effort_def)
  from this [of "[]"] show ?thesis
    by (simp add: catalog_efforts_def)
qed

lemma normalize_model_row:
  assumes "normalize_model tier um = Ok m" and "validate_model_id (um_slug um) = Ok ()"
  shows "row_ok m \<and> mi_id m = um_slug um \<and> \<not> mi_is_default m"
proof -
  from assms(1) obtain dn de cw mo where
    fields: "normalize_catalog_text (um_display_name um) 512 False = Ok dn"
      "normalize_catalog_text (um_description um) (16 * 1024) True = Ok de"
      "normalize_model_limit (um_context_window um) = Ok cw" "normalize_model_limit (um_max_output_tokens um) = Ok mo"
    and m: "mi_id m = um_slug um" "mi_display_name m = dn" "mi_description m = de" "mi_context_window m = cw"
      "mi_max_output_tokens m = mo" "mi_supported_reasoning_efforts m = catalog_efforts (um_supported_reasoning_levels um)"
      "mi_default_reasoning_effort m = opt_filter (\<lambda>d. d \<in> set (catalog_efforts (um_supported_reasoning_levels um))) (um_default_reasoning_level um)"
      "\<not> mi_is_default m"
    by (auto simp: normalize_model_def and_then_Ok Let_def)
  have "\<not> list_ex is_control (chars s) \<and> s \<noteq> [] \<and> length s \<le> 512" if "dn = Some s" for s
    using normalize_catalog_text_Ok fields(1) that by (fastforce simp: catalog_text_char_def list_ex_iff list_all_iff)
  moreover have "length s \<le> 16 * 1024 \<and> 0 \<notin> set (chars s)" if "de = Some s" for s
    using normalize_catalog_text_Ok fields(2) that by (fastforce simp: catalog_text_char_def is_control_def list_all_iff)
  ultimately show ?thesis
    using assms(2) fields(3,4) catalog_efforts_ok
    by (simp add: row_ok_def m validate_model_id_word normalize_model_limit_Ok)
qed

definition entries_ok :: "bytes list \<times> ModelInfo list \<Rightarrow> bool" where
  "entries_ok acc =
     (set (fst acc) = mi_id ` set (snd acc) \<and> distinct (map mi_id (snd acc)) \<and> list_all row_ok (snd acc) \<and>
      (\<forall>m \<in> set (snd acc). \<not> mi_is_default m))"

lemma catalog_entry_ok:
  assumes "entries_ok acc" and "catalog_entry tier acc um = Ok acc'"
  shows "entries_ok acc' \<and> length (snd acc') = length (snd acc) + 1"
proof -
  obtain seen ms where acc: "acc = (seen, ms)" by (cases acc)
  with assms(2) obtain m where "validate_model_id (um_slug um) = Ok ()" "normalize_model tier um = Ok m"
    "um_slug um \<notin> set seen" "acc' = (um_slug um # seen, ms @ [m])"
    by (auto simp: catalog_entry_def and_then_Ok split: if_splits)
  with normalize_model_row [of tier um m] assms(1) acc show ?thesis
    by (auto simp: entries_ok_def)
qed

lemma mark_default_ok:
  assumes "mark_default ms = Some ms'" and "\<forall>m \<in> set ms. \<not> mi_is_default m"
  shows "map mi_id ms' = map mi_id ms \<and> list_all row_ok ms' = list_all row_ok ms \<and>
    (\<exists>d. filter mi_is_default ms' = [d] \<and> mi_is_visible d)"
  using assms
proof (induction ms arbitrary: ms')
  case (Cons m ms)
  show ?case
  proof (cases "mi_is_visible m")
    case True
    with Cons.prems show ?thesis
      by (auto simp: filter_empty_conv)
  next
    case False
    with Cons.prems obtain t where "ms' = m # t" "mark_default ms = Some t"
      by auto
    with Cons.IH [of t] Cons.prems(2) show ?thesis by simp
  qed
qed simp

lemma mark_default_split:
  assumes "mark_default ms = Some ms'" and "\<forall>m \<in> set ms. \<not> mi_is_default m"
  shows "\<exists>before d after. ms' = before @ d # after \<and> mi_is_default d \<and> mi_is_visible d \<and>
    (\<forall>m \<in> set before. \<not> mi_is_visible m \<and> \<not> mi_is_default m) \<and> (\<forall>m \<in> set after. \<not> mi_is_default m)"
  using assms
proof (induction ms arbitrary: ms')
  case (Cons m ms)
  show ?case
  proof (cases "mi_is_visible m")
    case True
    with Cons.prems show ?thesis
      by (intro exI [of _ "[]"] exI [of _ "m\<lparr>mi_is_default := True\<rparr>"] exI [of _ ms]) auto
  next
    case False
    with Cons.prems obtain t where t: "ms' = m # t" "mark_default ms = Some t"
      by auto
    with Cons.IH [of t] Cons.prems(2) obtain before d after where "t = before @ d # after" "mi_is_default d" "mi_is_visible d"
      "\<forall>m \<in> set before. \<not> mi_is_visible m \<and> \<not> mi_is_default m" "\<forall>m \<in> set after. \<not> mi_is_default m"
      by auto
    with t False Cons.prems(2) show ?thesis
      by (intro exI [of _ "m # before"] exI [of _ d] exI [of _ after]) auto
  qed
qed simp

lemma with_default_ok:
  assumes "with_default ms = Ok ms'" and "\<forall>m \<in> set ms. \<not> mi_is_default m"
    and "length ms \<le> 4096" "distinct (map mi_id ms)" "list_all row_ok ms"
  shows "catalog_ok ms'"
proof -
  have "mark_default ms = Some ms'"
    using assms(1) by (simp add: with_default_def)
  from mark_default_ok [OF this assms(2)] assms(3-5) show ?thesis
    by (metis catalog_ok_def length_map)
qed

lemma normalize_catalog_ok:
  assumes "normalize_catalog tier up = Ok ms"
  shows "catalog_ok ms"
proof -
  let ?ums = "if ur_models up \<noteq> [] then sort_key (\<lambda>m. sint (um_priority m)) (ur_models up) else ur_data up"
  from assms obtain acc where fold: "try_fold (catalog_entry tier) ([], []) ?ums = Ok acc"
    and ms: "with_default (snd acc) = Ok ms" and len: "length ?ums \<le> MAX_MODELS"
    by (auto simp: normalize_catalog_def Let_def and_then_Ok split: if_splits)
  have "entries_ok acc \<and> length (snd acc) = length ?ums"
    by (rule try_fold_prefix [OF fold, where Q = "\<lambda>xs acc. entries_ok acc \<and> length (snd acc) = length xs"])
       (auto simp: entries_ok_def [of "([], [])"] dest: catalog_entry_ok)
  with ms len show ?thesis
    by (intro with_default_ok) (auto simp: entries_ok_def MAX_MODELS_def)
qed

section \<open>Bundled metadata\<close>

definition merge_rel :: "ModelInfo list \<Rightarrow> ModelInfo list \<Rightarrow> bool" where
  "merge_rel bundled merged =
     (length merged \<le> length bundled \<and> distinct (map mi_id merged) \<and> mi_id ` set merged \<subseteq> mi_id ` set bundled \<and>
      list_all row_ok merged \<and> (\<forall>m \<in> set merged. \<not> mi_is_default m))"

lemma merge_bundled_rel:
  assumes "merge_rel seen (snd acc)" and "mi_id b \<notin> mi_id ` set seen" and "row_ok b"
  shows "merge_rel (seen @ [b]) (snd (merge_bundled acc b))"
  using assms
  by (cases acc) (auto simp: merge_bundled_def merge_rel_def split: list.splits)

lemma merge_bundled_fold:
  assumes "distinct (map mi_id bundled)" and "list_all row_ok bundled"
  shows "merge_rel bundled (snd (foldl merge_bundled (available, []) bundled))"
  using assms
proof (induction bundled rule: rev_induct)
  case (snoc b bs)
  then show ?case
    using merge_bundled_rel [of bs "foldl merge_bundled (available, []) bs" b] by simp
qed (simp add: merge_rel_def)

lemma bundled_catalog_ok:
  assumes "normalize_api_models_with_bundled_metadata dec tier bundled body = Ok ms"
  shows "catalog_ok ms"
proof -
  from assms obtain available bs up where b: "normalize_catalog tier up = Ok bs"
    and ms: "with_default (snd (foldl merge_bundled (available, []) bs)) = Ok ms"
    by (auto simp: normalize_api_models_with_bundled_metadata_def normalize_models_def and_then_Ok)
  from normalize_catalog_ok [OF b] have bs: "length bs \<le> 4096" "distinct (map mi_id bs)" "list_all row_ok bs"
    by (auto simp: catalog_ok_def)
  with merge_bundled_fold [of bs available] show ?thesis
    by (intro with_default_ok [OF ms]) (auto simp: merge_rel_def)
qed

section \<open>The three sources\<close>

lemma pinned_models_ok: "catalog_ok pinned_models"
proof -
  have "list_all row_ok pinned_models"
    by (simp add: pinned_models_def PINNED_MODELS_def pinned_model_def row_ok_def plain_word_def starts_with_iff
        chars_ascii is_control_def is_whitespace_def bad_limit_def MAX_OUTPUT_TOKENS_def REASONING_EFFORTS_def
        reasoning_efforts_def)
  moreover have "distinct (map mi_id pinned_models)" "length pinned_models \<le> 4096"
    "\<exists>d. filter mi_is_default pinned_models = [d] \<and> mi_is_visible d"
    by (simp_all add: pinned_models_def PINNED_MODELS_def pinned_model_def)
  ultimately show ?thesis
    by (simp add: catalog_ok_def)
qed

interpretation codex_catalog: catalog_source "normalize_models dec tier"
  by unfold_locales (auto simp: normalize_models_def and_then_Ok dest: normalize_catalog_ok)

interpretation api_catalog: catalog_source "normalize_api_models_with_bundled_metadata dec tier bundled"
  by unfold_locales (rule bundled_catalog_ok)

interpretation zai_catalog: catalog_source "\<lambda>_ :: unit. Ok pinned_models"
  by unfold_locales (auto simp: pinned_models_ok)

section \<open>Properties\<close>

definition base64_spec :: "base64 \<Rightarrow> bool" where
  "base64_spec b64 = (\<forall>s. url_safe_no_pad_decode b64 (url_safe_no_pad_encode b64 s) = Some s)"

lemma loopback_url_accepted:
  assumes "0 < port" and "port < 2 ^ 16"
  shows "validate_loopback_base_url (''http://127.0.0.1:'' @ show_nat port) = Ok ()"
proof -
  have strip: "strip_prefix ''http://127.0.0.1:'' (''http://127.0.0.1:'' @ show_nat port) = Some (show_nat port)"
    by simp
  have "\<not> list_ex (\<lambda>c. c \<in> set ''/?#@'') (show_nat port)"
    using show_nat_digits [of port] by (auto simp: list_ex_iff list_all_iff is_ascii_digit_def)
  with assms(1) show ?thesis
    unfolding validate_loopback_base_url_def strip ok_or.simps and_then.simps parse_show_nat [OF assms(2)] by simp
qed

lemma ready_file_accepted:
  assumes "catalog_ok ms" and "base64_spec b64" and "length random = 32" and "0 < port" and "port < 2 ^ 16"
  shows "\<exists>r. ready_file b64 provider port random ms = Ok r \<and> validate_ready b64 provider r = Ok r"
proof -
  from assms(1) obtain d where d: "filter mi_is_default ms = [d]"
    by (auto simp: catalog_ok_def)
  then have find: "List.find mi_is_default ms = Some d"
    by (induction ms) (auto split: if_splits)
  have "validate_gateway_token b64 (url_safe_no_pad_encode b64 random) = Ok ()"
    using assms(2,3) by (simp add: validate_gateway_token_def base64_spec_def)
  with find catalog_accepted [OF assms(1) d] loopback_url_accepted [OF assms(4,5)] show ?thesis
    by (simp add: ready_file_def validate_ready_def READY_SCHEMA_VERSION_def GATEWAY_READY_SCHEMA_VERSION_def
        del: append.simps)
qed

text \<open>C17: Whatever catalog the gateway can publish, the launcher accepts: for a Codex catalog, an API
  catalog enriched from the bundled one and the pinned Z.ai catalog, the ready file written for a
  loopback port and a 32-byte token passes every check of the launcher's readiness validation.\<close>

theorem published_catalog_accepted:
  assumes "normalize_models dec tier body = Ok ms
      \<or> normalize_api_models_with_bundled_metadata dec tier bundled body = Ok ms \<or> ms = pinned_models"
    and "base64_spec b64" and "length random = 32" and "0 < port" and "port < 2 ^ 16"
  shows "\<exists>r. ready_file b64 provider port random ms = Ok r \<and> validate_ready b64 provider r = Ok r"
  using assms codex_catalog.produce_ok api_catalog.produce_ok zai_catalog.produce_ok
  by (intro ready_file_accepted) blast+

theorem published_catalog_accepted_witness:
  "\<exists>r. ready_file \<lparr>url_safe_no_pad_encode = (\<lambda>s. s), url_safe_no_pad_decode = Some, url_safe_decode = Some\<rparr> Zai 8080
       (replicate 32 (CHR ''t'')) pinned_models = Ok r \<and>
     validate_ready \<lparr>url_safe_no_pad_encode = (\<lambda>s. s), url_safe_no_pad_decode = Some, url_safe_decode = Some\<rparr> Zai r = Ok r"
  by (rule published_catalog_accepted) (auto simp: base64_spec_def)

text \<open>A normalized catalog has distinct ids and exactly one default model, the first visible one.\<close>

theorem catalog_default_first_visible:
  assumes "normalize_models dec tier body = Ok ms"
  shows "distinct (map mi_id ms) \<and>
     (\<exists>before d after. ms = before @ d # after \<and> mi_is_default d \<and> mi_is_visible d \<and>
        (\<forall>m \<in> set before. \<not> mi_is_visible m \<and> \<not> mi_is_default m) \<and> (\<forall>m \<in> set after. \<not> mi_is_default m))"
proof -
  from assms obtain up where "normalize_catalog tier up = Ok ms"
    by (auto simp: normalize_models_def and_then_Ok)
  then obtain acc where fold: "try_fold (catalog_entry tier) ([], [])
      (if ur_models up \<noteq> [] then sort_key (\<lambda>m. sint (um_priority m)) (ur_models up) else ur_data up) = Ok acc"
    and mark: "mark_default (snd acc) = Some ms"
    by (auto simp: normalize_catalog_def with_default_def Let_def and_then_Ok split: if_splits)
  have "entries_ok acc"
    by (rule try_fold_invariant [OF fold, where P = entries_ok])
       (auto simp: entries_ok_def [of "([], [])"] dest: catalog_entry_ok)
  then have "\<forall>m \<in> set (snd acc). \<not> mi_is_default m"
    by (simp add: entries_ok_def)
  with mark_default_split [OF mark] codex_catalog.ids_distinct [OF assms] show ?thesis
    by blast
qed

definition sample_upstream_model :: "bytes \<Rightarrow> bytes option \<Rightarrow> UpstreamModel" where
  "sample_upstream_model slug visibility = \<lparr>um_slug = slug, um_display_name = None, um_description = None,
     um_context_window = None, um_max_output_tokens = None, um_supported_reasoning_levels = [],
     um_default_reasoning_level = None, um_priority = 0, um_visibility = visibility, um_minimal_client_version = None,
     um_use_responses_lite = False, um_tool_mode = None, um_input_modalities = [], um_supported_in_api = True,
     um_service_tiers = [], um_additional_speed_tiers = []\<rparr>"

definition sample_decode :: "bytes \<Rightarrow> (UpstreamModelsResponse, bytes) result" where
  "sample_decode _ = Ok \<lparr>ur_models = [],
     ur_data = [sample_upstream_model ''a'' (Some ''hide''), sample_upstream_model ''b'' None]\<rparr>"

theorem catalog_default_first_visible_witness:
  "\<exists>ms. normalize_models sample_decode ''fast'' [] = Ok ms \<and> distinct (map mi_id ms) \<and>
     (\<exists>before d after. ms = before @ d # after \<and> mi_is_default d \<and> mi_is_visible d)"
proof -
  have "is_ok (normalize_models sample_decode ''fast'' [])"
    by code_simp
  then obtain ms where ms: "normalize_models sample_decode ''fast'' [] = Ok ms"
    by (auto simp: is_ok_def split: result.splits)
  from catalog_default_first_visible [OF ms] ms show ?thesis
    by blast
qed

text \<open>Every startup failure the gateway can classify has a message of its own in the launcher: only the
  catch-all code falls through to the generic text, and transport errors other than internal ones never
  classify as the catch-all.\<close>

theorem startup_codes_recognized:
  "(startup_failure_message provider (startup_code_str c) =
      ''The private gateway could not start. Check the installed launcher/gateway pair and retry.''
    \<longleftrightarrow> c = GatewayStartFailed) \<and>
   (classify_startup_error [OtherCause, Transport e] = GatewayStartFailed \<longleftrightarrow>
      (\<exists>m. e \<in> {InvalidRequest m, InvalidHeader m, Provider m, HttpClient m}) \<or> e = FastModeUnavailable)"
proof -
  have "startup_failure_message provider (startup_code_str c) =
      ''The private gateway could not start. Check the installed launcher/gateway pair and retry.''
    \<longleftrightarrow> c = GatewayStartFailed"
    by (cases c; cases provider; simp add: startup_failure_message_def)
  moreover have "classify_startup_error [OtherCause, Transport e] = classify_transport_error e"
    by (simp add: classify_startup_error_def List.map_filter_def)
  moreover have "classify_transport_error e = GatewayStartFailed \<longleftrightarrow>
      (\<exists>m. e \<in> {InvalidRequest m, InvalidHeader m, Provider m, HttpClient m}) \<or> e = FastModeUnavailable"
    by (cases e) auto
  ultimately show ?thesis by simp
qed

end
