(* ===== verification/Launcher_Ready_Props.thy ===== *)
theory Launcher_Ready_Props
  imports Catalog_Contract
begin

text \<open>
  Properties of the launcher's wait for the gateway: it ends, and what it accepts was published for the
  selected provider in a private file and names a loopback address.
\<close>

section \<open>What validation guarantees\<close>

lemma validate_loopback_Ok:
  assumes "validate_loopback_base_url v = Ok ()"
  obtains port n where "v = ''http://127.0.0.1:'' @ port" "parse_unsigned (2 ^ 16) port = Some n" "0 < n" "n < 2 ^ 16"
proof -
  from assms obtain port n where v: "strip_prefix ''http://127.0.0.1:'' v = Some port"
    and n: "parse_unsigned (2 ^ 16) port = Some n" "n \<noteq> 0"
    unfolding validate_loopback_base_url_def and_then_Ok ok_or_Ok by (auto simp: and_then_Ok simp del: strip_prefix_Some split: if_splits)
  moreover have "n < 2 ^ 16"
    using n(1) by (auto simp: parse_unsigned_def Let_def split: if_splits)
  ultimately show thesis
    using that strip_prefix_Some by blast
qed

lemma validate_ready_Ok:
  "validate_ready b64 provider ready = Ok r \<longleftrightarrow>
     r = ready \<and> gr_schema_version ready = GATEWAY_READY_SCHEMA_VERSION \<and> gr_provider ready = provider_str provider \<and>
     validate_loopback_base_url (gr_base_url ready) = Ok () \<and> validate_gateway_token b64 (gr_token ready) = Ok () \<and>
     validate_gateway_model (gr_default_model ready) = Ok () \<and>
     validate_gateway_models (gr_models ready) (gr_default_model ready) = Ok ()"
  by (auto simp: validate_ready_def and_then_Ok)

lemma open_private_Ok:
  "open_private_gateway_file euid opened limit = Ok (Some f) \<Longrightarrow>
   opened = Opened f \<and> file_regular f \<and> file_len f \<le> limit \<and> file_mode f mod 512 = 384 \<and> file_nlink f = 1 \<and> file_uid f = euid"
  by (auto simp: open_private_gateway_file_def split: open_result.splits if_splits)

lemma read_gateway_ready_Ok:
  assumes "read_gateway_ready rc euid opened = Ok (Some ready)"
  obtains f where "opened = Opened f" "file_regular f" "file_mode f mod 512 = 384" "file_nlink f = 1" "file_uid f = euid"
    "length (file_bytes f) \<le> MAX_GATEWAY_READY_BYTES" "rc_ready rc (file_bytes f) = Some ready"
proof -
  from assms obtain f where f: "open_private_gateway_file euid opened MAX_GATEWAY_READY_BYTES = Ok (Some f)"
    and c: "length (take (MAX_GATEWAY_READY_BYTES + 1) (file_bytes f)) \<le> MAX_GATEWAY_READY_BYTES"
      "rc_ready rc (take (MAX_GATEWAY_READY_BYTES + 1) (file_bytes f)) = Some ready"
    by (auto simp: read_gateway_ready_def and_then_Ok Let_def split: option.splits if_splits)
  then have "length (file_bytes f) \<le> MAX_GATEWAY_READY_BYTES" by simp
  with open_private_Ok [OF f] c show thesis
    using that by simp
qed

section \<open>Rounds\<close>

lemma wait_round_late: "poll_late p \<Longrightarrow> \<exists>r. wait_round rc b64 euid provider err p = Inl r"
  by (auto simp: wait_round_def Let_def split: result.split option.split)

lemma wait_round_Ok:
  assumes "wait_round rc b64 euid provider err p = Inl (Ok ready)"
  shows "poll_exit p = Ok None \<and> read_gateway_ready rc euid (poll_ready p) = Ok (Some ready) \<and>
    validate_ready b64 provider ready = Ok ready"
  using assms by (auto simp: wait_round_def Let_def validate_ready_Ok split: result.splits option.splits if_splits)

lemma wait_for_gateway_ready_returns:
  "\<exists>p \<in> set ps. poll_late p \<Longrightarrow> \<exists>r. wait_for_gateway_ready rc b64 euid provider err ps = Some r"
proof (induction ps arbitrary: err)
  case (Cons p ps)
  then show ?case
    using wait_round_late [of p rc b64 euid provider err]
    by (cases "wait_round rc b64 euid provider err p") auto
qed simp

lemma wait_for_gateway_ready_Ok:
  "wait_for_gateway_ready rc b64 euid provider err ps = Some (Ok ready) \<Longrightarrow>
   \<exists>p \<in> set ps. \<exists>err'. wait_round rc b64 euid provider err' p = Inl (Ok ready)"
  by (induction ps arbitrary: err) (auto split: sum.splits)

section \<open>Property\<close>

text \<open>C30: Waiting for the gateway always ends once the deadline has passed, and a gateway is accepted only
  while it runs, from a regular file of the current user with mode 0600 and one link, within the size
  limit, whose content names the selected provider, an address on the loopback interface with a non-zero
  16-bit port, and a 256-bit token.\<close>

theorem gateway_wait_safe:
  assumes "\<exists>p \<in> set polls. poll_late p"
  shows "\<exists>r. wait_for_gateway_ready rc b64 euid provider None polls = Some r \<and>
     (\<forall>ready. r = Ok ready \<longrightarrow>
        gr_provider ready = provider_str provider \<and>
        (\<exists>port n. gr_base_url ready = ''http://127.0.0.1:'' @ port \<and> parse_unsigned (2 ^ 16) port = Some n \<and> 0 < n) \<and>
        validate_gateway_token b64 (gr_token ready) = Ok () \<and>
        (\<exists>p \<in> set polls. \<exists>f. poll_exit p = Ok None \<and> poll_ready p = Opened f \<and> file_regular f \<and>
           file_mode f mod 512 = 384 \<and> file_nlink f = 1 \<and> file_uid f = euid \<and>
           length (file_bytes f) \<le> MAX_GATEWAY_READY_BYTES \<and> rc_ready rc (file_bytes f) = Some ready))"
proof -
  obtain r where r: "wait_for_gateway_ready rc b64 euid provider None polls = Some r"
    using wait_for_gateway_ready_returns [OF assms] by blast
  moreover have "gr_provider ready = provider_str provider \<and>
        (\<exists>port n. gr_base_url ready = ''http://127.0.0.1:'' @ port \<and> parse_unsigned (2 ^ 16) port = Some n \<and> 0 < n) \<and>
        validate_gateway_token b64 (gr_token ready) = Ok () \<and>
        (\<exists>p \<in> set polls. \<exists>f. poll_exit p = Ok None \<and> poll_ready p = Opened f \<and> file_regular f \<and>
           file_mode f mod 512 = 384 \<and> file_nlink f = 1 \<and> file_uid f = euid \<and>
           length (file_bytes f) \<le> MAX_GATEWAY_READY_BYTES \<and> rc_ready rc (file_bytes f) = Some ready)" if "r = Ok ready" for ready
  proof -
    from wait_for_gateway_ready_Ok r that obtain p err where p: "p \<in> set polls"
      and round: "wait_round rc b64 euid provider err p = Inl (Ok ready)" by blast
    from wait_round_Ok [OF round] have exit: "poll_exit p = Ok None"
      and read: "read_gateway_ready rc euid (poll_ready p) = Ok (Some ready)"
      and valid: "validate_ready b64 provider ready = Ok ready" by blast+
    from valid have "gr_provider ready = provider_str provider" "validate_gateway_token b64 (gr_token ready) = Ok ()"
      and url: "validate_loopback_base_url (gr_base_url ready) = Ok ()"
      by (auto simp: validate_ready_Ok)
    moreover from url have "\<exists>port n. gr_base_url ready = ''http://127.0.0.1:'' @ port \<and> parse_unsigned (2 ^ 16) port = Some n \<and> 0 < n"
      by (rule validate_loopback_Ok) blast
    moreover from read have "\<exists>f. poll_ready p = Opened f \<and> file_regular f \<and>
           file_mode f mod 512 = 384 \<and> file_nlink f = 1 \<and> file_uid f = euid \<and>
           length (file_bytes f) \<le> MAX_GATEWAY_READY_BYTES \<and> rc_ready rc (file_bytes f) = Some ready"
      by (rule read_gateway_ready_Ok) blast
    ultimately show ?thesis
      using p exit by blast
  qed
  ultimately show ?thesis by blast
qed

theorem gateway_wait_safe_witness:
  "\<exists>r. wait_for_gateway_ready \<lparr>rc_ready = (\<lambda>_. None), rc_failure = (\<lambda>_. None)\<rparr>
       \<lparr>url_safe_no_pad_encode = (\<lambda>s. s), url_safe_no_pad_decode = Some, url_safe_decode = Some\<rparr> 501 Codex None
       [\<lparr>poll_exit = Ok None, poll_failure = NotFound, poll_failure_after_exit = NotFound, poll_ready = NotFound, poll_late = True\<rparr>] = Some r"
proof -
  have "\<exists>p \<in> set [\<lparr>poll_exit = Ok None, poll_failure = NotFound, poll_failure_after_exit = NotFound, poll_ready = NotFound, poll_late = True\<rparr>].
      poll_late p"
    by simp
  from gateway_wait_safe [OF this, of "\<lparr>rc_ready = (\<lambda>_. None), rc_failure = (\<lambda>_. None)\<rparr>"
      "\<lparr>url_safe_no_pad_encode = (\<lambda>s. s), url_safe_no_pad_decode = Some, url_safe_decode = Some\<rparr>" 501 Codex]
  show ?thesis by blast
qed

end
