(* ===== verification/Credentials.thy ===== *)
theory Credentials
  imports Http Errors
begin

text \<open>
  API keys on their way through the system: the launcher reads one
  (\<open>muse-codex/src/lib.rs\<close>, \<open>SecretInput\<close>) and writes it to the gateway's standard input, the
  gateway reads it (\<open>muse-codex-gateway/src/main.rs\<close>, \<open>read_secret_line\<close>), the transport
  validates it (\<open>codex-transport/src/auth.rs\<close>), and the Z.ai credential store saves it
  (\<open>codex-transport/src/zai/auth.rs\<close>). A reader is the bytes it delivers until end of file; errors of
  the launcher and the gateway binary are their messages.
\<close>

definition MAX_API_KEY_BYTES :: nat where
  "MAX_API_KEY_BYTES = 16 * 1024"

definition line_end :: "char \<Rightarrow> bool" where
  "line_end c = (c = CR \<or> c = LF)"

section \<open>Transport\<close>

definition validate_api_key :: "bytes \<Rightarrow> (unit, Error) result" where
  "validate_api_key api_key =
     (if api_key = [] then Err EmptyApiKey
      else if length api_key > MAX_API_KEY_BYTES then Err (ApiKeyTooLong MAX_API_KEY_BYTES)
      else if list_ex is_whitespace (chars api_key) then Err ApiKeyContainsWhitespace
      else if list_ex is_control (chars api_key) then Err ApiKeyContainsControlCharacters
      else Ok ())"

definition read_api_key :: "bytes \<Rightarrow> (bytes, Error) result" where
  "read_api_key input =
     (let read = take (MAX_API_KEY_BYTES + 1) input
      in if length read > MAX_API_KEY_BYTES then Err (ApiKeyTooLong MAX_API_KEY_BYTES)
         else and_then (ok_or (to_str read) ApiKeyNotUtf8) (\<lambda>raw.
           let key = trim_end_matches line_end raw
           in and_then (validate_api_key key) (\<lambda>_. Ok key)))"

section \<open>Gateway\<close>

definition read_secret_line :: "bytes \<Rightarrow> (bytes, bytes) result" where
  "read_secret_line input =
     (let read = take (MAX_API_KEY_BYTES + 1) input
      in if length read > MAX_API_KEY_BYTES then Err (''API key stdin exceeds '' @ show_nat MAX_API_KEY_BYTES @ '' bytes'')
         else and_then (ok_or (to_str read) ''API key stdin is not UTF-8'') (\<lambda>raw.
           let v = trim_end_matches line_end raw
           in if v = [] then Err ''API key stdin was empty''
              else if list_ex is_whitespace (chars v) then Err ''API key stdin contains whitespace''
              else if list_ex is_control (chars v) then Err ''API key stdin contains control characters''
              else Ok v))"

section \<open>Launcher\<close>

definition SecretInput_parse :: "bytes \<Rightarrow> (bytes, bytes) result" where
  "SecretInput_parse s =
     (if length s > MAX_API_KEY_BYTES then Err ''API key input exceeds the 16384-byte limit''
      else and_then (ok_or (to_str s) ''API key input must be UTF-8'') (\<lambda>raw.
        let v = trim_end_matches line_end raw
        in if v = [] \<or> list_ex (\<lambda>c. is_whitespace c \<or> is_control c) (chars v)
           then Err ''API key input must be non-empty and contain no whitespace''
           else Ok v))"

definition SecretInput_from_reader :: "bytes \<Rightarrow> (bytes, bytes) result" where
  "SecretInput_from_reader input = SecretInput_parse (take (16 * 1024 + 1) input)"

text \<open>What \<open>GatewayProcess::start\<close> writes to the child's standard input.\<close>

definition deliver_api_key :: "bytes \<Rightarrow> bytes" where
  "deliver_api_key key = key @ [LF]"

section \<open>Z.ai credential store\<close>

text \<open>
  The keyring crate's operations on a store, and the derived encoder and decoder of
  \<open>StoredCredential\<close>, are parameters.
\<close>

record 's keyring =
  kr_save :: "bytes \<Rightarrow> bytes \<Rightarrow> bytes \<Rightarrow> 's \<Rightarrow> ('s, bytes) result"
  kr_load :: "bytes \<Rightarrow> bytes \<Rightarrow> 's \<Rightarrow> (bytes option, bytes) result"
  kr_delete :: "bytes \<Rightarrow> bytes \<Rightarrow> 's \<Rightarrow> (bool \<times> 's, bytes) result"

record StoredCredential =
  schema_version :: u32
  stored_api_key :: bytes

record credential_codec =
  cc_encode :: "StoredCredential \<Rightarrow> bytes"
  cc_decode :: "bytes \<Rightarrow> StoredCredential option"

definition keyring_spec :: "'s keyring \<Rightarrow> bool" where
  "keyring_spec kr =
     (\<forall>service account v s s'. kr_save kr service account v s = Ok s' \<longrightarrow>
        kr_load kr service account s' = Ok (Some v) \<and>
        (\<forall>service' account'. (service', account') \<noteq> (service, account) \<longrightarrow>
           kr_load kr service' account' s' = kr_load kr service' account' s))"

definition credential_codec_spec :: "credential_codec \<Rightarrow> bool" where
  "credential_codec_spec cc = (\<forall>r. utf8_valid (stored_api_key r) \<longrightarrow> cc_decode cc (cc_encode cc r) = Some r)"

definition ZAI_KEYRING_SERVICE :: bytes where
  "ZAI_KEYRING_SERVICE = ''Muse Codex Z.ai''"

definition STORED_CREDENTIAL_SCHEMA_VERSION :: u32 where
  "STORED_CREDENTIAL_SCHEMA_VERSION = 1"

text \<open>
  \<open>store_key\<close>: the hexadecimal digest of the canonical home, cut to 16 characters. \<open>digest\<close> is the
  lower-case hexadecimal SHA-256 and \<open>canonicalize\<close> the file system's answer.
\<close>

definition store_key :: "(bytes \<Rightarrow> bytes) \<Rightarrow> (bytes \<Rightarrow> bytes option) \<Rightarrow> bytes \<Rightarrow> bytes" where
  "store_key digest canonicalize home = ''zai|'' @ take 16 (digest (unwrap_or (canonicalize home) home))"

definition zai_save :: "'s keyring \<Rightarrow> credential_codec \<Rightarrow> bytes \<Rightarrow> bytes \<Rightarrow> 's \<Rightarrow> ('s, Error) result" where
  "zai_save kr cc account api_key s =
     and_then (validate_api_key api_key) (\<lambda>_.
       map_err Keyring (kr_save kr ZAI_KEYRING_SERVICE account
         (cc_encode cc \<lparr>schema_version = STORED_CREDENTIAL_SCHEMA_VERSION, stored_api_key = api_key\<rparr>) s))"

definition zai_load :: "'s keyring \<Rightarrow> credential_codec \<Rightarrow> bytes \<Rightarrow> 's \<Rightarrow> (bytes option, Error) result" where
  "zai_load kr cc account s =
     and_then (map_err Keyring (kr_load kr ZAI_KEYRING_SERVICE account s)) (\<lambda>found.
       case found of
         None \<Rightarrow> Ok None
       | Some encoded \<Rightarrow>
           and_then (ok_or (cc_decode cc encoded)
              (Keyring ''the stored Z.ai credential is unreadable; store it again'')) (\<lambda>r.
             if schema_version r \<noteq> STORED_CREDENTIAL_SCHEMA_VERSION then
               Err (Keyring ''the stored Z.ai credential uses an unsupported schema; store it again'')
             else and_then (validate_api_key (stored_api_key r)) (\<lambda>_. Ok (Some (stored_api_key r)))))"

definition zai_delete :: "'s keyring \<Rightarrow> bytes \<Rightarrow> 's \<Rightarrow> (bool \<times> 's, Error) result" where
  "zai_delete kr account s = map_err Keyring (kr_delete kr ZAI_KEYRING_SERVICE account s)"

section \<open>Keys without line ends\<close>

lemma line_end_chars:
  assumes "utf8_valid s" and "c \<in> set s" and "byte c < 128"
  shows "byte c \<in> set (chars s)"
  using assms
proof (induction s rule: utf8_decode.induct)
  case (1 s)
  show ?case
  proof (cases "utf8_step s")
    case None
    with "1.prems" show ?thesis by (auto simp: utf8_valid_def utf8_decode.simps [of s] split: if_splits)
  next
    case (Some nr)
    obtain n r where nr: "nr = (n, r)" by (cases nr)
    have ne: "s \<noteq> []" using "1.prems"(2) by auto
    have r: "utf8_valid r" and cs: "chars s = n # chars r"
      using "1.prems"(1) Some nr ne by (auto simp: utf8_valid_def chars_def utf8_decode.simps [of s])
    have "c \<in> set r \<or> n = byte c"
      using utf8_step_split [OF Some [unfolded nr]]
    proof (elim disjE exE conjE)
      fix d assume "s = d # r" "byte d < 128"
      with Some nr "1.prems"(2) show ?thesis by auto
    next
      fix p assume "s = p @ r" "\<forall>c \<in> set p. \<not> byte c < 128"
      with "1.prems"(2,3) show ?thesis by (metis Un_iff set_append)
    qed
    moreover have "c \<in> set r \<Longrightarrow> byte c \<in> set (chars r)"
      using "1.IH" [OF ne Some [unfolded nr] refl] r "1.prems"(3) by blast
    ultimately have "byte c \<in> insert n (set (chars r))"
      by blast
    then show ?thesis
      unfolding cs list.set .
  qed
qed

lemma trim_end_matches_id: "\<forall>c \<in> set s. \<not> P c \<Longrightarrow> trim_end_matches P s = s"
  by (induction s rule: rev_induct) (simp_all add: trim_end_matches_def)

lemma trim_end_matches_snoc: "P c \<Longrightarrow> trim_end_matches P (s @ [c]) = trim_end_matches P s"
  by (simp add: trim_end_matches_def)

lemma key_no_line_end:
  assumes "utf8_valid s" and "\<not> list_ex is_whitespace (chars s)"
  shows "trim_end_matches line_end s = s"
proof (rule trim_end_matches_id)
  show "\<forall>c \<in> set s. \<not> line_end c"
  proof
    fix c assume "c \<in> set s"
    show "\<not> line_end c"
    proof
      assume c: "line_end c"
      then have "byte c < 128" "is_whitespace (byte c)"
        by (auto simp: line_end_def is_whitespace_def)
      with line_end_chars [OF assms(1) \<open>c \<in> set s\<close>] assms(2) show False
        by (auto simp: list_ex_iff)
    qed
  qed
qed

text \<open>Cutting line ends off keeps a string valid.\<close>

lemma utf8_valid_butlast_ascii: "utf8_valid (s @ [c]) \<Longrightarrow> byte c < 128 \<Longrightarrow> utf8_valid s"
proof (induction "length s" arbitrary: s rule: less_induct)
  case less
  show ?case
  proof (cases "s = []")
    case False
    with less.prems(1) obtain n r where step: "utf8_step (s @ [c]) = Some (n, r)" and r: "utf8_valid r"
      by (auto simp: utf8_valid_def utf8_decode.simps [of "s @ [c]"] split: option.splits)
    show ?thesis
      using utf8_step_split [OF step]
    proof (elim disjE exE conjE)
      fix d assume "s @ [c] = d # r" "byte d < 128"
      with False obtain t where t: "s = d # t" "r = t @ [c]"
        by (cases s) auto
      with less.hyps [of t] r less.prems(2) \<open>byte d < 128\<close> show ?thesis by simp
    next
      fix p assume p: "s @ [c] = p @ r" "\<forall>x \<in> set p. \<not> byte x < 128" "utf8_step p = Some (n, [])"
      have "r \<noteq> []"
        using p(1,2) less.prems(2) by (metis append_Nil2 in_set_conv_decomp)
      then obtain t where t: "r = t @ [c]" "s = p @ t"
        using p(1) by (metis append_butlast_last_id append_assoc butlast_append last_appendR last_snoc butlast_snoc)
      have "utf8_step s = Some (n, t)"
        using utf8_step_append [OF p(3), of t] t by simp
      moreover have "utf8_valid t"
        using less.hyps [of t] r t less.prems(2) p(3) by (cases p) auto
      ultimately show ?thesis
        using utf8_valid_step by blast
    qed
  qed simp
qed

lemma utf8_valid_trim_line_end: "utf8_valid s \<Longrightarrow> utf8_valid (trim_end_matches line_end s)"
proof (induction s rule: rev_induct)
  case (snoc c s)
  show ?case
  proof (cases "line_end c")
    case True
    then have "byte c < 128" by (auto simp: line_end_def)
    with snoc True show ?thesis
      by (simp add: trim_end_matches_snoc utf8_valid_butlast_ascii)
  next
    case False
    with snoc.prems show ?thesis by (simp add: trim_end_matches_def)
  qed
qed (simp add: trim_end_matches_def)

text \<open>A key in the sense all four components share.\<close>

definition api_key_ok :: "bytes \<Rightarrow> bool" where
  "api_key_ok k = (k \<noteq> [] \<and> length k \<le> MAX_API_KEY_BYTES \<and> utf8_valid k \<and>
     \<not> list_ex is_whitespace (chars k) \<and> \<not> list_ex is_control (chars k))"

lemma validate_api_key_iff: "utf8_valid k \<Longrightarrow> validate_api_key k = Ok () \<longleftrightarrow> api_key_ok k"
  by (auto simp: validate_api_key_def api_key_ok_def)

text \<open>What every reader accepts: \<open>key_read s k\<close>, the key \<open>k\<close> in the input \<open>s\<close>.\<close>

definition key_read :: "bytes \<Rightarrow> bytes \<Rightarrow> bool" where
  "key_read s k = (length s \<le> MAX_API_KEY_BYTES \<and> utf8_valid s \<and> k = trim_end_matches line_end s \<and> k \<noteq> [] \<and>
     \<not> list_ex is_whitespace (chars k) \<and> \<not> list_ex is_control (chars k))"

lemma trim_end_matches_length: "length (trim_end_matches P s) \<le> length s"
  using length_dropWhile_le [of P "rev s"] by (simp add: trim_end_matches_def)

lemma SecretInput_parse_iff: "SecretInput_parse s = Ok k \<longleftrightarrow> key_read s k"
  by (auto simp: SecretInput_parse_def key_read_def to_str_def Let_def list_ex_iff)

lemma SecretInput_from_reader_iff: "SecretInput_from_reader s = Ok k \<longleftrightarrow> key_read s k"
  by (cases "length s \<le> 16 * 1024")
     (auto simp: SecretInput_from_reader_def SecretInput_parse_iff key_read_def MAX_API_KEY_BYTES_def)

lemma read_secret_line_iff: "read_secret_line s = Ok k \<longleftrightarrow> key_read s k"
proof (cases "length s \<le> MAX_API_KEY_BYTES \<and> utf8_valid s")
  case True
  then show ?thesis
    by (simp add: read_secret_line_def key_read_def to_str_def Let_def) blast
qed (auto simp: read_secret_line_def key_read_def to_str_def Let_def)

lemma read_api_key_iff: "read_api_key s = Ok k \<longleftrightarrow> key_read s k"
proof (cases "length s \<le> MAX_API_KEY_BYTES \<and> utf8_valid s")
  case True
  then have "\<not> length (trim_end_matches line_end s) > MAX_API_KEY_BYTES"
    using trim_end_matches_length [of line_end s] by linarith
  with True show ?thesis
    by (simp add: read_api_key_def key_read_def to_str_def Let_def and_then_Ok validate_api_key_def) blast
qed (auto simp: read_api_key_def key_read_def to_str_def Let_def)

section \<open>Properties\<close>

text \<open>The three readers of an API key, in the launcher, in the gateway and in the transport, accept
  the same inputs and extract the same key from them, and what they extract passes the transport's
  validation.\<close>

theorem api_key_readers_agree:
  "(read_secret_line s = Ok k \<longleftrightarrow> read_api_key s = Ok k) \<and> (SecretInput_from_reader s = Ok k \<longleftrightarrow> read_api_key s = Ok k) \<and>
   (read_api_key s = Ok k \<longrightarrow> validate_api_key k = Ok ())"
  using trim_end_matches_length [of line_end s]
  by (auto simp: read_secret_line_iff SecretInput_from_reader_iff read_api_key_iff key_read_def validate_api_key_def)

theorem api_key_readers_agree_witness:
  "read_secret_line (''sk-1'' @ [CR, LF]) = Ok ''sk-1'' \<and> validate_api_key ''sk-1'' = Ok ()"
proof -
  have "read_api_key (''sk-1'' @ [CR, LF]) = Ok ''sk-1''"
    unfolding read_api_key_iff key_read_def
    by (simp add: MAX_API_KEY_BYTES_def trim_end_matches_def line_end_def chars_ascii is_whitespace_def is_control_def)
  with api_key_readers_agree [of "''sk-1'' @ [CR, LF]" "''sk-1''"] show ?thesis
    by blast
qed

text \<open>A key the launcher has accepted reaches the gateway unchanged over its standard input, except at
  the limit: a key of exactly the maximum length is accepted by the launcher, and the gateway then always
  refuses it, because the launcher appends a line feed before the gateway measures the input.\<close>

theorem api_key_delivery:
  assumes "SecretInput_parse s = Ok k"
  shows "(length k < MAX_API_KEY_BYTES \<longrightarrow> read_secret_line (deliver_api_key k) = Ok k) \<and>
     (length k = MAX_API_KEY_BYTES \<longrightarrow> \<not> is_ok (read_secret_line (deliver_api_key k)))"
proof -
  have k: "k = trim_end_matches line_end s" "k \<noteq> []" "utf8_valid s" "\<not> list_ex is_whitespace (chars k)" "\<not> list_ex is_control (chars k)"
    using assms unfolding SecretInput_parse_iff key_read_def by blast+
  have utf8: "utf8_valid k"
    using utf8_valid_trim_line_end [OF k(3)] k(1) by simp
  have "trim_end_matches line_end (k @ [LF]) = k"
    using key_no_line_end [OF utf8 k(4)] by (simp add: trim_end_matches_snoc line_end_def)
  moreover have "utf8_valid (k @ [LF])"
    using utf8 by (rule utf8_valid_append) simp
  ultimately have "length k < MAX_API_KEY_BYTES \<Longrightarrow> read_secret_line (deliver_api_key k) = Ok k"
    using k by (simp add: read_secret_line_iff key_read_def deliver_api_key_def)
  moreover have "\<not> is_ok (read_secret_line (deliver_api_key k))" if "length k = MAX_API_KEY_BYTES"
    using that read_secret_line_iff [of "deliver_api_key k"]
    by (auto simp: is_ok_def key_read_def deliver_api_key_def split: result.splits)
  ultimately show ?thesis by blast
qed

text \<open>A key of the maximum length, and a short one.\<close>

lemma replicate_key:
  assumes "0 < n" and "n \<le> MAX_API_KEY_BYTES"
  shows "SecretInput_parse (replicate n (CHR ''k'')) = Ok (replicate n (CHR ''k''))"
proof -
  have ascii: "is_ascii (replicate n (CHR ''k''))"
    by (induction n) simp_all
  then have "chars (replicate n (CHR ''k'')) = replicate n 107"
    by (simp add: chars_ascii)
  with assms ascii show ?thesis
    by (auto simp: SecretInput_parse_iff key_read_def utf8_valid_ascii trim_end_matches_id line_end_def
        list_ex_iff is_whitespace_def is_control_def)
qed

theorem api_key_delivery_witness:
  "read_secret_line (deliver_api_key (replicate 3 (CHR ''k''))) = Ok (replicate 3 (CHR ''k'')) \<and>
   \<not> is_ok (read_secret_line (deliver_api_key (replicate MAX_API_KEY_BYTES (CHR ''k''))))"
proof -
  have "0 < MAX_API_KEY_BYTES" "3 < MAX_API_KEY_BYTES"
    by (simp_all add: MAX_API_KEY_BYTES_def)
  with api_key_delivery [OF replicate_key [of 3]] api_key_delivery [OF replicate_key [of MAX_API_KEY_BYTES]] show ?thesis
    by simp
qed

text \<open>A stored Z.ai key is the key that is loaded: after a successful save, loading from the same
  account returns it, and no other record of the keyring has changed.\<close>

theorem zai_key_round_trip:
  assumes "keyring_spec kr" and "credential_codec_spec cc" and "utf8_valid api_key"
    and "zai_save kr cc account api_key s = Ok s'"
  shows "zai_load kr cc account s' = Ok (Some api_key) \<and>
     (\<forall>service other. (service, other) \<noteq> (ZAI_KEYRING_SERVICE, account) \<longrightarrow> kr_load kr service other s' = kr_load kr service other s)"
proof -
  let ?r = "\<lparr>schema_version = STORED_CREDENTIAL_SCHEMA_VERSION, stored_api_key = api_key\<rparr>"
  have ok: "validate_api_key api_key = Ok ()" and save: "kr_save kr ZAI_KEYRING_SERVICE account (cc_encode cc ?r) s = Ok s'"
    using assms(4) by (auto simp: zai_save_def and_then_Ok)
  have load: "kr_load kr ZAI_KEYRING_SERVICE account s' = Ok (Some (cc_encode cc ?r))"
    and others: "\<forall>service other. (service, other) \<noteq> (ZAI_KEYRING_SERVICE, account) \<longrightarrow> kr_load kr service other s' = kr_load kr service other s"
    using assms(1) save unfolding keyring_spec_def by blast+
  have "cc_decode cc (cc_encode cc ?r) = Some ?r"
    using assms(2,3) by (simp add: credential_codec_spec_def)
  with load ok others show ?thesis
    by (simp add: zai_load_def)
qed

text \<open>A keyring held in a function, and a codec that prefixes the key.\<close>

definition map_keyring :: "(bytes \<times> bytes \<Rightarrow> bytes option) keyring" where
  "map_keyring = \<lparr>kr_save = (\<lambda>service account v s. Ok (s((service, account) := Some v))),
     kr_load = (\<lambda>service account s. Ok (s (service, account))),
     kr_delete = (\<lambda>service account s. Ok (s (service, account) \<noteq> None, s((service, account) := None)))\<rparr>"

definition plain_codec :: credential_codec where
  "plain_codec = \<lparr>cc_encode = (\<lambda>r. show_nat (unat (schema_version r)) @ '':'' @ stored_api_key r),
     cc_decode = (\<lambda>t. case split_once (CHR '':'') t of
        Some (v, k) \<Rightarrow> map_option (\<lambda>n. \<lparr>schema_version = of_nat n, stored_api_key = k\<rparr>) (parse_unsigned (2 ^ 32) v)
      | None \<Rightarrow> None)\<rparr>"

lemma plain_codec_spec: "credential_codec_spec plain_codec"
proof -
  have "CHR '':'' \<notin> set (show_nat n)" for n
    using show_nat_digits [of n] by (auto simp: list_all_iff is_ascii_digit_def)
  moreover have "unat (w :: u32) < 2 ^ 32" for w
    using unsigned_less [of w] by simp
  ultimately show ?thesis
    by (simp add: credential_codec_spec_def plain_codec_def parse_show_nat)
qed

theorem zai_key_round_trip_witness:
  "\<exists>s'. zai_save map_keyring plain_codec ''zai|0'' ''key'' (\<lambda>_. None) = Ok s' \<and>
     zai_load map_keyring plain_codec ''zai|0'' s' = Ok (Some ''key'')"
proof -
  have spec: "keyring_spec map_keyring"
    by (simp add: keyring_spec_def map_keyring_def)
  have key: "validate_api_key ''key'' = Ok ()"
    by (simp add: validate_api_key_def MAX_API_KEY_BYTES_def chars_ascii is_whitespace_def is_control_def)
  obtain s' where save: "zai_save map_keyring plain_codec ''zai|0'' ''key'' (\<lambda>_. None) = Ok s'"
    using key by (simp add: zai_save_def map_keyring_def)
  from zai_key_round_trip [OF spec plain_codec_spec _ save] save show ?thesis
    by simp
qed

end
