(* ===== verification/Launcher_Args.thy ===== *)
theory Launcher_Args
  imports Launcher_Ready
begin

text \<open>
  The launcher's command line (\<open>muse-codex/src/lib.rs\<close>): provider selection, launch-scoped flags,
  the custom base URL, the search for the stock subcommand and the argument list handed to stock Muse.
  An \<open>OsString\<close> is its bytes; \<open>to_str\<close> succeeds on valid UTF-8. The \<open>clap\<close> parser of the auth
  commands is a parameter of \<open>classify_invocation\<close>.
\<close>

section \<open>Tokens\<close>

definition value_options :: "bytes list" where
  "value_options = [''--provider'', ''--base-url'', ''--agents'', ''--preset'', ''--model'', ''--reasoning-effort'',
     ''--image'', ''--workspace'', ''--worktree-base'', ''--worktree-existing'', ''--approval-mode'',
     ''--permission-profile'', ''--approval-judge'', ''--echo-delay-ms'', ''--sandbox-network'', ''--prompt-file'',
     ''--context-compaction-strategy'', ''--context-compaction-soft-threshold'',
     ''--context-compaction-hard-threshold'', ''--max-model-steps'', ''--max-tool-output-bytes'', ''--session-id'',
     ''--out'', ''--format'']"

definition option_takes_value :: "bytes \<Rightarrow> bool" where
  "option_takes_value argument = (argument \<in> set value_options)"

definition starts_with_os :: "bytes \<Rightarrow> bytes \<Rightarrow> bool" where
  "starts_with_os v prefix = is_some_and (starts_with prefix) (to_str v)"

definition is_option_like :: "bytes \<Rightarrow> bool" where
  "is_option_like v = is_some_and (starts_with ''-'') (to_str v)"

definition local_subcommands :: "bytes list" where
  "local_subcommands = [''config'', ''export'', ''trace'', ''skills'', ''sandbox'', ''schema'', ''session-message'', ''init'']"

definition stock_subcommands :: "bytes list" where
  "stock_subcommands = local_subcommands @ [''exec'', ''serve'', ''resume'', ''auth'', ''login'', ''logout'']"

datatype arg_error =
    ProviderNeedsValue
  | ConflictingProviders PublicProvider PublicProvider
  | UnsupportedProvider bytes
  | BaseUrlNeedsValue
  | BaseUrlEmpty
  | ConflictingBaseUrls
  | ConflictingEnvironment bytes
  | NoSessionLogWithServe
  | FastWithZai

section \<open>Provider selection\<close>

definition parse_public_provider :: "bytes \<Rightarrow> (PublicProvider, arg_error) result" where
  "parse_public_provider v =
     (if v = ''codex'' then Ok Codex else if v = ''zai'' then Ok Zai else Err (UnsupportedProvider v))"

definition merge_provider_selection ::
  "PublicProvider option \<Rightarrow> PublicProvider \<Rightarrow> (PublicProvider option, arg_error) result" where
  "merge_provider_selection slot provider =
     (case slot of
        Some existing \<Rightarrow> if existing \<noteq> provider then Err (ConflictingProviders existing provider) else Ok (Some provider)
      | None \<Rightarrow> Ok (Some provider))"

definition select_provider :: "PublicProvider option \<Rightarrow> bytes \<Rightarrow> (PublicProvider option, arg_error) result" where
  "select_provider slot v = and_then (parse_public_provider v) (merge_provider_selection slot)"

definition prefixed_value :: "bytes \<Rightarrow> bytes \<Rightarrow> bytes option" where
  "prefixed_value prefix arg = Option.bind (to_str arg) (strip_prefix prefix)"

fun remove_provider ::
  "PublicProvider option \<Rightarrow> bytes list \<Rightarrow> bytes list \<Rightarrow> (PublicProvider option \<times> bytes list, arg_error) result" where
  "remove_provider selected remaining [] = Ok (selected, remaining)"
| "remove_provider selected remaining [arg] =
     (if arg = ''--'' then Ok (selected, remaining @ [arg])
      else if arg = ''--provider'' then Err ProviderNeedsValue
      else case prefixed_value ''--provider='' arg of
             Some v \<Rightarrow> and_then (select_provider selected v) (\<lambda>s. Ok (s, remaining))
           | None \<Rightarrow> Ok (selected, remaining @ [arg]))"
| "remove_provider selected remaining (arg # v # rest) =
     (if arg = ''--'' then Ok (selected, remaining @ arg # v # rest)
      else if arg = ''--provider'' then
        if is_option_like v then Err ProviderNeedsValue
        else and_then (select_provider selected v) (\<lambda>s. remove_provider s remaining rest)
      else case prefixed_value ''--provider='' arg of
             Some w \<Rightarrow> and_then (select_provider selected w) (\<lambda>s. remove_provider s remaining (v # rest))
           | None \<Rightarrow>
               if option_takes_value arg then remove_provider selected (remaining @ [arg, v]) rest
               else remove_provider selected (remaining @ [arg]) (v # rest))"

definition validate_and_remove_provider ::
  "bytes list \<Rightarrow> (PublicProvider option \<times> bytes list, arg_error) result" where
  "validate_and_remove_provider args = remove_provider None [] args"

definition selected_provider :: "bytes list \<Rightarrow> (PublicProvider, arg_error) result" where
  "selected_provider args =
     and_then (validate_and_remove_provider args) (\<lambda>(p, _). Ok (unwrap_or p Codex))"

section \<open>The stock subcommand\<close>

fun subcommand_from :: "nat \<Rightarrow> bytes list \<Rightarrow> nat option" where
  "subcommand_from index [] = None"
| "subcommand_from index (argument # rest) =
     (if argument = ''--'' then None
      else if option_takes_value argument then subcommand_from (index + 2) (tl rest)
      else if argument = ''-w'' \<or> argument = ''--worktree'' then
        (case rest of
           v # rest' \<Rightarrow>
             if v \<in> {''off'', ''create'', ''existing''} then subcommand_from (index + 2) rest'
             else subcommand_from (index + 1) rest
         | [] \<Rightarrow> None)
      else if \<not> is_option_like argument then
        if argument \<in> set stock_subcommands then Some index else None
      else subcommand_from (index + 1) rest)"

definition stock_subcommand_index :: "bytes list \<Rightarrow> nat option" where
  "stock_subcommand_index args = subcommand_from 0 args"

definition subcommand_is :: "bytes list \<Rightarrow> (bytes \<Rightarrow> bool) \<Rightarrow> bool" where
  "subcommand_is args P = is_some_and (\<lambda>index. P (args ! index)) (stock_subcommand_index args)"

definition is_local_invocation :: "bytes list \<Rightarrow> bool" where
  "is_local_invocation args = subcommand_is args (\<lambda>c. c \<in> set local_subcommands)"

fun has_any_option :: "bytes list \<Rightarrow> bytes list \<Rightarrow> bool" where
  "has_any_option names [] = False"
| "has_any_option names (argument # rest) =
     (if argument = ''--'' then False
      else if argument \<in> set names then True
      else has_any_option names (if option_takes_value argument then tl rest else rest))"

definition is_informational_invocation :: "bytes list \<Rightarrow> bool" where
  "is_informational_invocation args = has_any_option [''-h'', ''--help'', ''-V'', ''--version''] args"

definition has_option :: "bytes list \<Rightarrow> bytes \<Rightarrow> bool" where
  "has_option args name = has_any_option [name] args"

definition validate_msp_options :: "bytes list \<Rightarrow> (unit, arg_error) result" where
  "validate_msp_options arguments =
     (if subcommand_is arguments (\<lambda>c. c = ''serve'') \<and> has_option arguments ''--no-session-log''
      then Err NoSessionLogWithServe else Ok ())"

section \<open>Launch-scoped flags\<close>

text \<open>The loop shared by \<open>take_exec_api_key_stdin\<close> and \<open>take_fast_mode\<close>.\<close>

fun take_flag :: "bytes \<Rightarrow> bool \<Rightarrow> bytes list \<Rightarrow> bytes list \<Rightarrow> bool \<times> bytes list" where
  "take_flag flag selected remaining [] = (selected, remaining)"
| "take_flag flag selected remaining [argument] =
     (if argument = ''--'' then (selected, remaining @ [argument])
      else if argument = flag then (True, remaining)
      else (selected, remaining @ [argument]))"
| "take_flag flag selected remaining (argument # v # rest) =
     (if argument = ''--'' then (selected, remaining @ argument # v # rest)
      else if argument = flag then take_flag flag True remaining (v # rest)
      else if option_takes_value argument then take_flag flag selected (remaining @ [argument, v]) rest
      else take_flag flag selected (remaining @ [argument]) (v # rest))"

definition take_exec_api_key_stdin :: "bytes list \<Rightarrow> bool \<times> bytes list" where
  "take_exec_api_key_stdin args =
     (if \<not> subcommand_is args (\<lambda>c. c = ''exec'') then (False, args)
      else take_flag ''--api-key-stdin'' False [] args)"

definition take_fast_mode :: "bytes list \<Rightarrow> bool \<times> bytes list" where
  "take_fast_mode args = take_flag ''--fast'' False [] args"

definition reject_unsupported_provider_options :: "PublicProvider \<Rightarrow> bool \<Rightarrow> (unit, arg_error) result" where
  "reject_unsupported_provider_options provider fast_mode =
     (if fast_mode \<and> provider = Zai then Err FastWithZai else Ok ())"

section \<open>Custom base URL\<close>

definition merge_cli_base_url :: "bytes option \<Rightarrow> bytes \<Rightarrow> (bytes option, arg_error) result" where
  "merge_cli_base_url slot v =
     (case slot of
        Some existing \<Rightarrow> if existing \<noteq> v then Err ConflictingBaseUrls else Ok slot
      | None \<Rightarrow> Ok (Some v))"

fun cli_base_url :: "bytes option \<Rightarrow> bytes list \<Rightarrow> (bytes option, arg_error) result" where
  "cli_base_url cli [] = Ok cli"
| "cli_base_url cli (arg # rest) =
     (if arg = ''--'' then Ok cli
      else if arg = ''--base-url'' then
        (case rest of
           [] \<Rightarrow> Err BaseUrlNeedsValue
         | v # rest' \<Rightarrow>
             if v = [] \<or> is_option_like v then Err BaseUrlEmpty
             else and_then (merge_cli_base_url cli v) (\<lambda>cli. cli_base_url cli rest'))
      else
        and_then (case prefixed_value ''--base-url='' arg of
                    Some v \<Rightarrow> if v = [] then Err BaseUrlEmpty else merge_cli_base_url cli v
                  | None \<Rightarrow> Ok cli)
        (\<lambda>cli. cli_base_url cli (if option_takes_value arg then tl rest else rest)))"

definition resolve_upstream_base_url ::
  "bytes list \<Rightarrow> bytes option \<Rightarrow> bytes \<Rightarrow> (bytes option, arg_error) result" where
  "resolve_upstream_base_url args environment_value environment_variable =
     and_then (cli_base_url None args) (\<lambda>cli.
       case (cli, opt_filter (\<lambda>v. v \<noteq> []) environment_value) of
         (Some c, Some e) \<Rightarrow> if c \<noteq> e then Err (ConflictingEnvironment environment_variable) else Ok (Some c)
       | (Some c, None) \<Rightarrow> Ok (Some c)
       | (None, Some e) \<Rightarrow> Ok (Some e)
       | (None, None) \<Rightarrow> Ok None)"

section \<open>The argument list for stock Muse\<close>

definition routed_prefix :: "bytes \<Rightarrow> bool" where
  "routed_prefix arg = (starts_with_os arg ''--provider='' \<or> starts_with_os arg ''--base-url='')"

fun strip_routing :: "bytes list \<Rightarrow> bytes list \<Rightarrow> bytes list" where
  "strip_routing rewritten [] = rewritten"
| "strip_routing rewritten [arg] =
     (if arg = ''--'' then rewritten @ [arg]
      else if routed_prefix arg then rewritten
      else rewritten @ [arg])"
| "strip_routing rewritten (arg # v # rest) =
     (if arg = ''--'' then rewritten @ arg # v # rest
      else if (arg = ''--provider'' \<or> arg = ''--base-url'') \<and> \<not> is_option_like v then strip_routing rewritten rest
      else if routed_prefix arg then strip_routing rewritten (v # rest)
      else if option_takes_value arg then strip_routing (rewritten @ [arg, v]) rest
      else strip_routing (rewritten @ [arg]) (v # rest))"

definition routing_flags :: "bytes \<Rightarrow> bytes list" where
  "routing_flags base_url = [''--provider'', ''meta'', ''--base-url'', base_url]"

definition rewrite_muse_args :: "bytes list \<Rightarrow> bytes \<Rightarrow> bytes list" where
  "rewrite_muse_args args base_url =
     (let rewritten = strip_routing [] args
      in case stock_subcommand_index rewritten of
           Some index \<Rightarrow>
             let subcommand = rewritten ! index;
                 rest = take index rewritten @ drop (index + 1) rewritten
             in subcommand # (if subcommand = ''exec'' \<or> subcommand = ''resume'' then routing_flags base_url else []) @ rest
         | None \<Rightarrow> routing_flags base_url @ rewritten)"

section \<open>Classification\<close>

datatype Invocation =
    GatewayAuth "bytes list"
  | SelfTest
  | Muse "bytes list"
  | Output bytes int

text \<open>
  What the \<open>clap\<close> parser of the auth commands answers: the leaf command (below \<open>auth\<close> or at the top) with
  its \<open>--device-auth\<close> flag, or the error text with its exit code.
\<close>

record auth_match =
  am_name :: bytes
  am_device_auth :: bool

type_synonym clap = "bytes list \<Rightarrow> (auth_match, bytes \<times> int) result"

definition classify_auth_invocation :: "clap \<Rightarrow> bytes list \<Rightarrow> PublicProvider \<Rightarrow> Invocation" where
  "classify_auth_invocation parser args provider =
     (case parser (''muse-codex'' # args) of
        Err (error_text, exit_code) \<Rightarrow> Output error_text exit_code
      | Ok m \<Rightarrow>
          GatewayAuth ([''auth'', if am_name m = ''set'' then ''set-api-key'' else am_name m] @
            (if am_name m = ''login'' \<and> am_device_auth m then [''--device-auth''] else []) @
            [''--provider'', provider_str provider]))"

definition classify_invocation :: "clap \<Rightarrow> bytes list \<Rightarrow> (Invocation, arg_error) result" where
  "classify_invocation parser args =
     and_then (validate_and_remove_provider args) (\<lambda>(provider, without_provider).
       let provider = unwrap_or provider Codex
       in if without_provider = [''self-test''] then Ok SelfTest
          else case stock_subcommand_index without_provider of
                 Some index \<Rightarrow>
                   if without_provider ! index \<in> {''auth'', ''login'', ''logout''} then
                     if index \<noteq> 0 then
                       Ok (Output (''muse-codex: authentication commands accept --provider codex or --provider zai but no other startup options'' @ [LF]) 2)
                     else Ok (classify_auth_invocation parser without_provider provider)
                   else Ok (Muse args)
               | None \<Rightarrow> Ok (Muse args))"

section \<open>The launch\<close>

text \<open>The part of \<open>run_stock_muse\<close> that works on the arguments, up to the start of the gateway.\<close>

record launch_plan =
  lp_provider :: PublicProvider
  lp_api_key_stdin :: bool
  lp_fast_mode :: bool
  lp_arguments :: "bytes list"
  lp_upstream_base_url :: "bytes option"

definition base_url_variable :: "PublicProvider \<Rightarrow> bytes" where
  "base_url_variable provider = (case provider of Codex \<Rightarrow> ''OPENAI_BASE_URL'' | Zai \<Rightarrow> ''ZAI_BASE_URL'')"

definition plan_launch :: "(bytes \<Rightarrow> bytes option) \<Rightarrow> bytes list \<Rightarrow> (launch_plan, arg_error) result" where
  "plan_launch env arguments =
     and_then (validate_msp_options arguments) (\<lambda>_.
     and_then (selected_provider arguments) (\<lambda>provider.
     let (api_key_stdin, arguments) = take_exec_api_key_stdin arguments;
         (fast_mode, arguments) = take_fast_mode arguments
     in and_then (reject_unsupported_provider_options provider fast_mode) (\<lambda>_.
        and_then (resolve_upstream_base_url arguments (env (base_url_variable provider)) (base_url_variable provider))
          (\<lambda>upstream_base_url.
             Ok \<lparr>lp_provider = provider, lp_api_key_stdin = api_key_stdin, lp_fast_mode = fast_mode,
                 lp_arguments = arguments, lp_upstream_base_url = upstream_base_url\<rparr>))))"

definition stock_arguments :: "launch_plan \<Rightarrow> bytes \<Rightarrow> bytes list" where
  "stock_arguments plan gateway_base_url = rewrite_muse_args (lp_arguments plan) gateway_base_url"

text \<open>The arguments \<open>run_stock_information\<close> passes on.\<close>

definition information_arguments :: "bytes list \<Rightarrow> bytes list" where
  "information_arguments arguments =
     (let arguments = snd (take_fast_mode arguments)
      in case stock_subcommand_index arguments of
           Some index \<Rightarrow> arguments ! index # take index arguments @ drop (index + 1) arguments
         | None \<Rightarrow> arguments)"

end
