(* ===== verification/Launcher_Args_Props.thy ===== *)
theory Launcher_Args_Props
  imports Launcher_Args
begin

text \<open>
  Properties of the launcher's argument handling. The reference view of a command line is its list of
  groups, an option with its value or a single token, and the opaque tail that starts at the first
  double dash in option position; every scanning loop of the launcher is shown to be a filter on the
  groups.
\<close>

section \<open>Groups\<close>

fun arg_groups :: "bytes list \<Rightarrow> bytes list list" where
  "arg_groups [] = []"
| "arg_groups [a] = (if a = ''--'' then [] else [[a]])"
| "arg_groups (a # v # rest) =
     (if a = ''--'' then []
      else if option_takes_value a then [a, v] # arg_groups rest
      else [a] # arg_groups (v # rest))"

fun arg_tail :: "bytes list \<Rightarrow> bytes list" where
  "arg_tail [] = []"
| "arg_tail [a] = (if a = ''--'' then [a] else [])"
| "arg_tail (a # v # rest) =
     (if a = ''--'' then a # v # rest
      else if option_takes_value a then arg_tail rest
      else arg_tail (v # rest))"

lemma groups_tail: "concat (arg_groups args) @ arg_tail args = args"
  by (induction args rule: arg_groups.induct) auto

text \<open>A list of groups that a command line can have, with its tail.\<close>

fun groups_ok :: "bytes list list \<Rightarrow> bytes list \<Rightarrow> bool" where
  "groups_ok [] t = (t = [] \<or> hd t = ''--'')"
| "groups_ok ([a] # gs) t = (a \<noteq> ''--'' \<and> (option_takes_value a \<longrightarrow> gs = [] \<and> t = []) \<and> groups_ok gs t)"
| "groups_ok ([a, v] # gs) t = (a \<noteq> ''--'' \<and> option_takes_value a \<and> groups_ok gs t)"
| "groups_ok (_ # gs) t = False"

lemma not_dashes_value [simp]: "\<not> option_takes_value ''--''"
  by (simp add: option_takes_value_def value_options_def)

lemma groups_ok_args: "groups_ok (arg_groups args) (arg_tail args)"
  by (induction args rule: arg_groups.induct) auto

lemma groups_of_concat:
  "groups_ok gs t \<Longrightarrow> arg_groups (concat gs @ t) = gs \<and> arg_tail (concat gs @ t) = t"
proof (induction gs t rule: groups_ok.induct)
  case (1 t)
  then show ?case by (cases t rule: arg_groups.cases) auto
next
  case (2 a gs t)
  then show ?case by (cases "concat gs @ t") auto
qed auto

lemma groups_ok_filter: "groups_ok gs t \<Longrightarrow> groups_ok (filter P gs) t"
  by (induction gs t rule: groups_ok.induct) auto

lemma groups_filter:
  "arg_groups (concat (filter P (arg_groups args)) @ arg_tail args) = filter P (arg_groups args)"
  "arg_tail (concat (filter P (arg_groups args)) @ arg_tail args) = arg_tail args"
  using groups_of_concat [OF groups_ok_filter [OF groups_ok_args]] by blast+

section \<open>Scanning loops as filters\<close>

lemma take_flag_groups:
  assumes "\<not> option_takes_value flag" "flag \<noteq> ''--''"
  shows "take_flag flag selected remaining args =
    (selected \<or> [flag] \<in> set (arg_groups args), remaining @ concat (filter (\<lambda>g. g \<noteq> [flag]) (arg_groups args)) @ arg_tail args)"
  using assms by (induction flag selected remaining args rule: take_flag.induct) auto

definition routing_group :: "bytes list \<Rightarrow> bool" where
  "routing_group g = (case g of
       [a] \<Rightarrow> routed_prefix a
     | [a, v] \<Rightarrow> (a = ''--provider'' \<or> a = ''--base-url'') \<and> \<not> is_option_like v
     | _ \<Rightarrow> False)"

lemma value_option_not_prefixed: "option_takes_value a \<Longrightarrow> \<not> routed_prefix a"
  by (auto simp: option_takes_value_def value_options_def routed_prefix_def starts_with_os_def to_str_def starts_with_iff
      is_some_and_iff)

lemma routing_options_take_value [simp]: "option_takes_value ''--provider''" "option_takes_value ''--base-url''"
  by (simp_all add: option_takes_value_def value_options_def)

lemma strip_routing_groups:
  "strip_routing rewritten args =
     rewritten @ concat (filter (\<lambda>g. \<not> routing_group g) (arg_groups args)) @ arg_tail args"
proof (induction rewritten args rule: strip_routing.induct)
  case (3 rewritten arg v rest)
  show ?case
  proof (cases "option_takes_value arg")
    case True
    with 3 value_option_not_prefixed [OF True] show ?thesis
      by (auto simp: routing_group_def)
  next
    case False
    then have "arg \<noteq> ''--provider''" "arg \<noteq> ''--base-url''"
      using routing_options_take_value by metis+
    with 3 False show ?thesis
      by (auto simp: routing_group_def)
  qed
qed (auto simp: routing_group_def)

text \<open>The provider values a command line names, in order.\<close>

definition provider_value :: "bytes list \<Rightarrow> bytes option" where
  "provider_value g = (case g of
       [a] \<Rightarrow> prefixed_value ''--provider='' a
     | [a, v] \<Rightarrow> if a = ''--provider'' then Some v else None
     | _ \<Rightarrow> None)"

lemma value_option_not_provider: "option_takes_value a \<Longrightarrow> prefixed_value ''--provider='' a = None"
  by (auto simp: option_takes_value_def value_options_def prefixed_value_def to_str_def)

lemma not_option_like [simp]: "\<not> is_option_like ''codex''" "\<not> is_option_like ''zai''"
  by code_simp+

lemma select_option_like: "is_option_like v \<Longrightarrow> select_provider slot v \<noteq> Ok s"
  by (auto simp: select_provider_def parse_public_provider_def)

lemma remove_provider_groups:
  "remove_provider selected remaining args = Ok (s, out) \<longleftrightarrow>
     [''--provider''] \<notin> set (arg_groups args) \<and>
     try_fold select_provider selected (List.map_filter provider_value (arg_groups args)) = Ok s \<and>
     out = remaining @ concat (filter (\<lambda>g. provider_value g = None) (arg_groups args)) @ arg_tail args"
proof (induction selected remaining args rule: remove_provider.induct)
  case (2 selected remaining arg)
  show ?case
    by (auto simp: provider_value_def List.map_filter_def and_then_Ok value_option_not_provider split: option.splits)
next
  case (3 selected remaining arg v rest)
  show ?case
  proof (cases "option_takes_value arg")
    case True
    with 3 value_option_not_provider [OF True] show ?thesis
      by (auto simp: provider_value_def List.map_filter_def and_then_Ok select_option_like)
  next
    case False
    then have "arg \<noteq> ''--provider''"
      using routing_options_take_value by metis
    with 3 False show ?thesis
      by (auto simp: provider_value_def List.map_filter_def and_then_Ok split: option.splits)
  qed
qed (auto simp: List.map_filter_def)

lemma select_provider_Ok:
  "select_provider slot v = Ok s \<longleftrightarrow> (\<exists>p. v = provider_str p \<and> s = Some p \<and> (slot = None \<or> slot = Some p))"
proof -
  have "v = provider_str p \<longleftrightarrow> parse_public_provider v = Ok p" for p
    by (cases p) (auto simp: parse_public_provider_def)
  then show ?thesis
    by (cases slot) (auto simp: select_provider_def merge_provider_selection_def and_then_Ok)
qed

lemma provider_str_inject [simp]: "provider_str p = provider_str q \<longleftrightarrow> p = q"
  by (cases p; cases q) simp_all

lemma selected_values:
  "try_fold select_provider slot vs = Ok s \<longleftrightarrow>
     (\<exists>p. s = Some p \<and> set vs \<subseteq> {provider_str p} \<and> (slot = Some p \<or> slot = None \<and> vs \<noteq> [])) \<or>
     s = None \<and> slot = None \<and> vs = []"
  by (induction vs arbitrary: slot) (auto simp: and_then_Ok select_provider_Ok)

section \<open>The subcommand in groups\<close>

lemma value_option_like: "option_takes_value a \<Longrightarrow> is_option_like a"
  by (auto simp: option_takes_value_def value_options_def is_option_like_def to_str_def starts_with_iff)

lemma worktree_option_like [simp]: "is_option_like ''-w''" "is_option_like ''--worktree''" "is_option_like ''--''"
  by code_simp+

lemma worktree_values [simp]: "\<not> option_takes_value ''off''" "\<not> option_takes_value ''create''" "\<not> option_takes_value ''existing''"
    "\<not> option_takes_value ''-w''" "\<not> option_takes_value ''--worktree''"
  by (simp_all add: option_takes_value_def value_options_def)

lemma arg_groups_Cons:
  "arg_groups (a # rest) =
     (if a = ''--'' then []
      else if option_takes_value a \<and> rest \<noteq> [] then [a, hd rest] # arg_groups (tl rest)
      else [a] # arg_groups rest)"
  by (cases rest) auto

text \<open>The position found is the start of a group that consists of the subcommand.\<close>

definition subcommand_group :: "bytes list list \<Rightarrow> nat \<Rightarrow> bool" where
  "subcommand_group gs k = (\<exists>gs1 c gs2. gs = gs1 @ [c] # gs2 \<and> k = length (concat gs1) \<and>
     c \<in> set stock_subcommands \<and> \<not> is_option_like c)"

lemma subcommand_group_Cons: "subcommand_group gs k \<Longrightarrow> subcommand_group (g # gs) (length g + k)"
  unfolding subcommand_group_def by (metis append_Cons concat.simps(2) length_append)

lemma subcommand_from_groups:
  "subcommand_from i args = Some j \<Longrightarrow> \<exists>k. j = i + k \<and> subcommand_group (arg_groups args) k"
proof (induction i args rule: subcommand_from.induct)
  case (2 index argument rest)
  have step: "\<exists>k. j = index + k \<and> subcommand_group (g # gs) k"
    if "\<exists>k. j = index + length g + k \<and> subcommand_group gs k" for g gs
    using that subcommand_group_Cons by force
  have dd: "argument \<noteq> ''--''"
    using 2(5) by auto
  show ?case
  proof (cases "option_takes_value argument")
    case True
    with 2(5) dd obtain v rest' where rest: "rest = v # rest'"
      by (cases rest) simp_all
    with 2(1) 2(5) True dd have "\<exists>k. j = index + 2 + k \<and> subcommand_group (arg_groups rest') k"
      by simp
    with True dd rest show ?thesis
      using step [of "[argument, v]" "arg_groups rest'"] by simp
  next
    case plain: False
    have groups: "arg_groups (argument # rest) = [argument] # arg_groups rest"
      using plain dd by (simp add: arg_groups_Cons)
    have skip: ?thesis if "\<exists>k. j = index + 1 + k \<and> subcommand_group (arg_groups rest) k"
      unfolding groups using that step [of "[argument]"] by simp
    show ?thesis
    proof (cases "argument = ''-w'' \<or> argument = ''--worktree''")
      case True
      with 2(5) plain dd obtain v rest' where rest: "rest = v # rest'"
        by (cases rest) auto
      show ?thesis
      proof (cases "v \<in> {''off'', ''create'', ''existing''}")
        case pair: True
        then have v: "\<not> option_takes_value v" "v \<noteq> ''--''"
          by auto
        have "\<exists>k. j = index + 2 + k \<and> subcommand_group (arg_groups rest') k"
          using 2(2) 2(5) pair True plain dd rest by simp
        then have "\<exists>k. j = index + 1 + k \<and> subcommand_group ([v] # arg_groups rest') k"
          using subcommand_group_Cons [of "arg_groups rest'" _ "[v]"] by force
        then show ?thesis
          using skip v rest by (simp add: arg_groups_Cons)
      next
        case False
        then show ?thesis
          using 2(3) 2(5) True plain dd rest by (intro skip) simp
      qed
    next
      case False
      show ?thesis
      proof (cases "is_option_like argument")
        case True
        then show ?thesis
          using 2(4) 2(5) False plain dd by (intro skip) simp
      next
        case command: False
        then have "argument \<in> set stock_subcommands" "j = index"
          using 2(5) False plain dd by (auto split: if_splits)
        then show ?thesis
          unfolding groups subcommand_group_def using command by (intro exI [of _ 0] conjI exI [of _ "[]"] exI) auto
      qed
    qed
  qed
qed simp

section \<open>The command in groups\<close>

definition stock_command :: "bytes list \<Rightarrow> bytes option" where
  "stock_command args = map_option ((!) args) (stock_subcommand_index args)"

fun group_command :: "bytes list list \<Rightarrow> bytes option" where
  "group_command [] = None"
| "group_command (g # gs) =
     (if is_option_like (hd g) then group_command gs
      else if hd g \<in> set stock_subcommands then Some (hd g) else None)"

definition no_worktree :: "bytes list list \<Rightarrow> bool" where
  "no_worktree gs = ([''-w''] \<notin> set gs \<and> [''--worktree''] \<notin> set gs)"

lemma subcommand_from_command:
  assumes "no_worktree (arg_groups args)"
  shows "map_option ((!) (pre @ args)) (subcommand_from (length pre) args) = group_command (arg_groups args)"
  using assms
proof (induction args arbitrary: pre rule: arg_groups.induct)
  case (2 a)
  then show ?case
    using value_option_like by (auto simp: no_worktree_def)
next
  case (3 a v rest)
  show ?case
  proof (cases "option_takes_value a")
    case True
    with 3(1) [of "pre @ [a, v]"] 3(3) show ?thesis
      using value_option_like [OF True] by (auto simp: no_worktree_def)
  next
    case plain: False
    show ?thesis
    proof (cases "a = ''--''")
      case False
      with plain 3(3) have rest: "no_worktree (arg_groups (v # rest))" and "a \<noteq> ''-w''" "a \<noteq> ''--worktree''"
        by (auto simp: no_worktree_def)
      with False plain 3(2) [of "pre @ [a]"] show ?thesis
        by simp
    qed simp
  qed
qed simp

lemma stock_command_groups: "no_worktree (arg_groups args) \<Longrightarrow> stock_command args = group_command (arg_groups args)"
  using subcommand_from_command [of args "[]"] by (simp add: stock_command_def stock_subcommand_index_def)

lemma group_command_filter:
  "(\<And>g. g \<in> set gs \<Longrightarrow> \<not> P g \<Longrightarrow> is_option_like (hd g)) \<Longrightarrow> group_command (filter P gs) = group_command gs"
  by (induction gs) auto

lemma no_worktree_filter: "no_worktree gs \<Longrightarrow> no_worktree (filter P gs)"
  by (simp add: no_worktree_def)

text \<open>Dropping option groups keeps the command.\<close>

lemma stock_command_filter:
  assumes "no_worktree (arg_groups args)" "out = concat (filter P (arg_groups args)) @ arg_tail args"
    and "\<And>g. \<not> P g \<Longrightarrow> is_option_like (hd g)"
  shows "stock_command out = stock_command args \<and> no_worktree (arg_groups out)"
  using assms groups_filter [of P args] group_command_filter [of "arg_groups args" P] no_worktree_filter [of "arg_groups args" P]
  by (simp add: stock_command_groups)

lemma prefixed_option_like:
  assumes "prefixed_value (CHR ''-'' # p) a = Some v"
  shows "is_option_like a"
  using assms by (auto simp: prefixed_value_def is_option_like_def to_str_def strip_prefix_Some starts_with_iff
      split: if_splits bind_splits)

lemma provider_group_option_like: "provider_value g \<noteq> None \<Longrightarrow> is_option_like (hd g)"
  using value_option_like [of "''--provider''"] prefixed_option_like
  by (auto simp: provider_value_def split: list.splits if_splits)

lemma routing_group_option_like: "routing_group g \<Longrightarrow> is_option_like (hd g)"
  using value_option_like [of "''--provider''"] value_option_like [of "''--base-url''"]
  by (auto simp: routing_group_def routed_prefix_def starts_with_os_def is_option_like_def to_str_def starts_with_iff
      split: list.splits if_splits)

lemma launch_flags [simp]:
  "\<not> option_takes_value ''--fast''" "\<not> option_takes_value ''--api-key-stdin''"
  "is_option_like ''--fast''" "is_option_like ''--api-key-stdin''"
  by code_simp+

lemma take_flag_command:
  assumes "flag \<in> {''--fast'', ''--api-key-stdin''}" "no_worktree (arg_groups args)"
  shows "stock_command (snd (take_flag flag False [] args)) = stock_command args \<and>
    no_worktree (arg_groups (snd (take_flag flag False [] args)))"
proof (rule stock_command_filter)
  show "snd (take_flag flag False [] args) = concat (filter (\<lambda>g. g \<noteq> [flag]) (arg_groups args)) @ arg_tail args"
    using assms by (subst take_flag_groups) auto
qed (use assms in auto)

lemma strip_routing_command:
  "no_worktree (arg_groups args) \<Longrightarrow> stock_command (strip_routing [] args) = stock_command args"
  using stock_command_filter [OF _ strip_routing_groups [of "[]", simplified], of args] routing_group_option_like by blast

lemma rewritten_head:
  "rewrite_muse_args args url = c # r \<Longrightarrow> c = ''--provider'' \<or> stock_command (strip_routing [] args) = Some c"
  by (auto simp: rewrite_muse_args_def Let_def routing_flags_def stock_command_def split: option.splits if_splits)

lemma head_command: "args = c # r \<Longrightarrow> \<not> is_option_like c \<Longrightarrow> c \<in> set stock_subcommands \<Longrightarrow> stock_command args = Some c"
  using value_option_like [of c] by (auto simp: stock_command_def stock_subcommand_index_def)

lemma information_head:
  assumes "information_arguments args = c # r" "\<not> is_option_like c" "c \<in> set stock_subcommands"
  shows "stock_command (snd (take_fast_mode args)) = Some c"
proof (cases "stock_subcommand_index (snd (take_fast_mode args))")
  case None
  with assms have "snd (take_fast_mode args) = c # r"
    by (simp add: information_arguments_def Let_def)
  then show ?thesis
    by (rule head_command) (use assms in auto)
next
  case (Some i)
  with assms show ?thesis
    by (simp add: information_arguments_def Let_def stock_command_def)
qed

section \<open>Provider selection\<close>

text \<open>C33: Provider selection is exactly this: it succeeds if and only if no provider flag is left without a
  value and all provider flags before the first double dash name the same supported provider (or there is
  none), the selection is that provider, and the other arguments are kept in order, everything from the
  double dash on untouched.\<close>

theorem provider_selection_exact:
  "validate_and_remove_provider args = Ok (selected, remaining) \<longleftrightarrow>
     [''--provider''] \<notin> set (arg_groups args) \<and>
     set (List.map_filter provider_value (arg_groups args)) = provider_str ` set_option selected \<and>
     remaining = concat (filter (\<lambda>g. provider_value g = None) (arg_groups args)) @ arg_tail args"
proof -
  have "(set vs = {x}) = (set vs \<subseteq> {x} \<and> vs \<noteq> [])" for vs and x :: bytes
    by (cases vs) auto
  then show ?thesis
    unfolding validate_and_remove_provider_def remove_provider_groups selected_values
    by (cases selected) simp_all
qed

section \<open>Authentication commands\<close>

abbreviation auth_commands :: "bytes set" where
  "auth_commands \<equiv> {''auth'', ''login'', ''logout''}"

lemma auth_commands_stock: "c \<in> auth_commands \<Longrightarrow> \<not> is_option_like c \<and> c \<in> set stock_subcommands \<and> c \<noteq> ''--provider''"
proof -
  have "\<not> is_option_like ''auth''" "\<not> is_option_like ''login''" "\<not> is_option_like ''logout''"
    by code_simp+
  then show "c \<in> auth_commands \<Longrightarrow> ?thesis"
    by (auto simp: stock_subcommands_def)
qed

lemma classified_muse:
  assumes "classify_invocation parser args = Ok (Muse a)"
  obtains p out where "a = args" "validate_and_remove_provider args = Ok (p, out)"
    "\<And>c. stock_command out = Some c \<Longrightarrow> c \<notin> auth_commands"
  using assms unfolding classify_invocation_def
  by (auto simp: and_then_Ok Let_def stock_command_def classify_auth_invocation_def
      split: if_splits option.splits result.splits prod.splits)

lemma removed_provider_command:
  assumes "validate_and_remove_provider args = Ok (p, out)" "no_worktree (arg_groups args)"
  shows "stock_command out = stock_command args \<and> no_worktree (arg_groups out)"
  using assms(1) provider_group_option_like
  by (intro stock_command_filter [OF assms(2)]) (auto simp: validate_and_remove_provider_def remove_provider_groups)

lemma planned_command:
  assumes "plan_launch env args = Ok plan" "no_worktree (arg_groups args)"
  shows "stock_command (lp_arguments plan) = stock_command args \<and> no_worktree (arg_groups (lp_arguments plan))"
proof -
  have "lp_arguments plan = snd (take_fast_mode (snd (take_exec_api_key_stdin args)))"
    using assms(1) by (auto simp: plan_launch_def and_then_Ok Let_def case_prod_beta)
  moreover have "stock_command (snd (take_exec_api_key_stdin args)) = stock_command args \<and>
      no_worktree (arg_groups (snd (take_exec_api_key_stdin args)))"
    using take_flag_command [OF _ assms(2)] assms(2) by (simp add: take_exec_api_key_stdin_def)
  ultimately show ?thesis
    using take_flag_command [of "''--fast''" "snd (take_exec_api_key_stdin args)"] by (simp add: take_fast_mode_def)
qed

text \<open>Authentication commands do not reach stock Muse: when an invocation without a worktree flag is
  classified for stock Muse, neither the arguments of a routed launch nor those of an informational run
  start with an authentication command.\<close>

theorem auth_commands_kept_from_stock:
  assumes "classify_invocation parser args = Ok (Muse a)" "no_worktree (arg_groups args)" "c \<in> auth_commands"
  shows "(plan_launch env a = Ok plan \<longrightarrow> stock_arguments plan url \<noteq> c # r) \<and>
    (validate_and_remove_provider a = Ok (p, out) \<longrightarrow> information_arguments out \<noteq> c # r)"
proof -
  obtain p' out' where a: "a = args" and out': "validate_and_remove_provider args = Ok (p', out')"
    and not_auth: "\<And>c. stock_command out' = Some c \<Longrightarrow> c \<notin> auth_commands"
    using classified_muse [OF assms(1)] by metis
  note cmd = removed_provider_command [OF out' assms(2)]
  note c = auth_commands_stock [OF assms(3)]
  have "stock_arguments plan url \<noteq> c # r" if "plan_launch env a = Ok plan"
  proof
    assume "stock_arguments plan url = c # r"
    then have "stock_command (strip_routing [] (lp_arguments plan)) = Some c"
      using rewritten_head c unfolding stock_arguments_def by blast
    then have "stock_command args = Some c"
      using planned_command [OF that [unfolded a] assms(2)] strip_routing_command by simp
    then show False
      using not_auth cmd assms(3) by simp
  qed
  moreover have "information_arguments out \<noteq> c # r" if "validate_and_remove_provider a = Ok (p, out)"
  proof
    assume "information_arguments out = c # r"
    then have "stock_command (snd (take_fast_mode out)) = Some c"
      using information_head c by blast
    then have "stock_command out = Some c"
      using that a out' cmd take_flag_command [of "''--fast''" out] by (simp add: take_fast_mode_def)
    then show False
      using not_auth that a out' assms(3) by simp
  qed
  ultimately show ?thesis
    by blast
qed

definition sample_clap :: clap where
  "sample_clap args = Err (''unsupported'', 2)"

theorem auth_commands_kept_from_stock_witness:
  "(let args = [''--provider'', ''codex'', ''--fast'', ''exec'', ''auth''] in
     classify_invocation sample_clap args = Ok (Muse args) \<and>
     (case plan_launch (\<lambda>_. None) args of
        Ok plan \<Rightarrow> stock_arguments plan ''u'' =
          [''exec'', ''--provider'', ''meta'', ''--base-url'', ''u'', ''auth''] \<and>
          stock_arguments plan ''u'' \<noteq> [''auth'']
      | Err _ \<Rightarrow> False))"
proof -
  define args :: "bytes list" where "args = [''--provider'', ''codex'', ''--fast'', ''exec'', ''auth'']"
  have classify: "classify_invocation sample_clap args = Ok (Muse args)" and groups: "no_worktree (arg_groups args)"
    and plan: "case plan_launch (\<lambda>_. None) args of
        Ok plan \<Rightarrow> stock_arguments plan ''u'' = [''exec'', ''--provider'', ''meta'', ''--base-url'', ''u'', ''auth'']
      | Err _ \<Rightarrow> False"
    unfolding args_def no_worktree_def by code_simp+
  obtain plan where "plan_launch (\<lambda>_. None) args = Ok plan"
    using plan by (auto split: result.splits)
  with classify plan auth_commands_kept_from_stock [OF classify groups, of "''auth''" "\<lambda>_. None" plan "''u''" "[]"]
  show ?thesis
    unfolding Let_def args_def by simp
qed

text \<open>The exception is real. With a worktree flag in front of a flag the launcher removes, the value that
  follows is a stray word for the classification and the worktree flag's value afterwards: the authentication
  command behind it is found only then, and it is moved to the front of stock Muse's arguments.\<close>

theorem auth_command_reaches_stock:
  "(let args = [''-w'', ''--fast'', ''off'', ''auth''] in
     classify_invocation parser args = Ok (Muse args) \<and>
     (case plan_launch (\<lambda>_. None) args of
        Ok plan \<Rightarrow> stock_arguments plan url = [''auth'', ''-w'', ''off'']
      | Err _ \<Rightarrow> False))"
proof -
  define args :: "bytes list" where "args = [''-w'', ''--fast'', ''off'', ''auth'']"
  have steps: "validate_and_remove_provider args = Ok (None, args)" "args \<noteq> [''self-test'']" "stock_subcommand_index args = None"
    and plan: "case plan_launch (\<lambda>_. None) args of
        Ok plan \<Rightarrow> lp_arguments plan = [''-w'', ''off'', ''auth'']
      | Err _ \<Rightarrow> False"
    and rewrite: "strip_routing [] [''-w'', ''off'', ''auth''] = [''-w'', ''off'', ''auth'']"
      "stock_subcommand_index [''-w'', ''off'', ''auth''] = Some 2"
    unfolding args_def by code_simp+
  have "classify_invocation parser args = Ok (Muse args)"
    using steps by (simp add: classify_invocation_def)
  with plan rewrite show ?thesis
    unfolding Let_def args_def [symmetric]
    by (auto simp: stock_arguments_def rewrite_muse_args_def split: result.splits)
qed

section \<open>The arguments of stock Muse\<close>

lemma groups_ok_Cons:
  "groups_ok (g # gs) t \<longleftrightarrow>
     (\<exists>a. g = [a] \<and> a \<noteq> ''--'' \<and> (option_takes_value a \<longrightarrow> gs = [] \<and> t = []) \<and> groups_ok gs t) \<or>
     (\<exists>a v. g = [a, v] \<and> a \<noteq> ''--'' \<and> option_takes_value a \<and> groups_ok gs t)"
  by (cases "(g # gs, t)" rule: groups_ok.cases) auto

lemma groups_ok_drop: "groups_ok (gs1 @ g # gs2) t \<Longrightarrow> groups_ok (gs1 @ gs2) t"
  by (induction gs1) (auto simp: groups_ok_Cons)

definition routing_groups :: "bytes \<Rightarrow> bytes list list" where
  "routing_groups url = [[''--provider'', ''meta''], [''--base-url'', url]]"

lemma concat_routing_groups: "concat (routing_groups url) = routing_flags url"
  by (simp add: routing_groups_def routing_flags_def)

lemma groups_ok_routing: "groups_ok gs t \<Longrightarrow> groups_ok (routing_groups url @ gs) t"
  by (simp add: routing_groups_def)

lemma cli_base_url_groups:
  assumes "cli_base_url cli args = Ok r" and "g \<in> set (arg_groups args)" and "hd g = ''--base-url''"
  shows "\<exists>v. g = [''--base-url'', v] \<and> \<not> is_option_like v"
  using assms
proof (induction cli args rule: cli_base_url.induct)
  case (2 cli arg rest)
  show ?case
  proof (cases "arg = ''--base-url''")
    case True
    with 2(3-5) obtain v rest' where rest: "rest = v # rest'" "v \<noteq> []" "\<not> is_option_like v"
      by (auto split: list.splits if_splits)
    with True 2(3,4) have "g = [arg, v] \<or> g \<in> set (arg_groups rest') \<and> (\<exists>cli'. cli_base_url cli' rest' = Ok r)"
      by (auto simp: and_then_Ok)
    with 2 True rest show ?thesis
      by (auto simp: and_then_Ok)
  next
    case False
    with 2 show ?thesis
      by (cases rest) (auto simp: and_then_Ok arg_groups_Cons split: if_splits)
  qed
qed simp

lemma group_shape:
  assumes "g \<in> set (arg_groups args)"
  shows "(\<exists>a. g = [a]) \<or> (\<exists>a v. g = [a, v] \<and> option_takes_value a)"
  using assms by (induction args rule: arg_groups.induct) (auto split: if_splits)

text \<open>What routes a request: the two options, alone or with a value, and their one-token forms.\<close>

definition routes :: "bytes list \<Rightarrow> bool" where
  "routes g = (hd g \<in> {''--provider'', ''--base-url''} \<or> routed_prefix (hd g))"

lemma routing_group_routes: "routing_group g \<Longrightarrow> routes g"
  by (auto simp: routes_def routing_group_def split: list.splits)

lemma accepted_routing_groups:
  assumes provider: "validate_and_remove_provider args = Ok (p, out)"
    and url: "resolve_upstream_base_url args e var = Ok u"
    and g: "g \<in> set (arg_groups args)" "routes g"
  shows "routing_group g"
proof -
  obtain cli where cli: "cli_base_url None args = Ok cli"
    using url by (auto simp: resolve_upstream_base_url_def and_then_Ok)
  have dangling: "[''--provider''] \<notin> set (arg_groups args)"
    and selection: "try_fold select_provider None (List.map_filter provider_value (arg_groups args)) = Ok p"
    using provider by (simp_all add: validate_and_remove_provider_def remove_provider_groups)
  consider a where "g = [a]" | a v where "g = [a, v]" "option_takes_value a"
    using group_shape [OF g(1)] by blast
  then show ?thesis
  proof cases
    case 1
    then show ?thesis
      using g dangling cli_base_url_groups [OF cli g(1)] by (auto simp: routes_def routing_group_def)
  next
    case (2 a v)
    then consider "a = ''--base-url''" | "a = ''--provider''"
      using g(2) value_option_not_prefixed by (auto simp: routes_def)
    then show ?thesis
    proof cases
      case 1
      with 2 show ?thesis
        using cli_base_url_groups [OF cli g(1)] by (auto simp: routing_group_def)
    next
      case provider: 2
      with 2 have "provider_value g = Some v"
        by (simp add: provider_value_def)
      then have "v \<in> set (List.map_filter provider_value (arg_groups args))"
        using g(1) by (force simp: List.map_filter_def)
      then have "v \<in> {''codex'', ''zai''}"
        using selection unfolding selected_values by (auto elim!: provider_str.elims)
      with 2 provider show ?thesis
        by (auto simp: routing_group_def)
    qed
  qed
qed



section \<open>The launch plan\<close>

lemma take_fast_mode_groups:
  "take_fast_mode args = ([''--fast''] \<in> set (arg_groups args),
     concat (filter (\<lambda>g. g \<noteq> [''--fast'']) (arg_groups args)) @ arg_tail args)"
  unfolding take_fast_mode_def by (subst take_flag_groups) simp_all

lemma take_exec_api_key_stdin_groups:
  "take_exec_api_key_stdin args =
     (if stock_command args = Some ''exec''
      then ([''--api-key-stdin''] \<in> set (arg_groups args),
        concat (filter (\<lambda>g. g \<noteq> [''--api-key-stdin'']) (arg_groups args)) @ arg_tail args)
      else (False, args))"
proof -
  have "subcommand_is args (\<lambda>c. c = ''exec'') \<longleftrightarrow> stock_command args = Some ''exec''"
    by (cases "stock_subcommand_index args") (auto simp: subcommand_is_def stock_command_def)
  then show ?thesis
    unfolding take_exec_api_key_stdin_def by (simp add: take_flag_groups)
qed

text \<open>A launch plan says exactly what the command line asked for: the single named provider or Codex, Fast
  mode if and only if its flag is given before the double dash (never for Z.ai), a key on standard input only
  for the exec subcommand with its flag; the two flags are removed, every other group and the tail are kept.\<close>

theorem launch_plan_exact:
  assumes "plan_launch env args = Ok plan"
  shows "set (List.map_filter provider_value (arg_groups args)) \<subseteq> {provider_str (lp_provider plan)} \<and>
    (lp_provider plan = Codex \<or> ''zai'' \<in> set (List.map_filter provider_value (arg_groups args))) \<and>
    (lp_fast_mode plan \<longleftrightarrow> [''--fast''] \<in> set (arg_groups args)) \<and>
    (lp_fast_mode plan \<longrightarrow> lp_provider plan = Codex) \<and>
    (lp_api_key_stdin plan \<longleftrightarrow> stock_command args = Some ''exec'' \<and> [''--api-key-stdin''] \<in> set (arg_groups args)) \<and>
    lp_arguments plan = concat (filter (\<lambda>g. g \<noteq> [''--fast''] \<and>
      (stock_command args = Some ''exec'' \<longrightarrow> g \<noteq> [''--api-key-stdin''])) (arg_groups args)) @ arg_tail args"
proof -
  obtain provider where sel: "selected_provider args = Ok provider" and p: "lp_provider plan = provider"
    and key: "lp_api_key_stdin plan = fst (take_exec_api_key_stdin args)"
    and fast: "lp_fast_mode plan = fst (take_fast_mode (snd (take_exec_api_key_stdin args)))"
    and out: "lp_arguments plan = snd (take_fast_mode (snd (take_exec_api_key_stdin args)))"
    and rej: "reject_unsupported_provider_options provider (lp_fast_mode plan) = Ok ()"
    using assms by (auto simp: plan_launch_def and_then_Ok Let_def case_prod_beta)
  obtain s where s: "try_fold select_provider None (List.map_filter provider_value (arg_groups args)) = Ok s"
      "provider = unwrap_or s Codex"
    using sel by (auto simp: selected_provider_def validate_and_remove_provider_def and_then_Ok remove_provider_groups)
  then have "set (List.map_filter provider_value (arg_groups args)) \<subseteq> {provider_str provider} \<and>
      (provider = Codex \<or> ''zai'' \<in> set (List.map_filter provider_value (arg_groups args)))"
  proof (cases provider)
    case Zai
    with s have "s = Some Zai"
      by (cases s) simp_all
    then have "List.map_filter provider_value (arg_groups args) \<noteq> []" 
        "set (List.map_filter provider_value (arg_groups args)) \<subseteq> {''zai''}"
      using s(1) by (simp_all add: selected_values)
    with Zai show ?thesis
      by (cases "List.map_filter provider_value (arg_groups args)") simp_all
  next
    case Codex
    with s show ?thesis
      by (cases s) (simp_all add: selected_values)
  qed
  moreover have "lp_fast_mode plan \<longrightarrow> provider = Codex"
    using rej by (cases provider) (auto simp: reject_unsupported_provider_options_def split: if_splits)
  moreover have "lp_fast_mode plan \<longleftrightarrow> [''--fast''] \<in> set (arg_groups args)"
    unfolding fast take_fast_mode_groups take_exec_api_key_stdin_groups by (simp add: groups_filter)
  moreover have "lp_arguments plan = concat (filter (\<lambda>g. g \<noteq> [''--fast''] \<and>
      (stock_command args = Some ''exec'' \<longrightarrow> g \<noteq> [''--api-key-stdin''])) (arg_groups args)) @ arg_tail args"
    unfolding out take_fast_mode_groups take_exec_api_key_stdin_groups by (simp add: groups_filter conj_commute)
  moreover have "lp_api_key_stdin plan \<longleftrightarrow> stock_command args = Some ''exec'' \<and> [''--api-key-stdin''] \<in> set (arg_groups args)"
    unfolding key take_exec_api_key_stdin_groups by simp
  ultimately show ?thesis
    unfolding p by blast
qed

theorem launch_plan_exact_witness:
  "(let args = [''exec'', ''--fast'', ''--api-key-stdin'', ''hello''] in
     case plan_launch (\<lambda>_. None) args of
       Ok plan \<Rightarrow> lp_fast_mode plan \<and> lp_api_key_stdin plan \<and> lp_provider plan = Codex \<and> lp_arguments plan = [''exec'', ''hello'']
     | Err _ \<Rightarrow> False)"
proof -
  define args :: "bytes list" where "args = [''exec'', ''--fast'', ''--api-key-stdin'', ''hello'']"
  have plan: "case plan_launch (\<lambda>_. None) args of Ok plan \<Rightarrow> lp_api_key_stdin plan \<and> lp_arguments plan = [''exec'', ''hello''] | Err _ \<Rightarrow> False"
    and groups: "arg_groups args = map (\<lambda>a. [a]) args"
    unfolding args_def by code_simp+
  then obtain plan where ok: "plan_launch (\<lambda>_. None) args = Ok plan" "lp_api_key_stdin plan" "lp_arguments plan = [''exec'', ''hello'']"
    by (auto split: result.splits)
  have "lp_fast_mode plan" "lp_provider plan = Codex"
    using launch_plan_exact [OF ok(1)] groups by (simp_all add: args_def)
  with ok show ?thesis
    unfolding Let_def args_def [symmetric] by simp
qed

end
