(* ===== verification/Gateway_Server.thy ===== *)
theory Gateway_Server
  imports Sse_Properties Http Errors
begin

text \<open>
  The private gateway's HTTP surface (\<open>muse-codex-gateway/src/server.rs\<close>) and the provider dispatch
  behind it (\<open>codex-transport/src/backend.rs\<close>): bearer check, request preparation, header allow-lists,
  proxying and the sanitization of upstream failures. Routing, JSON extraction and body limits belong to
  \<open>axum\<close>: a request carries the extractor's answer, a value or the status of the rejection. The
  transports' operations are fields of the backend; a handler also returns the backend calls it made.
  A body is the list of its chunks, a chunk error or a silence past the reader's own time limit.
\<close>

section \<open>Backend\<close>

record RawResponse =
  raw_status :: StatusCode
  raw_headers :: HeaderMap
  raw_body :: "upstream_event list"

type_synonym backend_op = "Value \<Rightarrow> HeaderMap \<Rightarrow> (RawResponse, Error) result"

record codex_ops =
  co_stream_responses :: backend_op
  co_search_muse_request :: backend_op
  co_browser_open_muse_request :: backend_op

datatype Backend = CodexBackend codex_ops | ZaiBackend backend_op

fun backend_provider :: "Backend \<Rightarrow> bytes" where
  "backend_provider (CodexBackend _) = ''codex''"
| "backend_provider (ZaiBackend _) = ''zai''"

fun backend_stream_responses :: "Backend \<Rightarrow> backend_op" where
  "backend_stream_responses (CodexBackend t) = co_stream_responses t"
| "backend_stream_responses (ZaiBackend t) = t"

fun backend_search_muse_request :: "Backend \<Rightarrow> backend_op" where
  "backend_search_muse_request (CodexBackend t) = co_search_muse_request t"
| "backend_search_muse_request (ZaiBackend _) = (\<lambda>_ _. Err (ProviderUnsupported ''web search''))"

fun backend_browser_open_muse_request :: "Backend \<Rightarrow> backend_op" where
  "backend_browser_open_muse_request (CodexBackend t) = co_browser_open_muse_request t"
| "backend_browser_open_muse_request (ZaiBackend _) = (\<lambda>_ _. Err (ProviderUnsupported ''browser open''))"

datatype backend_call =
    StreamCall Value HeaderMap
  | SearchCall Value HeaderMap
  | BrowserOpenCall Value HeaderMap

fun call_headers :: "backend_call \<Rightarrow> HeaderMap" where
  "call_headers (StreamCall _ hs) = hs"
| "call_headers (SearchCall _ hs) = hs"
| "call_headers (BrowserOpenCall _ hs) = hs"

section \<open>Responses\<close>

datatype gateway_body =
    JsonBody Value
  | NoBody
  | Frames "bytes list"
  | Passthrough "upstream_event list"

record gateway_response =
  rs_status :: StatusCode
  rs_headers :: HeaderMap
  rs_body :: gateway_body

definition gateway_error :: "StatusCode \<Rightarrow> bytes \<Rightarrow> bytes \<Rightarrow> gateway_response" where
  "gateway_error status message error_kind =
     \<lparr>rs_status = status,
      rs_headers = hm_insert ''x-content-type-options'' ''nosniff'' (hm_insert ''cache-control'' ''no-store''
        [(''content-type'', ''application/json'')]),
      rs_body = JsonBody (json_object [(''error'', json_object [(''message'', String message), (''type'', String error_kind)])])\<rparr>"

definition usage_suffixes :: "bytes list" where
  "usage_suffixes = [''-limit-name'', ''-primary-used-percent'', ''-primary-window-minutes'', ''-primary-reset-at'',
     ''-secondary-used-percent'', ''-secondary-window-minutes'', ''-secondary-reset-at'']"

definition is_codex_usage_header :: "bytes \<Rightarrow> bool" where
  "is_codex_usage_header name =
     (name = ''x-codex-active-limit'' \<or> name = ''x-codex-primary-over-secondary-limit-percent'' \<or>
      name = ''x-codex-promo-message'' \<or> starts_with ''x-codex-credits-'' name \<or>
      list_ex (\<lambda>suffix. starts_with ''x-codex-'' name \<and> ends_with suffix name) usage_suffixes)"

definition forwarded_names :: "bytes list" where
  "forwarded_names = [''retry-after'', ''retry-after-ms'', ''x-request-id'', ''x-oai-request-id'', ''openai-model'',
     ''x-openai-model'', ''x-reasoning-included'', ''x-models-etag'']"

definition is_forwarded_response_header :: "bytes \<Rightarrow> bool" where
  "is_forwarded_response_header name =
     (name = ''content-type'' \<or> name \<in> set forwarded_names \<or> starts_with ''x-ratelimit-'' name \<or> is_codex_usage_header name)"

definition proxy_response :: "StatusCode \<Rightarrow> HeaderMap \<Rightarrow> gateway_body \<Rightarrow> gateway_response" where
  "proxy_response status headers body =
     \<lparr>rs_status = status,
      rs_headers = [(''cache-control'', ''no-store''), (''x-content-type-options'', ''nosniff'')] @
        filter (\<lambda>(name, _). is_forwarded_response_header name) headers,
      rs_body = body\<rparr>"

definition proxy_auxiliary_response ::
  "StatusCode \<Rightarrow> HeaderMap \<Rightarrow> upstream_event list \<Rightarrow> bytes \<Rightarrow> bytes \<Rightarrow> gateway_response" where
  "proxy_auxiliary_response status headers body rejected failure_kind =
     (if is_success status then proxy_response status headers (Passthrough body)
      else
        let response = gateway_error status rejected failure_kind
        in response\<lparr>rs_headers := foldl (\<lambda>hs (name, v).
             if name \<noteq> ''content-type'' \<and> is_forwarded_response_header name then hm_append name v hs else hs)
             (rs_headers response) headers\<rparr>)"

definition terminal_sse_stream :: "HeaderMap \<Rightarrow> bytes list \<Rightarrow> gateway_response" where
  "terminal_sse_stream headers frames =
     proxy_response 200 (hm_insert ''content-type'' ''text/event-stream'' headers) (Frames frames)"

definition terminal_sse_response :: "HeaderMap \<Rightarrow> bytes \<Rightarrow> gateway_response" where
  "terminal_sse_response headers frame = terminal_sse_stream headers [frame]"

section \<open>Upstream failures\<close>

record SanitizedUpstreamFailure =
  uf_code :: bytes
  uf_message :: bytes
  uf_parameter :: "bytes option"

definition MAX_UPSTREAM_ERROR_BYTES :: nat where
  "MAX_UPSTREAM_ERROR_BYTES = 64 * 1024"

fun collect_error_body :: "bytes \<Rightarrow> upstream_event list \<Rightarrow> bytes option" where
  "collect_error_body acc [] = Some acc"
| "collect_error_body acc (Chunk c # body) =
     (if length acc + length c > MAX_UPSTREAM_ERROR_BYTES then None else collect_error_body (acc @ c) body)"
| "collect_error_body acc (ChunkErr # body) = None"
| "collect_error_body acc (IdleTimeout # body) = None"

definition upstream_failure_code :: "StatusCode \<Rightarrow> bytes option \<Rightarrow> bytes" where
  "upstream_failure_code status upstream_code =
     (if upstream_code = Some ''context_length_exceeded'' then ''context_length_exceeded''
      else if upstream_code \<in> {Some ''rate_limit_exceeded'', Some ''usage_limit_reached''} then ''rate_limit_exceeded''
      else if upstream_code = Some ''invalid_api_key'' then ''invalid_api_key''
      else if upstream_code = Some ''model_not_found'' then ''model_not_found''
      else if upstream_code = Some ''insufficient_quota'' then ''insufficient_quota''
      else if upstream_code = Some ''invalid_request'' then ''invalid_request''
      else if status = TOO_MANY_REQUESTS then ''rate_limit_exceeded''
      else if status = UNAUTHORIZED \<or> status = FORBIDDEN then ''invalid_api_key''
      else ''invalid_request'')"

definition upstream_failure_message :: "StatusCode \<Rightarrow> bytes \<Rightarrow> bytes option \<Rightarrow> bytes" where
  "upstream_failure_message status fcode parameter =
     (let http = ''(HTTP '' @ show_nat status @ '')''; resumable = ''; the request was not replayed and the session is resumable.''
      in if fcode = ''context_length_exceeded'' then
           ''The request exceeded the model context window '' @ http @ ''; it was not replayed and the session is resumable.''
         else if fcode = ''rate_limit_exceeded'' then ''The Codex endpoint reported a rate limit '' @ http @ resumable
         else if fcode = ''invalid_api_key'' then
           ''The Codex endpoint rejected authentication '' @ http @ ''; the request was not replayed and login is required.''
         else if fcode = ''model_not_found'' then ''The requested Codex model was unavailable '' @ http @ resumable
         else if fcode = ''insufficient_quota'' then ''The Codex endpoint reported insufficient quota '' @ http @ resumable
         else case parameter of
                Some p \<Rightarrow> ''The Codex endpoint rejected request parameter '' @ [CHR 0x27] @ p @ [CHR 0x27, CHR '' ''] @ http @ resumable
              | None \<Rightarrow>
                  if is_client_error status then ''The Codex endpoint rejected the request '' @ http @ resumable
                  else ''The Codex endpoint failed '' @ http @ resumable)"

definition sanitize_upstream_failure :: "StatusCode \<Rightarrow> Value option \<Rightarrow> SanitizedUpstreamFailure" where
  "sanitize_upstream_failure status body =
     (let error = unwrap_or (Option.bind body (\<lambda>b. value_get b ''error'')) Null;
          parameter = opt_filter safe_error_parameter (get_str error ''param'');
          fcode = upstream_failure_code status (get_str error ''code'')
      in \<lparr>uf_code = fcode, uf_message = upstream_failure_message status fcode parameter,
          uf_parameter = parameter\<rparr>)"

definition inspect_upstream_failure :: "serde_json \<Rightarrow> StatusCode \<Rightarrow> upstream_event list \<Rightarrow> SanitizedUpstreamFailure" where
  "inspect_upstream_failure sj status body =
     sanitize_upstream_failure status (Option.bind (collect_error_body [] body) (from_str sj))"

section \<open>Streaming responses\<close>

definition safe_upstream_media_type :: "http_crate \<Rightarrow> HeaderMap \<Rightarrow> bytes option" where
  "safe_upstream_media_type h headers =
     Option.bind (hm_get_str h headers ''content-type'') (\<lambda>v.
       let v = trim (hd (split_on (\<lambda>c. c = CHR '';'') v))
       in if v \<noteq> [] \<and> length v \<le> 127 \<and> list_all (\<lambda>b. is_ascii_alphanumeric b \<or> b \<in> set ''-+./'') v
          then Some (to_ascii_lowercase v) else None)"

definition proxy_sse_response ::
  "serde_json \<Rightarrow> http_crate \<Rightarrow> u64 \<Rightarrow> StatusCode \<Rightarrow> HeaderMap \<Rightarrow> upstream_event list \<Rightarrow> bytes option \<Rightarrow> gateway_response" where
  "proxy_sse_response sj h now status headers body request_model =
     (if \<not> is_success status then
        terminal_sse_stream headers
          [let failure = inspect_upstream_failure sj status body
           in gateway_failure_frame sj now request_model (uf_code failure) (uf_message failure) (uf_parameter failure)]
      else
        proxy_response 200 (hm_insert ''content-type'' ''text/event-stream'' headers)
          (Frames (validated_stream sj now MAX_EVENT_BYTES (safe_upstream_media_type h headers) body)))"

section \<open>Requests\<close>

definition extract_json :: "(Value, StatusCode) result \<Rightarrow> (Value, gateway_response) result" where
  "extract_json payload =
     map_err (\<lambda>status. gateway_error status
       (if status = 413 then ''The gateway request body exceeded the size limit.''
        else if status = 415 then ''The gateway request must use application/json.''
        else ''The gateway request body was not valid JSON.'') ''invalid_request'') payload"

definition prepare_responses_request :: "Value \<Rightarrow> (Value, bytes) result" where
  "prepare_responses_request request =
     and_then (ok_or (as_object request) ''The Responses request must be a JSON object.'') (\<lambda>obj.
       if map_get obj ''stream'' = Some (Bool False) then Err ''muse-codex requires streaming Responses requests.''
       else if map_get obj ''background'' = Some (Bool True) then
         Err ''muse-codex does not support background Responses requests.''
       else Ok (Object (map_insert ''stream'' (Bool True) (map_insert ''store'' (Bool False) obj))))"

definition bearer_matches :: "http_crate \<Rightarrow> bytes \<Rightarrow> HeaderMap \<Rightarrow> bool" where
  "bearer_matches h expected headers =
     (case hm_get_str h headers ''authorization'' of
        None \<Rightarrow> False
      | Some v \<Rightarrow>
          (case strip_prefix ''Bearer '' v of
             None \<Rightarrow> False
           | Some supplied \<Rightarrow> length expected = length supplied \<and> expected = supplied))"

definition upstream_request_headers :: "HeaderMap \<Rightarrow> HeaderMap" where
  "upstream_request_headers source =
     foldl (\<lambda>target name. case map_get source name of Some v \<Rightarrow> hm_insert name v target | None \<Rightarrow> target)
       [] [''accept-language'', ''x-request-id'']"

section \<open>Handlers\<close>

record AppState =
  as_token :: bytes
  as_backend :: Backend

record gateway_request =
  gq_method :: bytes
  gq_path :: bytes
  gq_headers :: HeaderMap
  gq_payload :: "(Value, StatusCode) result"

type_synonym handled = "gateway_response \<times> backend_call list"

definition fast_unavailable_message :: bytes where
  "fast_unavailable_message = ''Fast mode is unavailable for the selected model. Choose a Fast-capable model or restart without --fast; the session is resumable.''"

definition transport_failed_message :: bytes where
  "transport_failed_message = ''The Codex transport failed before streaming began; the request was not replayed and the session is resumable.''"

definition responses :: "serde_json \<Rightarrow> http_crate \<Rightarrow> u64 \<Rightarrow> AppState \<Rightarrow> gateway_request \<Rightarrow> handled" where
  "responses sj h now state rq =
     (case extract_json (gq_payload rq) of
        Err response \<Rightarrow> (response, [])
      | Ok request \<Rightarrow>
          (case prepare_responses_request request of
             Err message \<Rightarrow> (gateway_error BAD_REQUEST message ''invalid_request'', [])
           | Ok request \<Rightarrow>
               let request_model = get_str request ''model'';
                   upstream_headers = upstream_request_headers (gq_headers rq)
               in (case backend_stream_responses (as_backend state) request upstream_headers of
                     Ok upstream \<Rightarrow> proxy_sse_response sj h now (raw_status upstream) (raw_headers upstream) (raw_body upstream) request_model
                   | Err e \<Rightarrow> terminal_sse_response []
                       (gateway_failure_frame sj now request_model ''invalid_request''
                          (if e = FastModeUnavailable then fast_unavailable_message else transport_failed_message) None),
                   [StreamCall request upstream_headers])))"

definition auxiliary_outcome ::
  "(RawResponse, Error) result \<Rightarrow> bytes \<Rightarrow> bytes \<Rightarrow> bytes \<Rightarrow> bytes \<Rightarrow> bytes \<Rightarrow> gateway_response" where
  "auxiliary_outcome r rejected failure_kind invalid unsupported failed =
     (case r of
        Ok upstream \<Rightarrow> proxy_auxiliary_response (raw_status upstream) (raw_headers upstream) (raw_body upstream) rejected failure_kind
      | Err (InvalidRequest _) \<Rightarrow> gateway_error BAD_REQUEST invalid ''invalid_request''
      | Err (ProviderUnsupported _) \<Rightarrow> gateway_error 501 unsupported ''provider_unsupported''
      | Err _ \<Rightarrow> gateway_error 502 failed failure_kind)"

definition search :: "AppState \<Rightarrow> gateway_request \<Rightarrow> handled" where
  "search state rq =
     (case extract_json (gq_payload rq) of
        Err response \<Rightarrow> (response, [])
      | Ok request \<Rightarrow>
          let hs = upstream_request_headers (gq_headers rq)
          in (auxiliary_outcome (backend_search_muse_request (as_backend state) request hs)
                ''Codex search was rejected by the upstream endpoint.'' ''codex_search_error''
                ''The search request was invalid.'' ''Web search is not available with the selected provider.''
                ''Codex search failed. The session is resumable.'',
              [SearchCall request hs]))"

definition browser_open :: "AppState \<Rightarrow> gateway_request \<Rightarrow> handled" where
  "browser_open state rq =
     (case extract_json (gq_payload rq) of
        Err response \<Rightarrow> (response, [])
      | Ok request \<Rightarrow>
          let hs = upstream_request_headers (gq_headers rq)
          in (auxiliary_outcome (backend_browser_open_muse_request (as_backend state) request hs)
                ''Codex browser-open was rejected by the upstream endpoint.'' ''codex_browser_open_error''
                ''The browser-open request was invalid.'' ''Browser open is not available with the selected provider.''
                ''Codex browser-open failed. The session is resumable.'',
              [BrowserOpenCall request hs]))"

definition health :: gateway_response where
  "health = \<lparr>rs_status = 200, rs_headers = [(''content-type'', ''application/json'')],
     rs_body = JsonBody (json_object [(''status'', String ''ok''), (''schema_version'', json_u64 4)])\<rparr>"

definition models_response :: gateway_response where
  "models_response = \<lparr>rs_status = 304, rs_headers = [], rs_body = NoBody\<rparr>"

definition feedback :: gateway_response where
  "feedback = \<lparr>rs_status = 204, rs_headers = [], rs_body = NoBody\<rparr>"

datatype route = Health | Models | Responses | Search | BrowserOpen | Feedback

text \<open>The route table; a \<open>get\<close> route of \<open>axum\<close> also serves \<open>HEAD\<close>.\<close>

definition route_of :: "bytes \<Rightarrow> bytes \<Rightarrow> route option" where
  "route_of meth path =
     (if meth \<in> {''GET'', ''HEAD''} then
        if path = ''/healthz'' then Some Health
        else if path = ''/muse-code/models'' then Some Models else None
      else if meth = ''POST'' then
        if path = ''/responses'' then Some Responses
        else if path = ''/muse-code/search'' then Some Search
        else if path = ''/muse-code/browser_open'' then Some BrowserOpen
        else if path = ''/muse-code/feedback'' then Some Feedback else None
      else None)"

fun handle_route :: "serde_json \<Rightarrow> http_crate \<Rightarrow> u64 \<Rightarrow> AppState \<Rightarrow> gateway_request \<Rightarrow> route \<Rightarrow> handled" where
  "handle_route sj h now state rq Health = (health, [])"
| "handle_route sj h now state rq Models = (models_response, [])"
| "handle_route sj h now state rq Responses = responses sj h now state rq"
| "handle_route sj h now state rq Search = search state rq"
| "handle_route sj h now state rq BrowserOpen = browser_open state rq"
| "handle_route sj h now state rq Feedback = (feedback, [])"

definition require_authorization :: "http_crate \<Rightarrow> AppState \<Rightarrow> gateway_request \<Rightarrow> (gateway_request \<Rightarrow> handled) \<Rightarrow> handled" where
  "require_authorization h state rq next_handler =
     (if \<not> bearer_matches h (as_token state) (gq_headers rq) then
        let response = gateway_error UNAUTHORIZED ''Missing or invalid private gateway bearer token.'' ''unauthorized''
        in (response\<lparr>rs_headers := hm_insert ''www-authenticate''
             (''Bearer realm='' @ [CHR 0x22] @ ''muse-codex-gateway'' @ [CHR 0x22]) (rs_headers response)\<rparr>, [])
      else next_handler rq)"

text \<open>A request on a route of the table; \<open>None\<close> is the answer \<open>axum\<close> gives without any handler.\<close>

definition serve :: "serde_json \<Rightarrow> http_crate \<Rightarrow> u64 \<Rightarrow> AppState \<Rightarrow> gateway_request \<Rightarrow> handled option" where
  "serve sj h now state rq =
     map_option (\<lambda>r. require_authorization h state rq (\<lambda>rq. handle_route sj h now state rq r))
       (route_of (gq_method rq) (gq_path rq))"

end
