(* ===== verification/Gateway_Props.thy ===== *)
theory Gateway_Props
  imports Gateway_Server
begin

text \<open>
  Properties of the gateway's HTTP surface: access control, the headers that cross it in both
  directions, the confinement of upstream error bodies, and the contract of the responses route.
\<close>

section \<open>Access control\<close>

lemma bearer_matches_iff:
  assumes "http_crate_spec h" "bearer_matches h token headers"
  shows "map_get headers ''authorization'' = Some (''Bearer '' @ token)"
  using assms
  by (auto simp: bearer_matches_def hm_get_str_def http_crate_spec_def split: option.splits bind_splits)

lemma upstream_request_headers_eq:
  "upstream_request_headers source =
     (case map_get source ''accept-language'' of Some v \<Rightarrow> [(''accept-language'', v)] | None \<Rightarrow> []) @
     (case map_get source ''x-request-id'' of Some v \<Rightarrow> [(''x-request-id'', v)] | None \<Rightarrow> [])"
  by (auto simp: upstream_request_headers_def hm_insert_def hm_remove_def split: option.splits)

lemma responses_calls:
  "snd (responses sj h now state rq) \<in> {[]} \<union> {[StreamCall v (upstream_request_headers (gq_headers rq))] | v. True}"
  by (auto simp: responses_def Let_def split: result.splits)

lemma handled_calls:
  assumes "c \<in> set (snd (handle_route sj h now state rq r))"
  shows "snd (handle_route sj h now state rq r) = [c] \<and> call_headers c = upstream_request_headers (gq_headers rq)"
  using assms responses_calls [of sj h now state rq]
  by (cases r) (auto simp: search_def browser_open_def Let_def split: result.splits)

text \<open>C3: Only the holder of the bearer token reaches the backend: a request on any route whose first
  authorization header is not the token is answered with 401 and without a backend call; an authorized one
  makes at most one call, and the only headers it hands on are the caller's language and request id, so the
  token itself is never forwarded.\<close>

theorem gateway_access_control:
  assumes "http_crate_spec h" and "serve sj h now state rq = Some (response, calls)"
  shows "(calls \<noteq> [] \<longrightarrow> map_get (gq_headers rq) ''authorization'' = Some (''Bearer '' @ as_token state)) \<and>
    (map_get (gq_headers rq) ''authorization'' \<noteq> Some (''Bearer '' @ as_token state) \<longrightarrow> rs_status response = 401) \<and>
    (\<forall>c \<in> set calls. calls = [c] \<and>
       (\<forall>(name, v) \<in> set (call_headers c). name \<in> {''accept-language'', ''x-request-id''} \<and>
          map_get (gq_headers rq) name = Some v))"
proof -
  obtain r where r: "require_authorization h state rq (\<lambda>rq. handle_route sj h now state rq r) = (response, calls)"
    using assms(2) by (auto simp: serve_def)
  show ?thesis
  proof (cases "bearer_matches h (as_token state) (gq_headers rq)")
    case True
    then have "calls = snd (handle_route sj h now state rq r)"
      using r by (simp add: require_authorization_def)
    with bearer_matches_iff [OF assms(1) True] handled_calls [of _ sj h now state rq r] show ?thesis
      by (auto simp: upstream_request_headers_eq split: option.splits)
  next
    case False
    with r show ?thesis
      by (auto simp: require_authorization_def Let_def gateway_error_def)
  qed
qed

definition sample_backend :: Backend where
  "sample_backend = ZaiBackend (\<lambda>_ _. Err NotAuthenticated)"

definition sample_state :: AppState where
  "sample_state = \<lparr>as_token = ''t0'', as_backend = sample_backend\<rparr>"

definition sample_request :: "bytes \<Rightarrow> gateway_request" where
  "sample_request auth = \<lparr>gq_method = ''POST'', gq_path = ''/muse-code/search'',
     gq_headers = [(''authorization'', auth), (''cookie'', ''c''), (''x-request-id'', ''r1'')], gq_payload = Ok Null\<rparr>"

theorem gateway_access_control_witness:
  "(\<exists>response. serve json_codec ascii_http 7 sample_state (sample_request ''Bearer no'') = Some (response, []) \<and> rs_status response = 401) \<and>
   (\<exists>response. serve json_codec ascii_http 7 sample_state (sample_request ''Bearer t0'') =
      Some (response, [SearchCall Null [(''x-request-id'', ''r1'')]]) \<and> rs_status response = 501)"
proof -
  have match: "bearer_matches ascii_http ''t0'' [(''authorization'', ''Bearer t0''), (''cookie'', ''c''), (''x-request-id'', ''r1'')]"
    by code_simp
  have no: "\<not> bearer_matches ascii_http ''t0'' [(''authorization'', ''Bearer no''), (''cookie'', ''c''), (''x-request-id'', ''r1'')]"
    by code_simp
  obtain response where r: "serve json_codec ascii_http 7 sample_state (sample_request ''Bearer no'') = Some (response, [])"
    using no by (auto simp: serve_def sample_request_def sample_state_def route_of_def require_authorization_def Let_def)
  have "rs_status response = 401"
    using gateway_access_control [OF ascii_http_spec r] by (simp add: sample_request_def sample_state_def)
  with r match show ?thesis
    by (auto simp: serve_def sample_request_def sample_state_def sample_backend_def route_of_def require_authorization_def search_def
        extract_json_def auxiliary_outcome_def upstream_request_headers_eq gateway_error_def Let_def)
qed

section \<open>Response headers\<close>

fun backend_answer :: "Backend \<Rightarrow> backend_call \<Rightarrow> (RawResponse, Error) result" where
  "backend_answer b (StreamCall v hs) = backend_stream_responses b v hs"
| "backend_answer b (SearchCall v hs) = backend_search_muse_request b v hs"
| "backend_answer b (BrowserOpenCall v hs) = backend_browser_open_muse_request b v hs"

text \<open>The headers the gateway writes itself.\<close>

definition own_header :: "bytes \<times> bytes \<Rightarrow> bool" where
  "own_header kv = (kv \<in> {(''cache-control'', ''no-store''), (''x-content-type-options'', ''nosniff''),
     (''content-type'', ''application/json''), (''content-type'', ''text/event-stream'')} \<or> fst kv = ''www-authenticate'')"

definition headers_from :: "HeaderMap \<Rightarrow> gateway_response \<Rightarrow> bool" where
  "headers_from upstream response =
     (\<forall>kv \<in> set (rs_headers response). own_header kv \<or> is_forwarded_response_header (fst kv) \<and> kv \<in> set upstream)"

lemma own_headers [simp]:
  "own_header (''cache-control'', ''no-store'')" "own_header (''x-content-type-options'', ''nosniff'')"
  "own_header (''content-type'', ''application/json'')" "own_header (''content-type'', ''text/event-stream'')"
  "own_header (''www-authenticate'', v)"
  by (simp_all add: own_header_def)

lemma hm_insert_from: "kv \<in> set (hm_insert k v m) \<Longrightarrow> kv = (k, v) \<or> kv \<in> set m"
  by (auto simp: hm_insert_def hm_remove_def)

lemma headers_from_error [simp]: "headers_from upstream (gateway_error status message k)"
  unfolding headers_from_def gateway_error_def by (fastforce dest!: hm_insert_from)

lemma headers_from_proxy:
  assumes "\<And>kv. kv \<in> set headers \<Longrightarrow> own_header kv \<or> kv \<in> set upstream"
  shows "headers_from upstream (proxy_response status headers body)"
  using assms by (fastforce simp: headers_from_def proxy_response_def)

lemma headers_from_event_stream:
  "headers_from upstream (proxy_response status (hm_insert ''content-type'' ''text/event-stream'' upstream) body)"
  by (rule headers_from_proxy) (auto dest: hm_insert_from)

lemma headers_from_stream [simp]: "headers_from upstream (terminal_sse_stream upstream frames)"
  by (simp add: terminal_sse_stream_def headers_from_event_stream)

lemma headers_from_sse [simp]: "headers_from headers (proxy_sse_response sj h now status headers body m)"
  by (simp add: proxy_sse_response_def headers_from_event_stream)

lemma appended_headers:
  "foldl (\<lambda>hs (name, v). if P name then hm_append name v hs else hs) hs headers = hs @ filter (\<lambda>(name, _). P name) headers"
  by (induction headers arbitrary: hs) (auto simp: hm_append_def)

lemma headers_from_auxiliary [simp]: "headers_from headers (proxy_auxiliary_response status headers body m k)"
proof (cases "is_success status")
  case False
  then show ?thesis
    using headers_from_error [of headers status m k]
    by (auto simp: headers_from_def proxy_auxiliary_response_def Let_def appended_headers)
qed (auto intro: headers_from_proxy simp: proxy_auxiliary_response_def)

lemma headers_from_outcome:
  "headers_from (case r of Ok u \<Rightarrow> raw_headers u | Err _ \<Rightarrow> []) (auxiliary_outcome r a b c d e)"
  by (auto simp: auxiliary_outcome_def split: result.splits Error.splits)

lemma passthrough_outcome:
  "rs_body (auxiliary_outcome r a b c d e) = Passthrough body \<Longrightarrow> \<exists>u. r = Ok u \<and> is_success (raw_status u) \<and> body = raw_body u"
  by (auto simp: auxiliary_outcome_def proxy_auxiliary_response_def proxy_response_def gateway_error_def Let_def
      split: result.splits Error.splits if_splits)

text \<open>What a handled request may take from the upstream's answer.\<close>

definition confined :: "Backend \<Rightarrow> handled \<Rightarrow> bool" where
  "confined b handled = (case handled of (response, calls) \<Rightarrow>
     headers_from (concat (map (\<lambda>c. case backend_answer b c of Ok u \<Rightarrow> raw_headers u | Err _ \<Rightarrow> []) calls)) response \<and>
     (\<forall>body. rs_body response = Passthrough body \<longrightarrow>
        (\<exists>c u. calls = [c] \<and> backend_answer b c = Ok u \<and> is_success (raw_status u) \<and> body = raw_body u)))"

lemma extract_json_error: "extract_json p = Err r \<Longrightarrow> \<exists>status m k. r = gateway_error status m k"
  by (cases p) (auto simp: extract_json_def)

lemma rs_body_error [simp]: "rs_body (gateway_error status m k) \<noteq> Passthrough b"
  by (simp add: gateway_error_def)

lemma rs_body_stream [simp]:
  "rs_body (terminal_sse_stream hs frames) = Frames frames"
  "rs_body (proxy_sse_response sj h now status hs body m) \<noteq> Passthrough b"
  by (simp_all add: terminal_sse_stream_def proxy_sse_response_def proxy_response_def)

lemma confined_search: "confined (as_backend state) (search state rq)"
  unfolding search_def
  by (auto simp: confined_def Let_def headers_from_outcome dest: extract_json_error passthrough_outcome split: result.split)

lemma confined_browser_open: "confined (as_backend state) (browser_open state rq)"
  unfolding browser_open_def
  by (auto simp: confined_def Let_def headers_from_outcome dest: extract_json_error passthrough_outcome split: result.split)

lemma confined_responses: "confined (as_backend state) (responses sj h now state rq)"
  unfolding responses_def
  by (auto simp: confined_def Let_def terminal_sse_response_def dest: extract_json_error split: result.split)

lemma confined_handled: "confined (as_backend state) (handle_route sj h now state rq r)"
  by (cases r) (auto simp: confined_search confined_browser_open confined_responses,
     auto simp: confined_def headers_from_def health_def models_response_def feedback_def)


definition leaky_backend :: Backend where
  "leaky_backend = CodexBackend \<lparr>co_stream_responses = (\<lambda>_ _. Err NotAuthenticated),
     co_search_muse_request = (\<lambda>_ _. Ok \<lparr>raw_status = 403, raw_headers = [(''set-cookie'', ''s''), (''retry-after'', ''3'')],
       raw_body = [Chunk ''secret'']\<rparr>),
     co_browser_open_muse_request = (\<lambda>_ _. Err NotAuthenticated)\<rparr>"


section \<open>Upstream failures\<close>

definition known_codes :: "bytes list" where
  "known_codes = [''context_length_exceeded'', ''rate_limit_exceeded'', ''usage_limit_reached'', ''invalid_api_key'',
     ''model_not_found'', ''insufficient_quota'', ''invalid_request'']"

text \<open>The part of an error body that may matter: a known code and a safe parameter.\<close>

definition reduced_error :: "Value \<Rightarrow> Value" where
  "reduced_error body =
     (let error = unwrap_or (value_get body ''error'') Null
      in Object [(''error'', Object
           ((case opt_filter (\<lambda>c. c \<in> set known_codes) (get_str error ''code'') of Some c \<Rightarrow> [(''code'', String c)] | None \<Rightarrow> []) @
            (case opt_filter safe_error_parameter (get_str error ''param'') of Some q \<Rightarrow> [(''param'', String q)] | None \<Rightarrow> [])))])"

lemma unknown_code: "c \<notin> set known_codes \<Longrightarrow> upstream_failure_code status (Some c) = upstream_failure_code status None"
  by (simp add: upstream_failure_code_def known_codes_def)

lemma upstream_failure_code_filter:
  "upstream_failure_code status (opt_filter (\<lambda>c. c \<in> set known_codes) c) = upstream_failure_code status c"
  by (cases c) (auto simp: unknown_code)

lemma opt_filter_idem [simp]: "opt_filter P (opt_filter P x) = opt_filter P x"
  by (cases x) auto

lemma reduced_fields:
  assumes "error = unwrap_or (value_get body ''error'') Null"
  shows "Option.bind (Some (reduced_error body)) (\<lambda>b. value_get b ''error'') \<noteq> None"
    and "get_str (unwrap_or (value_get (reduced_error body) ''error'') Null) ''code'' =
      opt_filter (\<lambda>c. c \<in> set known_codes) (get_str error ''code'')"
    and "get_str (unwrap_or (value_get (reduced_error body) ''error'') Null) ''param'' = opt_filter safe_error_parameter (get_str error ''param'')"
  unfolding reduced_error_def Let_def assms
  by (auto simp: get_str_def value_get_def split: option.splits)

lemma upstream_failure_codes: "upstream_failure_code status c \<in>
    {''context_length_exceeded'', ''rate_limit_exceeded'', ''invalid_api_key'', ''model_not_found'', ''insufficient_quota'', ''invalid_request''}"
  by (simp add: upstream_failure_code_def)

text \<open>Nothing else of an upstream error body crosses the gateway: the reported failure is the one for the
  body reduced to a known error code and a safe parameter name, its code is one of six, and its parameter is
  at most 128 plain characters.\<close>

theorem upstream_failure_confined:
  "sanitize_upstream_failure status (Some body) = sanitize_upstream_failure status (Some (reduced_error body)) \<and>
   uf_code (sanitize_upstream_failure status (Some body)) \<in>
     {''context_length_exceeded'', ''rate_limit_exceeded'', ''invalid_api_key'', ''model_not_found'', ''insufficient_quota'', ''invalid_request''} \<and>
   pred_option safe_error_parameter (uf_parameter (sanitize_upstream_failure status (Some body)))"
proof -
  let ?e = "unwrap_or (value_get body ''error'') Null"
  have "sanitize_upstream_failure status (Some body) = sanitize_upstream_failure status (Some (reduced_error body))"
    using reduced_fields [of ?e body] by (simp add: sanitize_upstream_failure_def Let_def upstream_failure_code_filter)
  moreover have "pred_option P (opt_filter P x)" for P :: "bytes \<Rightarrow> bool" and x
    by (cases x) auto
  ultimately show ?thesis
    using upstream_failure_codes by (simp add: sanitize_upstream_failure_def Let_def)
qed

section \<open>The responses route\<close>

lemma upstream_failure_utf8:
  assumes "failure = sanitize_upstream_failure status body"
  shows "utf8_valid (uf_code failure)" "utf8_valid (uf_message failure)" "ident_ok (uf_parameter failure)"
proof -
  let ?p = "uf_parameter failure"
  have p: "is_ascii q" if "?p = Some q" for q
    using that unfolding assms sanitize_upstream_failure_def Let_def
    by (auto simp: safe_error_parameter_ascii)
  have n: "utf8_valid (show_nat n)" for n
    by (simp add: show_nat_ascii utf8_valid_ascii)
  show "utf8_valid (uf_code failure)"
    using upstream_failure_codes [of status] unfolding assms sanitize_upstream_failure_def Let_def
    by (auto simp: upstream_failure_code_def byte_def)
  show "ident_ok ?p"
    using p by (cases ?p) (auto intro: utf8_valid_ascii)
  show "utf8_valid (uf_message failure)"
  proof -
    have "utf8_valid (upstream_failure_message status c ?p)" for c
      using p n by (cases ?p) (auto simp: upstream_failure_message_def Let_def byte_def utf8_valid_append utf8_valid_ascii)
    then show ?thesis
      unfolding assms sanitize_upstream_failure_def Let_def by simp
  qed
qed

lemma gateway_failure_frame_kind:
  assumes "serde_json_spec sj" "ident_ok m" "ident_ok p" "utf8_valid c" "utf8_valid msg"
  shows "frame_kind sj (gateway_failure_frame sj now m c msg p) = Some ''response.failed''"
  using failure_frame_inspect [OF assms(1) _ assms(2-5), of None]
  by (simp add: gateway_failure_frame_def frame_kind_def frame_event_def)

lemma media_type_ident: "ident_ok (safe_upstream_media_type h headers)"
proof -
  have alnum: "byte (to_ascii_lower c) < 128" if "is_ascii_alphanumeric c \<or> c \<in> set ''-+./''" for c
    using that by (auto simp: to_ascii_lower_def is_ascii_alphanumeric_def is_ascii_digit_def byte_def)
  have "is_ascii (to_ascii_lowercase v)" if "list_all (\<lambda>b. is_ascii_alphanumeric b \<or> b \<in> set ''-+./'') v" for v
    using that alnum by (auto simp: is_ascii_def to_ascii_lowercase_def list_all_iff)
  then show ?thesis
    by (auto simp: safe_upstream_media_type_def ident_ok_def Let_def utf8_valid_ascii split: bind_splits if_splits)
qed

lemma content_type_value:
  "hm_values (rs_headers (proxy_response status (hm_insert ''content-type'' v headers) body)) ''content-type'' = [v]"
proof -
  have "hm_values (filter (\<lambda>(name, _). P name) hs) k = (if P k then hm_values hs k else [])" for P hs and k :: bytes
    by (induction hs) auto
  then show ?thesis
    by (simp add: proxy_response_def is_forwarded_response_header_def)
qed

definition event_stream :: "gateway_response \<Rightarrow> bytes list \<Rightarrow> bool" where
  "event_stream response frames = (rs_status response = 200 \<and> rs_body response = Frames frames \<and>
     hm_values (rs_headers response) ''content-type'' = [''text/event-stream''])"

lemma event_stream_terminal [simp]: "event_stream (terminal_sse_stream headers frames) frames' \<longleftrightarrow> frames' = frames"
  by (auto simp: event_stream_def terminal_sse_stream_def content_type_value) (auto simp: proxy_response_def)

lemma proxied_stream:
  assumes "serde_json_spec sj" "ident_ok m"
  shows "\<exists>ks g. event_stream (proxy_sse_response sj h now status headers body m) (ks @ [g]) \<and> (\<forall>f \<in> set ks. interim sj f) \<and>
    frame_kind sj g \<in> {Some ''response.completed'', Some ''response.incomplete'', Some ''response.failed''} \<and>
    (is_success status \<or> ks = [] \<and> frame_kind sj g = Some ''response.failed'')"
proof (cases "is_success status")
  case True
  let ?media = "safe_upstream_media_type h headers"
  obtain ks g where out: "validated_stream sj now MAX_EVENT_BYTES ?media body = ks @ [g]" "\<forall>f \<in> set ks. interim sj f"
      "closes sj g \<or> (\<exists>n. gateway_failure sj now ?media g n)"
    using validated_stream_outcome [OF assms(1) media_type_ident] by metis
  have "event_stream (proxy_sse_response sj h now status headers body m) (ks @ [g])"
    using True out(1) by (simp add: event_stream_def proxy_sse_response_def content_type_value) (simp add: proxy_response_def)
  moreover have "frame_kind sj g \<in> {Some ''response.completed'', Some ''response.incomplete'', Some ''response.failed''}"
    using out(3) gateway_failure_event(1) [OF assms(1) media_type_ident] by (auto simp: closes_def)
  ultimately show ?thesis
    using True out(2) by blast
next
  case False
  let ?f = "inspect_upstream_failure sj status body"
  let ?g = "gateway_failure_frame sj now m (uf_code ?f) (uf_message ?f) (uf_parameter ?f)"
  have "frame_kind sj ?g = Some ''response.failed''"
    using upstream_failure_utf8 [OF inspect_upstream_failure_def] assms by (intro gateway_failure_frame_kind)
  with False show ?thesis
    by (intro exI [of _ "[]"] exI [of _ ?g]) (simp add: proxy_sse_response_def Let_def)
qed

lemma prepared_request:
  assumes "prepare_responses_request request = Ok prepared" "json_wf request"
  shows "json_wf prepared \<and> value_get prepared ''stream'' = Some (Bool True) \<and> value_get prepared ''store'' = Some (Bool False)"
  using assms
  by (cases request) (auto simp: prepare_responses_request_def and_then_Ok intro!: json_wf_insert split: if_splits)

text \<open>C4: The responses route always answers an accepted request with one well-formed event stream: status
  200, a single event-stream content type, and frames of which exactly the last is terminal, whatever the
  backend does; an upstream or transport failure is exactly one failed event. The backend is called once, with
  streaming on and storage off.\<close>

theorem responses_route_contract:
  assumes "serde_json_spec sj" "bearer_matches h (as_token state) (gq_headers rq)"
    and "gq_method rq = ''POST''" "gq_path rq = ''/responses''" "gq_payload rq = Ok request" "json_wf request"
    and "prepare_responses_request request = Ok prepared"
  shows "\<exists>response ks g. serve sj h now state rq = Some (response, [StreamCall prepared (upstream_request_headers (gq_headers rq))]) \<and>
    value_get prepared ''stream'' = Some (Bool True) \<and> value_get prepared ''store'' = Some (Bool False) \<and>
    event_stream response (ks @ [g]) \<and> (\<forall>f \<in> set ks. interim sj f) \<and>
    frame_kind sj g \<in> {Some ''response.completed'', Some ''response.incomplete'', Some ''response.failed''} \<and>
    ((case backend_stream_responses (as_backend state) prepared (upstream_request_headers (gq_headers rq)) of
        Ok u \<Rightarrow> is_success (raw_status u) | Err _ \<Rightarrow> False) \<or>
     ks = [] \<and> frame_kind sj g = Some ''response.failed'')"
proof -
  let ?hs = "upstream_request_headers (gq_headers rq)" and ?m = "get_str prepared ''model''"
  note prepared = prepared_request [OF assms(7,6)]
  have m: "ident_ok ?m"
    using prepared json_wf_get_str by (auto simp: ident_ok_def)
  have serve: "serve sj h now state rq = Some (responses sj h now state rq)"
    using assms(2-4) by (simp add: serve_def route_of_def require_authorization_def)
  show ?thesis
  proof (cases "backend_stream_responses (as_backend state) prepared ?hs")
    case (Ok u)
    then have "serve sj h now state rq = Some (proxy_sse_response sj h now (raw_status u) (raw_headers u) (raw_body u) ?m, [StreamCall prepared ?hs])"
      using assms(5,7) serve by (simp add: responses_def extract_json_def Let_def)
    with Ok prepared proxied_stream [OF assms(1) m] show ?thesis
      by (metis (no_types, lifting) result.simps(5))
  next
    case (Err e)
    define msg where "msg = (if e = FastModeUnavailable then fast_unavailable_message else transport_failed_message)"
    let ?g = "gateway_failure_frame sj now ?m ''invalid_request'' msg None"
    have "serve sj h now state rq = Some (terminal_sse_stream [] [?g], [StreamCall prepared ?hs])"
      using assms(5,7) serve Err by (simp add: responses_def extract_json_def terminal_sse_response_def msg_def Let_def)
    moreover have "frame_kind sj ?g = Some ''response.failed''"
      using assms(1) m by (intro gateway_failure_frame_kind)
        (auto simp: msg_def fast_unavailable_message_def transport_failed_message_def byte_def)
    ultimately show ?thesis
      using Err prepared by (intro exI [of _ "terminal_sse_stream [] [?g]"] exI [of _ "[]"] exI [of _ ?g]) simp
  qed
qed

theorem responses_route_contract_witness:
  "(let rq = \<lparr>gq_method = ''POST'', gq_path = ''/responses'', gq_headers = [(''authorization'', ''Bearer t0'')], gq_payload = Ok (Object [])\<rparr> in
    \<exists>response g. serve json_codec ascii_http 7 sample_state rq =
        Some (response, [StreamCall (Object [(''store'', Bool False), (''stream'', Bool True)]) []]) \<and>
      event_stream response [g] \<and> frame_kind json_codec g = Some ''response.failed'')"
proof -
  define rq :: gateway_request where
    "rq = \<lparr>gq_method = ''POST'', gq_path = ''/responses'', gq_headers = [(''authorization'', ''Bearer t0'')], gq_payload = Ok (Object [])\<rparr>"
  have "bearer_matches ascii_http ''t0'' [(''authorization'', ''Bearer t0'')]"
    by code_simp
  moreover have "prepare_responses_request (Object []) = Ok (Object [(''store'', Bool False), (''stream'', Bool True)])"
    by code_simp
  moreover have "upstream_request_headers (gq_headers rq) = []"
    by (simp add: rq_def upstream_request_headers_eq)
  ultimately show ?thesis
    unfolding rq_def [symmetric]
    using responses_route_contract [OF json_codec_spec, of ascii_http sample_state rq "Object []"
      "Object [(''store'', Bool False), (''stream'', Bool True)]" 7]
    by (auto simp: rq_def sample_state_def sample_backend_def map_ok_def Let_def)
qed

end
