(* ===== verification/Msp_Relay.thy ===== *)
theory Msp_Relay
  imports Launcher_Ready
begin

text \<open>
  The adapter between an MSP client and stock Muse (\<open>muse-codex/src/msp.rs\<close>): framing of the two
  byte streams, the translation of provider identifiers at the fields the protocol defines, the table
  of pending requests, and the two relay threads as a step relation in which reading a frame and
  writing its outcome are separate steps that may interleave. The pending table is a \<open>HashMap\<close> whose
  iteration order is never observed; it is kept as an ordered association list.
\<close>

section \<open>Fields along a path\<close>

text \<open>Chains of \<open>get_mut\<close> and \<open>as_object_mut\<close>, and the assignment through the reference they yield.\<close>

fun path_get :: "bytes list \<Rightarrow> Value \<Rightarrow> Value option" where
  "path_get [] v = Some v"
| "path_get (k # ks) v = Option.bind (value_get v k) (path_get ks)"

fun path_set :: "bytes list \<Rightarrow> Value \<Rightarrow> Value \<Rightarrow> Value" where
  "path_set [] w v = w"
| "path_set (k # ks) w v =
     (case v of
        Object m \<Rightarrow> (case map_get m k of Some u \<Rightarrow> Object (map_insert k (path_set ks w u) m) | None \<Rightarrow> v)
      | _ \<Rightarrow> v)"

section \<open>Framing\<close>

definition INTERNAL_PROVIDER :: bytes where
  "INTERNAL_PROVIDER = ''meta''"

definition MAX_FRAME_BYTES :: nat where
  "MAX_FRAME_BYTES = 10 * 1024 * 1024"

definition MAX_PENDING_REQUESTS :: nat where
  "MAX_PENDING_REQUESTS = 4096"

definition frame_limit_error :: bytes where
  "frame_limit_error = ''MSP frame exceeds the '' @ show_nat MAX_FRAME_BYTES @ ''-byte limit''"

text \<open>
  A \<open>BufRead\<close> is the list of what \<open>fill_buf\<close> will return; its end and an empty buffer are the end of
  the input. A buffer without a line feed is consumed whole, so only then does the loop go on.
\<close>

fun position_lf :: "bytes \<Rightarrow> nat option" where
  "position_lf [] = None"
| "position_lf (c # cs) = (if c = LF then Some 0 else map_option Suc (position_lf cs))"

fun read_frame :: "bytes \<Rightarrow> (bytes, bytes) result list \<Rightarrow> (bytes option \<times> (bytes, bytes) result list, bytes) result" where
  "read_frame acc [] = Ok (if acc = [] then None else Some acc, [])"
| "read_frame acc (Err e # reader) = Err e"
| "read_frame acc (Ok available # reader) =
     (if available = [] then Ok (if acc = [] then None else Some acc, Ok available # reader)
      else case position_lf available of
             Some index \<Rightarrow>
               if length acc + (index + 1) > MAX_FRAME_BYTES + 1 then Err frame_limit_error
               else Ok (Some (acc @ take (index + 1) available),
                        if index + 1 < length available then Ok (drop (index + 1) available) # reader else reader)
           | None \<Rightarrow>
               if length acc + length available > MAX_FRAME_BYTES then Err frame_limit_error
               else read_frame (acc @ available) reader)"

text \<open>The loop of both relay threads over the frames of their input, and the error that ends it.\<close>

fun reader_size :: "(bytes, bytes) result list \<Rightarrow> nat" where
  "reader_size [] = 0"
| "reader_size (Err e # r) = Suc (reader_size r)"
| "reader_size (Ok b # r) = Suc (length b + reader_size r)"

lemma read_frame_size:
  "read_frame acc r = Ok (Some f, r') \<Longrightarrow> reader_size r' \<le> reader_size r \<and> (acc = [] \<longrightarrow> reader_size r' < reader_size r)"
proof (induction acc r rule: read_frame.induct)
  case (3 acc available reader)
  then show ?case
    by (auto split: if_splits option.splits)
qed (auto split: if_splits)

function read_frames :: "(bytes, bytes) result list \<Rightarrow> bytes list \<times> bytes option" where
  "read_frames reader =
     (case read_frame [] reader of
        Err e \<Rightarrow> ([], Some e)
      | Ok (None, _) \<Rightarrow> ([], None)
      | Ok (Some frame, reader') \<Rightarrow> (case read_frames reader' of (frames, e) \<Rightarrow> (frame # frames, e)))"
  by auto
termination
  by (relation "measure reader_size") (auto dest: read_frame_size)

declare read_frames.simps [simp del]

definition parse_frame :: "serde_json \<Rightarrow> bytes \<Rightarrow> Value option" where
  "parse_frame sj frame =
     (let frame = unwrap_or (strip_suffix [LF] frame) frame;
          frame = unwrap_or (strip_suffix [CR] frame) frame
      in from_str sj frame)"

definition encode_frame :: "serde_json \<Rightarrow> Value \<Rightarrow> bytes" where
  "encode_frame sj v = to_string sj v @ [LF]"

fun rpc_id_key :: "serde_json \<Rightarrow> Value \<Rightarrow> bytes option" where
  "rpc_id_key sj (String s) = Some (to_string sj (String s))"
| "rpc_id_key sj (Number n) = Some (to_string sj (Number n))"
| "rpc_id_key sj Null = Some (to_string sj Null)"
| "rpc_id_key sj _ = None"

section \<open>Client frames\<close>

datatype ClientFrame = Forward bytes | Reject bytes | Drop

definition rpc_error :: "Value \<Rightarrow> int \<Rightarrow> bytes \<Rightarrow> (bytes \<times> Value) list \<Rightarrow> Value" where
  "rpc_error request_id c message data =
     json_object [(''jsonrpc'', String ''2.0''), (''id'', request_id),
       (''error'', json_object [(''code'', Number (NegInt (word_of_int c))), (''message'', String message), (''data'', json_object data)])]"

definition command_rejected :: "Value \<Rightarrow> bytes \<Rightarrow> bytes \<Rightarrow> Value" where
  "command_rejected request_id command_id public =
     rpc_error request_id (- 32030) (''muse-codex only accepts provider '' @ [CHR 0x27] @ public @ [CHR 0x27] @ '' in this session'')
       [(''kind'', String ''commandRejected''), (''commandId'', String command_id),
        (''reason'', String ''unsupported_provider''), (''retryable'', Bool False)]"

definition invalid_params :: "Value \<Rightarrow> bytes \<Rightarrow> Value" where
  "invalid_params request_id message = rpc_error request_id (- 32602) message [(''kind'', String ''invalidParams'')]"

definition msp_invalid_request :: "Value \<Rightarrow> bytes \<Rightarrow> Value" where
  "msp_invalid_request request_id message = rpc_error request_id (- 32600) message [(''kind'', String ''invalidRequest'')]"

definition msp_overloaded :: "Value \<Rightarrow> Value" where
  "msp_overloaded request_id =
     rpc_error request_id (- 32001) ''muse-codex MSP request adapter is at capacity''
       [(''kind'', String ''overloaded''), (''capacity'', json_u64 (of_nat MAX_PENDING_REQUESTS)), (''retryable'', Bool True)]"

definition provider_path :: "bytes \<Rightarrow> bytes list option" where
  "provider_path meth =
     (if meth = ''session/start'' then Some [''params'', ''providerId'']
      else if meth = ''session/setModel'' then Some [''params'', ''model'', ''providerId'']
      else None)"

type_synonym pending = "(bytes \<times> bytes) list"

text \<open>A provider that is neither the public one nor empty.\<close>

definition reject_provider :: "serde_json \<Rightarrow> bytes \<Rightarrow> Value \<Rightarrow> ClientFrame" where
  "reject_provider sj public v =
     (case opt_filter (\<lambda>i. rpc_id_key sj i \<noteq> None) (value_get v ''id'') of
        Some request_id \<Rightarrow>
          Reject (encode_frame sj
            (case Option.bind (path_get [''params'', ''commandId''] v) as_str of
               Some command_id \<Rightarrow> command_rejected request_id command_id public
             | None \<Rightarrow> invalid_params request_id ''provider requires a valid commandId''))
      | None \<Rightarrow>
          if value_get v ''id'' = None then Drop
          else Reject (encode_frame sj (msp_invalid_request Null ''request id must be a string, number, or null'')))"

text \<open>The table of pending requests; the frame goes on when its id is new and there is room.\<close>

definition track_request :: "serde_json \<Rightarrow> pending \<Rightarrow> Value \<Rightarrow> bytes \<Rightarrow> bytes \<Rightarrow> ClientFrame \<times> pending" where
  "track_request sj pending v meth out =
     (case Option.bind (value_get v ''id'') (rpc_id_key sj) of
        None \<Rightarrow> (Forward out, pending)
      | Some key \<Rightarrow>
          let request_id = the (value_get v ''id'')
          in if map_get pending key \<noteq> None then
               (Reject (encode_frame sj (msp_invalid_request request_id ''duplicate in-flight request id'')), pending)
             else if length pending \<ge> MAX_PENDING_REQUESTS then (Reject (encode_frame sj (msp_overloaded request_id)), pending)
             else (Forward out, map_insert key meth pending))"

definition adapt_client_frame :: "serde_json \<Rightarrow> bytes \<Rightarrow> bytes \<Rightarrow> pending \<Rightarrow> ClientFrame \<times> pending" where
  "adapt_client_frame sj public frame pending =
     (case parse_frame sj frame of
        None \<Rightarrow> (Forward frame, pending)
      | Some v \<Rightarrow>
          (case Option.bind (as_object v) (\<lambda>m. map_str m ''method'') of
             None \<Rightarrow> (Forward frame, pending)
           | Some meth \<Rightarrow>
               (case Option.bind (provider_path meth) (\<lambda>path. path_get path v) of
                  Some (String provider) \<Rightarrow>
                    if provider = public then
                      track_request sj pending v meth
                        (encode_frame sj (path_set (the (provider_path meth)) (String INTERNAL_PROVIDER) v))
                    else if provider \<noteq> [] then (reject_provider sj public v, pending)
                    else track_request sj pending v meth frame
                | _ \<Rightarrow> track_request sj pending v meth frame)))"

section \<open>Server frames\<close>

text \<open>
  The functions on a mutable value return the value after them and whether it was changed.
\<close>

type_synonym adapted = "(Value \<times> bool, bytes) result"

definition adapt_provider :: "bytes \<Rightarrow> Value \<Rightarrow> adapted" where
  "adapt_provider public provider =
     (case provider of
        Null \<Rightarrow> Ok (provider, False)
      | String v \<Rightarrow>
          if v = INTERNAL_PROVIDER then Ok (String public, True)
          else if v = public then Ok (provider, False)
          else Err ''stock Muse exposed an unsupported MSP provider''
      | _ \<Rightarrow> Err ''stock Muse exposed a malformed MSP provider field'')"

definition adapt_at :: "bytes list \<Rightarrow> bytes \<Rightarrow> Value \<Rightarrow> adapted" where
  "adapt_at path public v =
     (case path_get path v of
        None \<Rightarrow> Ok (v, False)
      | Some provider \<Rightarrow>
          and_then (adapt_provider public provider) (\<lambda>(provider', changed).
            Ok (if changed then path_set path provider' v else v, changed)))"

definition adapt_session :: "bytes list \<Rightarrow> bytes \<Rightarrow> Value \<Rightarrow> adapted" where
  "adapt_session session = adapt_at (session @ [''providerId''])"

definition adapt_history :: "bytes \<Rightarrow> Value \<Rightarrow> adapted" where
  "adapt_history = adapt_at [''history'', ''snapshot'', ''state'', ''effectiveModel'', ''providerId'']"

fun adapt_each :: "(Value \<Rightarrow> adapted) \<Rightarrow> Value list \<Rightarrow> (Value list \<times> bool, bytes) result" where
  "adapt_each f [] = Ok ([], False)"
| "adapt_each f (x # xs) =
     and_then (f x) (\<lambda>(x', c). and_then (adapt_each f xs) (\<lambda>(xs', c'). Ok (x' # xs', c \<or> c')))"

definition adapt_elements :: "bytes \<Rightarrow> (Value \<Rightarrow> adapted) \<Rightarrow> Value \<Rightarrow> adapted" where
  "adapt_elements key f v =
     (case value_get v key of
        Some (Array xs) \<Rightarrow> and_then (adapt_each f xs) (\<lambda>(xs', c). Ok (if c then path_set [key] (Array xs') v else v, c))
      | _ \<Rightarrow> Ok (v, False))"

definition adapt_both :: "(Value \<Rightarrow> adapted) \<Rightarrow> (Value \<Rightarrow> adapted) \<Rightarrow> Value \<Rightarrow> adapted" where
  "adapt_both f g v = and_then (f v) (\<lambda>(v', c). and_then (g v') (\<lambda>(v'', c'). Ok (v'', c \<or> c')))"

definition adapt_server_notification :: "bytes \<Rightarrow> bytes \<Rightarrow> Value \<Rightarrow> adapted" where
  "adapt_server_notification public meth v =
     (if meth \<in> {''session/started'', ''session/resumed'', ''session/forked''} then adapt_session [''params'', ''session''] public v
      else if meth = ''session/modelChanged'' then adapt_at [''params'', ''providerId''] public v
      else Ok (v, False))"

definition adapt_event :: "bytes \<Rightarrow> Value \<Rightarrow> adapted" where
  "adapt_event public event =
     (case Option.bind (as_object event) (\<lambda>m. map_str m ''method'') of
        Some meth \<Rightarrow> adapt_server_notification public meth event
      | None \<Rightarrow> Ok (event, False))"

definition adapt_server_result :: "bytes \<Rightarrow> bytes \<Rightarrow> Value \<Rightarrow> adapted" where
  "adapt_server_result public meth result =
     (if \<not> is_object result then Ok (result, False)
      else if meth \<in> {''session/start'', ''session/resume'', ''session/fork'', ''session/read''} then
        adapt_both (adapt_session [''session''] public) (adapt_history public) result
      else if meth = ''session/list'' then adapt_elements ''sessions'' (adapt_session [] public) result
      else if meth = ''model/list'' then
        adapt_both (adapt_at [''providerId''] public) (adapt_elements ''models'' (adapt_at [''providerId''] public)) result
      else if meth = ''view/page'' then adapt_elements ''events'' (adapt_event public) result
      else Ok (result, False))"

definition adapt_response :: "bytes \<Rightarrow> pending \<Rightarrow> bytes \<Rightarrow> Value \<Rightarrow> ((Value \<times> bool) \<times> pending, bytes) result" where
  "adapt_response public pending key v =
     (let has_result = value_get v ''result'' \<noteq> None; has_error = value_get v ''error'' \<noteq> None
      in if has_result = has_error then Err ''stock Muse emitted an invalid MSP response envelope''
         else case map_get pending key of
                Some meth \<Rightarrow>
                  (case value_get v ''result'' of
                     Some result \<Rightarrow>
                       and_then (adapt_server_result public meth result) (\<lambda>(result', changed).
                         Ok ((if changed then path_set [''result''] result' v else v, changed), map_remove key pending))
                   | None \<Rightarrow> Ok ((v, False), map_remove key pending))
              | None \<Rightarrow>
                  if has_result then Err ''stock Muse emitted a result with an unknown request id''
                  else Ok ((v, False), pending))"

definition adapt_server_value :: "serde_json \<Rightarrow> bytes \<Rightarrow> pending \<Rightarrow> Value \<Rightarrow> ((Value \<times> bool) \<times> pending, bytes) result" where
  "adapt_server_value sj public pending v =
     (case get_str v ''method'' of
        Some meth \<Rightarrow> and_then (adapt_server_notification public meth v) (\<lambda>r. Ok (r, pending))
      | None \<Rightarrow>
          (case Option.bind (value_get v ''id'') (rpc_id_key sj) of
             Some key \<Rightarrow> adapt_response public pending key v
           | None \<Rightarrow>
               if value_get v ''id'' \<noteq> None \<or> value_get v ''result'' \<noteq> None \<or> value_get v ''error'' \<noteq> None
               then Err ''stock Muse emitted an invalid MSP response envelope''
               else Ok ((v, False), pending)))"

definition adapt_server_frame :: "serde_json \<Rightarrow> bytes \<Rightarrow> bytes \<Rightarrow> pending \<Rightarrow> (bytes \<times> pending, bytes) result" where
  "adapt_server_frame sj public frame pending =
     and_then (ok_or (parse_frame sj frame) ''stock Muse emitted malformed MSP JSON'') (\<lambda>v.
       if \<not> is_object v then Err ''stock Muse emitted a non-object MSP frame''
       else and_then (adapt_server_value sj public pending v) (\<lambda>((v', changed), pending').
         Ok (if changed then encode_frame sj v' else frame, pending')))"

section \<open>The two threads\<close>

record relay =
  rl_pending :: pending
  rl_client_frame :: "ClientFrame option"
  rl_server_frame :: "bytes option"
  rl_to_child :: "bytes list"
  rl_to_client :: "bytes list"

definition relay_start :: relay where
  "relay_start = \<lparr>rl_pending = [], rl_client_frame = None, rl_server_frame = None, rl_to_child = [], rl_to_client = []\<rparr>"

definition deliver_client_frame :: "ClientFrame \<Rightarrow> relay \<Rightarrow> relay" where
  "deliver_client_frame outcome st =
     (case outcome of
        Forward f \<Rightarrow> st\<lparr>rl_client_frame := None, rl_to_child := rl_to_child st @ [f]\<rparr>
      | Reject f \<Rightarrow> st\<lparr>rl_client_frame := None, rl_to_client := rl_to_client st @ [f]\<rparr>
      | Drop \<Rightarrow> st\<lparr>rl_client_frame := None\<rparr>)"

text \<open>One step of either thread; a thread whose step fails stops and the child is terminated.\<close>

inductive relay_step :: "serde_json \<Rightarrow> bytes \<Rightarrow> relay \<Rightarrow> relay \<Rightarrow> bool" for sj public where
  client_read: "\<lbrakk>rl_client_frame st = None; adapt_client_frame sj public frame (rl_pending st) = (outcome, pending')\<rbrakk>
    \<Longrightarrow> relay_step sj public st (st\<lparr>rl_pending := pending', rl_client_frame := Some outcome\<rparr>)"
| client_write: "rl_client_frame st = Some outcome \<Longrightarrow> relay_step sj public st (deliver_client_frame outcome st)"
| server_read: "\<lbrakk>rl_server_frame st = None; adapt_server_frame sj public frame (rl_pending st) = Ok (out, pending')\<rbrakk>
    \<Longrightarrow> relay_step sj public st (st\<lparr>rl_pending := pending', rl_server_frame := Some out\<rparr>)"
| server_write: "rl_server_frame st = Some out \<Longrightarrow>
    relay_step sj public st (st\<lparr>rl_server_frame := None, rl_to_client := rl_to_client st @ [out]\<rparr>)"

inductive relay_reachable :: "serde_json \<Rightarrow> bytes \<Rightarrow> relay \<Rightarrow> bool" for sj public where
  start: "relay_reachable sj public relay_start"
| step: "\<lbrakk>relay_reachable sj public st; relay_step sj public st st'\<rbrakk> \<Longrightarrow> relay_reachable sj public st'"

inductive_cases relay_stepE: "relay_step sj public st st'"

end
