(* ===== verification/Msp_Props.thy ===== *)
theory Msp_Props
  imports Msp_Relay Json_Codec "HOL-Library.Sublist"
begin

text \<open>
  Properties of the MSP relay: framing is independent of how the bytes arrive, only the provider field
  is ever changed, no foreign provider crosses in either direction, and the pending table stays within
  its bound and consistent with what was forwarded, in every interleaving of the two threads.
\<close>

section \<open>Framing\<close>

lemma position_lf_None: "position_lf s = None \<longleftrightarrow> LF \<notin> set s"
  by (induction s) auto

lemma position_lf_Some: "position_lf s = Some i \<Longrightarrow> \<exists>a b. s = a @ LF # b \<and> LF \<notin> set a \<and> i = length a"
proof (induction s arbitrary: i)
  case (Cons c s)
  show ?case
  proof (cases "c = LF")
    case False
    with Cons obtain a b where "s = a @ LF # b" "LF \<notin> set a" "i = Suc (length a)"
      by fastforce
    with False show ?thesis
      by (intro exI [of _ "c # a"] exI [of _ b]) auto
  qed (use Cons in auto)
qed simp

lemma split_inclusive_line: "LF \<notin> set a \<Longrightarrow> split_inclusive_lf (a @ LF # b) = (a @ [LF]) # split_inclusive_lf b"
  by (induction a) auto

lemma split_inclusive_last: "LF \<notin> set a \<Longrightarrow> a \<noteq> [] \<Longrightarrow> split_inclusive_lf a = [a]"
proof (induction a)
  case (Cons c a)
  then show ?case
    by (cases a) auto
qed simp

lemma split_inclusive_first:
  assumes "s \<noteq> []"
  obtains f r where "s = f @ r" "split_inclusive_lf s = f # split_inclusive_lf r"
    "(LF \<notin> set f \<and> r = []) \<or> (\<exists>a. f = a @ [LF] \<and> LF \<notin> set a)"
proof (cases "position_lf s")
  case None
  then show ?thesis
    using that [of s "[]"] assms by (simp add: position_lf_None split_inclusive_last)
next
  case (Some i)
  then obtain a b where "s = a @ LF # b" "LF \<notin> set a"
    using position_lf_Some by blast
  then show ?thesis
    using that [of "a @ [LF]" b] by (simp add: split_inclusive_line)
qed

text \<open>A frame within the limit, which does not count its line feed.\<close>

definition fits :: "bytes \<Rightarrow> bool" where
  "fits f = (length f \<le> (if LF \<in> set f then MAX_FRAME_BYTES + 1 else MAX_FRAME_BYTES))"

lemma long_line:
  assumes "p @ q = f @ r" "LF \<notin> set p" "(LF \<notin> set f \<and> r = []) \<or> (\<exists>a. f = a @ [LF] \<and> LF \<notin> set a)" "length p > MAX_FRAME_BYTES"
  shows "\<not> fits f"
proof (cases "LF \<in> set f")
  case True
  then obtain a where a: "f = a @ [LF]"
    using assms(3) by auto
  have "\<not> length f \<le> length p"
  proof
    assume "length f \<le> length p"
    then have "\<exists>t. p = f @ t"
      using assms(1) by (auto simp: append_eq_append_conv2)
    then show False
      using True assms(2) by auto
  qed
  with True assms(4) show ?thesis
    by (simp add: fits_def)
next
  case False
  with assms(1,3) have "f = p @ q"
    by auto
  with False assms(4) show ?thesis
    by (simp add: fits_def)
qed

lemma read_frame_spec:
  assumes "list_all (\<lambda>b. b \<noteq> []) bufs" "LF \<notin> set out" "length out \<le> MAX_FRAME_BYTES" "out @ concat bufs \<noteq> []"
  shows "\<exists>f bufs'. split_inclusive_lf (out @ concat bufs) = f # split_inclusive_lf (concat bufs') \<and> list_all (\<lambda>b. b \<noteq> []) bufs' \<and>
    read_frame out (map Ok bufs) = (if fits f then Ok (Some f, map Ok bufs') else Err frame_limit_error)"
  using assms
proof (induction bufs arbitrary: out)
  case Nil
  then show ?case
    by (intro exI [of _ out] exI [of _ "[]"]) (auto simp: split_inclusive_last fits_def)
next
  case (Cons b bufs)
  show ?case
  proof (cases "position_lf b")
    case None
    show ?thesis
    proof (cases "length (out @ b) \<le> MAX_FRAME_BYTES")
      case True
      with Cons.prems None have "read_frame out (map Ok (b # bufs)) = read_frame (out @ b) (map Ok bufs)"
        by simp
      with Cons.IH [of "out @ b"] Cons.prems None True show ?thesis
        by (simp add: position_lf_None)
    next
      case False
      obtain f r where f: "out @ b @ concat bufs = f @ r" "split_inclusive_lf (out @ b @ concat bufs) = f # split_inclusive_lf r"
        "(LF \<notin> set f \<and> r = []) \<or> (\<exists>a. f = a @ [LF] \<and> LF \<notin> set a)"
        using split_inclusive_first [of "out @ b @ concat bufs"] Cons.prems by auto
      have "\<not> fits f"
        using long_line [of "out @ b" "concat bufs" f r] f False None Cons.prems by (auto simp: position_lf_None)
      then show ?thesis
        using f(2) False None Cons.prems
        by (intro exI [of _ f] exI [of _ "if r = [] then [] else [r]"]) simp
    qed
  next
    case (Some i)
    then obtain a r where b: "b = a @ LF # r" "LF \<notin> set a" "i = length a"
      using position_lf_Some by blast
    let ?bufs = "if r = [] then bufs else r # bufs"
    show ?thesis
      using Cons.prems b Some split_inclusive_line [of "out @ a" "r @ concat bufs"]
      by (intro exI [of _ "out @ a @ [LF]"] exI [of _ ?bufs]) (auto simp: fits_def)
  qed
qed

lemma read_frames_spec:
  assumes "list_all (\<lambda>b. b \<noteq> []) bufs"
  shows "read_frames (map Ok bufs) =
    (takeWhile fits (split_inclusive_lf (concat bufs)),
     if list_all fits (split_inclusive_lf (concat bufs)) then None else Some frame_limit_error)"
  using assms
proof (induction "length (split_inclusive_lf (concat bufs))" arbitrary: bufs rule: less_induct)
  case less
  show ?case
  proof (cases "concat bufs = []")
    case True
    then have "bufs = []"
      using less.prems by (cases bufs) auto
    then show ?thesis
      by (simp add: read_frames.simps)
  next
    case False
    then obtain f bufs' where f: "split_inclusive_lf (concat bufs) = f # split_inclusive_lf (concat bufs')"
        "list_all (\<lambda>b. b \<noteq> []) bufs'"
        "read_frame [] (map Ok bufs) = (if fits f then Ok (Some f, map Ok bufs') else Err frame_limit_error)"
      using read_frame_spec [of bufs "[]"] less.prems by auto
    show ?thesis
      using f less.hyps [of bufs'] by (subst read_frames.simps) (simp add: case_prod_beta)
  qed
qed

text \<open>C19: The relay reads the same frames however the bytes arrive: the frames of the input are its lines, each
  with its line feed, up to the first one over the size limit, which ends the relay with the limit error; no
  byte is lost, and no frame longer than the limit plus its line feed is ever held.\<close>

theorem msp_frames_exact:
  assumes "list_all (\<lambda>b. b \<noteq> []) bufs"
  shows "read_frames (map Ok bufs) =
      (takeWhile fits (split_inclusive_lf (concat bufs)),
       if list_all fits (split_inclusive_lf (concat bufs)) then None else Some frame_limit_error) \<and>
    concat (split_inclusive_lf (concat bufs)) = concat bufs \<and>
    (\<forall>f \<in> set (fst (read_frames (map Ok bufs))). length f \<le> MAX_FRAME_BYTES + 1)"
proof -
  have "concat (split_inclusive_lf s) = s" for s
    by (induction s) (auto split: list.splits)
  then show ?thesis
    using read_frames_spec [OF assms] by (auto simp: fits_def dest!: set_takeWhileD split: if_splits)
qed

theorem msp_frames_exact_witness:
  "read_frames (map Ok [''ab'', [CHR ''c'', LF, CHR ''d''], [LF], ''e'']) = ([''abc'' @ [LF], [CHR ''d'', LF], ''e''], None)"
proof -
  have "split_inclusive_lf (concat [''ab'', [CHR ''c'', LF, CHR ''d''], [LF], ''e'']) = [''abc'' @ [LF], [CHR ''d'', LF], ''e'']"
    by code_simp
  then show ?thesis
    using msp_frames_exact [of "[''ab'', [CHR ''c'', LF, CHR ''d''], [LF], ''e'']"] by (simp add: fits_def MAX_FRAME_BYTES_def)
qed

section \<open>Paths\<close>

lemma path_get_set: "path_get p v = Some u \<Longrightarrow> path_get p (path_set p w v) = Some w"
proof (induction p arbitrary: v)
  case (Cons k p)
  then show ?case
    by (cases v) (auto simp: value_get_def split: bind_splits)
qed simp

lemma value_get_path_set: "k' \<noteq> k \<Longrightarrow> value_get (path_set (k # ks) w v) k' = value_get v k'"
  by (cases v) (auto simp: value_get_def split: option.splits)

lemma is_object_path_set [simp]: "is_object (path_set (k # ks) w v) = is_object v"
  by (cases v) (auto simp: is_object_def split: option.splits)

text \<open>An assignment changes nothing off its path.\<close>

lemma path_set_frame:
  "\<not> prefix p q \<Longrightarrow> \<not> prefix q p \<Longrightarrow> path_get q (path_set p w v) = path_get q v"
proof (induction p arbitrary: q v)
  case (Cons k p)
  then obtain k' q' where q: "q = k' # q'"
    by (cases q) auto
  show ?case
  proof (cases "k' = k")
    case True
    with Cons.prems q have "\<not> prefix p q'" "\<not> prefix q' p"
      by auto
    with Cons.IH True q show ?thesis
      by (cases v) (auto simp: value_get_def split: option.splits)
  next
    case False
    then show ?thesis
      by (simp add: q value_get_path_set del: path_set.simps)
  qed
qed simp

section \<open>Client frames\<close>

text \<open>A frame says a value if it parses to it or was encoded from it.\<close>

definition says :: "serde_json \<Rightarrow> bytes \<Rightarrow> Value \<Rightarrow> bool" where
  "says sj f v = (parse_frame sj f = Some v \<or> f = encode_frame sj v)"

definition frame_provider :: "Value \<Rightarrow> Value option" where
  "frame_provider v = Option.bind (Option.bind (as_object v) (\<lambda>m. map_str m ''method'')) (\<lambda>meth.
     Option.bind (provider_path meth) (\<lambda>p. path_get p v))"

text \<open>What stock Muse may be told: no provider, an empty or malformed one, or the internal one.\<close>

definition child_safe :: "serde_json \<Rightarrow> bytes \<Rightarrow> bool" where
  "child_safe sj f =
     (parse_frame sj f = None \<or>
      (\<exists>v. says sj f v \<and> (\<forall>s. frame_provider v = Some (String s) \<longrightarrow> s = [] \<or> s = INTERNAL_PROVIDER)))"

definition request_of :: "serde_json \<Rightarrow> Value \<Rightarrow> bytes \<Rightarrow> bytes \<Rightarrow> bool" where
  "request_of sj v key meth =
     (get_str v ''method'' = Some meth \<and> Option.bind (value_get v ''id'') (rpc_id_key sj) = Some key)"

text \<open>The frames the relay itself answers with.\<close>

definition answer_frame :: "serde_json \<Rightarrow> bytes \<Rightarrow> bool" where
  "answer_frame sj f = (\<exists>v. f = encode_frame sj v \<and> get_str v ''method'' = None \<and> value_get v ''result'' = None)"

lemma rpc_error_answer: "answer_frame sj (encode_frame sj (rpc_error i c m d))"
  unfolding answer_frame_def
  by (intro exI [of _ "rpc_error i c m d"]) (simp add: rpc_error_def get_str_def json_object_def map_get_build)

lemma answers [simp]:
  "answer_frame sj (encode_frame sj (command_rejected i c p))"
  "answer_frame sj (encode_frame sj (invalid_params i m))"
  "answer_frame sj (encode_frame sj (msp_invalid_request i m))"
  "answer_frame sj (encode_frame sj (msp_overloaded i))"
  by (simp_all add: command_rejected_def invalid_params_def msp_invalid_request_def msp_overloaded_def rpc_error_answer)

lemma reject_provider_answer: "reject_provider sj public v = Drop \<or> (\<exists>g. reject_provider sj public v = Reject g \<and> answer_frame sj g)"
  by (auto simp: reject_provider_def split: option.splits)

text \<open>The possible outcomes of a client frame for the pending table.\<close>

definition client_outcome :: "serde_json \<Rightarrow> pending \<Rightarrow> ClientFrame \<times> pending \<Rightarrow> bool" where
  "client_outcome sj pending r = (case r of (outcome, pending') \<Rightarrow>
     (pending' = pending \<and> (case outcome of Forward f \<Rightarrow> child_safe sj f | Reject g \<Rightarrow> answer_frame sj g | Drop \<Rightarrow> True)) \<or>
     (\<exists>f v key meth. outcome = Forward f \<and> child_safe sj f \<and> says sj f v \<and> request_of sj v key meth \<and>
        map_get pending key = None \<and> length pending < MAX_PENDING_REQUESTS \<and> pending' = map_insert key meth pending))"

lemma track_outcome:
  assumes "child_safe sj f" "says sj f v'" "get_str v' ''method'' = Some meth" "value_get v' ''id'' = value_get v ''id''"
  shows "client_outcome sj pending (track_request sj pending v meth f)"
proof (cases "Option.bind (value_get v ''id'') (rpc_id_key sj)")
  case None
  with assms show ?thesis
    by (simp add: track_request_def client_outcome_def)
next
  case (Some key)
  with assms have "request_of sj v' key meth"
    by (simp add: request_of_def)
  with assms Some show ?thesis
    by (auto simp: track_request_def client_outcome_def Let_def)
qed

lemma provider_path_params: "provider_path meth = Some p \<Longrightarrow> \<exists>ks. p = ''params'' # ks"
  by (auto simp: provider_path_def split: if_splits)

lemma get_str_object: "Option.bind (as_object v) (\<lambda>m. map_str m k) = get_str v k"
  by (cases v) (simp_all add: get_str_def map_str_def value_get_def)

lemma client_frame_outcome: "client_outcome sj pending (adapt_client_frame sj public frame pending)"
proof (cases "parse_frame sj frame")
  case None
  then show ?thesis
    by (simp add: adapt_client_frame_def client_outcome_def child_safe_def)
next
  case (Some v)
  then have says: "says sj frame v"
    by (simp add: says_def)
  show ?thesis
  proof (cases "get_str v ''method''")
    case None
    then have "child_safe sj frame"
      using says by (auto simp: child_safe_def frame_provider_def get_str_object)
    with Some None show ?thesis
      by (simp add: adapt_client_frame_def get_str_object client_outcome_def)
  next
    case meth: (Some meth)
    let ?provider = "Option.bind (provider_path meth) (\<lambda>path. path_get path v)"
    have provider: "frame_provider v = ?provider"
      using meth by (simp add: frame_provider_def get_str_object)
    have keep: "client_outcome sj pending (track_request sj pending v meth frame)"
      if "\<And>s. ?provider = Some (String s) \<Longrightarrow> s = []"
      using that says meth provider by (intro track_outcome [of _ _ v]) (auto simp: child_safe_def)
    consider s where "?provider = Some (String s)" "s = public" | s where "?provider = Some (String s)" "s \<noteq> public" "s \<noteq> []"
      | "\<And>s. ?provider = Some (String s) \<Longrightarrow> s = [] \<and> s \<noteq> public"
      by blast
    then show ?thesis
    proof cases
      case (1 s)
      then obtain p where p: "provider_path meth = Some p" "path_get p v = Some (String public)"
        by (auto split: bind_splits)
      define v' where "v' = path_set p (String INTERNAL_PROVIDER) v"
      obtain ks where "p = ''params'' # ks"
        using provider_path_params [OF p(1)] by blast
      then have same: "get_str v' ''method'' = Some meth" "value_get v' ''id'' = value_get v ''id''"
        using meth by (simp_all add: v'_def get_str_def value_get_path_set del: path_set.simps)
      moreover have "frame_provider v' = Some (String INTERNAL_PROVIDER)"
        using same(1) p path_get_set [OF p(2)] by (simp add: frame_provider_def get_str_object v'_def)
      ultimately have "client_outcome sj pending (track_request sj pending v meth (encode_frame sj v'))"
        by (intro track_outcome [of _ _ v']) (auto simp: child_safe_def says_def)
      with Some meth 1 p show ?thesis
        by (simp add: adapt_client_frame_def get_str_object v'_def)
    next
      case (2 s)
      with Some meth reject_provider_answer [of sj public v] show ?thesis
        by (auto simp: adapt_client_frame_def get_str_object client_outcome_def)
    next
      case 3
      then have "client_outcome sj pending (track_request sj pending v meth frame)"
        using keep by blast
      with Some meth 3 show ?thesis
        by (auto simp: adapt_client_frame_def get_str_object split: option.splits Value.splits)
    qed
  qed
qed

section \<open>Server frames\<close>

text \<open>What the client may be shown in a provider field.\<close>

definition provider_ok :: "bytes \<Rightarrow> Value option \<Rightarrow> bool" where
  "provider_ok public x = (x = None \<or> x = Some Null \<or> x = Some (String public))"

abbreviation history_path :: "bytes list" where
  "history_path \<equiv> [''history'', ''snapshot'', ''state'', ''effectiveModel'', ''providerId'']"

definition elements :: "bytes \<Rightarrow> Value \<Rightarrow> Value list" where
  "elements key v = (case value_get v key of Some (Array xs) \<Rightarrow> xs | _ \<Rightarrow> [])"

definition notification_ok :: "bytes \<Rightarrow> Value \<Rightarrow> bool" where
  "notification_ok public v =
     ((get_str v ''method'' \<in> {Some ''session/started'', Some ''session/resumed'', Some ''session/forked''} \<longrightarrow>
         provider_ok public (path_get [''params'', ''session'', ''providerId''] v)) \<and>
      (get_str v ''method'' = Some ''session/modelChanged'' \<longrightarrow> provider_ok public (path_get [''params'', ''providerId''] v)))"

definition result_ok :: "bytes \<Rightarrow> bytes \<Rightarrow> Value \<Rightarrow> bool" where
  "result_ok public meth r =
     ((meth \<in> {''session/start'', ''session/resume'', ''session/fork'', ''session/read''} \<longrightarrow>
         provider_ok public (path_get [''session'', ''providerId''] r) \<and> provider_ok public (path_get history_path r)) \<and>
      (meth = ''session/list'' \<longrightarrow> (\<forall>x \<in> set (elements ''sessions'' r). provider_ok public (path_get [''providerId''] x))) \<and>
      (meth = ''model/list'' \<longrightarrow> provider_ok public (path_get [''providerId''] r) \<and>
         (\<forall>x \<in> set (elements ''models'' r). provider_ok public (path_get [''providerId''] x))) \<and>
      (meth = ''view/page'' \<longrightarrow> (\<forall>x \<in> set (elements ''events'' r). notification_ok public x)))"

lemma adapt_at_cases:
  assumes "adapt_at p public v = Ok (v', c)"
  obtains "v' = v" "\<not> c" "provider_ok public (path_get p v)"
    | "v' = path_set p (String public) v" "path_get p v = Some (String INTERNAL_PROVIDER)" "c" "provider_ok public (path_get p v')"
proof (cases "path_get p v")
  case None
  with assms that show thesis
    by (simp add: adapt_at_def provider_ok_def)
next
  case (Some u)
  with assms have r: "and_then (adapt_provider public u) (\<lambda>(u', c). Ok (if c then path_set p u' v else v, c)) = Ok (v', c)"
    by (simp add: adapt_at_def)
  show thesis
  proof (cases u)
    case Null
    with r Some that show thesis
      by (simp add: adapt_provider_def provider_ok_def)
  next
    case (String s)
    with r Some that path_get_set [OF Some, of "String public"] show thesis
      by (auto simp: adapt_provider_def provider_ok_def split: if_splits)
  qed (use r in \<open>auto simp: adapt_provider_def\<close>)
qed

lemma adapt_at_ok: "adapt_at p public v = Ok (v', c) \<Longrightarrow> provider_ok public (path_get p v')"
  by (erule adapt_at_cases) simp_all

lemma adapt_at_frame:
  "adapt_at p public v = Ok (v', c) \<Longrightarrow> \<not> prefix p q \<Longrightarrow> \<not> prefix q p \<Longrightarrow> path_get q v' = path_get q v"
  by (erule adapt_at_cases) (simp_all add: path_set_frame)

lemma adapt_each_ok:
  assumes "adapt_each f xs = Ok (ys, c)" and "\<And>x y c. f x = Ok (y, c) \<Longrightarrow> P y"
  shows "\<forall>y \<in> set ys. P y"
  using assms by (induction xs arbitrary: ys c) (auto simp: and_then_Ok)

definition exact_flag :: "(Value \<Rightarrow> adapted) \<Rightarrow> bool" where
  "exact_flag f = (\<forall>v v'. f v = Ok (v', False) \<longrightarrow> v' = v)"

lemma exact_flag_at: "exact_flag (adapt_at p public)"
  unfolding exact_flag_def by (auto elim: adapt_at_cases)

lemma adapt_each_unchanged: "exact_flag f \<Longrightarrow> adapt_each f xs = Ok (ys, False) \<Longrightarrow> ys = xs"
  by (induction xs arbitrary: ys) (auto simp: and_then_Ok exact_flag_def)

lemma exact_flag_elements: "exact_flag (adapt_elements key f)"
  by (auto simp: exact_flag_def adapt_elements_def and_then_Ok split: option.splits Value.splits)

lemma adapt_elements_ok:
  assumes "adapt_elements key f v = Ok (v', c)" and "\<And>x y c. f x = Ok (y, c) \<Longrightarrow> P y" and "exact_flag f"
  shows "\<forall>y \<in> set (elements key v'). P y"
proof (cases "\<exists>xs. value_get v key = Some (Array xs)")
  case True
  then obtain xs ys where ys: "adapt_each f xs = Ok (ys, c)" "v' = (if c then path_set [key] (Array ys) v else v)"
      "value_get v key = Some (Array xs)"
    using assms(1) by (auto simp: adapt_elements_def and_then_Ok)
  have "elements key v' = ys"
  proof (cases c)
    case True
    with ys show ?thesis
      by (cases v) (auto simp: elements_def value_get_def)
  next
    case False
    with ys adapt_each_unchanged [OF assms(3), of xs ys] show ?thesis
      by (simp add: elements_def)
  qed
  then show ?thesis
    using adapt_each_ok [of f xs ys c P] assms(2) ys(1) by simp
next
  case False
  with assms(1) have "v' = v"
    by (auto simp: adapt_elements_def split: option.splits Value.splits)
  with False show ?thesis
    by (auto simp: elements_def split: option.splits Value.splits) metis
qed

lemma adapt_elements_frame: "adapt_elements key f v = Ok (v', c) \<Longrightarrow> k \<noteq> key \<Longrightarrow> value_get v' k = value_get v k"
  by (auto simp: adapt_elements_def and_then_Ok value_get_path_set simp del: path_set.simps
      split: option.splits Value.splits if_splits)

lemma adapt_at_value: "adapt_at (k # ks) public v = Ok (v', c) \<Longrightarrow> k' \<noteq> k \<Longrightarrow> value_get v' k' = value_get v k'"
  by (erule adapt_at_cases) (simp_all add: value_get_path_set del: path_set.simps)

lemma adapt_notification_ok:
  assumes "adapt_server_notification public meth v = Ok (v', c)" "get_str v ''method'' = Some meth"
  shows "notification_ok public v' \<and> (\<forall>k. k \<noteq> ''params'' \<longrightarrow> value_get v' k = value_get v k)"
proof -
  have frame: "value_get v' k = value_get v k" if "k \<noteq> ''params''" for k
    using assms(1) that adapt_at_value [of "''params''"]
    by (auto simp: adapt_server_notification_def adapt_session_def split: if_splits)
  then have m: "get_str v' ''method'' = Some meth"
    using assms(2) by (simp add: get_str_def)
  have "provider_ok public (path_get [''params'', ''session'', ''providerId''] v')"
    if "meth \<in> {''session/started'', ''session/resumed'', ''session/forked''}"
    using assms(1) that adapt_at_ok [of "[''params'', ''session'', ''providerId'']" public v v' c]
    by (auto simp: adapt_server_notification_def adapt_session_def)
  moreover have "provider_ok public (path_get [''params'', ''providerId''] v')" if "meth = ''session/modelChanged''"
    using assms(1) that adapt_at_ok [of "[''params'', ''providerId'']" public v v' c]
    by (auto simp: adapt_server_notification_def)
  ultimately show ?thesis
    unfolding notification_ok_def m using frame by simp
qed

lemma adapt_event_ok: "adapt_event public v = Ok (v', c) \<Longrightarrow> notification_ok public v'"
  using adapt_notification_ok [of public _ v v' c]
  by (cases "get_str v ''method''") (auto simp: adapt_event_def get_str_object notification_ok_def)

lemma exact_flag_notification: "exact_flag (adapt_server_notification public meth)"
  using exact_flag_at by (simp add: exact_flag_def adapt_server_notification_def adapt_session_def)

lemma exact_flag_event: "exact_flag (adapt_event public)"
  using exact_flag_notification by (auto simp: exact_flag_def adapt_event_def split: option.splits)

lemma adapt_both_Ok:
  "adapt_both f g v = Ok (v', c) \<longleftrightarrow> (\<exists>w c1 c2. f v = Ok (w, c1) \<and> g w = Ok (v', c2) \<and> c = (c1 \<or> c2))"
  by (auto simp: adapt_both_def and_then_Ok)

lemma exact_flag_both: "exact_flag f \<Longrightarrow> exact_flag g \<Longrightarrow> exact_flag (adapt_both f g)"
  by (auto simp: exact_flag_def adapt_both_Ok) metis

lemma exact_flag_result: "exact_flag (adapt_server_result public meth)"
proof -
  have "exact_flag (adapt_both (adapt_session [''session''] public) (adapt_history public))"
    "exact_flag (adapt_both (adapt_at [''providerId''] public) (adapt_elements ''models'' (adapt_at [''providerId''] public)))"
    unfolding adapt_session_def adapt_history_def by (intro exact_flag_both exact_flag_at exact_flag_elements)+
  then show ?thesis
    using exact_flag_elements unfolding exact_flag_def adapt_server_result_def by simp
qed

lemma path_non_object: "\<not> is_object v \<Longrightarrow> path_get (k # ks) v = None"
  by (cases v) (simp_all add: is_object_def value_get_def)

lemma elements_non_object: "\<not> is_object v \<Longrightarrow> elements k v = []"
  by (cases v) (simp_all add: is_object_def value_get_def elements_def)

lemma result_ok_other:
  "\<not> is_object r \<or> meth \<notin> {''session/start'', ''session/resume'', ''session/fork'', ''session/read'', ''session/list'', ''model/list'', ''view/page''}
   \<Longrightarrow> result_ok public meth r"
  by (auto simp: result_ok_def path_non_object elements_non_object provider_ok_def simp del: path_get.simps)

lemma adapt_result_ok:
  assumes "adapt_server_result public meth r = Ok (r', c)"
  shows "result_ok public meth r'"
proof -
  consider "\<not> is_object r \<or> meth \<notin> {''session/start'', ''session/resume'', ''session/fork'', ''session/read'', ''session/list'', ''model/list'', ''view/page''}"
    | "is_object r" "meth \<in> {''session/start'', ''session/resume'', ''session/fork'', ''session/read''}"
    | "is_object r" "meth = ''session/list''" | "is_object r" "meth = ''model/list''" | "is_object r" "meth = ''view/page''"
    unfolding insert_iff empty_iff by argo
  then show ?thesis
  proof cases
    case 1
    with assms have "r' = r"
      unfolding adapt_server_result_def by (cases "is_object r") simp_all
    with result_ok_other [OF 1] show ?thesis
      by simp
  next
    case 2
    with assms obtain w c1 c2 where "adapt_at [''session'', ''providerId''] public r = Ok (w, c1)" "adapt_at history_path public w = Ok (r', c2)"
      by (auto simp: adapt_server_result_def adapt_both_Ok adapt_session_def adapt_history_def)
    moreover from this have "path_get [''session'', ''providerId''] r' = path_get [''session'', ''providerId''] w"
      by (intro adapt_at_frame) auto
    ultimately have "provider_ok public (path_get [''session'', ''providerId''] r')" "provider_ok public (path_get history_path r')"
      using adapt_at_ok by metis+
    with 2 show ?thesis
      unfolding result_ok_def by auto
  next
    case 3
    with assms have "adapt_elements ''sessions'' (adapt_at [''providerId''] public) r = Ok (r', c)"
      by (simp add: adapt_server_result_def adapt_session_def)
    then have "\<forall>x \<in> set (elements ''sessions'' r'). provider_ok public (path_get [''providerId''] x)"
      by (rule adapt_elements_ok) (erule adapt_at_ok, rule exact_flag_at)
    with 3 show ?thesis
      by (simp add: result_ok_def del: path_get.simps)
  next
    case 4
    with assms obtain w c1 c2 where w: "adapt_at [''providerId''] public r = Ok (w, c1)"
        "adapt_elements ''models'' (adapt_at [''providerId''] public) w = Ok (r', c2)"
      by (auto simp: adapt_server_result_def adapt_both_Ok)
    have "path_get [''providerId''] r' = path_get [''providerId''] w"
      using adapt_elements_frame [OF w(2)] by simp
    moreover have "\<forall>x \<in> set (elements ''models'' r'). provider_ok public (path_get [''providerId''] x)"
      using w(2) by (rule adapt_elements_ok) (erule adapt_at_ok, rule exact_flag_at)
    ultimately show ?thesis
      using 4 adapt_at_ok [OF w(1)] by (simp add: result_ok_def del: path_get.simps)
  next
    case 5
    with assms have "adapt_elements ''events'' (adapt_event public) r = Ok (r', c)"
      by (simp add: adapt_server_result_def)
    then have "\<forall>x \<in> set (elements ''events'' r'). notification_ok public x"
      by (rule adapt_elements_ok) (erule adapt_event_ok, rule exact_flag_event)
    with 5 show ?thesis
      by (simp add: result_ok_def)
  qed
qed

section \<open>Reachable states\<close>

definition sent :: "relay \<Rightarrow> bytes list" where
  "sent st = rl_to_child st @ (case rl_client_frame st of Some (Forward f) \<Rightarrow> [f] | _ \<Rightarrow> [])"

definition shown :: "relay \<Rightarrow> bytes list" where
  "shown st = rl_to_client st @ (case rl_server_frame st of Some f \<Rightarrow> [f] | None \<Rightarrow> []) @
     (case rl_client_frame st of Some (Reject f) \<Rightarrow> [f] | _ \<Rightarrow> [])"

definition sent_request :: "serde_json \<Rightarrow> bytes set \<Rightarrow> bytes \<Rightarrow> bytes \<Rightarrow> bool" where
  "sent_request sj frames key meth = (\<exists>f \<in> frames. \<exists>v. says sj f v \<and> request_of sj v key meth)"

text \<open>
  What the client may be shown: no provider but the public one in a notification, and a result only for
  a request that went to stock Muse, adapted by that request's method.
\<close>

definition client_safe :: "serde_json \<Rightarrow> bytes \<Rightarrow> bytes set \<Rightarrow> bytes \<Rightarrow> bool" where
  "client_safe sj public frames g =
     (\<exists>v. says sj g v \<and> notification_ok public v \<and>
        (\<forall>r. get_str v ''method'' = None \<and> value_get v ''result'' = Some r \<longrightarrow>
           (\<exists>key meth. Option.bind (value_get v ''id'') (rpc_id_key sj) = Some key \<and> sent_request sj frames key meth \<and>
              result_ok public meth r)))"

definition tracked :: "serde_json \<Rightarrow> bytes set \<Rightarrow> pending \<Rightarrow> bool" where
  "tracked sj frames pending = (\<forall>key meth. map_get pending key = Some meth \<longrightarrow> sent_request sj frames key meth)"

lemma notification_ok_None: "get_str v ''method'' = None \<Longrightarrow> notification_ok public v"
  by (simp add: notification_ok_def)

lemma answer_client_safe: "answer_frame sj g \<Longrightarrow> client_safe sj public frames g"
  by (auto simp: answer_frame_def client_safe_def says_def notification_ok_None)

lemma sent_request_mono: "sent_request sj A k m \<Longrightarrow> A \<subseteq> B \<Longrightarrow> sent_request sj B k m"
  by (auto simp: sent_request_def)

lemma client_safe_mono: "client_safe sj public A g \<Longrightarrow> A \<subseteq> B \<Longrightarrow> client_safe sj public B g"
  unfolding client_safe_def by (meson sent_request_mono)

lemma tracked_mono: "tracked sj A pending \<Longrightarrow> A \<subseteq> B \<Longrightarrow> tracked sj B pending"
  unfolding tracked_def using sent_request_mono by blast

lemma response_safe:
  assumes "adapt_response public pending key v = Ok ((v', c), pending')" "tracked sj frames pending"
    and "get_str v ''method'' = None" "Option.bind (value_get v ''id'') (rpc_id_key sj) = Some key" "says sj g v'"
  shows "client_safe sj public frames g \<and> (pending' = pending \<or> pending' = map_remove key pending)"
proof -
  consider "value_get v ''result'' = None" "v' = v" "pending' = pending \<or> pending' = map_remove key pending"
    | meth r r' where "value_get v ''result'' = Some r" "map_get pending key = Some meth"
        "v' = (if c then path_set [''result''] r' v else v)" "adapt_server_result public meth r = Ok (r', c)" "pending' = map_remove key pending"
    using assms(1)
    by (auto simp: adapt_response_def Let_def and_then_Ok simp del: path_set.simps split: if_splits option.splits) metis
  then show ?thesis
  proof cases
    case 1
    with assms show ?thesis
      by (auto simp: client_safe_def notification_ok_None)
  next
    case (2 meth r r')
    have "value_get v' ''result'' = Some r'"
    proof (cases c)
      case True
      with 2(1,3) path_get_set [of "[''result'']" v r r'] show ?thesis
        by (simp del: path_set.simps split: bind_splits)
    next
      case False
      with 2 have "r' = r"
        using exact_flag_result [of public meth] unfolding exact_flag_def by simp
      with 2(1,3) False show ?thesis
        by simp
    qed
    moreover have "value_get v' ''id'' = value_get v ''id''" "get_str v' ''method'' = None"
      using 2(3) assms(3) by (simp_all add: get_str_def value_get_path_set del: path_set.simps)
    ultimately show ?thesis
      using 2(2,5) adapt_result_ok [OF 2(4)] assms(2,4,5) unfolding client_safe_def tracked_def
      by (metis notification_ok_None option.inject)
  qed
qed

lemma server_value_unchanged:
  assumes "adapt_server_value sj public pending v = Ok ((v', False), pending')"
  shows "v' = v"
  using assms exact_flag_notification exact_flag_result
  by (auto simp: adapt_server_value_def adapt_response_def Let_def exact_flag_def and_then_Ok split: option.splits if_splits)

lemma server_value_safe:
  assumes "adapt_server_value sj public pending v = Ok ((v', c), pending')" "tracked sj frames pending" "says sj g v'"
  shows "client_safe sj public frames g \<and> (pending' = pending \<or> (\<exists>key. pending' = map_remove key pending))"
proof (cases "get_str v ''method''")
  case (Some meth)
  with assms(1) have v': "adapt_server_notification public meth v = Ok (v', c)" "pending' = pending"
    by (auto simp: adapt_server_value_def and_then_Ok)
  with adapt_notification_ok [OF v'(1) Some] assms(3) Some show ?thesis
    unfolding client_safe_def get_str_def by (intro conjI exI [of _ v'] disjI1) auto
next
  case None
  show ?thesis
  proof (cases "Option.bind (value_get v ''id'') (rpc_id_key sj)")
    case (Some key)
    with None assms(1) have "adapt_response public pending key v = Ok ((v', c), pending')"
      by (simp add: adapt_server_value_def)
    with response_safe [OF _ assms(2) None Some assms(3)] show ?thesis
      by blast
  next
    case no_id: None
    with None assms(1) have "v' = v" "pending' = pending" "value_get v ''result'' = None"
      by (auto simp: adapt_server_value_def split: if_splits)
    with None assms(3) show ?thesis
      by (auto simp: client_safe_def notification_ok_None)
  qed
qed

lemma server_frame_safe:
  assumes "adapt_server_frame sj public frame pending = Ok (out, pending')" "tracked sj frames pending"
  shows "client_safe sj public frames out \<and> (pending' = pending \<or> (\<exists>key. pending' = map_remove key pending))"
proof -
  obtain v v' c where v: "parse_frame sj frame = Some v" "adapt_server_value sj public pending v = Ok ((v', c), pending')"
      "out = (if c then encode_frame sj v' else frame)"
    using assms(1) by (auto simp: adapt_server_frame_def and_then_Ok split: if_splits)
  then have "says sj out v'"
    using server_value_unchanged [of sj public pending v v' pending'] by (cases c) (auto simp: says_def)
  with server_value_safe [OF v(2) assms(2)] show ?thesis
    by blast
qed

definition relay_ok :: "serde_json \<Rightarrow> bytes \<Rightarrow> relay \<Rightarrow> bool" where
  "relay_ok sj public st =
     (map_ok (rl_pending st) \<and> length (rl_pending st) \<le> MAX_PENDING_REQUESTS \<and>
      tracked sj (set (sent st)) (rl_pending st) \<and>
      (\<forall>f \<in> set (sent st). child_safe sj f) \<and>
      (\<forall>g \<in> set (shown st). client_safe sj public (set (sent st)) g))"

lemma relay_okI:
  assumes "relay_ok sj public st" "set (sent st) \<subseteq> set (sent st')" "set (shown st') \<subseteq> set (shown st) \<union> new"
    and "map_ok (rl_pending st')" "length (rl_pending st') \<le> MAX_PENDING_REQUESTS" "tracked sj (set (sent st')) (rl_pending st')"
    and "\<And>f. f \<in> set (sent st') \<Longrightarrow> f \<notin> set (sent st) \<Longrightarrow> child_safe sj f"
    and "\<And>g. g \<in> new \<Longrightarrow> client_safe sj public (set (sent st')) g"
  shows "relay_ok sj public st'"
  using assms client_safe_mono [OF _ assms(2)] unfolding relay_ok_def by blast

lemma length_map_insert: "length (map_insert k v m) \<le> Suc (length m)"
  by (induction k v m rule: map_insert.induct) auto

lemma client_read_ok:
  assumes "relay_ok sj public st" "rl_client_frame st = None" "client_outcome sj (rl_pending st) (outcome, pending')"
  shows "relay_ok sj public (st\<lparr>rl_pending := pending', rl_client_frame := Some outcome\<rparr>)" (is "relay_ok _ _ ?st")
proof -
  have sent: "set (sent ?st) = set (sent st) \<union> (case outcome of Forward f \<Rightarrow> {f} | _ \<Rightarrow> {})"
    and shown: "set (shown ?st) = set (shown st) \<union> (case outcome of Reject f \<Rightarrow> {f} | _ \<Rightarrow> {})"
    using assms(2) by (auto simp: sent_def shown_def split: ClientFrame.splits)
  have sub: "set (sent st) \<subseteq> set (sent ?st)"
    using sent by auto
  note ok = assms(1) [unfolded relay_ok_def]
  consider (same) "pending' = rl_pending st" "case outcome of Forward f \<Rightarrow> child_safe sj f | Reject g \<Rightarrow> answer_frame sj g | Drop \<Rightarrow> True"
    | (new) f v key meth where "outcome = Forward f" "child_safe sj f" "says sj f v" "request_of sj v key meth"
        "length (rl_pending st) < MAX_PENDING_REQUESTS" "pending' = map_insert key meth (rl_pending st)"
    using assms(3) by (auto simp: client_outcome_def)
  then show ?thesis
  proof cases
    case same
    show ?thesis
      by (rule relay_okI [OF assms(1) sub, where new = "case outcome of Reject f \<Rightarrow> {f} | _ \<Rightarrow> {}"])
        (use same ok sent shown tracked_mono [OF _ sub] in \<open>auto intro: answer_client_safe split: ClientFrame.splits\<close>)
  next
    case new
    have "sent_request sj (set (sent ?st)) key meth"
      using new sent by (auto simp: sent_request_def)
    then have "tracked sj (set (sent ?st)) pending'"
      using new(6) ok tracked_mono [OF _ sub] by (auto simp: tracked_def)
    moreover have "map_ok pending'" "length pending' \<le> MAX_PENDING_REQUESTS"
      using new(5,6) ok map_ok_insert length_map_insert [of key meth "rl_pending st"] by auto
    ultimately show ?thesis
      by (intro relay_okI [OF assms(1) sub, where new = "{}"]) (use new sent shown in auto)
  qed
qed

lemma client_write_ok:
  assumes "relay_ok sj public st" "rl_client_frame st = Some outcome"
  shows "relay_ok sj public (deliver_client_frame outcome st)"
proof -
  have "set (sent (deliver_client_frame outcome st)) = set (sent st)" "set (shown (deliver_client_frame outcome st)) \<subseteq> set (shown st)"
    "rl_pending (deliver_client_frame outcome st) = rl_pending st"
    using assms(2) by (auto simp: sent_def shown_def deliver_client_frame_def split: ClientFrame.splits)
  then show ?thesis
    using assms(1) by (auto simp: relay_ok_def)
qed

lemma map_remove_length: "length (map_remove k m) \<le> length m"
  by (simp add: map_remove_def)

lemma server_read_ok:
  assumes "relay_ok sj public st" "rl_server_frame st = None" "adapt_server_frame sj public frame (rl_pending st) = Ok (out, pending')"
  shows "relay_ok sj public (st\<lparr>rl_pending := pending', rl_server_frame := Some out\<rparr>)" (is "relay_ok _ _ ?st")
proof -
  note ok = assms(1) [unfolded relay_ok_def]
  have sent: "sent ?st = sent st" and shown: "set (shown ?st) = set (shown st) \<union> {out}"
    using assms(2) by (auto simp: sent_def shown_def)
  have out: "client_safe sj public (set (sent st)) out" and p: "pending' = rl_pending st \<or> (\<exists>key. pending' = map_remove key (rl_pending st))"
    using server_frame_safe [OF assms(3)] ok by blast+
  have "map_ok pending'" "length pending' \<le> MAX_PENDING_REQUESTS" "tracked sj (set (sent st)) pending'"
    using p ok map_ok_remove le_trans [OF map_remove_length] by (auto simp: tracked_def split: if_splits)
  then show ?thesis
    by (intro relay_okI [OF assms(1), where new = "{out}"]) (use sent shown out in auto)
qed

lemma server_write_ok:
  assumes "relay_ok sj public st" "rl_server_frame st = Some out"
  shows "relay_ok sj public (st\<lparr>rl_server_frame := None, rl_to_client := rl_to_client st @ [out]\<rparr>)" (is "relay_ok _ _ ?st")
proof -
  have "sent ?st = sent st" "set (shown ?st) = set (shown st)"
    using assms(2) by (auto simp: sent_def shown_def)
  then show ?thesis
    using assms(1) by (auto simp: relay_ok_def)
qed

lemma relay_start_ok: "relay_ok sj public relay_start"
  by (simp add: relay_ok_def relay_start_def sent_def shown_def tracked_def)

lemma relay_step_ok:
  assumes "relay_step sj public st st'" "relay_ok sj public st"
  shows "relay_ok sj public st'"
  using assms
proof (cases rule: relay_step.cases)
  case (client_read frame outcome pending')
  with client_frame_outcome [of sj "rl_pending st" public frame] assms(2) client_read_ok show ?thesis
    by simp
qed (use assms(2) client_write_ok server_read_ok server_write_ok in auto)

lemma relay_reachable_ok: "relay_reachable sj public st \<Longrightarrow> relay_ok sj public st"
  by (induction rule: relay_reachable.induct) (auto intro: relay_start_ok relay_step_ok)

section \<open>Properties\<close>

lemma parse_encode: "serde_json_spec sj \<Longrightarrow> json_exact v \<Longrightarrow> parse_frame sj (encode_frame sj v) = Some v"
proof -
  assume sj: "serde_json_spec sj" and v: "json_exact v"
  have lf: "strip_suffix [LF] (encode_frame sj v) = Some (to_string sj v)"
    by (simp add: encode_frame_def)
  have cr: "strip_suffix [CR] (to_string sj v) = None"
    using serde_line(3) [OF sj json_exact_wf [OF v]] by (cases "strip_suffix [CR] (to_string sj v)") auto
  show ?thesis
    by (simp only: parse_frame_def Let_def lf cr unwrap_or.simps serde_roundtrip [OF sj v])
qed

text \<open>A client starts a session with the public provider; the frame reaches stock Muse with the internal one.\<close>

definition start_session :: "bytes \<Rightarrow> Value" where
  "start_session provider = Object [(''id'', Number (PosInt 1)), (''method'', String ''session/start''),
     (''params'', Object [(''providerId'', String provider)])]"

definition started_relay :: relay where
  "started_relay = relay_start\<lparr>rl_pending := [(to_string json_codec (Number (PosInt 1)), ''session/start'')],
     rl_to_child := [encode_frame json_codec (start_session ''meta'')]\<rparr>"

lemma started_reachable: "relay_reachable json_codec ''codex'' started_relay"
proof -
  have exact: "json_exact (start_session ''codex'')"
    by (simp add: json_exact_def start_session_def map_ok_def utf8_valid_ascii is_ascii_def byte_def numeral_eq_Suc)
  have set: "path_set [''params'', ''providerId''] (String ''meta'') (start_session ''codex'') = start_session ''meta''"
    by (simp add: start_session_def)
  have "adapt_client_frame json_codec ''codex'' (encode_frame json_codec (start_session ''codex'')) [] =
      (Forward (encode_frame json_codec (start_session ''meta'')), [(to_string json_codec (Number (PosInt 1)), ''session/start'')])"
    using set unfolding adapt_client_frame_def parse_encode [OF json_codec_spec exact]
    by (simp add: start_session_def map_str_def provider_path_def value_get_def track_request_def INTERNAL_PROVIDER_def
        MAX_PENDING_REQUESTS_def)
  then have "relay_step json_codec ''codex'' relay_start (relay_start\<lparr>rl_pending := [(to_string json_codec (Number (PosInt 1)), ''session/start'')],
      rl_client_frame := Some (Forward (encode_frame json_codec (start_session ''meta'')))\<rparr>)"
    by (intro client_read) (simp_all add: relay_start_def)
  then have "relay_reachable json_codec ''codex'' (relay_start\<lparr>rl_pending := [(to_string json_codec (Number (PosInt 1)), ''session/start'')],
      rl_client_frame := Some (Forward (encode_frame json_codec (start_session ''meta'')))\<rparr>)"
    using relay_reachable.start relay_reachable.step by blast
  from relay_reachable.step [OF this client_write] show ?thesis
    by (simp add: deliver_client_frame_def started_relay_def relay_start_def)
qed

text \<open>C20: In every interleaving of the two relay threads, no foreign provider crosses the relay: every frame
  written to stock Muse names no provider, an empty one or the internal one where the protocol has a provider
  field, and every frame written to the client names only the public provider in its provider fields; a result
  reaches the client only for a request that went to stock Muse, with the fields of that request's method
  adapted.\<close>

theorem msp_providers_confined:
  assumes "relay_reachable sj public st"
  shows "(\<forall>f \<in> set (rl_to_child st). child_safe sj f) \<and>
    (\<forall>g \<in> set (rl_to_client st). client_safe sj public (set (sent st)) g)"
  using relay_reachable_ok [OF assms] by (auto simp: relay_ok_def sent_def shown_def)

theorem msp_providers_confined_witness:
  "rl_to_child started_relay = [encode_frame json_codec (start_session ''meta'')] \<and>
   child_safe json_codec (encode_frame json_codec (start_session ''meta''))"
  using msp_providers_confined [OF started_reachable] by (simp add: started_relay_def)

text \<open>C15: In every interleaving of the two relay threads, the pending table holds each request id once, never
  more than its capacity, and only requests that have been handed to stock Muse or are about to be.\<close>

theorem msp_pending_bounded:
  assumes "relay_reachable sj public st"
  shows "distinct (map fst (rl_pending st)) \<and> length (rl_pending st) \<le> MAX_PENDING_REQUESTS \<and>
    (\<forall>key meth. map_get (rl_pending st) key = Some meth \<longrightarrow> sent_request sj (set (sent st)) key meth)"
  using relay_reachable_ok [OF assms] by (auto simp: relay_ok_def tracked_def map_ok_def strict_sorted_iff)

theorem msp_pending_bounded_witness:
  "length (rl_pending started_relay) \<le> MAX_PENDING_REQUESTS \<and>
   sent_request json_codec {encode_frame json_codec (start_session ''meta'')} (to_string json_codec (Number (PosInt 1))) ''session/start''"
  using msp_pending_bounded [OF started_reachable] by (simp add: started_relay_def sent_def relay_start_def)

end
