(* ===== verification/Msp_Threads.thy ===== *)
theory Msp_Threads
  imports Msp_Props
begin

text \<open>
  The relay's two threads from start to join (\<open>MspRelay\<close> in \<open>muse-codex/src/msp.rs\<close>): the loops of
  \<open>relay_client_input\<close> and \<open>relay_server_output\<close> with every error that ends them, the termination of the child by
  a thread that failed, and \<open>finish\<close>. A run is a schedule: which thread does its next action, and what the
  operating system answers. The step relation of \<open>Msp_Relay\<close> is what the threads refine.
\<close>

section \<open>Threads\<close>

datatype thread_end = Returned "(unit, bytes) result" | Panicked

record MspRelay =
  mr_relay :: relay
  mr_input :: "thread_end option"
  mr_output :: "thread_end option"
  mr_terminated :: bool

text \<open>
  The actions of a thread: it reads a frame, or writes what it made of it, or its loop ends, with the outcome
  of the read (or of the last flush) that ended it.
\<close>

datatype thread_event =
    ClientRead bytes | ClientWrite "(unit, bytes) result" | ClientEnd thread_end
  | ServerRead bytes | ServerWrite "(unit, bytes) result" | ServerEnd thread_end

fun thread_failed :: "thread_end \<Rightarrow> bool" where
  "thread_failed (Returned (Err e)) = True"
| "thread_failed _ = False"

text \<open>The end of a thread: a failed one sends the child a termination signal.\<close>

definition input_ended :: "thread_end \<Rightarrow> MspRelay \<Rightarrow> MspRelay" where
  "input_ended r st = st\<lparr>mr_input := Some r, mr_terminated := mr_terminated st \<or> thread_failed r\<rparr>"

definition output_ended :: "thread_end \<Rightarrow> MspRelay \<Rightarrow> MspRelay" where
  "output_ended r st = st\<lparr>mr_output := Some r, mr_terminated := mr_terminated st \<or> thread_failed r\<rparr>"

fun client_action :: "serde_json \<Rightarrow> bytes \<Rightarrow> thread_event \<Rightarrow> MspRelay \<Rightarrow> MspRelay option" where
  "client_action sj public (ClientRead frame) st =
     (if rl_client_frame (mr_relay st) \<noteq> None then None
      else case adapt_client_frame sj public frame (rl_pending (mr_relay st)) of
        (outcome, pending') \<Rightarrow> Some (st\<lparr>mr_relay := (mr_relay st)\<lparr>rl_pending := pending', rl_client_frame := Some outcome\<rparr>\<rparr>))"
| "client_action sj public (ClientWrite r) st =
     (case rl_client_frame (mr_relay st) of
        None \<Rightarrow> None
      | Some outcome \<Rightarrow>
          if outcome = Drop then Some (st\<lparr>mr_relay := deliver_client_frame outcome (mr_relay st)\<rparr>)
          else (case r of
                  Ok _ \<Rightarrow> Some (st\<lparr>mr_relay := deliver_client_frame outcome (mr_relay st)\<rparr>)
                | Err e \<Rightarrow> Some (input_ended (Returned (Err e)) st)))"
| "client_action sj public (ClientEnd r) st =
     (if rl_client_frame (mr_relay st) \<noteq> None then None else Some (input_ended r st))"
| "client_action sj public _ st = None"

fun server_action :: "serde_json \<Rightarrow> bytes \<Rightarrow> thread_event \<Rightarrow> MspRelay \<Rightarrow> MspRelay option" where
  "server_action sj public (ServerRead frame) st =
     (if rl_server_frame (mr_relay st) \<noteq> None then None
      else case adapt_server_frame sj public frame (rl_pending (mr_relay st)) of
        Err e \<Rightarrow> Some (output_ended (Returned (Err e)) st)
      | Ok (out, pending') \<Rightarrow> Some (st\<lparr>mr_relay := (mr_relay st)\<lparr>rl_pending := pending', rl_server_frame := Some out\<rparr>\<rparr>))"
| "server_action sj public (ServerWrite r) st =
     (case rl_server_frame (mr_relay st) of
        None \<Rightarrow> None
      | Some out \<Rightarrow>
          (case r of
             Ok _ \<Rightarrow> Some (st\<lparr>mr_relay := (mr_relay st)\<lparr>rl_server_frame := None, rl_to_client := rl_to_client (mr_relay st) @ [out]\<rparr>\<rparr>)
           | Err e \<Rightarrow> Some (output_ended (Returned (Err e)) st)))"
| "server_action sj public (ServerEnd r) st =
     (if rl_server_frame (mr_relay st) \<noteq> None then None else Some (output_ended r st))"
| "server_action sj public _ st = None"

text \<open>A thread that has ended does nothing more.\<close>

definition thread_action :: "serde_json \<Rightarrow> bytes \<Rightarrow> thread_event \<Rightarrow> MspRelay \<Rightarrow> MspRelay option" where
  "thread_action sj public ev st =
     (case ev of
        ClientRead _ \<Rightarrow> if mr_input st = None then client_action sj public ev st else None
      | ClientWrite _ \<Rightarrow> if mr_input st = None then client_action sj public ev st else None
      | ClientEnd _ \<Rightarrow> if mr_input st = None then client_action sj public ev st else None
      | _ \<Rightarrow> if mr_output st = None then server_action sj public ev st else None)"

definition relay_threads_start :: MspRelay where
  "relay_threads_start = \<lparr>mr_relay = relay_start, mr_input = None, mr_output = None, mr_terminated = False\<rparr>"

fun run_threads :: "serde_json \<Rightarrow> bytes \<Rightarrow> thread_event list \<Rightarrow> MspRelay \<Rightarrow> MspRelay option" where
  "run_threads sj public [] st = Some st"
| "run_threads sj public (ev # evs) st = Option.bind (thread_action sj public ev st) (run_threads sj public evs)"

fun join_relay :: "thread_end \<Rightarrow> bytes \<Rightarrow> ((unit, bytes) result, bytes) result" where
  "join_relay (Returned r) name = Ok r"
| "join_relay Panicked name = Err (name @ '' thread panicked'')"

text \<open>\<open>finish\<close> waits for the output thread, and reads the result of the input thread only when it has ended.\<close>

definition relay_finish :: "MspRelay \<Rightarrow> (unit, bytes) result option" where
  "relay_finish st =
     map_option (\<lambda>out.
       and_then (join_relay out ''stock Muse MSP output relay'') (\<lambda>output_result.
       and_then (case mr_input st of
                   Some i \<Rightarrow> and_then (join_relay i ''Muse Codex MSP input relay'') (\<lambda>r. Ok (Some r))
                 | None \<Rightarrow> Ok None) (\<lambda>input_result.
       and_then output_result (\<lambda>_. case input_result of Some r \<Rightarrow> r | None \<Rightarrow> Ok ()))))
       (mr_output st)"

section \<open>Refinement\<close>

definition signalled_rightly :: "MspRelay \<Rightarrow> bool" where
  "signalled_rightly st \<longleftrightarrow> mr_terminated st = (\<exists>r. thread_failed r \<and> (mr_input st = Some r \<or> mr_output st = Some r))"

lemma ended_relay [simp]: "mr_relay (input_ended r st) = mr_relay st" "mr_relay (output_ended r st) = mr_relay st"
  by (simp_all add: input_ended_def output_ended_def)

lemma ended_signalled:
  "signalled_rightly st \<Longrightarrow> mr_input st = None \<Longrightarrow> signalled_rightly (input_ended r st)"
  "signalled_rightly st \<Longrightarrow> mr_output st = None \<Longrightarrow> signalled_rightly (output_ended r st)"
  by (auto simp: signalled_rightly_def input_ended_def output_ended_def)

lemma relay_kept_signalled: "signalled_rightly (st\<lparr>mr_relay := x\<rparr>) = signalled_rightly st"
  by (simp add: signalled_rightly_def)

lemma client_action_steps:
  assumes "client_action sj public ev st = Some st'" "mr_input st = None" "signalled_rightly st"
  shows "(mr_relay st' = mr_relay st \<or> relay_step sj public (mr_relay st) (mr_relay st')) \<and> signalled_rightly st'"
  using assms
  by (cases ev) (auto simp: relay_kept_signalled intro: relay_step.intros ended_signalled
      split: if_split_asm prod.split_asm option.split_asm result.split_asm)

lemma server_action_steps:
  assumes "server_action sj public ev st = Some st'" "mr_output st = None" "signalled_rightly st"
  shows "(mr_relay st' = mr_relay st \<or> relay_step sj public (mr_relay st) (mr_relay st')) \<and> signalled_rightly st'"
  using assms
  by (cases ev) (auto simp: relay_kept_signalled intro: relay_step.intros ended_signalled
      split: if_split_asm prod.split_asm option.split_asm result.split_asm)

lemma thread_action_steps:
  assumes "thread_action sj public ev st = Some st'" "signalled_rightly st"
  shows "(mr_relay st' = mr_relay st \<or> relay_step sj public (mr_relay st) (mr_relay st')) \<and> signalled_rightly st'"
proof -
  from assms(1) consider "client_action sj public ev st = Some st'" "mr_input st = None"
    | "server_action sj public ev st = Some st'" "mr_output st = None"
    unfolding thread_action_def by (cases ev) (simp_all split: if_split_asm del: client_action.simps server_action.simps)
  then show ?thesis
    using client_action_steps server_action_steps assms(2) by cases blast+
qed

lemma run_threads_reachable:
  assumes "run_threads sj public evs st = Some st'" "relay_reachable sj public (mr_relay st)" "signalled_rightly st"
  shows "relay_reachable sj public (mr_relay st') \<and> signalled_rightly st'"
  using assms
proof (induction evs arbitrary: st)
  case (Cons ev evs)
  then obtain st1 where act: "thread_action sj public ev st = Some st1" and run: "run_threads sj public evs st1 = Some st'"
    by (auto simp: bind_eq_Some_conv)
  show ?case
    using thread_action_steps [OF act Cons.prems(3)] Cons.IH [OF run] Cons.prems(2) relay_reachable.step by metis
qed simp

lemma relay_finish_Ok:
  "relay_finish st = Some (Ok ()) \<longleftrightarrow> mr_output st = Some (Returned (Ok ())) \<and> mr_input st \<in> {None, Some (Returned (Ok ()))}"
proof (cases "mr_output st")
  case (Some out)
  then show ?thesis
    by (cases out; cases "mr_input st") (auto simp: relay_finish_def and_then_Ok split: option.split_asm elim: join_relay.elims)
qed (simp add: relay_finish_def)

text \<open>A thread that has ended stays ended with the same result, whatever the other one does.\<close>

lemma ended_stays:
  assumes "run_threads sj public evs st = Some st'"
  shows "(mr_input st \<noteq> None \<longrightarrow> mr_input st' = mr_input st \<and> rl_to_child (mr_relay st') = rl_to_child (mr_relay st)) \<and>
    (mr_output st \<noteq> None \<longrightarrow> mr_output st' = mr_output st)"
  using assms
proof (induction evs arbitrary: st)
  case (Cons ev evs)
  then obtain st1 where act: "thread_action sj public ev st = Some st1" and run: "run_threads sj public evs st1 = Some st'"
    by (auto simp: bind_eq_Some_conv)
  have "(mr_input st \<noteq> None \<longrightarrow> mr_input st1 = mr_input st \<and> rl_to_child (mr_relay st1) = rl_to_child (mr_relay st)) \<and>
    (mr_output st \<noteq> None \<longrightarrow> mr_output st1 = mr_output st)"
    using act by (cases ev) (auto simp: thread_action_def input_ended_def output_ended_def
        split: if_split_asm prod.split_asm option.split_asm result.split_asm)
  then show ?case
    using Cons.IH [OF run] by auto
qed simp



end
