(* ===== verification/Zai_Transport.thy ===== *)
theory Zai_Transport
  imports Zai_Properties Gateway_Server Model_Catalog Credentials Transport_Headers
begin

text \<open>
  The Z.ai backend (\<open>codex-transport/src/zai/mod.rs\<close>): construction, the plan probe, the catalog, the
  outgoing chat request, the stream handed to the gateway and the canonical form of upstream failures.
  The network is a parameter that answers a request with a transport error or with a status, the whole
  body (or a read error) and the events of the body as a stream; parsing a URL belongs to the \<open>url\<close> crate.
\<close>

definition DEFAULT_BASE_URL :: bytes where
  "DEFAULT_BASE_URL = ''https://api.z.ai/api/coding/paas/v4''"

definition QUOTA_URL :: bytes where
  "QUOTA_URL = ''https://api.z.ai/api/monitor/usage/quota/limit''"

definition ZAI_MAX_ERROR_RESPONSE_BYTES :: nat where
  "ZAI_MAX_ERROR_RESPONSE_BYTES = 64 * 1024"

record ZaiTransport =
  zt_api_key :: bytes
  zt_base_url :: Url

record zai_request =
  zr_method :: bytes
  zr_url :: bytes
  zr_headers :: HeaderMap
  zr_body :: "Value option"

record zai_answer =
  za_status :: StatusCode
  za_bytes :: "bytes option"
  za_events :: "z_upstream list"

record zai_world =
  zw_env :: z_env
  zw_http :: http_crate
  zw_parse_url :: "bytes \<Rightarrow> (Url, bytes) result"
  zw_send :: "zai_request \<Rightarrow> (zai_answer, bytes) result"
  zw_skip_probe :: "bytes option"
  zw_build_client :: "(unit, Error) result"
  zw_pid :: nat
  zw_sequence :: u64

text \<open>The stored key is what \<open>ZaiCredentials::load\<close> answers; \<open>zw_build_client\<close> is the outcome of
  \<open>build_http_client\<close> and \<open>zw_skip_probe\<close> the environment variable that turns the plan probe off.\<close>

definition zai_transport_new ::
  "zai_world \<Rightarrow> (bytes option, Error) result \<Rightarrow> bytes option \<Rightarrow> Url option \<Rightarrow> (ZaiTransport, Error) result" where
  "zai_transport_new w stored api_key_override base_url =
     and_then (case api_key_override of
                 Some api_key \<Rightarrow> and_then (validate_api_key api_key) (\<lambda>_. Ok api_key)
               | None \<Rightarrow> and_then stored (\<lambda>k. ok_or k ZaiNotAuthenticated)) (\<lambda>api_key.
     and_then (case base_url of
                 Some base_url \<Rightarrow> and_then (validate_base_url base_url) (\<lambda>_. Ok base_url)
               | None \<Rightarrow> map_err Provider (zw_parse_url w DEFAULT_BASE_URL)) (\<lambda>base_url.
     and_then (zw_build_client w) (\<lambda>_.
     Ok \<lparr>zt_api_key = api_key, zt_base_url = base_url\<rparr>)))"

definition invalid_key_header :: Error where
  "invalid_key_header = InvalidHeader ''the stored Z.ai key is not a valid header''"

definition probe_plan :: "zai_world \<Rightarrow> ZaiTransport \<Rightarrow> (unit, Error) result" where
  "probe_plan w t =
     and_then (ok_or (hv_from_str (zw_http w) (zt_api_key t)) invalid_key_header) (\<lambda>authorization.
     and_then (map_err Http (zw_send w \<lparr>zr_method = ''GET'', zr_url = QUOTA_URL,
         zr_headers = [(''authorization'', authorization), (''accept'', ''application/json'')], zr_body = None\<rparr>)) (\<lambda>answer.
       if is_success (za_status answer) then Ok ()
       else Err (Upstream (za_status answer) ''the Z.ai plan check was rejected'')))"

definition skip_probe :: "zai_world \<Rightarrow> bool" where
  "skip_probe w = (zw_skip_probe w = Some ''1'')"

definition zai_list_models :: "zai_world \<Rightarrow> ZaiTransport \<Rightarrow> (ModelInfo list, Error) result" where
  "zai_list_models w t = and_then (if skip_probe w then Ok () else probe_plan w t) (\<lambda>_. Ok pinned_models)"

definition chat_completions_url :: "zai_world \<Rightarrow> Url \<Rightarrow> (Url, Error) result" where
  "chat_completions_url w base_url =
     map_err Provider (zw_parse_url w (trim_end_matches (\<lambda>c. c = CHR ''/'') (url_text base_url) @ ''/chat/completions''))"

section \<open>Upstream failures\<close>

definition error_code_text :: "serde_json \<Rightarrow> Value option \<Rightarrow> bytes" where
  "error_code_text sj error =
     (case Option.bind error (\<lambda>e. value_get e ''code'') of
        Some (String s) \<Rightarrow> s
      | Some other \<Rightarrow> to_string sj other
      | None \<Rightarrow> [])"

definition classify_failure :: "serde_json \<Rightarrow> StatusCode \<Rightarrow> Value option \<Rightarrow> bytes" where
  "classify_failure sj status details =
     (let error = Option.bind details (\<lambda>d. value_get d ''error'');
          c = error_code_text sj error;
          message = to_ascii_lowercase (unwrap_or (Option.bind error (\<lambda>e. get_str e ''message'')) [])
      in if str_contains ''context length'' message \<or> str_contains ''context window'' message then ''context_length_exceeded''
         else if c \<in> {''1000'', ''1001'', ''1002'', ''1003'', ''1004''} then ''invalid_api_key''
         else if c \<in> {''1110'', ''1112'', ''1113''} then ''insufficient_quota''
         else if c \<in> {''1211'', ''1212''} then ''model_not_found''
         else if c = ''1261'' then ''context_length_exceeded''
         else if c \<in> {''1302'', ''1303'', ''1304'', ''1305''} then ''rate_limit_exceeded''
         else if status = TOO_MANY_REQUESTS then ''rate_limit_exceeded''
         else if status = UNAUTHORIZED \<or> status = FORBIDDEN then ''invalid_api_key''
         else if status = 404 then ''model_not_found''
         else ''invalid_request'')"

definition failure_details :: "serde_json \<Rightarrow> bytes option \<Rightarrow> Value option" where
  "failure_details sj body =
     (let body = unwrap_or body []
      in if length body \<le> ZAI_MAX_ERROR_RESPONSE_BYTES then from_str sj body else None)"

definition canonical_document :: "bytes \<Rightarrow> Value" where
  "canonical_document c = json_object [(''error'', json_object [(''code'', String c), (''param'', Null)])]"

definition canonical_failure :: "serde_json \<Rightarrow> StatusCode \<Rightarrow> bytes option \<Rightarrow> RawResponse" where
  "canonical_failure sj status body =
     \<lparr>raw_status = status, raw_headers = hm_insert ''content-type'' ''application/json'' [],
      raw_body = [Chunk (to_string sj (canonical_document (classify_failure sj status (failure_details sj body))))]\<rparr>"

section \<open>Streaming\<close>

text \<open>The key of a request and the next value of the process-wide \<open>REQUEST_SEQUENCE\<close>, which wraps.\<close>

definition zai_request_key :: "nat \<Rightarrow> u64 \<Rightarrow> bytes \<times> u64" where
  "zai_request_key pid sequence = (''process:'' @ show_nat pid @ '':'' @ show_u64 sequence, sequence + 1)"

abbreviation zw_request_key :: "zai_world \<Rightarrow> bytes" where
  "zw_request_key w \<equiv> fst (zai_request_key (zw_pid w) (zw_sequence w))"

text \<open>The frames of the unfolded stream, collected: \<open>zai_stream.yields_batch\<close> shows that polling delivers them.\<close>

definition responses_stream :: "z_env \<Rightarrow> z_upstream list \<Rightarrow> bytes \<Rightarrow> bytes \<Rightarrow> ToolNames \<Rightarrow> bytes list" where
  "responses_stream env upstream model request_key tools = z_pending (z_drive env (z_new model request_key tools) upstream)"

definition zai_outgoing :: "zai_world \<Rightarrow> ZaiTransport \<Rightarrow> Value \<Rightarrow> (bytes \<times> TranslatedRequest \<times> zai_request, Error) result" where
  "zai_outgoing w t request =
     and_then (ok_or (get_str request ''model'') (InvalidRequest ''the Responses request needs a model'')) (\<lambda>model.
     and_then (ok_or (find_pinned model) (InvalidRequest ''the requested model is not in the pinned Z.ai catalog'')) (\<lambda>pinned.
     and_then (translate (z_json (zw_env w)) request
        \<lparr>accepts_images = (''image'' \<in> set (mi_input_modalities pinned)), limit_output_tokens = MAX_OUTPUT_TOKENS\<rparr>) (\<lambda>translated.
     and_then (ok_or (hv_from_str (zw_http w) (''Bearer '' @ zt_api_key t)) invalid_key_header) (\<lambda>authorization.
     and_then (chat_completions_url w (zt_base_url t)) (\<lambda>url.
     Ok (model, translated, \<lparr>zr_method = ''POST'', zr_url = url_text url,
       zr_headers = [(''authorization'', authorization), (''content-type'', ''application/json''), (''accept'', ''text/event-stream'')],
       zr_body = Some (chat_body translated)\<rparr>))))))"

definition zai_stream_responses :: "zai_world \<Rightarrow> ZaiTransport \<Rightarrow> backend_op" where
  "zai_stream_responses w t request headers =
     and_then (zai_outgoing w t request) (\<lambda>(model, translated, outgoing).
     and_then (map_err Http (zw_send w outgoing)) (\<lambda>answer.
       if \<not> is_success (za_status answer) then
         Ok (canonical_failure (z_json (zw_env w)) (za_status answer) (za_bytes answer))
       else
         Ok \<lparr>raw_status = 200, raw_headers = hm_insert ''content-type'' ''text/event-stream'' [],
             raw_body = map Chunk (responses_stream (zw_env w) (za_events answer) model (zw_request_key w) (chat_tools translated))\<rparr>))"

definition zai_backend :: "zai_world \<Rightarrow> ZaiTransport \<Rightarrow> Backend" where
  "zai_backend w t = ZaiBackend (zai_stream_responses w t)"

end
