(* ===== verification/Zai_Gateway.thy ===== *)
theory Zai_Gateway
  imports Zai_Transport Gateway_Props
begin

text \<open>
  The Z.ai synthesizer in front of the gateway's validator: how the validator treats a frame that ends
  the stream with a failure, and that the frames the synthesizer writes are cut out of the byte stream
  exactly as they were written.
\<close>

lemma failing_ends:
  assumes "frame_kind sj g = Some ''error'' \<or> (\<exists>reason. inspect_frame sj g = Err reason)"
  shows "ends_stream sj now g (\<lambda>x. True)"
proof -
  have "g_finished (g_handle_frame sj now g st) \<and> (\<exists>x. g_pending (g_handle_frame sj now g st) = g_pending st @ [x])"
    if "\<not> g_finished st" for st
    using assms that
    by (auto simp: g_handle_frame_def g_fail_def frame_kind_def frame_event_def Let_def
        split: result.splits FrameDisposition.splits)
  then show ?thesis
    by (simp add: ends_stream_def)
qed

text \<open>Frames that are each cut off exactly, in front of any continuation.\<close>

definition whole_frame :: "bytes \<Rightarrow> bool" where
  "whole_frame f = (\<forall>rest. complete_frame_len (f @ rest) = Some (length f))"

lemma frames_of_whole: "list_all whole_frame fs \<Longrightarrow> frames_of (concat fs) = fs"
proof (induction fs)
  case Nil
  have "complete_frame_len [] = None"
    by (simp add: complete_frame_len_def complete_frame_len_from.simps)
  then show ?case
    using gateway_scanner.split_frames_None [of "[]"] by simp
next
  case (Cons f fs)
  then have "complete_frame_len (f @ concat fs) = Some (length f)"
    by (simp add: whole_frame_def)
  with Cons show ?case
    using gateway_scanner.split_frames_Some [of "f @ concat fs" "length f"] by simp
qed

lemma z_frame_whole:
  assumes "serde_json_spec (z_json env)" "is_known_event (fst e)" "json_exact (snd e)"
  shows "whole_frame (z_frame env e)"
  using known_event_text [OF assms(2)] serde_line [OF assms(1) json_exact_wf [OF assms(3)]]
  by (simp add: whole_frame_def z_frame_def complete_frame_len_sse_frame one_line_def)

lemma final_event_whole:
  assumes "serde_json_spec (z_json env)" "final_event n e"
  shows "whole_frame (z_frame env e)"
proof (rule z_frame_whole [OF assms(1)])
  show "is_known_event (fst e)"
    using assms(2) by (auto simp: final_event_def is_known_event_def known_events_def)
  show "json_exact (snd e)"
    using assms(2) by (auto simp: final_event_def z_event_ok_def)
qed

lemma events_whole:
  assumes "serde_json_spec (z_json env)" "events_ok n evs"
  shows "list_all whole_frame (map (z_frame env) evs)"
  using events_ok_nth [OF assms(2)] z_frame_whole [OF assms(1)]
  by (auto simp: list_all_length z_event_ok_def)

lemma z_final_not_closing:
  assumes "serde_json_spec (z_json env)" "final_event n e" "\<not> closes (z_json env) (z_frame env e)"
  shows "frame_kind (z_json env) (z_frame env e) = Some ''error'' \<or> (\<exists>reason. inspect_frame (z_json env) (z_frame env e) = Err reason)"
proof (cases "z_event_ok n e")
  case True
  with z_frame_event(1) [OF assms(1) True] assms(2,3) show ?thesis
    by (auto simp: final_event_def closes_def)
next
  case False
  with assms(2) z_frame_empty_error [OF assms(1), of e n] show ?thesis
    unfolding final_event_def by blast
qed

text \<open>When the validator changes the last frame of an otherwise forwarded stream, it ends it with a failure.\<close>

lemma validated_last_failed:
  assumes "serde_json_spec sj" "ident_ok media"
    and "validated_stream sj now mx media (map Chunk cs) = ks @ [x]" "frames_of (concat cs) = ks @ g # []" "\<not> closes sj g"
  shows "frame_kind sj x = Some ''response.failed''"
proof -
  have bytes: "body_bytes (map Chunk cs) = concat cs"
    by (induction cs) simp_all
  have "origin sj ks x (ks @ [g])" and end_kind: "closes sj x \<or> (\<exists>n. gateway_failure sj now media x n)"
    using validated_stream_outcome [OF assms(1,2), of now mx "map Chunk cs"] assms(3,4) by (auto simp: bytes)
  then have "\<not> closes sj x"
    using assms(5) subseq_same_length [of "ks @ [x]" "ks @ [g]"] by (auto simp: origin_def)
  with end_kind show ?thesis
    using gateway_failure_event(1) [OF assms(1,2)] by blast
qed

text \<open>A synthesized stream through the validator: every frame but the last is delivered unchanged, the last
  one too when it closes the response; any other end becomes one failed event.\<close>

lemma zai_session_delivered:
  assumes "z_env_ok env" and "utf8_valid model" and "names_utf8 tools" and "\<forall>e \<in> set body. z_event_utf8 env e"
    and "stream_yields (z_poll env) (z_new model request_key tools) body frames"
    and "\<forall>f \<in> set frames. length f \<le> max_event_bytes" and "ident_ok media"
  shows "\<exists>ks g g'. frames = ks @ [g] \<and> validated_stream (z_json env) now max_event_bytes media (map Chunk frames) = ks @ [g'] \<and>
    (closes (z_json env) g \<and> g' = g \<or> \<not> closes (z_json env) g \<and> frame_kind (z_json env) g' = Some ''response.failed'')"
proof -
  let ?sj = "z_json env"
  have sj: "serde_json_spec ?sj"
    using assms(1) by (simp add: z_env_ok_def)
  obtain evs e where out: "frames = map (z_frame env) (evs @ [e])" "events_ok 0 evs" "\<forall>x \<in> set evs. quiet (fst x)"
      "final_event (of_nat (length evs)) e"
    using assms(1-5) zai_delivers [of env model tools body request_key] by (metis stream_yields_unique)
  define ks g where "ks = map (z_frame env) evs" and "g = z_frame env e"
  have frames: "frames = ks @ [g]" and interim: "\<forall>f \<in> set ks. interim ?sj f"
    using out z_quiet_interim [OF sj out(2,3)] by (simp_all add: ks_def g_def)
  have split: "frames_of (concat frames) = ks @ g # []"
    using frames_of_whole [of frames] events_whole [OF sj out(2)] final_event_whole [OF sj out(4)]
    by (simp add: frames ks_def g_def)
  have passes: "\<forall>f \<in> set ks. passes ?sj f \<and> length f \<le> max_event_bytes"
    using interim assms(6) frames by (auto simp: passes_def)
  have filter: "filter (interim ?sj) ks = ks"
    using interim by (simp add: filter_id_conv)
  have len: "length g \<le> max_event_bytes"
    using assms(6) frames by simp
  show ?thesis
  proof (cases "closes ?sj g")
    case True
    then show ?thesis
      using validated_until [OF split _ passes closes_ends [OF True] len, of "[]" now media] frames filter
      by (simp add: stops_def)
  next
    case False
    have "frame_kind ?sj g = Some ''error'' \<or> (\<exists>reason. inspect_frame ?sj g = Err reason)"
      using z_final_not_closing [OF sj out(4)] False by (simp add: g_def)
    then obtain x where x: "validated_stream ?sj now max_event_bytes media (map Chunk frames) = ks @ [x]"
      using validated_until [OF split _ passes failing_ends len, of "[]" now media] filter by (auto simp: stops_def)
    moreover have "frame_kind ?sj x = Some ''response.failed''"
      using validated_last_failed [OF sj assms(7) x split] False by simp
    ultimately show ?thesis
      using frames False by blast
  qed
qed

section \<open>The backend's promises\<close>

text \<open>Every recorded tool name was accepted by the encoder, so it is plain ASCII.\<close>

definition names_coded :: "ToolNames \<Rightarrow> bool" where
  "names_coded names = (\<forall>e x. map_get (decoded names) e = Some x \<longrightarrow> (\<exists>e'. encode_function_name x = Ok e'))"

lemma encode_function_name_ascii:
  assumes "encode_function_name x = Ok e"
  shows "is_ascii x"
proof -
  have "list_all wire_byte (replace_char (CHR ''.'') ''__'' x)"
    using assms by (auto simp: encode_function_name_def Let_def split: if_split_asm)
  then show ?thesis
    by (induction x) (auto simp: replace_char_def is_ascii_def wire_byte_def is_ascii_alphanumeric_def is_ascii_digit_def byte_def split: if_split_asm)
qed

lemma names_coded_utf8: "names_coded names \<Longrightarrow> names_utf8 names"
  by (auto simp: names_coded_def names_utf8_def dest: encode_function_name_ascii intro: utf8_valid_ascii)

lemma record_name_coded: "record_name x is_free names = Ok (e, names') \<Longrightarrow> names_coded names \<Longrightarrow> names_coded names'"
  by (auto simp: record_name_def and_then_Ok Let_def names_coded_def split: if_split_asm)

lemma leaf_tool_coded: "leaf_tool m ns acc = Ok acc' \<Longrightarrow> names_coded (snd acc) \<Longrightarrow> names_coded (snd acc')"
  by (cases acc)
     (auto simp: leaf_tool_def function_tool_def custom_tool_def and_then_Ok Let_def dest: record_name_coded split: if_split_asm)

lemma translate_tool_coded:
  assumes "translate_tool acc tool = Ok acc'" "names_coded (snd acc)"
  shows "names_coded (snd acc')"
proof -
  have "names_coded (snd acc')" if "namespace_tools m acc = Ok acc'" for m
    using that assms(2) leaf_tool_coded
    by (fastforce simp: namespace_tools_def and_then_Ok elim!: try_fold_invariant [where P = "\<lambda>acc. names_coded (snd acc)"])
  then show ?thesis
    using assms by (auto simp: translate_tool_def and_then_Ok split: if_split_asm dest: leaf_tool_coded)
qed

lemma translate_item_coded:
  "translate_item sj limits acc item = Ok acc' \<Longrightarrow> names_coded (snd acc) \<Longrightarrow> names_coded (snd acc')"
  by (cases acc)
     (auto simp: translate_item_def tool_call_def and_then_Ok Let_def dest: record_name_coded split: if_split_asm)

lemma translate_names_utf8:
  assumes "translate sj request limits = Ok translated"
  shows "names_utf8 (chat_tools translated)"
proof -
  obtain m tools names messages where t: "translate_tools (map_get m ''tools'') ToolNames_default = Ok (tools, names)"
      "translate_messages sj m names limits = Ok (messages, chat_tools translated)"
    using assms by (auto simp: translate_def and_then_Ok)
  have "names_coded ToolNames_default"
    by (simp add: names_coded_def ToolNames_default_def)
  then have "names_coded names"
    using t(1) by (auto simp: translate_tools_def and_then_Ok split: option.splits Value.splits
        dest!: try_fold_invariant [where P = "\<lambda>acc. names_coded (snd acc)"] dest: translate_tool_coded)
  then have "names_coded (chat_tools translated)"
    using t(2) by (auto simp: translate_messages_def Let_def split: option.splits Value.splits
        dest!: try_fold_invariant [where P = "\<lambda>acc. names_coded (snd acc)"] dest: translate_item_coded)
  then show ?thesis
    by (rule names_coded_utf8)
qed

lemma find_pinned_ascii: "find_pinned model = Some p \<Longrightarrow> is_ascii model"
  by (auto simp: find_pinned_def find_Some_iff pinned_models_def PINNED_MODELS_def pinned_model_def is_ascii_def byte_def
      nth_Cons' split: if_split_asm)

text \<open>The canonical failure document survives the gateway's reading of it: the sanitizer keeps every code
  that the backend's classification produces.\<close>

definition canonical_codes :: "bytes set" where
  "canonical_codes = {''context_length_exceeded'', ''invalid_api_key'', ''insufficient_quota'', ''model_not_found'',
     ''rate_limit_exceeded'', ''invalid_request''}"

lemma classify_failure_canonical: "classify_failure sj status details \<in> canonical_codes"
  by (simp add: classify_failure_def Let_def canonical_codes_def)

lemma upstream_failure_code_kept: "c \<in> canonical_codes \<Longrightarrow> upstream_failure_code status (Some c) = c"
  by (auto simp: canonical_codes_def upstream_failure_code_def)

lemma canonical_code_utf8: "c \<in> canonical_codes \<Longrightarrow> utf8_valid c"
  by (auto simp: canonical_codes_def byte_def)

lemma canonical_document_inspected:
  assumes "serde_json_spec sj" "c \<in> canonical_codes" "length (to_string sj (canonical_document c)) \<le> MAX_UPSTREAM_ERROR_BYTES"
  shows "inspect_upstream_failure sj status [Chunk (to_string sj (canonical_document c))] =
    \<lparr>uf_code = c, uf_message = upstream_failure_message status c None, uf_parameter = None\<rparr>"
proof -
  have "json_exact_le 2 (canonical_document c)"
    unfolding canonical_document_def using canonical_code_utf8 [OF assms(2)]
    by (auto simp: numeral_2_eq_2 byte_def intro!: json_exact_le_object)
  then have "from_str sj (to_string sj (canonical_document c)) = Some (canonical_document c)"
    using serde_roundtrip [OF assms(1)] json_exact_leI by fastforce
  moreover have "value_get (canonical_document c) ''error'' = Some (json_object [(''code'', String c), (''param'', Null)])"
    by (simp add: canonical_document_def)
  moreover have "get_str (json_object [(''code'', String c), (''param'', Null)]) ''code'' = Some c"
    "get_str (json_object [(''code'', String c), (''param'', Null)]) ''param'' = None"
    by (simp_all add: get_str_def)
  ultimately show ?thesis
    using assms(2,3) by (simp add: inspect_upstream_failure_def sanitize_upstream_failure_def upstream_failure_code_kept)
qed

end
