(* ===== verification/Codex_Transport.thy ===== *)
theory Codex_Transport
  imports Transport_Retry Transport_Headers Model_Catalog Gateway_Server Credentials
begin

text \<open>
  The Codex transport as a whole (\<open>struct Transport\<close> in \<open>codex-transport/src/transport.rs\<close>): its
  construction, the model listing that fills the capability table, and the streaming, search and
  browser-open operations on top of request preparation, headers and the send loop.

  The world outside is the record \<open>codex_world\<close>: the network answers the \<open>n\<close>-th exchange of an operation, the
  credential store answers its \<open>n\<close>-th query (the operation's own query is number 0, the one of exchange
  \<open>n\<close> is \<open>n + 1\<close>, since every attempt resolves the credential again), \<open>codex_login\<close> supplies the
  recovery object and the lock file the outcome of locking. The two process-wide counters are fields of the
  transport. A poisoned capability lock (a panic while it is held) is not modelled: no code panics there.
\<close>

section \<open>State and world\<close>

record Transport =
  ct_api_key_override :: "bytes option"
  ct_api_key_base_url :: "Url option"
  ct_has_auth_manager :: bool
  ct_model_capabilities :: "(bytes \<times> ModelCapabilities) list"
  ct_fast_mode :: bool
  ct_browser_open_sequence :: u64
  ct_lite_sequence :: u64

record SearchRequest =
  sq_query :: bytes
  sq_request_id :: bytes
  sq_iteration_index :: u64

text \<open>A response body: its chunks, each possibly a read error with its text.\<close>

type_synonym body_chunks = "(bytes, bytes) result list"

type_synonym exchange = "(http_response \<times> body_chunks, Error) result"

record ('r, 'i) codex_world =
  cw_send_env :: send_env
  cw_body_env :: "'i body_env"
  cw_fast_tier :: bytes
  cw_from_api_key :: "bytes \<Rightarrow> CodexAuth"
  cw_stored_auth :: "nat \<Rightarrow> CodexAuth option"
  cw_post :: "nat \<Rightarrow> outgoing \<Rightarrow> (http_response \<times> body_chunks, bytes) result"
  cw_get :: "nat \<Rightarrow> Url \<Rightarrow> HeaderMap \<Rightarrow> (http_response \<times> body_chunks, bytes) result"
  cw_append_pair :: "Url \<Rightarrow> bytes \<Rightarrow> bytes \<Rightarrow> Url"
  cw_error_kind :: "bytes \<Rightarrow> reqwest_error"
  cw_recovery :: 'r
  cw_has_next :: "'r \<Rightarrow> bool"
  cw_next :: "'r \<Rightarrow> ('r, Error) result"
  cw_lock :: "(unit, Error) result"
  cw_decode_models :: "bytes \<Rightarrow> (UpstreamModelsResponse, bytes) result"
  cw_bundled_catalog :: bytes
  cw_decode_search :: "Value \<Rightarrow> (SearchRequest, bytes) result"
  cw_build_client :: "(unit, Error) result"
  cw_pid :: nat

section \<open>Response bodies\<close>

definition MAX_MODELS_RESPONSE_BYTES :: nat where
  "MAX_MODELS_RESPONSE_BYTES = 8 * 1024 * 1024"

definition MAX_ERROR_RESPONSE_BYTES :: nat where
  "MAX_ERROR_RESPONSE_BYTES = 64 * 1024"

fun collect_chunks :: "nat \<Rightarrow> bytes \<Rightarrow> body_chunks \<Rightarrow> (bytes, Error) result" where
  "collect_chunks limit acc [] = Ok acc"
| "collect_chunks limit acc (Err e # body) = Err (Http e)"
| "collect_chunks limit acc (Ok c # body) =
     (if length acc + length c > limit then
        Err (InvalidUpstreamResponse (''response exceeds '' @ show_nat limit @ '' bytes''))
      else collect_chunks limit (acc @ c) body)"

definition collect_response :: "body_chunks \<Rightarrow> nat \<Rightarrow> (bytes, Error) result" where
  "collect_response body limit = collect_chunks limit [] body"

definition safe_error_token :: "bytes \<Rightarrow> bytes option" where
  "safe_error_token v =
     (if v \<noteq> [] \<and> length v \<le> 128 \<and> list_all (\<lambda>b. is_ascii_alphanumeric b \<or> b \<in> set ''_-.'') v then Some v else None)"

definition summarize_upstream_error :: "serde_json \<Rightarrow> bytes \<Rightarrow> bytes" where
  "summarize_upstream_error sj body =
     (case from_str sj body of
        None \<Rightarrow> ''response body omitted''
      | Some v \<Rightarrow>
          let error = unwrap_or (value_get v ''error'') v;
              error_type = Option.bind (get_str error ''type'') safe_error_token;
              error_code = Option.bind (get_str error ''code'') safe_error_token
          in (case (error_type, error_code) of
                (Some t, Some c) \<Rightarrow> ''type='' @ t @ '', code='' @ c
              | (Some t, None) \<Rightarrow> ''type='' @ t
              | (None, Some c) \<Rightarrow> ''code='' @ c
              | (None, None) \<Rightarrow> ''response body omitted''))"

definition upstream_error :: "serde_json \<Rightarrow> http_response \<Rightarrow> body_chunks \<Rightarrow> Error" where
  "upstream_error sj response body =
     Upstream (resp_status response)
       (case collect_response body MAX_ERROR_RESPONSE_BYTES of
          Ok body \<Rightarrow> summarize_upstream_error sj body
        | Err _ \<Rightarrow> ''response body omitted'')"

fun raw_event :: "(bytes, bytes) result \<Rightarrow> upstream_event" where
  "raw_event (Ok c) = Chunk c"
| "raw_event (Err _) = ChunkErr"

definition from_reqwest :: "http_response \<Rightarrow> body_chunks \<Rightarrow> RawResponse" where
  "from_reqwest response body =
     \<lparr>raw_status = resp_status response, raw_headers = resp_headers response, raw_body = map raw_event body\<rparr>"

section \<open>Credentials and construction\<close>

definition current_auth :: "('r, 'i) codex_world \<Rightarrow> Transport \<Rightarrow> nat \<Rightarrow> (CodexAuth, Error) result" where
  "current_auth w t query =
     resolve_auth (cw_from_api_key w) (ct_api_key_override t) (cw_stored_auth w query) (ct_api_key_base_url t)"

definition Transport_new ::
  "('r, 'i) codex_world \<Rightarrow> bytes option \<Rightarrow> Url option \<Rightarrow> bool \<Rightarrow> (Transport, Error) result" where
  "Transport_new w api_key_override api_key_base_url fast_mode =
     and_then (case api_key_override of Some k \<Rightarrow> validate_api_key k | None \<Rightarrow> Ok ()) (\<lambda>_.
     and_then (case api_key_base_url of Some u \<Rightarrow> validate_base_url u | None \<Rightarrow> Ok ()) (\<lambda>_.
     and_then (cw_build_client w) (\<lambda>_.
     let t = \<lparr>ct_api_key_override = api_key_override, ct_api_key_base_url = api_key_base_url,
              ct_has_auth_manager = (api_key_override = None), ct_model_capabilities = [], ct_fast_mode = fast_mode,
              ct_browser_open_sequence = 1, ct_lite_sequence = 1\<rparr>
     in and_then (current_auth w t 0) (\<lambda>_. Ok t))))"

section \<open>Sending\<close>

definition send_json_once ::
  "('r, 'i) codex_world \<Rightarrow> Transport \<Rightarrow> bytes \<Rightarrow> Value \<Rightarrow> HeaderMap \<Rightarrow> JsonRequestOptions \<Rightarrow> nat \<Rightarrow> exchange" where
  "send_json_once w t path body extra_headers options n =
     and_then (current_auth w t (Suc n)) (\<lambda>auth.
     and_then (json_request (cw_send_env w) auth (ct_api_key_base_url t) ''POST'' path body extra_headers options) (\<lambda>rq.
       map_err Http (cw_post w n rq)))"

definition send_models_once :: "('r, 'i) codex_world \<Rightarrow> Transport \<Rightarrow> nat \<Rightarrow> exchange" where
  "send_models_once w t n =
     and_then (current_auth w t (Suc n)) (\<lambda>auth.
     and_then (prepare_request (cw_send_env w) auth (ct_api_key_base_url t) ''models'' [] ''application/json'') (\<lambda>(url, headers).
       map_err Http (cw_get w n (cw_append_pair w url ''client_version'' CODEX_WIRE_COMPATIBILITY_VERSION) headers)))"

fun response_head :: "exchange \<Rightarrow> (http_response, Error) result" where
  "response_head (Ok (response, _)) = Ok response"
| "response_head (Err e) = Err e"

definition codex_retry_env :: "('r, 'i) codex_world \<Rightarrow> Transport \<Rightarrow> (nat \<Rightarrow> exchange) \<Rightarrow> 'r retry_env" where
  "codex_retry_env w t send =
     \<lparr>re_http = se_http (cw_send_env w), re_send = response_head \<circ> send, re_error_kind = cw_error_kind w,
      re_has_next = cw_has_next w, re_next = cw_next w,
      re_lock = (if ct_has_auth_manager t then Some (cw_lock w) else None)\<rparr>"

text \<open>The method \<open>Transport::execute_with_401_recovery\<close>, with the body of the response it returns.\<close>

definition codex_execute :: "('r, 'i) codex_world \<Rightarrow> Transport \<Rightarrow> (nat \<Rightarrow> exchange) \<Rightarrow> (exchange \<times> 'r retry_state) option" where
  "codex_execute w t send =
     map_option (\<lambda>(r, st). (and_then r (\<lambda>_. send (rs_sent st - 1)), st))
       (execute_with_401_recovery (codex_retry_env w t send)
          (retry_new (if ct_has_auth_manager t then Some (cw_recovery w) else None)))"

definition send_json ::
  "('r, 'i) codex_world \<Rightarrow> Transport \<Rightarrow> bytes \<Rightarrow> Value \<Rightarrow> HeaderMap \<Rightarrow> JsonRequestOptions \<Rightarrow> (RawResponse, Error) result option" where
  "send_json w t path body extra_headers options =
     map_option (\<lambda>(r, _). and_then r (\<lambda>(response, chunks). Ok (from_reqwest response chunks)))
       (codex_execute w t (send_json_once w t path body extra_headers options))"

section \<open>Operations\<close>

definition read_models :: "('r, 'i) codex_world \<Rightarrow> bool \<Rightarrow> exchange \<Rightarrow> (ModelInfo list, Error) result" where
  "read_models w use_bundled_api_metadata r =
     and_then r (\<lambda>(response, chunks).
       if \<not> is_success (resp_status response) then Err (upstream_error (be_json (cw_body_env w)) response chunks)
       else and_then (collect_response chunks MAX_MODELS_RESPONSE_BYTES) (\<lambda>bytes.
         if use_bundled_api_metadata then
           normalize_api_models_with_bundled_metadata (cw_decode_models w) (cw_fast_tier w) (cw_bundled_catalog w) bytes
         else normalize_models (cw_decode_models w) (cw_fast_tier w) bytes))"

definition codex_list_models ::
  "('r, 'i) codex_world \<Rightarrow> Transport \<Rightarrow> ((ModelInfo list, Error) result \<times> Transport) option" where
  "codex_list_models w t =
     (case (if ct_api_key_base_url t \<noteq> None then Ok False
            else and_then (current_auth w t 0) (\<lambda>auth. Ok (is_api_key_auth auth))) of
        Err e \<Rightarrow> Some (Err e, t)
      | Ok use_bundled_api_metadata \<Rightarrow>
          map_option (\<lambda>(r, _).
            case read_models w use_bundled_api_metadata r of
              Err e \<Rightarrow> (Err e, t)
            | Ok models \<Rightarrow> (Ok models, t\<lparr>ct_model_capabilities := model_capabilities models\<rparr>))
            (codex_execute w t (send_models_once w t)))"

text \<open>What \<open>stream_responses\<close> does before it sends: the checks against the catalog, then the body.\<close>

definition check_stream_request :: "('r, 'i) codex_world \<Rightarrow> Transport \<Rightarrow> Value \<Rightarrow> (bool \<times> bool, Error) result" where
  "check_stream_request w t body =
     and_then (current_auth w t 0) (\<lambda>auth.
     and_then (validate_model_request (ct_model_capabilities t) body (is_api_key_auth auth)) (\<lambda>capabilities.
     and_then (validate_fast_mode_availability (ct_fast_mode t) (ct_api_key_base_url t \<noteq> None) capabilities) (\<lambda>_.
       Ok (is_api_key_auth auth, is_some_and cap_use_responses_lite capabilities))))"

definition build_stream_request ::
  "('r, 'i) codex_world \<Rightarrow> Transport \<Rightarrow> Value \<Rightarrow> bool \<Rightarrow> bool \<Rightarrow> bytes option \<Rightarrow> (Value \<times> JsonRequestOptions, Error) result" where
  "build_stream_request w t body api_key_auth use_responses_lite lite_request_namespace =
     and_then (apply_fast_service_tier (cw_fast_tier w) body (ct_fast_mode t)) (\<lambda>body.
     and_then (normalize_responses_request (cw_body_env w) body api_key_auth use_responses_lite lite_request_namespace) (\<lambda>body.
     and_then (if api_key_auth then Ok None
               else and_then (subscription_routing_hint (se_http (cw_send_env w)) body) (\<lambda>hint. Ok (Some hint))) (\<lambda>routing_hint.
       Ok (body, \<lparr>opt_accept = ''text/event-stream'', opt_use_responses_lite = use_responses_lite, opt_routing_hint = routing_hint\<rparr>))))"

definition prepare_stream ::
  "('r, 'i) codex_world \<Rightarrow> Transport \<Rightarrow> Value \<Rightarrow> HeaderMap \<Rightarrow> (Value \<times> JsonRequestOptions, Error) result \<times> Transport" where
  "prepare_stream w t body extra_headers =
     (case check_stream_request w t body of
        Err e \<Rightarrow> (Err e, t)
      | Ok (api_key_auth, use_responses_lite) \<Rightarrow>
          if use_responses_lite then
            (case responses_lite_request_namespace (se_http (cw_send_env w)) (cw_pid w) extra_headers (ct_lite_sequence t) of
               (ns, sequence) \<Rightarrow> (build_stream_request w t body api_key_auth True (Some ns), t\<lparr>ct_lite_sequence := sequence\<rparr>))
          else (build_stream_request w t body api_key_auth False None, t))"

definition codex_stream_responses ::
  "('r, 'i) codex_world \<Rightarrow> Transport \<Rightarrow> Value \<Rightarrow> HeaderMap \<Rightarrow> ((RawResponse, Error) result \<times> Transport) option" where
  "codex_stream_responses w t body extra_headers =
     (case prepare_stream w t body extra_headers of
        (Err e, t) \<Rightarrow> Some (Err e, t)
      | (Ok (body, options), t) \<Rightarrow>
          map_option (\<lambda>r. (r, t)) (send_json w t ''responses'' body extra_headers options))"

definition to_upstream :: "SearchRequest \<Rightarrow> (Value, Error) result" where
  "to_upstream rq =
     (if trim (sq_query rq) = [] then invalid_request ''search query cannot be empty''
      else if trim (sq_request_id rq) = [] then invalid_request ''search request_id cannot be empty''
      else Ok (json_object [(''id'', String (sq_request_id rq @ '':'' @ show_u64 (sq_iteration_index rq))),
                            (''input'', String (sq_query rq))]))"

definition search_options :: JsonRequestOptions where
  "search_options = \<lparr>opt_accept = ''application/json'', opt_use_responses_lite = False, opt_routing_hint = None\<rparr>"

definition codex_search ::
  "('r, 'i) codex_world \<Rightarrow> Transport \<Rightarrow> SearchRequest \<Rightarrow> HeaderMap \<Rightarrow> (RawResponse, Error) result option" where
  "codex_search w t rq extra_headers =
     (case to_upstream rq of
        Err e \<Rightarrow> Some (Err e)
      | Ok body \<Rightarrow> send_json w t ''alpha/search'' body extra_headers search_options)"

definition codex_search_muse_request ::
  "('r, 'i) codex_world \<Rightarrow> Transport \<Rightarrow> Value \<Rightarrow> HeaderMap \<Rightarrow> (RawResponse, Error) result option" where
  "codex_search_muse_request w t rq extra_headers =
     (case map_err (\<lambda>e. InvalidRequest (''invalid Muse search request: '' @ e)) (cw_decode_search w rq) of
        Err e \<Rightarrow> Some (Err e)
      | Ok rq \<Rightarrow> codex_search w t rq extra_headers)"

text \<open>The URL of a browser-open request.\<close>

definition browser_open_url :: "('r, 'i) codex_world \<Rightarrow> Value \<Rightarrow> (jmap \<times> Url, Error) result" where
  "browser_open_url w rq =
     and_then (ok_or (as_object rq) (InvalidRequest ''Muse browser_open request must be an object'')) (\<lambda>object.
     and_then (ok_or (opt_filter (\<lambda>v. trim v \<noteq> []) (map_str object ''url''))
        (InvalidRequest ''Muse browser_open request must contain a non-empty url'')) (\<lambda>url.
     and_then (map_err (\<lambda>e. InvalidRequest (''invalid browser_open URL: '' @ e)) (se_url_parse (cw_send_env w) url)) (\<lambda>parsed_url.
       if url_scheme parsed_url \<notin> {''http'', ''https''} then invalid_request ''browser_open URL must use http or https''
       else Ok (object, parsed_url))))"

definition browser_open_body :: "('r, 'i) codex_world \<Rightarrow> Transport \<Rightarrow> jmap \<Rightarrow> Url \<Rightarrow> HeaderMap \<Rightarrow> Value \<times> Transport" where
  "browser_open_body w t object parsed_url extra_headers =
     (let (request_id, t) =
        (case or_else (map_str object ''request_id'') (hm_get_str (se_http (cw_send_env w)) extra_headers ''x-request-id'') of
           Some request_id \<Rightarrow> (request_id, t)
         | None \<Rightarrow> (''muse-browser-open-'' @ show_nat (cw_pid w) @ ''-'' @ show_u64 (ct_browser_open_sequence t),
                    t\<lparr>ct_browser_open_sequence := ct_browser_open_sequence t + 1\<rparr>))
      in (json_object [(''id'', String request_id),
            (''commands'', json_object [(''open'', Array [json_object [(''ref_id'', String (url_text parsed_url))]])])], t))"

definition codex_browser_open_muse_request ::
  "('r, 'i) codex_world \<Rightarrow> Transport \<Rightarrow> Value \<Rightarrow> HeaderMap \<Rightarrow> ((RawResponse, Error) result \<times> Transport) option" where
  "codex_browser_open_muse_request w t rq extra_headers =
     (case browser_open_url w rq of
        Err e \<Rightarrow> Some (Err e, t)
      | Ok (object, parsed_url) \<Rightarrow>
          (case browser_open_body w t object parsed_url extra_headers of
             (body, t) \<Rightarrow> map_option (\<lambda>r. (r, t)) (send_json w t ''alpha/search'' body extra_headers search_options)))"

end
