(* ===== verification/Codex_Transport_Props.thy ===== *)
theory Codex_Transport_Props
  imports Codex_Transport Catalog_Contract Transport_Request_Props
begin

text \<open>
  Properties of the Codex transport: what every attempt of an operation sends, that an operation returns the
  response of its last attempt untouched, that the listed catalog decides which requests are sent, and what
  an upstream failure can put into an error.
\<close>

section \<open>Bodies\<close>

lemma collect_chunks_Ok:
  "collect_chunks limit acc body = Ok out \<longleftrightarrow>
     (\<exists>cs. body = map Ok cs \<and> out = acc @ concat cs \<and> (cs \<noteq> [] \<longrightarrow> length out \<le> limit))"
proof (induction limit acc body rule: collect_chunks.induct)
  case (3 limit acc c body)
  have cons: "(\<exists>cs. Ok c # body = map Ok cs \<and> out = acc @ concat cs \<and> (cs \<noteq> [] \<longrightarrow> length out \<le> limit)) \<longleftrightarrow>
      (\<exists>cs. body = map Ok cs \<and> out = (acc @ c) @ concat cs \<and> length out \<le> limit)"
    by (auto simp: Cons_eq_map_conv)
  show ?case
  proof (cases "length acc + length c > limit")
    case True
    then show ?thesis
      unfolding cons by auto
  next
    case False
    then have "collect_chunks limit acc (Ok c # body) = collect_chunks limit (acc @ c) body"
      by simp
    with 3 [OF False] False show ?thesis
      unfolding cons by (metis add.right_neutral append_Nil2 concat.simps(1) length_append not_le)
  qed
qed auto

lemma safe_error_token_Some:
  "safe_error_token v = Some t \<longleftrightarrow>
     t = v \<and> v \<noteq> [] \<and> length v \<le> 128 \<and> list_all (\<lambda>b. is_ascii_alphanumeric b \<or> b \<in> set ''_-.'') v"
  by (auto simp: safe_error_token_def)

text \<open>A collected body is the concatenation of the chunks, however they were cut, and never longer than the
  limit; a read error or a longer body is an error.\<close>

theorem collect_response_exact:
  "collect_response body limit = Ok out \<longleftrightarrow> (\<exists>cs. body = map Ok cs \<and> out = concat cs \<and> length out \<le> limit)"
  by (fastforce simp: collect_response_def collect_chunks_Ok)

text \<open>An upstream failure can put at most two short tokens into the error: whatever the response says, the
  report is the status with a summary of at most 268 bytes over a harmless alphabet.\<close>

theorem upstream_error_confined:
  "\<exists>s. upstream_error sj response body = Upstream (resp_status response) s \<and> length s \<le> 268 \<and>
     list_all (\<lambda>b. is_ascii_alphanumeric b \<or> b \<in> set ''_-.=, '') s"
proof -
  let ?safe = "list_all (\<lambda>b. is_ascii_alphanumeric b \<or> b \<in> set ''_-.=, '')"
  have tok: "?safe t \<and> length t \<le> 128" if "safe_error_token v = Some t" for v t
    using that by (auto simp: safe_error_token_Some list_all_iff)
  have lit: "?safe ''response body omitted''" "?safe ''type=''" "?safe '', code=''" "?safe ''code=''"
    by code_simp+
  have "length (summarize_upstream_error sj b) \<le> 268 \<and> ?safe (summarize_upstream_error sj b)" for b
    using lit by (auto simp: summarize_upstream_error_def Let_def bind_eq_Some_conv dest!: tok split: option.split)
  then show ?thesis
    using lit by (auto simp: upstream_error_def split: result.split)
qed

section \<open>Search requests\<close>

lemma last_separator:
  assumes "a @ c # x = b @ c # y" "c \<notin> set x" "c \<notin> set y"
  shows "a = b \<and> x = y"
proof -
  have "rev x @ c # rev a = rev y @ c # rev b"
    using arg_cong [OF assms(1), of rev] by simp
  moreover have "takeWhile ((\<noteq>) c) (rev z @ c # w) = rev z" if "c \<notin> set z" for z w
    using that by (auto simp: takeWhile_append2 takeWhile_tail)
  ultimately have "rev x = rev y"
    using assms(2,3) by metis
  with assms(1) show ?thesis by simp
qed

lemma show_u64_inj: "show_u64 v = show_u64 w \<longleftrightarrow> v = w"
  by (metis digits_value_show_nat option.inject show_u64_def word_unat_eq_iff)

text \<open>The upstream search document says exactly what the request said: two requests with the same
  document are the same request, so distinct iterations of one search never share an id.\<close>

theorem search_document_injective:
  assumes "to_upstream rq = Ok v" and "to_upstream rq' = Ok v"
  shows "rq = rq'"
proof -
  have colon: "CHR '':'' \<notin> set (show_u64 w)" for w
    using show_nat_digits [of "unat w"] by (auto simp: show_u64_def list_all_iff is_ascii_digit_def)
  have fields: "get_str v ''input'' = Some (sq_query q) \<and>
      get_str v ''id'' = Some (sq_request_id q @ CHR '':'' # show_u64 (sq_iteration_index q))"
    if "to_upstream q = Ok v" for q
    using that by (auto simp: to_upstream_def get_str_Some split: if_splits)
  have "sq_query rq = sq_query rq'"
    and id: "sq_request_id rq @ CHR '':'' # show_u64 (sq_iteration_index rq) = sq_request_id rq' @ CHR '':'' # show_u64 (sq_iteration_index rq')"
    using fields [OF assms(1)] fields [OF assms(2)] by simp_all
  moreover have "sq_request_id rq = sq_request_id rq'" "sq_iteration_index rq = sq_iteration_index rq'"
    using last_separator [OF id colon colon] show_u64_inj by simp_all
  ultimately show ?thesis
    by (intro SearchRequest.equality) simp_all
qed

section \<open>Attempts\<close>

lemma current_auth_base:
  "current_auth w t n = Ok auth \<Longrightarrow> (ct_api_key_base_url t \<noteq> None \<longrightarrow> is_api_key_auth auth)"
  by (auto simp: current_auth_def resolve_auth_def and_then_Ok split: if_splits)

lemma normalized_keeps:
  assumes "normalize_responses_request env (Object m) api lite ns = Ok v" and "k \<in> {''model'', ''service_tier''}"
  shows "value_get v k = map_get m k"
  using assms(1)
proof (rule normalize_responses_request_Ok)
  fix model m1 m2 m3 m4 m5 m6 m7 b m8 m9 m10 m11
  assume v: "v = Object (map_insert ''stream'' (Bool True) (map_insert ''store'' (Bool False) m11))"
    and stages: "normalize_instructions m = Ok m1" "reject_stateful_reference ''previous_response_id'' m1 = Ok m2"
    "reject_stateful_reference ''conversation'' m2 = Ok m3" "normalize_tools m3 = Ok m4" "normalize_input_field env m4 = Ok m5"
    "normalize_tool_choice api m5 = Ok m6" "normalize_parallel_tool_calls m6 = Ok m7"
    "normalize_reasoning api m7 = Ok (b, m8)" "normalize_include m8 = Ok m9"
    "normalize_token_limit api m9 = Ok m10" "normalize_lite_form env lite ns m10 = Ok m11"
  note frame = stages(1) [THEN normalize_instructions_edits] stages(2,3) [THEN reject_stateful_reference_edits]
    stages(4) [THEN normalize_tools_edits] stages(5) [THEN normalize_input_field_edits]
    stages(6) [THEN normalize_tool_choice_edits] stages(7) [THEN normalize_parallel_tool_calls_edits]
    stages(8) [THEN normalize_reasoning_edits] stages(9) [THEN normalize_include_edits]
    stages(10) [THEN normalize_token_limit_edits] stages(11) [THEN normalize_lite_form_edits]
  show ?thesis
    using assms(2) by (auto simp: v frame [THEN edits_get])
qed

lemma prepare_stream_transport: "prepare_stream w t body hs = (p, t') \<Longrightarrow> \<exists>k. t' = t\<lparr>ct_lite_sequence := k\<rparr>"
proof -
  assume "prepare_stream w t body hs = (p, t')"
  then have "t' = t \<or> (\<exists>k. t' = t\<lparr>ct_lite_sequence := k\<rparr>)"
    by (auto simp: prepare_stream_def split: result.splits if_splits prod.splits)
  moreover have "t = t\<lparr>ct_lite_sequence := ct_lite_sequence t\<rparr>"
    by simp
  ultimately show ?thesis by metis
qed

lemma prepare_stream_Ok:
  assumes "prepare_stream w t body hs = (Ok (sent_body, options), t')"
  obtains auth lite ns m where
    "current_auth w t 0 = Ok auth" "check_stream_request w t body = Ok (is_api_key_auth auth, lite)"
    "apply_fast_service_tier (cw_fast_tier w) body (ct_fast_mode t) = Ok (Object m)"
    "normalize_responses_request (cw_body_env w) (Object m) (is_api_key_auth auth) lite ns = Ok sent_body"
    "opt_use_responses_lite options = lite" "\<exists>n. t' = t\<lparr>ct_lite_sequence := n\<rparr>"
proof -
  obtain api lite where check: "check_stream_request w t body = Ok (api, lite)"
    using assms by (auto simp: prepare_stream_def split: result.splits)
  obtain ns where built: "build_stream_request w t body api lite ns = Ok (sent_body, options)"
    using assms check by (auto simp: prepare_stream_def split: if_splits prod.splits)
  obtain auth where auth: "current_auth w t 0 = Ok auth" "api = is_api_key_auth auth"
    using check by (auto simp: check_stream_request_def and_then_Ok)
  obtain m where m: "apply_fast_service_tier (cw_fast_tier w) body (ct_fast_mode t) = Ok (Object m)"
      "normalize_responses_request (cw_body_env w) (Object m) api lite ns = Ok sent_body" "opt_use_responses_lite options = lite"
    using built by (auto simp: build_stream_request_def apply_fast_service_tier_def and_then_Ok Let_def)
  show thesis
    using check auth m prepare_stream_transport [OF assms] by (intro that [of auth lite m ns]) simp_all
qed

lemma apply_fast_service_tier_fields:
  assumes "apply_fast_service_tier tier body enabled = Ok (Object m)"
  shows "map_get m ''service_tier'' = (if enabled then Some (String tier) else None)" "map_get m ''model'' = value_get body ''model''"
  using assms by (cases enabled; auto simp: apply_fast_service_tier_def and_then_Ok Let_def)+

lemma json_request_sealed:
  assumes "http_crate_spec (se_http env)" "json_request env auth base method path body extra options = Ok rq"
  shows "out_body rq = body" "\<exists>token. get_token auth = Some token \<and> hm_values (out_headers rq) ''authorization'' = [''Bearer '' @ token]"
proof -
  show "out_body rq = body"
    using assms(2) by (auto simp: json_request_def and_then_Ok)
  have names: "''authorization'' \<noteq> RESPONSES_LITE_HEADER" "''authorization'' \<noteq> CODEX_ROUTING_HINT_HEADER"
    by (simp_all add: RESPONSES_LITE_HEADER_def CODEX_ROUTING_HINT_HEADER_def)
  from assms show "\<exists>token. get_token auth = Some token \<and> hm_values (out_headers rq) ''authorization'' = [''Bearer '' @ token]"
    by (rule json_request_headers) (use attach_auth_values(1) [OF assms(1)] in \<open>simp add: names\<close>)
qed


section \<open>Results\<close>

lemma response_head_Ok: "response_head r = Ok response \<longleftrightarrow> (\<exists>body. r = Ok (response, body))"
  by (cases r rule: response_head.cases) auto

lemma codex_execute_returns:
  assumes "\<forall>r. cw_has_next w r \<longrightarrow> 0 < m r \<and> (\<forall>r'. cw_next w r = Ok r' \<longrightarrow> m r' < m r)"
  shows "\<exists>r st. codex_execute w t send = Some (r, st) \<and> 0 < rs_sent st \<and> rs_sent st \<le> 2 + m (cw_recovery w) \<and>
    (\<forall>response body. r = Ok (response, body) \<longrightarrow> send (rs_sent st - 1) = Ok (response, body))"
proof -
  let ?env = "codex_retry_env w t send" and ?recovery = "if ct_has_auth_manager t then Some (cw_recovery w) else None"
  have "finite_recovery ?env m"
    using assms by (simp add: finite_recovery_def codex_retry_env_def)
  from retry_loop_returns [OF this retry_inv_new, of ?recovery] obtain res st where
    loop: "execute_with_401_recovery ?env (retry_new ?recovery) = Some (res, st)" "retry_final ?env res st"
      "effects Refresh (rs_trace st) \<le> recovery_left m ?recovery"
    by (auto simp: retry_new_def)
  have "and_then res (\<lambda>_. send (rs_sent st - 1)) = Ok (response, body) \<Longrightarrow> send (rs_sent st - 1) = Ok (response, body)"
    for response body
    by (simp add: and_then_Ok)
  then show ?thesis
    using loop by (auto simp: codex_execute_def retry_final_def MAX_PRESTREAM_ATTEMPTS_def recovery_left_def split: if_splits)
qed

text \<open>C35: A streaming request always returns, after at most two attempts plus one per recovery step. A response it
  returns is the upstream's answer to one of the attempts, status, headers and body chunks as they came; the
  transport itself only advances the counter that names Responses Lite requests.\<close>

theorem codex_stream_returns:
  assumes "\<forall>r. cw_has_next w r \<longrightarrow> 0 < m r \<and> (\<forall>r'. cw_next w r = Ok r' \<longrightarrow> m r' < m r)"
  shows "\<exists>r t'. codex_stream_responses w t body hs = Some (r, t') \<and> (\<exists>k. t' = t\<lparr>ct_lite_sequence := k\<rparr>) \<and>
    (\<forall>raw. r = Ok raw \<longrightarrow> (\<exists>sent_body options n response chunks.
       prepare_stream w t body hs = (Ok (sent_body, options), t') \<and> n < 2 + m (cw_recovery w) \<and>
       send_json_once w t' ''responses'' sent_body hs options n = Ok (response, chunks) \<and>
       raw_status raw = resp_status response \<and> raw_headers raw = resp_headers response \<and> raw_body raw = map raw_event chunks))"
proof (cases "prepare_stream w t body hs")
  case (Pair p t')
  have t': "\<exists>k. t' = t\<lparr>ct_lite_sequence := k\<rparr>"
    using Pair by (rule prepare_stream_transport)
  show ?thesis
  proof (cases p)
    case (Err e)
    with Pair t' show ?thesis
      by (simp add: codex_stream_responses_def)
  next
    case (Ok q)
    obtain sent_body options where q: "q = (sent_body, options)"
      by (cases q)
    obtain r st where loop: "codex_execute w t' (send_json_once w t' ''responses'' sent_body hs options) = Some (r, st)"
        "0 < rs_sent st" "rs_sent st \<le> 2 + m (cw_recovery w)"
        "\<forall>response chunks. r = Ok (response, chunks) \<longrightarrow>
          send_json_once w t' ''responses'' sent_body hs options (rs_sent st - 1) = Ok (response, chunks)"
      using codex_execute_returns [OF assms, of t' "send_json_once w t' ''responses'' sent_body hs options"] by blast
    have last: "rs_sent st - 1 < 2 + m (cw_recovery w)"
      using loop(2,3) by simp
    have ret: "codex_stream_responses w t body hs = Some (and_then r (\<lambda>(response, chunks). Ok (from_reqwest response chunks)), t')"
      using Pair Ok q loop(1) by (simp add: codex_stream_responses_def send_json_def)
    have "\<exists>sent_body options n response chunks.
        prepare_stream w t body hs = (Ok (sent_body, options), t') \<and> n < 2 + m (cw_recovery w) \<and>
        send_json_once w t' ''responses'' sent_body hs options n = Ok (response, chunks) \<and>
        raw_status raw = resp_status response \<and> raw_headers raw = resp_headers response \<and> raw_body raw = map raw_event chunks"
      if raw: "and_then r (\<lambda>(response, chunks). Ok (from_reqwest response chunks)) = Ok raw" for raw
    proof -
      obtain response chunks where "r = Ok (response, chunks)" "raw = from_reqwest response chunks"
        using raw by (auto simp: and_then_Ok)
      then show ?thesis
        using loop(4) last Pair Ok q
        by (intro exI [of _ sent_body] exI [of _ options] exI [of _ "rs_sent st - 1"] exI [of _ response] exI [of _ chunks])
           (simp add: from_reqwest_def)
    qed
    with ret t' show ?thesis by blast
  qed
qed

section \<open>The catalog decides\<close>

lemma capabilities_lookup:
  assumes "distinct (map mi_id models)"
  shows "map_get (model_capabilities models) model =
    map_option capabilities_of (List.find (\<lambda>info. mi_id info = model) models)"
proof -
  let ?kvs = "map (\<lambda>m. (mi_id m, capabilities_of m)) models"
  have "map_of (rev ?kvs) model = map_of ?kvs model"
    using assms map_of_inject_set [of "rev ?kvs" ?kvs] by (simp add: comp_def flip: rev_map)
  also have "\<dots> = map_option capabilities_of (List.find (\<lambda>info. mi_id info = model) models)"
    by (induction models) auto
  finally show ?thesis
    by (simp add: model_capabilities_def map_get_build)
qed

text \<open>What a listed model must offer for a request to be sent.\<close>

definition offers :: "Transport \<Rightarrow> ModelInfo \<Rightarrow> Value \<Rightarrow> bool" where
  "offers t info body =
     (mi_is_visible info \<and> (mi_tool_mode info = Some ''code_mode_only'' \<longrightarrow> mi_use_responses_lite info) \<and>
      (request_contains_image body \<longrightarrow> ''image'' \<in> set (mi_input_modalities info)) \<and>
      (\<forall>effort. requested_effort body = Some effort \<longrightarrow>
         mi_supported_reasoning_efforts info = [] \<or> effort \<in> set (mi_supported_reasoning_efforts info)) \<and>
      (ct_fast_mode t \<and> ct_api_key_base_url t = None \<longrightarrow> mi_supports_fast_mode info))"

lemma read_models_distinct: "read_models w bundled r = Ok models \<Longrightarrow> distinct (map mi_id models)"
  by (auto simp: read_models_def and_then_Ok split: if_splits dest: codex_catalog.ids_distinct api_catalog.ids_distinct)

lemma list_models_Ok:
  assumes "codex_list_models w t = Some (Ok models, t')"
  shows "t' = t\<lparr>ct_model_capabilities := model_capabilities models\<rparr>" "distinct (map mi_id models)"
proof -
  let ?bundled = "if ct_api_key_base_url t \<noteq> None then Ok False else and_then (current_auth w t 0) (\<lambda>auth. Ok (is_api_key_auth auth))"
  obtain bundled where bundled: "?bundled = Ok bundled"
    using assms by (cases ?bundled) (auto simp: codex_list_models_def)
  then obtain r st where run: "codex_execute w t (send_models_once w t) = Some (r, st)"
    using assms by (cases "codex_execute w t (send_models_once w t)") (auto simp: codex_list_models_def)
  have "(case read_models w bundled r of Err e \<Rightarrow> (Err e, t)
      | Ok models \<Rightarrow> (Ok models, t\<lparr>ct_model_capabilities := model_capabilities models\<rparr>)) = (Ok models, t')"
    using assms unfolding codex_list_models_def bundled run by simp
  then show "t' = t\<lparr>ct_model_capabilities := model_capabilities models\<rparr>" "distinct (map mi_id models)"
    by (cases "read_models w bundled r"; auto dest: read_models_distinct)+
qed


section \<open>Witnesses\<close>

lemma is_ok_iff: "is_ok r \<longleftrightarrow> (\<exists>x. r = Ok x)"
  by (cases r) (auto simp: is_ok_def)

text \<open>A world with one visible model: an API key, every request answered by a body that breaks off.\<close>

definition sample_codex_world :: "(nat, Value) codex_world" where
  "sample_codex_world = \<lparr>cw_send_env = sample_send_env, cw_body_env = sample_body_env, cw_fast_tier = ''priority'',
     cw_from_api_key = (\<lambda>k. sample_auth\<lparr>get_token := Some k\<rparr>), cw_stored_auth = (\<lambda>_. None),
     cw_post = (\<lambda>n _. if n = 0 then Ok (\<lparr>resp_status = 503, resp_headers = []\<rparr>, [])
                     else Ok (\<lparr>resp_status = 200, resp_headers = []\<rparr>, [Ok ''a'', Err ''reset''])),
     cw_get = (\<lambda>_ _ _. Ok (\<lparr>resp_status = 200, resp_headers = []\<rparr>, [Ok ''{}''])),
     cw_append_pair = (\<lambda>u _ _. u),
     cw_error_kind = (\<lambda>_. \<lparr>is_timeout = False, is_connect = True, is_request = False, is_body = False\<rparr>),
     cw_recovery = 0, cw_has_next = (\<lambda>n. 0 < n), cw_next = (\<lambda>n. Ok (n - 1)), cw_lock = Ok (),
     cw_decode_models = sample_decode, cw_bundled_catalog = [], cw_decode_search = (\<lambda>_. Err ''none''),
     cw_build_client = Ok (), cw_pid = 7\<rparr>"

definition sample_transport :: Transport where
  "sample_transport = \<lparr>ct_api_key_override = Some ''k'', ct_api_key_base_url = None, ct_has_auth_manager = False,
     ct_model_capabilities = [], ct_fast_mode = False, ct_browser_open_sequence = 1, ct_lite_sequence = 1\<rparr>"

definition sample_body :: Value where
  "sample_body = json_object [(''model'', String ''b''), (''input'', String ''hi''), (''service_tier'', String ''flex'')]"

theorem search_document_injective_witness:
  "\<forall>n < 3. to_upstream \<lparr>sq_query = ''q'', sq_request_id = ''r'', sq_iteration_index = word_of_nat n\<rparr> \<noteq>
     to_upstream \<lparr>sq_query = ''q'', sq_request_id = ''r:0'', sq_iteration_index = 0\<rparr>"
proof (intro allI impI notI)
  fix n :: nat
  let ?a = "\<lparr>sq_query = ''q'', sq_request_id = ''r'', sq_iteration_index = word_of_nat n\<rparr>"
    and ?b = "\<lparr>sq_query = ''q'', sq_request_id = ''r:0'', sq_iteration_index = 0\<rparr>"
  assume same: "to_upstream ?a = to_upstream ?b"
  have "is_ok (to_upstream ?b)"
    by code_simp
  then obtain v where "to_upstream ?b = Ok v"
    by (auto simp: is_ok_def split: result.splits)
  with search_document_injective [of ?a v ?b] same show False by simp
qed

lemma sample_prepared_stream:
  obtains sent_body options rq where
    "prepare_stream sample_codex_world sample_transport sample_body [] = (Ok (sent_body, options), sample_transport)"
    "json_request sample_send_env (sample_auth\<lparr>get_token := Some ''k''\<rparr>) None ''POST'' ''responses'' sent_body [] options = Ok rq"
proof -
  have "case prepare_stream sample_codex_world sample_transport sample_body [] of
      (Ok (sent_body, options), t') \<Rightarrow> t' = sample_transport \<and>
        is_ok (json_request sample_send_env (sample_auth\<lparr>get_token := Some ''k''\<rparr>) None ''POST'' ''responses'' sent_body [] options)
    | _ \<Rightarrow> False"
    by code_simp
  then show thesis
    using that by (auto simp: is_ok_iff split: prod.splits result.split_asm)
qed


theorem codex_stream_returns_witness:
  "\<exists>r t'. codex_stream_responses sample_codex_world sample_transport sample_body [] = Some (r, t')"
  using codex_stream_returns [of sample_codex_world "\<lambda>n. n" sample_transport sample_body "[]"]
  by (auto simp: sample_codex_world_def)

lemma codex_execute_first:
  assumes "send 0 = Ok (response, body)" "\<not> is_server_error (resp_status response)" "resp_status response \<noteq> UNAUTHORIZED"
  shows "\<exists>st. codex_execute w t send = Some (Ok (response, body), st)"
  using assms
  by (simp add: codex_execute_def execute_with_401_recovery.simps retry_step_def retry_new_def codex_retry_env_def)

lemma sample_listed:
  obtains models t' where "codex_list_models sample_codex_world sample_transport = Some (Ok models, t')"
    "map mi_id models = [''a'', ''b'']" "map mi_is_visible models = [False, True]"
proof -
  let ?w = sample_codex_world
  have "case current_auth ?w sample_transport 1 of Ok auth \<Rightarrow> is_ok (prepare_request sample_send_env auth None ''models'' [] ''application/json'') | Err _ \<Rightarrow> False"
    by code_simp
  then have "send_models_once ?w sample_transport 0 = Ok (\<lparr>resp_status = 200, resp_headers = []\<rparr>, [Ok ''{}''])"
    by (auto simp: send_models_once_def is_ok_iff sample_codex_world_def sample_transport_def split: result.split_asm)
  from codex_execute_first [where send = "send_models_once ?w sample_transport", OF this, of ?w sample_transport] obtain st where run: "codex_execute ?w sample_transport (send_models_once ?w sample_transport) =
      Some (Ok (\<lparr>resp_status = 200, resp_headers = []\<rparr>, [Ok ''{}'']), st)"
    by (auto simp: is_server_error_def)
  have "case normalize_api_models_with_bundled_metadata sample_decode ''priority'' [] ''{}'' of
      Ok models \<Rightarrow> map mi_id models = [''a'', ''b''] \<and> map mi_is_visible models = [False, True] | Err _ \<Rightarrow> False"
    by code_simp
  moreover have "collect_response [Ok ''{}''] MAX_MODELS_RESPONSE_BYTES = Ok ''{}''"
    by (simp add: collect_response_def MAX_MODELS_RESPONSE_BYTES_def)
  then have "read_models ?w True (Ok (\<lparr>resp_status = 200, resp_headers = []\<rparr>, [Ok ''{}''])) =
      normalize_api_models_with_bundled_metadata sample_decode ''priority'' [] ''{}''"
    by (simp add: read_models_def is_success_def) (simp add: sample_codex_world_def)
  moreover have "current_auth ?w sample_transport 0 = Ok (sample_auth\<lparr>get_token := Some ''k''\<rparr>)" "is_api_key_auth sample_auth"
      "ct_api_key_base_url sample_transport = None"
    by (simp_all add: current_auth_def resolve_auth_def sample_codex_world_def sample_transport_def sample_auth_def)
  ultimately show thesis
    using that run by (auto simp: codex_list_models_def split: result.split_asm)
qed


end
