(* ===== verification/File_System.thy ===== *)
theory File_System
  imports Errors
begin

text \<open>
  The part of the operating system that the launcher, the gateway and the transport use for their private
  files: Rust's \<open>Path\<close> as its list of components, a file system with symbolic links, and the primitive
  operations of \<open>std::fs\<close>. Every operation may fail: \<open>os_fault\<close> says which ones do, beyond the entries that
  are missing or in the way. \<open>os_race\<close> is what
  other processes do to the file system in the window between the check and the creation of a directory.
  Unix only.
\<close>

section \<open>Paths\<close>

datatype component = RootDir | CurDir | ParentDir | Normal bytes

type_synonym path = "component list"

text \<open>\<open>Path::components\<close>: repeated separators and every \<open>.\<close> but a leading one disappear.\<close>

definition path_piece :: "bytes \<Rightarrow> component list" where
  "path_piece s = (if s = [] \<or> s = ''.'' then [] else if s = ''..'' then [ParentDir] else [Normal s])"

definition components :: "bytes \<Rightarrow> path" where
  "components s =
     (let pieces = split_on (\<lambda>c. c = CHR ''/'') s
      in if starts_with ''/'' s then RootDir # concat (map path_piece pieces)
         else if hd pieces = ''.'' then CurDir # concat (map path_piece (tl pieces))
         else concat (map path_piece pieces))"

definition is_absolute :: "path \<Rightarrow> bool" where
  "is_absolute p = (case p of RootDir # _ \<Rightarrow> True | _ \<Rightarrow> False)"

definition file_name :: "path \<Rightarrow> bytes option" where
  "file_name p = (case rev p of Normal n # _ \<Rightarrow> Some n | _ \<Rightarrow> None)"

definition path_parent :: "path \<Rightarrow> path option" where
  "path_parent p = (case rev p of [] \<Rightarrow> None | RootDir # _ \<Rightarrow> None | _ # r \<Rightarrow> Some (rev r))"

definition path_join :: "path \<Rightarrow> bytes \<Rightarrow> path" where
  "path_join p name = p @ [Normal name]"

definition path_starts_with :: "path \<Rightarrow> path \<Rightarrow> bool" where
  "path_starts_with p q = (take (length q) p = q)"

section \<open>Files\<close>

datatype node = Directory | Regular bytes | Symlink path | Special

record inode =
  in_node :: node
  in_mode :: u32
  in_uid :: nat
  in_nlink :: nat

text \<open>A file system maps canonical paths to what is stored there.\<close>

type_synonym fs = "path \<Rightarrow> inode option"

datatype io_kind = NotFoundKind | AlreadyExistsKind | OtherKind bytes

datatype io_op =
    OpLstat path | OpStat path | OpCanonicalize path | OpMkdir path | OpRead path | OpOpen path
  | OpRemove path | OpStage path | OpProtect path | OpWrite path | OpSync path | OpPersist path | OpChmod path | OpLock path

record os =
  os_euid :: nat
  os_umask :: u32
  os_fault :: "io_op \<Rightarrow> bytes option"
  os_race :: "path \<Rightarrow> fs \<Rightarrow> fs"
  os_display :: "path \<Rightarrow> bytes"
  os_io_text :: "io_kind \<Rightarrow> bytes"

definition MAX_LINKS :: nat where
  "MAX_LINKS = 40"

text \<open>Resolution of an absolute path; \<open>n\<close> bounds the links followed, as the kernel does.\<close>

function walk :: "nat \<Rightarrow> fs \<Rightarrow> path \<Rightarrow> component list \<Rightarrow> (path, io_kind) result" where
  "walk n fs cur [] = Ok cur"
| "walk n fs cur (RootDir # rest) = walk n fs [RootDir] rest"
| "walk n fs cur (CurDir # rest) = walk n fs cur rest"
| "walk n fs cur (ParentDir # rest) = walk n fs (if length cur \<le> 1 then cur else butlast cur) rest"
| "walk n fs cur (Normal x # rest) =
     (case fs (cur @ [Normal x]) of
        None \<Rightarrow> Err NotFoundKind
      | Some i \<Rightarrow>
          (case in_node i of
             Symlink target \<Rightarrow>
               (case n of
                  0 \<Rightarrow> Err (OtherKind ''too many levels of symbolic links'')
                | Suc m \<Rightarrow> walk m fs cur (target @ rest))
           | Directory \<Rightarrow> walk n fs (cur @ [Normal x]) rest
           | _ \<Rightarrow> if rest = [] then Ok (cur @ [Normal x]) else Err (OtherKind ''not a directory'')))"
  by pat_completeness auto
termination
  by (relation "inv_image (less_than <*lex*> less_than) (\<lambda>(n, _, _, rest). (n, length rest))") auto

definition resolve :: "fs \<Rightarrow> path \<Rightarrow> (path, io_kind) result" where
  "resolve fs p = walk MAX_LINKS fs [] p"

definition is_directory :: "fs \<Rightarrow> path \<Rightarrow> bool" where
  "is_directory fs p = (case fs p of Some i \<Rightarrow> in_node i = Directory | None \<Rightarrow> False)"

text \<open>The directory entry a path names, its last component not followed.\<close>

definition locate :: "fs \<Rightarrow> path \<Rightarrow> (path, io_kind) result" where
  "locate fs p =
     (case rev p of
        Normal x # r \<Rightarrow>
          and_then (resolve fs (rev r)) (\<lambda>d.
            if is_directory fs d then Ok (d @ [Normal x]) else Err (OtherKind ''not a directory''))
      | _ \<Rightarrow> resolve fs p)"

definition entry :: "fs \<Rightarrow> path \<Rightarrow> (inode, io_kind) result" where
  "entry fs p = and_then (locate fs p) (\<lambda>q. ok_or (fs q) NotFoundKind)"

section \<open>Operations\<close>

definition faulty :: "os \<Rightarrow> io_op \<Rightarrow> (unit, io_kind) result" where
  "faulty e op = (case os_fault e op of Some m \<Rightarrow> Err (OtherKind m) | None \<Rightarrow> Ok ())"

definition symlink_metadata :: "os \<Rightarrow> fs \<Rightarrow> path \<Rightarrow> (inode, io_kind) result" where
  "symlink_metadata e fs p = and_then (faulty e (OpLstat p)) (\<lambda>_. entry fs p)"

definition metadata :: "os \<Rightarrow> fs \<Rightarrow> path \<Rightarrow> (inode, io_kind) result" where
  "metadata e fs p = and_then (faulty e (OpStat p)) (\<lambda>_. and_then (resolve fs p) (\<lambda>q. ok_or (fs q) NotFoundKind))"

definition canonicalize :: "os \<Rightarrow> fs \<Rightarrow> path \<Rightarrow> (path, io_kind) result" where
  "canonicalize e fs p = and_then (faulty e (OpCanonicalize p)) (\<lambda>_. resolve fs p)"

definition path_is_dir :: "os \<Rightarrow> fs \<Rightarrow> path \<Rightarrow> bool" where
  "path_is_dir e fs p = (case metadata e fs p of Ok i \<Rightarrow> in_node i = Directory | Err _ \<Rightarrow> False)"

definition path_exists :: "os \<Rightarrow> fs \<Rightarrow> path \<Rightarrow> bool" where
  "path_exists e fs p = is_ok (metadata e fs p)"

definition permissions :: "u32 \<Rightarrow> u32" where
  "permissions mode = and mode 511"

definition make_dir :: "os \<Rightarrow> path \<Rightarrow> u32 \<Rightarrow> fs \<Rightarrow> (unit, io_kind) result \<times> fs" where
  "make_dir e p mode fs =
     (let fs = os_race e p fs
      in case and_then (faulty e (OpMkdir p)) (\<lambda>_. locate fs p) of
           Err k \<Rightarrow> (Err k, fs)
         | Ok q \<Rightarrow>
             if fs q \<noteq> None then (Err AlreadyExistsKind, fs)
             else (Ok (), fs(q \<mapsto> \<lparr>in_node = Directory, in_mode = and mode (not (os_umask e)), in_uid = os_euid e, in_nlink = 2\<rparr>)))"

definition read_file :: "os \<Rightarrow> fs \<Rightarrow> path \<Rightarrow> (bytes, io_kind) result" where
  "read_file e fs p =
     and_then (faulty e (OpRead p)) (\<lambda>_. and_then (resolve fs p) (\<lambda>q.
       case fs q of
         Some i \<Rightarrow> (case in_node i of Regular content \<Rightarrow> Ok content | _ \<Rightarrow> Err (OtherKind ''not a regular file''))
       | None \<Rightarrow> Err NotFoundKind))"

definition set_permissions :: "os \<Rightarrow> path \<Rightarrow> u32 \<Rightarrow> fs \<Rightarrow> (unit, io_kind) result \<times> fs" where
  "set_permissions e p mode fs =
     (case and_then (faulty e (OpChmod p)) (\<lambda>_. and_then (resolve fs p) (\<lambda>q. and_then (ok_or (fs q) NotFoundKind) (\<lambda>i. Ok (q, i)))) of
        Err k \<Rightarrow> (Err k, fs)
      | Ok (q, i) \<Rightarrow> (Ok (), fs(q \<mapsto> i\<lparr>in_mode := mode\<rparr>)))"

text \<open>Renaming a staged regular file over a path replaces the entry; a directory in the way is an error.\<close>

definition install_file :: "os \<Rightarrow> path \<Rightarrow> inode \<Rightarrow> fs \<Rightarrow> (unit, io_kind) result \<times> fs" where
  "install_file e p file fs =
     (case and_then (faulty e (OpPersist p)) (\<lambda>_. locate fs p) of
        Err k \<Rightarrow> (Err k, fs)
      | Ok q \<Rightarrow>
          if is_directory fs q then (Err (OtherKind ''is a directory''), fs)
          else (Ok (), fs(q \<mapsto> file)))"

section \<open>Lemmas\<close>

lemma absolute_no_current: "starts_with ''/'' s \<Longrightarrow> CurDir \<notin> set (components s)"
  by (auto simp: components_def Let_def path_piece_def)

lemma path_join_simps [simp]:
  "file_name (path_join p n) = Some n" "path_parent (path_join p n) = Some p" "is_absolute p \<Longrightarrow> is_absolute (path_join p n)"
  by (auto simp: file_name_def path_parent_def path_join_def is_absolute_def split: list.splits component.splits)

lemma file_name_Some: "file_name p = Some n \<longleftrightarrow> (\<exists>d. p = path_join d n)"
proof -
  have "p = path_join (rev r) n" if "rev p = Normal n # r" for r
    using arg_cong [OF that, of rev] by (simp add: path_join_def)
  then show ?thesis
    by (auto simp: file_name_def path_join_def split: list.splits component.splits)
qed

lemma locate_join:
  "locate fs (path_join p n) =
     and_then (resolve fs p) (\<lambda>d. if is_directory fs d then Ok (path_join d n) else Err (OtherKind ''not a directory''))"
  unfolding path_join_def by (simp add: locate_def)

lemma faulty_Ok [simp]: "faulty e op = Ok u \<longleftrightarrow> os_fault e op = None"
  by (auto simp: faulty_def split: option.split)

text \<open>Canonical paths: every component is stored there and none is a link.\<close>

inductive real_path :: "fs \<Rightarrow> path \<Rightarrow> bool" for fs where
  real_root: "is_directory fs [RootDir] \<Longrightarrow> real_path fs [RootDir]"
| real_step: "real_path fs d \<Longrightarrow> is_directory fs d \<Longrightarrow> fs (d @ [Normal n]) = Some i \<Longrightarrow> \<forall>t. in_node i \<noteq> Symlink t \<Longrightarrow>
    real_path fs (d @ [Normal n])"

lemma real_path_shape: "real_path fs q \<Longrightarrow> \<exists>ns. q = RootDir # map Normal ns"
proof (induction rule: real_path.induct)
  case (real_step d n i)
  then obtain ns where "d = RootDir # map Normal ns" by blast
  then show ?case by (intro exI [of _ "ns @ [n]"]) simp
qed simp

inductive_cases real_stepE: "real_path fs (d @ [Normal n])"

lemma real_path_butlast:
  assumes "real_path fs q" "1 < length q"
  shows "real_path fs (butlast q) \<and> is_directory fs (butlast q)"
  using assms by (cases rule: real_path.cases) auto

lemma walk_real:
  assumes "walk n fs cur rest = Ok q" and "real_path fs cur \<and> is_directory fs cur" and "is_directory fs [RootDir]"
  shows "real_path fs q"
  using assms
proof (induction n fs cur rest rule: walk.induct)
  case (2 n fs cur rest)
  then show ?case by (simp add: real_root)
next
  case (4 n fs cur rest)
  then show ?case
    using real_path_butlast [of fs cur] by (auto split: if_splits)
next
  case (5 n fs cur x rest)
  then obtain i where i: "fs (cur @ [Normal x]) = Some i"
    by (cases "fs (cur @ [Normal x])") auto
  have step: "real_path fs (cur @ [Normal x])" if "\<forall>t. in_node i \<noteq> Symlink t"
    using 5(4) i that by (blast intro: real_step)
  show ?case
  proof (cases "in_node i")
    case Directory
    with 5(1) [OF i Directory] 5(3-5) i step show ?thesis
      by (simp add: is_directory_def)
  next
    case (Symlink t)
    with 5 i show ?thesis
      by (cases n) auto
  qed (use 5(3) i step in \<open>auto split: if_splits\<close>)
qed auto

lemma resolve_real:
  assumes "resolve fs p = Ok q" "is_absolute p" "is_directory fs [RootDir]"
  shows "real_path fs q"
proof -
  obtain rest where p: "p = RootDir # rest"
    using assms(2) by (auto simp: is_absolute_def split: list.splits component.splits)
  then have "walk MAX_LINKS fs [RootDir] rest = Ok q"
    using assms(1) by (simp add: resolve_def)
  then show ?thesis
    using assms(3) real_root [OF assms(3)] walk_real by blast
qed

lemma walk_real_prefix:
  assumes "real_path fs q" "rest = [] \<or> is_directory fs q"
  shows "walk n fs [] (q @ rest) = walk n fs q rest"
  using assms
proof (induction arbitrary: rest rule: real_path.induct)
  case (real_step d m i)
  have "walk n fs [] (d @ Normal m # rest) = walk n fs d (Normal m # rest)"
    using real_step.IH [of "Normal m # rest"] real_step.hyps(2) by simp
  also have "\<dots> = walk n fs (d @ [Normal m]) rest"
    using real_step.hyps real_step.prems by (cases "in_node i") (auto simp: is_directory_def)
  finally show ?case by simp
qed simp

lemma real_resolve: "real_path fs q \<Longrightarrow> resolve fs q = Ok q"
  using walk_real_prefix [of fs q "[]"] by (simp add: resolve_def)

lemma real_locate:
  assumes "real_path fs q"
  shows "locate fs q = Ok q"
  using assms
proof (cases rule: real_path.cases)
  case real_root
  then show ?thesis
    using real_resolve [OF assms] by (simp add: locate_def)
next
  case (real_step d n i)
  then show ?thesis
    using real_resolve [of fs d] locate_join [of fs d n] by (simp add: path_join_def)
qed

lemma real_entry: "real_path fs q \<Longrightarrow> entry fs q = ok_or (fs q) NotFoundKind"
  by (simp add: entry_def real_locate)

end
