(* ===== verification/Private_Profile.thy ===== *)
theory Private_Profile
  imports File_System Launcher_Ready Launcher_Args Json_Codec
begin

text \<open>
  The isolated profile of stock Muse (\<open>muse-codex/src/lib.rs\<close>, \<open>StockDirectories\<close> to
  \<open>set_file_mode_0600\<close>): where it lives, the private directories, the settings that are pinned for the
  gateway, and the model catalog that is written for stock Muse. Errors are their messages.
\<close>

section \<open>Private directories\<close>

abbreviation DIR_MODE :: u32 where "DIR_MODE \<equiv> 448"
abbreviation FILE_MODE :: u32 where "FILE_MODE \<equiv> 384"

text \<open>\<open>{mode:04o}\<close> of a permission mask.\<close>

definition show_mode :: "u32 \<Rightarrow> bytes" where
  "show_mode mode = (let n = unat mode in CHR ''0'' # map digit_char [n div 64 mod 8, n div 8 mod 8, n mod 8])"

definition validate_private_directory :: "os \<Rightarrow> path \<Rightarrow> inode \<Rightarrow> (unit, bytes) result" where
  "validate_private_directory e p i =
     (if in_node i \<noteq> Directory then Err (''private path '' @ os_display e p @ '' is not a regular directory'')
      else if permissions (in_mode i) \<noteq> DIR_MODE then
        Err (''private directory '' @ os_display e p @ '' must already have mode 0700 (found '' @ show_mode (permissions (in_mode i)) @ '')'')
      else if in_uid i \<noteq> os_euid e then Err (''private directory '' @ os_display e p @ '' is not owned by the current user'')
      else Ok ())"

definition create_private_dir :: "os \<Rightarrow> path \<Rightarrow> fs \<Rightarrow> (unit, bytes) result \<times> fs" where
  "create_private_dir e p fs =
     (case symlink_metadata e fs p of
        Ok i \<Rightarrow> (validate_private_directory e p i, fs)
      | Err NotFoundKind \<Rightarrow>
          (case path_parent p of
             None \<Rightarrow> (Err (''private directory '' @ os_display e p @ '' has no parent''), fs)
           | Some parent \<Rightarrow>
               if \<not> path_is_dir e fs parent then (Err (''parent directory '' @ os_display e parent @ '' must already exist''), fs)
               else
                 (case make_dir e p DIR_MODE fs of
                    (r, fs) \<Rightarrow>
                      if r \<noteq> Ok () \<and> r \<noteq> Err AlreadyExistsKind then (and_then (map_err (os_io_text e) r) (\<lambda>_. Ok ()), fs)
                      else (and_then (map_err (os_io_text e) (symlink_metadata e fs p)) (validate_private_directory e p), fs)))
      | Err k \<Rightarrow> (Err (os_io_text e k), fs))"

section \<open>Location\<close>

record launcher_env =
  le_muse_codex_home :: "bytes option"
  le_xdg_data_home :: "bytes option"
  le_home :: "bytes option"

definition default_app_home :: "launcher_env \<Rightarrow> (path, bytes) result" where
  "default_app_home le =
     (case le_xdg_data_home le of
        Some data_home \<Rightarrow> Ok (path_join (components data_home) ''muse-codex'')
      | None \<Rightarrow>
          and_then (ok_or (le_home le) ''HOME is not set'') (\<lambda>home.
            Ok (path_join (path_join (path_join (components home) ''.local'') ''share'') ''muse-codex'')))"

record StockDirectories =
  sd_app_home :: path
  sd_config_home :: path
  sd_data_home :: path

fun profile_names :: "PublicProvider \<Rightarrow> bytes \<times> bytes" where
  "profile_names Codex = (''stock-config'', ''stock-data'')"
| "profile_names Zai = (''stock-config-zai'', ''stock-data-zai'')"

definition discover_for :: "launcher_env \<Rightarrow> PublicProvider \<Rightarrow> (StockDirectories, bytes) result" where
  "discover_for le provider =
     and_then (case le_muse_codex_home le of Some p \<Rightarrow> Ok (components p) | None \<Rightarrow> default_app_home le) (\<lambda>app_home.
       case profile_names provider of (config, data) \<Rightarrow>
         Ok \<lparr>sd_app_home = app_home, sd_config_home = path_join app_home config, sd_data_home = path_join app_home data\<rparr>)"

definition validate_app_home_location :: "os \<Rightarrow> launcher_env \<Rightarrow> fs \<Rightarrow> path \<Rightarrow> (unit, bytes) result" where
  "validate_app_home_location e le fs p =
     (if \<not> is_absolute p then Err ''MUSE_CODEX_HOME must be an absolute path''
      else if CurDir \<in> set p \<or> ParentDir \<in> set p then Err ''MUSE_CODEX_HOME must not contain `.` or `..` components''
      else if file_name p \<noteq> Some ''muse-codex'' then Err ''MUSE_CODEX_HOME must end in `muse-codex`''
      else and_then (ok_or (path_parent p) ''MUSE_CODEX_HOME has no parent directory'') (\<lambda>parent.
           and_then (map_err (\<lambda>_. ''MUSE_CODEX_HOME parent '' @ os_display e parent @ '' must already exist'')
              (canonicalize e fs parent)) (\<lambda>canonical_parent.
           case le_home le of
             None \<Rightarrow> Ok ()
           | Some home \<Rightarrow>
               let user_home = components home; stock_codex_home = path_join user_home ''.codex''
               in if p = user_home then Err ''MUSE_CODEX_HOME cannot be the user home directory''
                  else if path_starts_with p stock_codex_home \<or>
                    path_starts_with canonical_parent
                      (case canonicalize e fs stock_codex_home of Ok c \<Rightarrow> c | Err _ \<Rightarrow> stock_codex_home)
                  then Err ''MUSE_CODEX_HOME cannot be inside the stock Codex home''
                  else Ok ())))"

text \<open>The check after the home exists: it is the entry that was validated.\<close>

definition confirm_app_home :: "os \<Rightarrow> path \<Rightarrow> fs \<Rightarrow> (unit, bytes) result" where
  "confirm_app_home e app_home fs =
     and_then (map_err (\<lambda>_. ''failed to canonicalize Muse Codex home '' @ os_display e app_home) (canonicalize e fs app_home)) (\<lambda>canonical.
     and_then (ok_or (path_parent app_home) ''Muse Codex home has no parent directory'') (\<lambda>parent.
     and_then (map_err (os_io_text e) (canonicalize e fs parent)) (\<lambda>canonical_parent.
       if canonical \<noteq> path_join canonical_parent ''muse-codex'' then
         Err ''Muse Codex home changed while it was being validated'' else Ok ())))"

definition create_private :: "os \<Rightarrow> launcher_env \<Rightarrow> StockDirectories \<Rightarrow> fs \<Rightarrow> (unit, bytes) result \<times> fs" where
  "create_private e le dirs fs =
     (case validate_app_home_location e le fs (sd_app_home dirs) of
        Err m \<Rightarrow> (Err m, fs)
      | Ok _ \<Rightarrow>
          (case create_private_dir e (sd_app_home dirs) fs of
             (Err m, fs) \<Rightarrow> (Err m, fs)
           | (Ok _, fs) \<Rightarrow>
               (case confirm_app_home e (sd_app_home dirs) fs of
                  Err m \<Rightarrow> (Err m, fs)
                | Ok _ \<Rightarrow>
                    (case create_private_dir e (sd_config_home dirs) fs of
                       (Err m, fs) \<Rightarrow> (Err m, fs)
                     | (Ok _, fs) \<Rightarrow> create_private_dir e (sd_data_home dirs) fs))))"

section \<open>Settings\<close>

definition reject_symlink_or_non_file :: "os \<Rightarrow> fs \<Rightarrow> path \<Rightarrow> (unit, bytes) result" where
  "reject_symlink_or_non_file e fs p =
     and_then (map_err (\<lambda>_. ''failed to inspect '' @ os_display e p) (symlink_metadata e fs p)) (\<lambda>i.
       case in_node i of Regular _ \<Rightarrow> Ok () | _ \<Rightarrow> Err (''refusing to use non-regular file '' @ os_display e p))"

definition read_settings :: "os \<Rightarrow> serde_json \<Rightarrow> fs \<Rightarrow> path \<Rightarrow> (jmap, bytes) result" where
  "read_settings e sj fs p =
     (if path_exists e fs p then
        and_then (reject_symlink_or_non_file e fs p) (\<lambda>_.
        and_then (map_err (\<lambda>_. ''failed to read isolated settings at '' @ os_display e p) (read_file e fs p)) (\<lambda>bytes.
        and_then (ok_or (from_str sj bytes)
           (''isolated settings at '' @ os_display e p @ '' are not valid JSON; refusing to overwrite them'')) (\<lambda>v.
          ok_or (as_object v) (''isolated settings at '' @ os_display e p @ '' must contain a JSON object''))))
      else Ok [])"

definition pin_retry :: "jmap \<Rightarrow> jmap" where
  "pin_retry root =
     (let retry = (case map_get root ''provider_retry'' of Some (Object r) \<Rightarrow> r | _ \<Rightarrow> [])
      in map_insert ''provider_retry'' (Object (map_insert ''max_retries'' (json_u64 0) (map_remove ''max_attempts'' retry))) root)"

definition pin_telemetry :: "jmap \<Rightarrow> jmap" where
  "pin_telemetry root =
     (case map_get root ''telemetry'' of
        Some (Object t) \<Rightarrow> map_insert ''telemetry'' (Object (map_insert ''enabled'' (Bool False) t)) root
      | _ \<Rightarrow> map_insert ''telemetry'' (json_object [(''enabled'', Bool False)]) root)"

definition pinned_settings :: "bytes \<Rightarrow> jmap \<Rightarrow> jmap" where
  "pinned_settings base_url root =
     pin_telemetry (pin_retry (map_insert ''endpoint_transport'' (json_object [(''base_url'', String base_url), (''auth'', String ''bearer'')])
       (map_insert ''schema_version'' (json_u64 1) root)))"

text \<open>
  Staging and replacing a file: a temporary file is created, protected, written and synced, then renamed
  over the target. A failure before the rename drops the temporary file.
\<close>

definition staged_file :: "os \<Rightarrow> bytes \<Rightarrow> inode" where
  "staged_file e content = \<lparr>in_node = Regular content, in_mode = FILE_MODE, in_uid = os_euid e, in_nlink = 1\<rparr>"

definition stage_file :: "os \<Rightarrow> fs \<Rightarrow> path \<Rightarrow> bytes \<Rightarrow> (unit, bytes) result" where
  "stage_file e fs dir stage_message =
     and_then (map_err (\<lambda>_. stage_message) (and_then (faulty e (OpStage dir)) (\<lambda>_. resolve fs dir))) (\<lambda>_.
     and_then (map_err (os_io_text e) (faulty e (OpProtect dir))) (\<lambda>_.
     and_then (map_err (os_io_text e) (faulty e (OpWrite dir))) (\<lambda>_.
       map_err (os_io_text e) (faulty e (OpSync dir)))))"

definition replace_file ::
  "os \<Rightarrow> path \<Rightarrow> path \<Rightarrow> bytes \<Rightarrow> bytes \<Rightarrow> bytes \<Rightarrow> fs \<Rightarrow> (path, bytes) result \<times> fs" where
  "replace_file e dir p content stage_message install_message fs =
     (case stage_file e fs dir stage_message of
        Err m \<Rightarrow> (Err m, fs)
      | Ok _ \<Rightarrow>
          (case install_file e p (staged_file e content) fs of
             (Err k, fs) \<Rightarrow> (Err (install_message @ os_display e p @ '': '' @ os_io_text e k), fs)
           | (Ok _, fs) \<Rightarrow>
               (case set_permissions e p FILE_MODE fs of
                  (Err k, fs) \<Rightarrow> (Err (os_io_text e k), fs)
                | (Ok _, fs) \<Rightarrow> (Ok p, fs))))"

text \<open>\<open>pretty\<close> is \<open>serde_json::to_vec_pretty\<close>.\<close>

definition seed_stock_settings ::
  "os \<Rightarrow> serde_json \<Rightarrow> (Value \<Rightarrow> bytes) \<Rightarrow> path \<Rightarrow> bytes \<Rightarrow> fs \<Rightarrow> (path, bytes) result \<times> fs" where
  "seed_stock_settings e sj pretty config_home base_url fs =
     (let muse_config = path_join config_home ''muse''; p = path_join muse_config ''settings.json''
      in case create_private_dir e config_home fs of
           (Err m, fs) \<Rightarrow> (Err m, fs)
         | (Ok _, fs) \<Rightarrow>
             (case create_private_dir e muse_config fs of
                (Err m, fs) \<Rightarrow> (Err m, fs)
              | (Ok _, fs) \<Rightarrow>
                  (case read_settings e sj fs p of
                     Err m \<Rightarrow> (Err m, fs)
                   | Ok root \<Rightarrow>
                       replace_file e muse_config p (pretty (Object (pinned_settings base_url root)) @ [LF])
                         (''failed to stage settings in '' @ os_display e muse_config)
                         ''failed to install isolated settings at '' fs)))"

section \<open>Model catalog\<close>

text \<open>Once another process has created the directory, the second look finds it.\<close>

lemma make_dir_exists: "make_dir e p mode fs = (Err AlreadyExistsKind, fs') \<Longrightarrow> entry fs' p \<noteq> Err NotFoundKind"
  by (auto simp: make_dir_def Let_def entry_def faulty_def and_then_Ok and_then_Err split: result.splits if_splits option.splits)

function ensure_owned_catalog_directory :: "os \<Rightarrow> path \<Rightarrow> fs \<Rightarrow> (unit, bytes) result \<times> fs" where
  "ensure_owned_catalog_directory e p fs =
     (case symlink_metadata e fs p of
        Ok i \<Rightarrow>
          (if in_node i \<noteq> Directory then Err (''model catalog path '' @ os_display e p @ '' is not a directory'')
           else if in_uid i \<noteq> os_euid e \<or> and (in_mode i) 18 \<noteq> 0 then
             Err (''model catalog directory '' @ os_display e p @ '' is not privately owned'')
           else Ok (), fs)
      | Err NotFoundKind \<Rightarrow>
          (case make_dir e p DIR_MODE fs of
             (Ok _, fs') \<Rightarrow> (Ok (), fs')
           | (Err AlreadyExistsKind, fs') \<Rightarrow> ensure_owned_catalog_directory e p fs'
           | (Err k, fs') \<Rightarrow> (Err (os_io_text e k), fs'))
      | Err k \<Rightarrow> (Err (os_io_text e k), fs))"
  by pat_completeness auto

termination
proof (relation "measure (\<lambda>(e, p, fs). if entry fs p = Err NotFoundKind then 1 else 0)")
  fix e p fs k r fs' k'
  assume "symlink_metadata e fs p = Err k" "k = NotFoundKind" "(r, fs') = make_dir e p DIR_MODE fs" "r = Err k'" "k' = AlreadyExistsKind"
  then show "((e, p, fs'), e, p, fs) \<in> measure (\<lambda>(e, p, fs). if entry fs p = Err NotFoundKind then 1 else 0)"
    using make_dir_exists [of e p DIR_MODE fs fs'] by (auto simp: symlink_metadata_def faulty_def split: option.splits)
qed simp

declare ensure_owned_catalog_directory.simps [simp del]

definition reasoning_effort_variants :: "GatewayModel \<Rightarrow> Value" where
  "reasoning_effort_variants m =
     (if gm_supported_reasoning_efforts m = [] then Null
      else Array (map (\<lambda>effort. json_object [(''tier'', String effort), (''description'', Null)]) (gm_supported_reasoning_efforts m)))"

definition json_option :: "('a \<Rightarrow> Value) \<Rightarrow> 'a option \<Rightarrow> Value" where
  "json_option f x = (case x of Some y \<Rightarrow> f y | None \<Rightarrow> Null)"

definition catalog_row :: "nat \<times> GatewayModel \<Rightarrow> Value" where
  "catalog_row = (\<lambda>(index, m). json_object [
     (''model_id'', String (gm_id m)),
     (''display_label'', String (unwrap_or (gm_display_name m) (gm_id m))),
     (''provider_id'', String ''meta''), (''profile_id'', String ''tbh''),
     (''visibility'', String (if gm_is_visible m then ''visible'' else ''hidden'')),
     (''release_date'', Null), (''display_order'', json_u64 (of_nat index)),
     (''is_current'', Bool (gm_is_default m)), (''is_default'', Bool (gm_is_default m)),
     (''roles'', Array []),
     (''context_limit'', json_option json_u64 (gm_context_window m)),
     (''output_limit'', json_option json_u64 (gm_max_output_tokens m)),
     (''description'', json_option String (gm_description m)),
     (''cost'', Null), (''reasoning_effort_variants'', reasoning_effort_variants m)])"

definition catalog_document :: "GatewayModel list \<Rightarrow> Value" where
  "catalog_document models = json_object [(''schema_version'', json_u64 1), (''provider_id'', String ''meta''),
     (''profile_id'', String ''tbh''), (''source'', String ''provider_catalog''),
     (''rows'', Array (map catalog_row (zip [0..<length models] models)))]"

definition STOCK_MODEL_CATALOG_FILE :: bytes where
  "STOCK_MODEL_CATALOG_FILE = ''6d657461__p746268.json''"

definition seed_stock_model_catalog ::
  "os \<Rightarrow> (Value \<Rightarrow> bytes) \<Rightarrow> path \<Rightarrow> GatewayModel list \<Rightarrow> bytes \<Rightarrow> fs \<Rightarrow> (path, bytes) result \<times> fs" where
  "seed_stock_model_catalog e pretty data_home models default_model fs =
     (let muse_data = path_join data_home ''muse''; directory = path_join muse_data ''model-catalog'';
          p = path_join directory STOCK_MODEL_CATALOG_FILE
      in case validate_gateway_models models default_model of
           Err m \<Rightarrow> (Err m, fs)
         | Ok _ \<Rightarrow>
             (case ensure_owned_catalog_directory e muse_data fs of
                (Err m, fs) \<Rightarrow> (Err m, fs)
              | (Ok _, fs) \<Rightarrow>
                  (case ensure_owned_catalog_directory e directory fs of
                     (Err m, fs) \<Rightarrow> (Err m, fs)
                   | (Ok _, fs) \<Rightarrow>
                       (case (if path_exists e fs p then reject_symlink_or_non_file e fs p else Ok ()) of
                          Err m \<Rightarrow> (Err m, fs)
                        | Ok _ \<Rightarrow>
                            replace_file e directory p (pretty (catalog_document models) @ [LF])
                              (''failed to stage model catalog in '' @ os_display e directory)
                              ''failed to install isolated model catalog at '' fs))))"

end
