(* ===== verification/Private_Profile_Props.thy ===== *)
theory Private_Profile_Props
  imports Private_Profile
begin

text \<open>
  Properties of the isolated profile. Other processes may add entries to the file system at any of the
  race windows (\<open>additive\<close>); the directories, the settings and the catalog are private afterwards, and a
  failure at any step leaves the old file or the complete new one.
\<close>

section \<open>Growing file systems\<close>

definition additive :: "os \<Rightarrow> bool" where
  "additive e = (\<forall>p fs. fs \<subseteq>\<^sub>m os_race e p fs)"

lemma map_le_Some: "fs \<subseteq>\<^sub>m fs' \<Longrightarrow> fs q = Some i \<Longrightarrow> fs' q = Some i"
  by (auto simp: map_le_def dom_def dest: bspec [where x = q])

lemma is_directory_mono: "fs \<subseteq>\<^sub>m fs' \<Longrightarrow> is_directory fs q \<Longrightarrow> is_directory fs' q"
  by (auto simp: is_directory_def dest: map_le_Some split: option.splits)

lemma walk_mono: "fs \<subseteq>\<^sub>m fs' \<Longrightarrow> walk n fs cur rest = Ok q \<Longrightarrow> walk n fs' cur rest = Ok q"
proof (induction n fs cur rest rule: walk.induct)
  case (5 n fs cur x rest)
  then obtain i where i: "fs (cur @ [Normal x]) = Some i"
    by (cases "fs (cur @ [Normal x])") auto
  with 5(3) have i': "fs' (cur @ [Normal x]) = Some i"
    by (rule map_le_Some)
  show ?case
  proof (cases "in_node i")
    case Directory
    with 5 i i' show ?thesis by simp
  next
    case (Symlink t)
    with 5 i i' show ?thesis
      by (cases n) auto
  qed (use 5(4) i i' in auto)
qed auto

lemma resolve_mono: "fs \<subseteq>\<^sub>m fs' \<Longrightarrow> resolve fs p = Ok q \<Longrightarrow> resolve fs' p = Ok q"
  by (simp add: resolve_def walk_mono)

lemma locate_mono:
  assumes "fs \<subseteq>\<^sub>m fs'" "locate fs p = Ok q"
  shows "locate fs' p = Ok q"
  using assms
  by (auto simp: locate_def and_then_Ok resolve_mono is_directory_mono split: list.splits component.splits if_splits)

section \<open>Private directories\<close>

definition private_dir :: "os \<Rightarrow> inode \<Rightarrow> bool" where
  "private_dir e i = (in_node i = Directory \<and> permissions (in_mode i) = DIR_MODE \<and> in_uid i = os_euid e)"

lemma validate_private_directory_Ok [simp]: "validate_private_directory e p i = Ok u \<longleftrightarrow> private_dir e i"
  by (auto simp: validate_private_directory_def private_dir_def)

lemma symlink_metadata_Ok: "symlink_metadata e fs p = Ok i \<Longrightarrow> entry fs p = Ok i"
  by (auto simp: symlink_metadata_def and_then_Ok)

lemma create_private_dir_Ok:
  assumes "create_private_dir e p fs = (Ok u, fs')"
  shows "\<exists>i. entry fs' p = Ok i \<and> private_dir e i"
  using assms
  by (auto simp: create_private_dir_def and_then_Ok dest!: symlink_metadata_Ok
      split: result.split_asm io_kind.split_asm option.split_asm if_split_asm prod.split_asm)

lemma map_le_new: "fs \<subseteq>\<^sub>m fs' \<Longrightarrow> fs' q = None \<Longrightarrow> fs \<subseteq>\<^sub>m fs'(q \<mapsto> i)"
  by (fastforce simp: map_le_def dom_def)

lemma make_dir_grows: "additive e \<Longrightarrow> make_dir e p mode fs = (r, fs') \<Longrightarrow> fs \<subseteq>\<^sub>m fs'"
  by (auto simp: additive_def make_dir_def Let_def split: result.split_asm if_split_asm intro: map_le_new)

lemma create_private_dir_grows:
  assumes "additive e" "create_private_dir e p fs = (r, fs')"
  shows "fs \<subseteq>\<^sub>m fs'"
  using assms
  by (auto simp: create_private_dir_def dest: make_dir_grows
      split: result.split_asm io_kind.split_asm option.split_asm if_split_asm prod.split_asm)

lemma entry_join:
  assumes "entry fs (path_join p n) = Ok i" "resolve fs p = Ok d"
  shows "fs (path_join d n) = Some i"
  using assms by (auto simp: entry_def locate_join and_then_Ok split: if_splits)

lemma canonicalize_Ok: "canonicalize e fs p = Ok q \<Longrightarrow> resolve fs p = Ok q"
  by (auto simp: canonicalize_def and_then_Ok)

lemma validate_location_Ok:
  assumes "validate_app_home_location e le fs p = Ok u"
  obtains parent cp where "is_absolute p" "p = path_join parent ''muse-codex''" "resolve fs parent = Ok cp"
    "\<And>home S. le_home le = Some home \<Longrightarrow> canonicalize e fs (path_join (components home) ''.codex'') = Ok S \<Longrightarrow> \<not> path_starts_with cp S"
proof -
  have abs: "is_absolute p" and name: "file_name p = Some ''muse-codex''"
    using assms by (auto simp: validate_app_home_location_def split: if_splits)
  from name obtain parent where p: "p = path_join parent ''muse-codex''"
    by (auto simp: file_name_Some)
  obtain cp where cp: "canonicalize e fs parent = Ok cp"
    using assms by (cases "canonicalize e fs parent") (auto simp: validate_app_home_location_def p split: if_splits)
  show thesis
  proof (rule that [OF abs p canonicalize_Ok [OF cp]])
    fix home S
    assume "le_home le = Some home" "canonicalize e fs (path_join (components home) ''.codex'') = Ok S"
    then show "\<not> path_starts_with cp S"
      using assms cp by (auto simp: validate_app_home_location_def p Let_def split: if_splits)
  qed
qed

lemma path_starts_with_join: "path_starts_with (path_join d n) S \<longleftrightarrow> path_join d n = S \<or> path_starts_with d S"
  by (auto simp: path_starts_with_def path_join_def take_Cons' not_less_eq_eq)

lemma create_private_facts:
  assumes "additive e" "is_directory fs [RootDir]" "discover_for le provider = Ok dirs" "create_private e le dirs fs = (Ok (), fs')"
  obtains parent cp u where "validate_app_home_location e le fs (sd_app_home dirs) = Ok u"
    "is_absolute (sd_app_home dirs)" "sd_app_home dirs = path_join parent ''muse-codex''" "resolve fs' parent = Ok cp"
    "resolve fs' (sd_app_home dirs) = Ok (path_join cp ''muse-codex'')" "real_path fs' (path_join cp ''muse-codex'')"
    "\<And>q. q \<in> {path_join cp ''muse-codex'', path_join (path_join cp ''muse-codex'') (fst (profile_names provider)),
       path_join (path_join cp ''muse-codex'') (snd (profile_names provider))} \<Longrightarrow> \<exists>i. fs' q = Some i \<and> private_dir e i"
    "\<And>h S. le_home le = Some h \<Longrightarrow> canonicalize e fs (path_join (components h) ''.codex'') = Ok S \<Longrightarrow> \<not> path_starts_with cp S"
proof -
  let ?home = "sd_app_home dirs" and ?names = "profile_names provider"
  have dirs: "sd_config_home dirs = path_join ?home (fst ?names)" "sd_data_home dirs = path_join ?home (snd ?names)"
    using assms(3) by (cases ?names; auto simp: discover_for_def and_then_Ok)+
  obtain fs1 fs2 u1 u2 u3 u4 where steps: "validate_app_home_location e le fs ?home = Ok u1"
      "create_private_dir e ?home fs = (Ok u2, fs1)" "confirm_app_home e ?home fs1 = Ok u3"
      "create_private_dir e (sd_config_home dirs) fs1 = (Ok u4, fs2)" "create_private_dir e (sd_data_home dirs) fs2 = (Ok (), fs')"
    using assms(4) by (auto simp: create_private_def split: result.split_asm prod.split_asm)
  obtain parent cp where home: "is_absolute ?home" "?home = path_join parent ''muse-codex''" "resolve fs parent = Ok cp"
      and outside: "\<And>h S. le_home le = Some h \<Longrightarrow> canonicalize e fs (path_join (components h) ''.codex'') = Ok S \<Longrightarrow> \<not> path_starts_with cp S"
    using steps(1) by (rule validate_location_Ok) blast
  let ?R = "path_join cp ''muse-codex''"
  note grows = create_private_dir_grows [OF assms(1) steps(2)] create_private_dir_grows [OF assms(1) steps(4)]
    create_private_dir_grows [OF assms(1) steps(5)]
  have parent: "resolve fs1 parent = Ok cp"
    using resolve_mono [OF grows(1) home(3)] .
  then have R1: "resolve fs1 ?home = Ok ?R"
    using steps(3) home(2) by (auto simp: confirm_app_home_def and_then_Ok dest!: canonicalize_Ok split: if_splits)
  note R2 = resolve_mono [OF grows(2) R1]
  note R3 = resolve_mono [OF grows(3) R2]
  obtain i1 i2 i3 where i: "entry fs1 ?home = Ok i1" "private_dir e i1" "entry fs2 (sd_config_home dirs) = Ok i2" "private_dir e i2"
      "entry fs' (sd_data_home dirs) = Ok i3" "private_dir e i3"
    using create_private_dir_Ok [OF steps(2)] create_private_dir_Ok [OF steps(4)] create_private_dir_Ok [OF steps(5)] by blast
  have "fs1 ?R = Some i1" "fs2 (path_join ?R (fst ?names)) = Some i2" "fs' (path_join ?R (snd ?names)) = Some i3"
    using entry_join [OF _ parent] entry_join [OF _ R2] entry_join [OF _ R3] i(1,3,5) home(2) dirs by simp_all
  then have "fs' ?R = Some i1" "fs' (path_join ?R (fst ?names)) = Some i2" "fs' (path_join ?R (snd ?names)) = Some i3"
    using map_le_Some [OF grows(3)] map_le_Some [OF grows(2)] by simp_all
  moreover have "real_path fs' ?R"
    using resolve_real [OF R3 home(1)] assms(2) grows [THEN is_directory_mono] by simp
  ultimately show thesis
    using i(2,4,6)
    by (intro that [OF steps(1) home(1,2) resolve_mono [OF grows(3) resolve_mono [OF grows(2) parent]] R3]) (auto dest: outside)
qed


section \<open>Replacing a file\<close>

lemma real_path_mono: "real_path fs q \<Longrightarrow> fs \<subseteq>\<^sub>m fs' \<Longrightarrow> real_path fs' q"
  by (induction rule: real_path.induct) (auto intro: real_path.intros is_directory_mono map_le_Some)

lemma real_path_agree: "real_path fs d \<Longrightarrow> \<forall>q. length q \<le> length d \<longrightarrow> fs' q = fs q \<Longrightarrow> real_path fs' d"
proof (induction rule: real_path.induct)
  case (real_step d n j)
  then have "real_path fs' d" "is_directory fs' d" "fs' (d @ [Normal n]) = Some j"
    by (auto simp: is_directory_def)
  then show ?case
    using real_step.hyps(4) by (rule real_path.real_step)
qed (auto simp: is_directory_def intro: real_root)

lemma real_path_upd: "real_path fs d \<Longrightarrow> length d < length p \<Longrightarrow> real_path (fs(p \<mapsto> i)) d"
  by (erule real_path_agree) auto

lemma resolve_child:
  assumes "real_path fs d" "is_directory fs d"
  shows "resolve fs (path_join d n) = walk MAX_LINKS fs d [Normal n]"
  using walk_real_prefix [OF assms(1), of "[Normal n]"] assms(2) by (simp add: resolve_def path_join_def)

lemma replace_file_real:
  assumes "real_path fs dir" "is_directory fs dir" "p = path_join dir n"
    and "replace_file e dir p content stage_message install_message fs = (r, fs')"
  shows "fs' = fs \<and> \<not> is_ok r \<or> fs' = fs(p \<mapsto> staged_file e content) \<and> (r = Ok p \<or> \<not> is_ok r)"
proof -
  let ?new = "fs(p \<mapsto> staged_file e content)"
  have p: "locate fs p = Ok p"
    using assms(1-3) by (simp add: locate_join real_resolve)
  have "real_path ?new dir" "is_directory ?new dir"
    using assms(1-3) by (auto simp: path_join_def is_directory_def intro: real_path_upd)
  then have "resolve ?new p = Ok p"
    using resolve_child [of ?new dir n] by (simp add: assms(3) staged_file_def path_join_def)
  then have chmod: "set_permissions e p FILE_MODE ?new = (if os_fault e (OpChmod p) = None then Ok () else snd_fault, ?new)"
    if "snd_fault = Err (OtherKind (the (os_fault e (OpChmod p))))" for snd_fault
    using that by (auto simp: set_permissions_def faulty_def staged_file_def fun_upd_idem split: option.split)
  show ?thesis
  proof (cases "stage_file e fs dir stage_message")
    case (Err m)
    with assms(4) show ?thesis by (auto simp: replace_file_def is_ok_def)
  next
    case (Ok u)
    have "install_file e p (staged_file e content) fs \<in> {(Ok (), ?new)} \<union> {(Err k, fs) | k. True}"
      using p by (auto simp: install_file_def and_then_Ok split: result.split)
    with assms(4) Ok chmod [OF refl] show ?thesis
      by (auto simp: replace_file_def is_ok_def split: if_splits)
  qed
qed

section \<open>Settings\<close>

lemma map_ok_rebuild: "map_ok m \<Longrightarrow> m = map (\<lambda>k. (k, the (map_get m k))) (map fst m)"
proof (induction m)
  case (Cons kv m)
  have "k \<noteq> fst kv" if "k \<in> fst ` set m" for k
    using Cons.prems that by (auto simp: map_ok_def)
  then have "map (\<lambda>k. (k, the (map_get (kv # m) k))) (map fst m) = map (\<lambda>k. (k, the (map_get m k))) (map fst m)"
    by (cases kv) auto
  with Cons show ?case
    by (cases kv) (simp add: map_ok_def)
qed simp

lemma map_ok_ext:
  assumes "map_ok m" "map_ok m'" "\<And>k. map_get m k = map_get m' k"
  shows "m = m'"
proof -
  have keys: "sorted_wrt (<) (map fst m)" "sorted_wrt (<) (map fst m')" "set (map fst m) = set (map fst m')"
    using assms by (auto simp: map_ok_def map_get_of simp flip: dom_map_of_conv_image_fst)
  then have "map fst m = map fst m'"
    by (simp add: strict_sorted_equal)
  with assms(3) map_ok_rebuild [OF assms(1)] map_ok_rebuild [OF assms(2)] show ?thesis
    by simp
qed

definition object_at :: "jmap \<Rightarrow> bytes \<Rightarrow> jmap" where
  "object_at m k = (case map_get m k of Some (Object r) \<Rightarrow> r | _ \<Rightarrow> [])"

lemma pinned_settings_get:
  "map_get (pinned_settings u root) k =
     (if k = ''telemetry'' then Some (Object (map_insert ''enabled'' (Bool False) (object_at root ''telemetry'')))
      else if k = ''provider_retry'' then
        Some (Object (map_insert ''max_retries'' (json_u64 0) (map_remove ''max_attempts'' (object_at root ''provider_retry''))))
      else if k = ''endpoint_transport'' then Some (json_object [(''base_url'', String u), (''auth'', String ''bearer'')])
      else if k = ''schema_version'' then Some (json_u64 1) else map_get root k)"
  by (simp add: pinned_settings_def pin_telemetry_def pin_retry_def object_at_def Let_def json_object_def map_build_def
      split: option.split Value.split)

lemma pinned_settings_ok: "map_ok root \<Longrightarrow> map_ok (pinned_settings u root)"
  by (simp add: pinned_settings_def pin_telemetry_def pin_retry_def Let_def map_ok_insert split: option.split Value.split)

lemma object_at_ok: "json_wf (Object root) \<Longrightarrow> map_ok (object_at root k)"
  by (auto simp: object_at_def dest!: map_get_in_set split: option.split Value.split)


section \<open>Writing the profile\<close>

text \<open>Without interference, a private directory below a canonical one is canonical too.\<close>

definition quiet_os :: "os \<Rightarrow> bool" where
  "quiet_os e = (\<forall>p fs. os_race e p fs = fs)"

lemma quiet_additive: "quiet_os e \<Longrightarrow> additive e"
  by (simp add: quiet_os_def additive_def)

lemma make_dir_quiet:
  assumes "quiet_os e" "make_dir e p mode fs = (r, fs')" "fs q \<noteq> None \<or> locate fs p \<noteq> Ok q"
  shows "fs' q = fs q"
  using assms by (auto simp: make_dir_def quiet_os_def Let_def and_then_Ok split: result.split_asm if_split_asm)

lemma create_private_dir_quiet:
  assumes "quiet_os e" "create_private_dir e p fs = (r, fs')" "fs q \<noteq> None \<or> locate fs p \<noteq> Ok q"
  shows "fs' q = fs q"
  using assms make_dir_quiet [OF assms(1)]
  by (auto simp: create_private_dir_def split: result.split_asm io_kind.split_asm option.split_asm if_split_asm prod.split_asm)

lemma child_real:
  assumes "real_path fs d" "entry fs (path_join d n) = Ok i" "in_node i = Directory"
  shows "real_path fs (path_join d n)" "is_directory fs (path_join d n)"
proof -
  have d: "is_directory fs d" "fs (path_join d n) = Some i"
    using assms(1,2) by (auto simp: entry_def locate_join real_resolve and_then_Ok split: if_splits)
  then show "real_path fs (path_join d n)"
    using assms(1,3) real_step [of fs d n i] by (simp add: path_join_def)
  show "is_directory fs (path_join d n)"
    using d(2) assms(3) by (simp add: is_directory_def)
qed

text \<open>What the settings file says before seeding; a dangling link counts as no file.\<close>

definition settings_before :: "serde_json \<Rightarrow> inode option \<Rightarrow> jmap \<Rightarrow> bool" where
  "settings_before sj file root =
     (case file of
        None \<Rightarrow> root = []
      | Some i \<Rightarrow>
          (case in_node i of
             Regular content \<Rightarrow> from_str sj content = Some (Object root)
           | Symlink _ \<Rightarrow> root = []
           | _ \<Rightarrow> False))"

lemma read_settings_before:
  assumes "real_path fs d" "is_directory fs d" "os_fault e (OpStat (path_join d n)) = None"
    and "read_settings e sj fs (path_join d n) = Ok root"
  shows "settings_before sj (fs (path_join d n)) root"
proof -
  let ?p = "path_join d n"
  have entry: "entry fs ?p = ok_or (fs ?p) NotFoundKind"
    using assms(1,2) by (simp add: entry_def locate_join real_resolve)
  have stat: "metadata e fs ?p = and_then (walk MAX_LINKS fs d [Normal n]) (\<lambda>q. ok_or (fs q) NotFoundKind)"
    using assms(3) by (simp add: metadata_def faulty_def resolve_child [OF assms(1,2)])
  show ?thesis
  proof (cases "fs ?p")
    case None
    then have "metadata e fs ?p = Err NotFoundKind"
      unfolding stat by (simp add: path_join_def)
    with assms(4) None show ?thesis
      by (simp add: read_settings_def path_exists_def is_ok_def settings_before_def)
  next
    case (Some i)
    show ?thesis
    proof (cases "in_node i")
      case (Regular content)
      then have "metadata e fs ?p = Ok i" "resolve fs ?p = Ok ?p"
        using Some unfolding stat resolve_child [OF assms(1,2)] by (simp_all add: path_join_def)
      with assms(4) Some Regular show ?thesis
        by (auto simp: read_settings_def path_exists_def is_ok_def settings_before_def and_then_Ok read_file_def)
    next
      case (Symlink t)
      with assms(4) Some entry show ?thesis
        by (auto simp: read_settings_def settings_before_def reject_symlink_or_non_file_def symlink_metadata_def and_then_Ok
            split: if_splits)
    qed (use assms(4) Some entry stat in \<open>auto simp: read_settings_def path_exists_def is_ok_def
          reject_symlink_or_non_file_def symlink_metadata_def and_then_Ok path_join_def split: if_splits\<close>)
  qed
qed

text \<open>The last stage of seeding, once the directory of the settings is there.\<close>

lemma settings_installed:
  assumes "real_path fs2 muse" "is_directory fs2 muse" "p = path_join muse ''settings.json''" "os_fault e (OpStat p) = None"
    and others: "\<And>q. q \<noteq> muse \<Longrightarrow> fs2 q = fs q"
    and run: "(case read_settings e sj fs2 p of Err m \<Rightarrow> (Err m, fs2)
        | Ok root \<Rightarrow> replace_file e muse p (pretty (Object (pinned_settings u root)) @ [LF]) stage_message install_message fs2) = (r, fs')"
  shows "(fs' p = fs p \<and> \<not> is_ok r \<or>
     (\<exists>root. settings_before sj (fs p) root \<and> (r = Ok p \<or> \<not> is_ok r) \<and>
        fs' p = Some (staged_file e (pretty (Object (pinned_settings u root)) @ [LF])))) \<and>
    (\<forall>q. q \<notin> {p, muse} \<longrightarrow> fs' q = fs q)"
proof -
  have distinct: "p \<noteq> muse"
    by (simp add: assms(3) path_join_def)
  show ?thesis
  proof (cases "read_settings e sj fs2 p")
    case (Err m)
    with run others distinct show ?thesis by (auto simp: is_ok_def)
  next
    case (Ok root)
    then have "settings_before sj (fs p) root"
      using read_settings_before [OF assms(1,2), of e "''settings.json''" sj root] assms(4) others distinct by (simp add: assms(3))
    moreover have "replace_file e muse p (pretty (Object (pinned_settings u root)) @ [LF]) stage_message install_message fs2 = (r, fs')"
      using run Ok by simp
    ultimately show ?thesis
      using replace_file_real [OF assms(1-3)] others distinct by fastforce
  qed
qed


section \<open>The stock catalog\<close>

lemma make_dir_entry:
  assumes "quiet_os e" "make_dir e p mode fs = (Ok u, fs')"
  shows "\<exists>i. entry fs' p = Ok i \<and> in_node i = Directory"
proof -
  obtain q where q: "locate fs p = Ok q" "fs q = None"
      "fs' = fs(q \<mapsto> \<lparr>in_node = Directory, in_mode = and mode (not (os_umask e)), in_uid = os_euid e, in_nlink = 2\<rparr>)"
    using assms by (auto simp: make_dir_def quiet_os_def Let_def and_then_Ok split: result.split_asm if_split_asm)
  have "fs \<subseteq>\<^sub>m fs'"
    using q(2) by (simp add: q(3) map_le_new)
  from locate_mono [OF this q(1)] show ?thesis
    by (simp add: entry_def q(3))
qed

lemma ensure_catalog_directory_Ok:
  assumes "quiet_os e" "ensure_owned_catalog_directory e p fs = (Ok u, fs')"
  shows "(\<exists>i. entry fs' p = Ok i \<and> in_node i = Directory) \<and> fs \<subseteq>\<^sub>m fs' \<and>
    (\<forall>q. fs q \<noteq> None \<or> locate fs p \<noteq> Ok q \<longrightarrow> fs' q = fs q)"
proof -
  note unfold = ensure_owned_catalog_directory.simps [of e p fs]
  show ?thesis
  proof (cases "symlink_metadata e fs p")
    case (Ok i)
    with assms(2) show ?thesis
      by (auto simp: unfold dest: symlink_metadata_Ok split: if_splits)
  next
    case (Err k)
    then have k: "k = NotFoundKind" and "entry fs p = Err NotFoundKind"
      using assms(2) by (auto simp: unfold symlink_metadata_def faulty_def split: io_kind.splits option.splits)
    then have "make_dir e p DIR_MODE fs \<noteq> (Err AlreadyExistsKind, fs'')" for fs''
      using assms(1) make_dir_exists [of e p DIR_MODE fs fs''] by (auto simp: make_dir_def quiet_os_def Let_def split: result.splits if_splits)
    then have "make_dir e p DIR_MODE fs = (Ok (), fs')"
      using assms(2) Err k by (auto simp: unfold split: prod.split_asm result.split_asm io_kind.split_asm)
    then show ?thesis
      using make_dir_entry [OF assms(1)] make_dir_quiet [OF assms(1)] make_dir_grows [OF quiet_additive [OF assms(1)]] by blast
  qed
qed

definition rows_rel :: "bytes \<Rightarrow> GatewayModel list \<Rightarrow> bytes list \<times> nat \<times> nat \<Rightarrow> bool" where
  "rows_rel d ms acc = (case acc of (ids, matching, visible) \<Rightarrow>
     set ids = gm_id ` set ms \<and> distinct (map gm_id ms) \<and> matching = length (filter gm_is_default ms) \<and>
     (\<forall>m \<in> set ms. gm_is_default m \<longrightarrow> gm_is_visible m \<and> gm_id m = d))"

lemma validated_models:
  assumes "validate_gateway_models models d = Ok u"
  shows "distinct (map gm_id models)" "\<exists>m. filter gm_is_default models = [m] \<and> gm_id m = d \<and> gm_is_visible m"
proof -
  obtain ids matching visible where fold: "try_fold (validate_gateway_row d) ([], 0, 0) models = Ok (ids, matching, visible)" "matching = 1"
    using assms by (auto simp: validate_gateway_models_def and_then_Ok split: if_splits)
  have "rows_rel d models (ids, matching, visible)"
  proof (rule try_fold_prefix [OF fold(1)])
    fix ys y t t'
    assume "rows_rel d ys t" "validate_gateway_row d t y = Ok t'"
    then show "rows_rel d (ys @ [y]) t'"
      by (cases t) (auto simp: rows_rel_def validate_gateway_row_def and_then_Ok Let_def split: if_splits)
  qed (simp add: rows_rel_def)
  then have rel: "distinct (map gm_id models)" "length (filter gm_is_default models) = 1"
      "\<forall>m \<in> set models. gm_is_default m \<longrightarrow> gm_is_visible m \<and> gm_id m = d"
    using fold(2) by (auto simp: rows_rel_def)
  then obtain m where m: "filter gm_is_default models = [m]"
    by (auto simp: length_Suc_conv)
  then have "m \<in> set models \<and> gm_is_default m"
    by (metis (mono_tags, lifting) list.set_intros(1) mem_Collect_eq set_filter)
  with rel m show "distinct (map gm_id models)" "\<exists>m. filter gm_is_default models = [m] \<and> gm_id m = d \<and> gm_is_visible m"
    by auto
qed

definition catalog_rows :: "Value \<Rightarrow> Value list" where
  "catalog_rows v = unwrap_or (Option.bind (value_get v ''rows'') as_array) []"

lemma catalog_row_fields:
  "get_str (catalog_row (i, m)) ''model_id'' = Some (gm_id m)" "value_get (catalog_row (i, m)) ''is_default'' = Some (Bool (gm_is_default m))"
  "value_get (catalog_row (i, m)) ''display_order'' = Some (json_u64 (of_nat i))"
  by (simp_all add: catalog_row_def get_str_Some)

lemma catalog_rows_document: "catalog_rows (catalog_document models) = map catalog_row (zip [0..<length models] models)"
  by (simp add: catalog_rows_def catalog_document_def)

text \<open>The catalog that stock Muse reads is the catalog the gateway published: when seeding succeeds, the file is
  the complete document with mode 0600, and it lists the published models in order under distinct ids, with
  exactly one default row, which is the launcher's default model.\<close>

theorem stock_catalog_written:
  assumes "quiet_os e" and "real_path fs data_home"
    and "seed_stock_model_catalog e pretty data_home models default_model fs = (Ok p, fs')"
  shows "p = path_join (path_join (path_join data_home ''muse'') ''model-catalog'') STOCK_MODEL_CATALOG_FILE \<and>
    fs' p = Some (staged_file e (pretty (catalog_document models) @ [LF])) \<and>
    map (\<lambda>row. get_str row ''model_id'') (catalog_rows (catalog_document models)) = map (Some \<circ> gm_id) models \<and>
    distinct (map gm_id models) \<and>
    map (\<lambda>row. get_str row ''model_id'') (filter (\<lambda>row. value_get row ''is_default'' = Some (Bool True)) (catalog_rows (catalog_document models))) =
      [Some default_model]"
proof -
  let ?muse = "path_join data_home ''muse''"
  let ?dir = "path_join ?muse ''model-catalog''"
  let ?p = "path_join ?dir STOCK_MODEL_CATALOG_FILE"
  obtain u1 u2 u3 fs1 fs2 where steps: "validate_gateway_models models default_model = Ok u1"
      "ensure_owned_catalog_directory e ?muse fs = (Ok u2, fs1)" "ensure_owned_catalog_directory e ?dir fs1 = (Ok u3, fs2)"
      and replace: "replace_file e ?dir ?p (pretty (catalog_document models) @ [LF])
        (''failed to stage model catalog in '' @ os_display e ?dir) ''failed to install isolated model catalog at '' fs2 = (Ok p, fs')"
    using assms(3) by (auto simp: seed_stock_model_catalog_def Let_def split: result.split_asm prod.split_asm)
  note one = ensure_catalog_directory_Ok [OF assms(1) steps(2)] and two = ensure_catalog_directory_Ok [OF assms(1) steps(3)]
  have muse: "real_path fs1 ?muse"
    using one child_real [OF real_path_mono [OF assms(2)]] by blast
  have dir: "real_path fs2 ?dir" "is_directory fs2 ?dir"
    using two child_real [OF real_path_mono [OF muse]] by blast+
  have written: "p = ?p \<and> fs' = fs2(?p \<mapsto> staged_file e (pretty (catalog_document models) @ [LF]))"
    using replace_file_real [OF dir refl replace] by (auto simp: is_ok_def)
  have ids: "map (\<lambda>row. get_str row ''model_id'') (map catalog_row (zip ns ms)) = map (Some \<circ> gm_id) ms"
    if "length ns = length ms" for ns ms
    using that by (induction ns ms rule: list_induct2) (simp_all add: catalog_row_fields)
  have defaults: "filter (\<lambda>row. value_get row ''is_default'' = Some (Bool True)) (map catalog_row (zip ns ms)) =
      map catalog_row (filter (gm_is_default \<circ> snd) (zip ns ms))" if "length ns = length ms" for ns ms
    using that by (induction ns ms rule: list_induct2) (simp_all add: catalog_row_fields)
  obtain m where m: "filter gm_is_default models = [m]" "gm_id m = default_model"
    using validated_models(2) [OF steps(1)] by blast
  have "map snd (filter (gm_is_default \<circ> snd) (zip [0..<length models] models)) = filter gm_is_default models"
    using filter_map [of gm_is_default snd "zip [0..<length models] models"] by (simp add: comp_def)
  then obtain i where "filter (gm_is_default \<circ> snd) (zip [0..<length models] models) = [(i, m)]"
    using m(1) by (auto simp: map_eq_Cons_conv)
  then show ?thesis
    using written validated_models(1) [OF steps(1)] ids [of "[0..<length models]" models] defaults [of "[0..<length models]" models] m(2)
    by (simp add: catalog_rows_document catalog_row_fields)
qed

section \<open>Witnesses\<close>

definition sample_os :: os where
  "sample_os = \<lparr>os_euid = 1000, os_umask = 18, os_fault = (\<lambda>_. None), os_race = (\<lambda>_ fs. fs), os_display = (\<lambda>_. []), os_io_text = (\<lambda>_. [])\<rparr>"

definition sample_dir :: "u32 \<Rightarrow> nat \<Rightarrow> inode" where
  "sample_dir mode uid = \<lparr>in_node = Directory, in_mode = mode, in_uid = uid, in_nlink = 2\<rparr>"

text \<open>A home whose parent is reached through a link.\<close>

definition sample_fs :: fs where
  "sample_fs = map_of [([RootDir], sample_dir 493 0), ([RootDir, Normal ''home''], sample_dir 493 0),
     ([RootDir, Normal ''h''], (sample_dir 511 0)\<lparr>in_node := Symlink [RootDir, Normal ''home'']\<rparr>)]"

definition sample_launcher_env :: launcher_env where
  "sample_launcher_env = \<lparr>le_muse_codex_home = Some ''/h/./muse-codex'', le_xdg_data_home = None, le_home = Some ''/home''\<rparr>"

definition sample_profile_fs :: fs where
  "sample_profile_fs = map_of [([RootDir], sample_dir 493 0), ([RootDir, Normal ''p''], sample_dir 448 1000)]"

lemma sample_os_quiet: "quiet_os sample_os" "additive sample_os"
  by (simp_all add: quiet_os_def additive_def sample_os_def)

lemma sample_profile_real: "real_path sample_profile_fs [RootDir, Normal ''p'']"
proof -
  have "is_directory sample_profile_fs [RootDir]" "sample_profile_fs [RootDir, Normal ''p''] = Some (sample_dir 448 1000)"
    by (simp_all add: sample_profile_fs_def is_directory_def sample_dir_def)
  then show ?thesis
    using real_step [OF real_root, of sample_profile_fs "''p''"] by (simp add: sample_dir_def)
qed




definition sample_gateway_model :: GatewayModel where
  "sample_gateway_model = \<lparr>gm_id = ''m'', gm_display_name = None, gm_description = None, gm_context_window = None,
     gm_max_output_tokens = None, gm_supported_reasoning_efforts = [''low''], gm_default_reasoning_effort = None,
     gm_is_visible = True, gm_is_default = True\<rparr>"

theorem stock_catalog_written_witness:
  "\<exists>p fs'. seed_stock_model_catalog sample_os (to_string json_codec) [RootDir, Normal ''p''] [sample_gateway_model] ''m'' sample_profile_fs = (Ok p, fs') \<and>
     fs' p = Some (staged_file sample_os (to_string json_codec (catalog_document [sample_gateway_model]) @ [LF]))"
proof -
  have "is_ok (fst (seed_stock_model_catalog sample_os (to_string json_codec) [RootDir, Normal ''p''] [sample_gateway_model] ''m'' sample_profile_fs))"
    by code_simp
  then obtain p fs' where run: "seed_stock_model_catalog sample_os (to_string json_codec) [RootDir, Normal ''p''] [sample_gateway_model] ''m'' sample_profile_fs = (Ok p, fs')"
    by (auto simp: is_ok_def prod_eq_iff split: result.split_asm)
  from stock_catalog_written [OF sample_os_quiet(1) sample_profile_real run] run show ?thesis by blast
qed

end
