(* ===== verification/Auth_Home.thy ===== *)
theory Auth_Home
  imports Private_Profile
begin

text \<open>
  The private files of the transport and the gateway: the isolated credential home
  (\<open>AuthConfig\<close> in \<open>codex-transport/src/auth.rs\<close>), the credential refresh lock
  (\<open>codex-transport/src/transport.rs\<close>) and the publication of the private JSON files
  (\<open>write_private_json\<close> in \<open>muse-codex-gateway/src/server.rs\<close>).
\<close>

section \<open>The credential home\<close>

definition invalid_home :: "bytes \<Rightarrow> ('a, Error) result" where
  "invalid_home m = Err (InvalidAuthHome m)"

definition dedicated_root :: "path \<Rightarrow> (path, Error) result" where
  "dedicated_root home =
     (if file_name home = Some ''muse-codex'' then Ok home
      else if file_name home = Some ''codex-home'' \<and> Option.bind (path_parent home) file_name = Some ''muse-codex'' then
        ok_or (path_parent home) (InvalidAuthHome ''codex-home has no parent'')
      else invalid_home ''path must end in `muse-codex` or `muse-codex/codex-home`'')"

text \<open>\<open>home_dir\<close> is \<open>dirs::home_dir()\<close>.\<close>

definition reject_known_broad_paths :: "path option \<Rightarrow> path \<Rightarrow> (unit, Error) result" where
  "reject_known_broad_paths home_dir home =
     (if home = [RootDir] then invalid_home ''filesystem root is forbidden''
      else case home_dir of
             None \<Rightarrow> Ok ()
           | Some user_home \<Rightarrow>
               if home = user_home then invalid_home ''user home is forbidden''
               else if path_starts_with home (path_join user_home ''.codex'') then
                 invalid_home ''the standard Codex home and its descendants are forbidden''
               else Ok ())"

definition validate_existing_private_directory :: "os \<Rightarrow> path \<Rightarrow> inode \<Rightarrow> (unit, Error) result" where
  "validate_existing_private_directory e p i =
     (case in_node i of
        Symlink _ \<Rightarrow> invalid_home (os_display e p @ '' is a symlink'')
      | Directory \<Rightarrow>
          if in_uid i \<noteq> os_euid e then invalid_home (os_display e p @ '' is not owned by the current user'')
          else if permissions (in_mode i) \<noteq> DIR_MODE then
            invalid_home (os_display e p @ '' must already have mode 0700 (found '' @ show_mode (permissions (in_mode i)) @ '')'')
          else Ok ()
      | _ \<Rightarrow> invalid_home (os_display e p @ '' is not a directory''))"

definition io_error :: "os \<Rightarrow> ('a, io_kind) result \<Rightarrow> ('a, Error) result" where
  "io_error e r = map_err (\<lambda>k. Io (os_io_text e k)) r"

definition ensure_private_directory :: "os \<Rightarrow> path \<Rightarrow> fs \<Rightarrow> (unit, Error) result \<times> fs" where
  "ensure_private_directory e p fs =
     (case symlink_metadata e fs p of
        Ok i \<Rightarrow> (validate_existing_private_directory e p i, fs)
      | Err NotFoundKind \<Rightarrow>
          (case make_dir e p DIR_MODE fs of
             (r, fs) \<Rightarrow>
               if r \<noteq> Ok () \<and> r \<noteq> Err AlreadyExistsKind then (io_error e r, fs)
               else (and_then (io_error e (symlink_metadata e fs p)) (validate_existing_private_directory e p), fs))
      | Err k \<Rightarrow> (Err (Io (os_io_text e k)), fs))"

definition check_home_path :: "path option \<Rightarrow> path \<Rightarrow> (path, Error) result" where
  "check_home_path home_dir home =
     (if home = [] then invalid_home ''path is empty''
      else if \<not> is_absolute home then invalid_home ''path must be absolute''
      else if CurDir \<in> set home \<or> ParentDir \<in> set home then invalid_home ''path must not contain `.` or `..` components''
      else and_then (dedicated_root home) (\<lambda>root. and_then (reject_known_broad_paths home_dir home) (\<lambda>_. Ok root)))"

text \<open>The home that the validated parent prescribes.\<close>

definition expected_home :: "os \<Rightarrow> fs \<Rightarrow> path \<Rightarrow> path \<Rightarrow> (path, Error) result" where
  "expected_home e fs home root =
     and_then (ok_or (path_parent root) (InvalidAuthHome ''dedicated directory has no parent'')) (\<lambda>root_parent.
     and_then (map_err (\<lambda>k. InvalidAuthHome (''parent '' @ os_display e root_parent @ '' must already exist: '' @ os_io_text e k))
        (metadata e fs root_parent)) (\<lambda>parent_metadata.
     if in_node parent_metadata \<noteq> Directory then invalid_home (''parent '' @ os_display e root_parent @ '' is not a directory'')
     else and_then (map_err (\<lambda>k. InvalidAuthHome (''could not canonicalize parent '' @ os_display e root_parent @ '': '' @ os_io_text e k))
        (canonicalize e fs root_parent)) (\<lambda>canonical_parent.
     let expected_root = path_join canonical_parent ''muse-codex''
     in Ok (if home = root then expected_root else path_join expected_root ''codex-home''))))"

definition confirm_home :: "os \<Rightarrow> fs \<Rightarrow> path \<Rightarrow> path \<Rightarrow> (path, Error) result" where
  "confirm_home e fs home expected =
     and_then (map_err (\<lambda>k. InvalidAuthHome (os_display e home @ '': '' @ os_io_text e k)) (canonicalize e fs home)) (\<lambda>home.
     if home \<noteq> expected then invalid_home ''auth path changed while it was being validated''
     else and_then (dedicated_root home) (\<lambda>canonical_root.
       and_then (io_error e (symlink_metadata e fs canonical_root)) (\<lambda>root_metadata.
       and_then (validate_existing_private_directory e canonical_root root_metadata) (\<lambda>_.
       and_then (if home \<noteq> canonical_root then
                   and_then (io_error e (symlink_metadata e fs home)) (validate_existing_private_directory e home)
                 else Ok ()) (\<lambda>_.
       Ok home)))))"

definition with_home :: "os \<Rightarrow> path option \<Rightarrow> path \<Rightarrow> fs \<Rightarrow> (path, Error) result \<times> fs" where
  "with_home e home_dir home fs =
     (case and_then (check_home_path home_dir home) (\<lambda>root. and_then (expected_home e fs home root) (\<lambda>expected. Ok (root, expected))) of
        Err x \<Rightarrow> (Err x, fs)
      | Ok (root, expected) \<Rightarrow>
          (case ensure_private_directory e root fs of
             (Err x, fs) \<Rightarrow> (Err x, fs)
           | (Ok _, fs) \<Rightarrow>
               (case (if home \<noteq> root then ensure_private_directory e home fs else (Ok (), fs)) of
                  (Err x, fs) \<Rightarrow> (Err x, fs)
                | (Ok _, fs) \<Rightarrow> (confirm_home e fs home expected, fs))))"

text \<open>\<open>std::fs::create_dir_all\<close>: the path itself, else its parent first; an existing directory is fine.\<close>

function create_dir_all :: "os \<Rightarrow> path \<Rightarrow> fs \<Rightarrow> (unit, io_kind) result \<times> fs" where
  "create_dir_all e p fs =
     (if p = [] then (Ok (), fs)
      else case make_dir e p 511 fs of
             (Ok _, fs) \<Rightarrow> (Ok (), fs)
           | (Err NotFoundKind, fs) \<Rightarrow>
               (case path_parent p of
                  None \<Rightarrow> (Err (OtherKind ''failed to create whole tree''), fs)
                | Some parent \<Rightarrow>
                    (case create_dir_all e parent fs of
                       (Err k, fs) \<Rightarrow> (Err k, fs)
                     | (Ok _, fs) \<Rightarrow>
                         (case make_dir e p 511 fs of
                            (Err k, fs) \<Rightarrow> if path_is_dir e fs p then (Ok (), fs) else (Err k, fs)
                          | (Ok _, fs) \<Rightarrow> (Ok (), fs))))
           | (Err k, fs) \<Rightarrow> if path_is_dir e fs p then (Ok (), fs) else (Err k, fs))"
  by pat_completeness auto
termination
  by (relation "measure (\<lambda>(e, p, fs). length p)")
     (auto simp: path_parent_def split: list.splits component.splits dest!: arg_cong [of _ _ length])

declare create_dir_all.simps [simp del]

definition for_muse_codex ::
  "os \<Rightarrow> path option \<Rightarrow> path option \<Rightarrow> bytes option \<Rightarrow> fs \<Rightarrow> (path, Error) result \<times> fs" where
  "for_muse_codex e home_dir data_local_dir muse_codex_home fs =
     (case opt_filter (\<lambda>v. v \<noteq> []) muse_codex_home of
        Some home \<Rightarrow> with_home e home_dir (components home) fs
      | None \<Rightarrow>
          (case data_local_dir of
             None \<Rightarrow> (Err DataDirectoryUnavailable, fs)
           | Some data_root \<Rightarrow>
               (case create_dir_all e data_root fs of
                  (Err k, fs) \<Rightarrow> (Err (Io (os_io_text e k)), fs)
                | (Ok _, fs) \<Rightarrow> with_home e home_dir (path_join (path_join data_root ''muse-codex'') ''codex-home'') fs)))"

section \<open>The credential refresh lock\<close>

definition CREDENTIAL_REFRESH_LOCK_NAME :: bytes where
  "CREDENTIAL_REFRESH_LOCK_NAME = ''.credential-refresh.lock''"

definition lock_error :: "bytes \<Rightarrow> ('a, Error) result" where
  "lock_error m = Err (Error.CredentialRefreshLock m)"

text \<open>Opening for reading and writing with creation and \<open>O_NOFOLLOW\<close>.\<close>

definition open_lock_file :: "os \<Rightarrow> path \<Rightarrow> fs \<Rightarrow> (inode, io_kind) result \<times> fs" where
  "open_lock_file e p fs =
     (case and_then (faulty e (OpOpen p)) (\<lambda>_. locate fs p) of
        Err k \<Rightarrow> (Err k, fs)
      | Ok q \<Rightarrow>
          (case fs q of
             None \<Rightarrow>
               let file = \<lparr>in_node = Regular [], in_mode = and FILE_MODE (not (os_umask e)), in_uid = os_euid e, in_nlink = 1\<rparr>
               in (Ok file, fs(q \<mapsto> file))
           | Some i \<Rightarrow>
               (case in_node i of
                  Symlink _ \<Rightarrow> (Err (OtherKind ''too many levels of symbolic links''), fs)
                | Directory \<Rightarrow> (Err (OtherKind ''is a directory''), fs)
                | _ \<Rightarrow> (Ok i, fs))))"

definition is_regular :: "inode \<Rightarrow> bool" where
  "is_regular i = (case in_node i of Regular _ \<Rightarrow> True | _ \<Rightarrow> False)"

definition check_lock_file :: "os \<Rightarrow> path \<Rightarrow> inode \<Rightarrow> (unit, Error) result" where
  "check_lock_file e p i =
     and_then (map_err (\<lambda>k. Error.CredentialRefreshLock (''could not inspect private lock file: '' @ os_io_text e k)) (faulty e (OpStat p))) (\<lambda>_.
       if \<not> is_regular i then lock_error ''private lock path is not a regular file''
       else if in_uid i \<noteq> os_euid e \<or> permissions (in_mode i) \<noteq> FILE_MODE \<or> in_nlink i \<noteq> 1 then
         lock_error ''private lock file has unsafe ownership, mode, or link count''
       else map_err (\<lambda>k. Error.CredentialRefreshLock (os_io_text e k)) (faulty e (OpLock p)))"

definition acquire_credential_refresh_lock_blocking :: "os \<Rightarrow> path \<Rightarrow> fs \<Rightarrow> (path, Error) result \<times> fs" where
  "acquire_credential_refresh_lock_blocking e home fs =
     (case canonicalize e fs home of
        Err k \<Rightarrow> (lock_error (''could not canonicalize private home: '' @ os_io_text e k), fs)
      | Ok canonical_home \<Rightarrow>
          if canonical_home \<noteq> home then (lock_error ''private home changed after validation'', fs)
          else
            let p = path_join canonical_home CREDENTIAL_REFRESH_LOCK_NAME
            in if \<not> path_starts_with p canonical_home then (lock_error ''private lock path escaped its validated home'', fs)
               else
                 (case open_lock_file e p fs of
                    (Err k, fs) \<Rightarrow> (lock_error (''could not open private lock file: '' @ os_io_text e k), fs)
                  | (Ok i, fs) \<Rightarrow> (and_then (check_lock_file e p i) (\<lambda>_. Ok p), fs)))"

section \<open>Private JSON files\<close>

definition temporary_name :: "nat \<Rightarrow> path \<Rightarrow> bytes" where
  "temporary_name pid p = ''.'' @ unwrap_or (Option.bind (file_name p) to_str) ''ready'' @ ''.'' @ show_nat pid @ ''.tmp''"

definition create_new_file :: "os \<Rightarrow> path \<Rightarrow> u32 \<Rightarrow> fs \<Rightarrow> (path, io_kind) result \<times> fs" where
  "create_new_file e p mode fs =
     (case and_then (faulty e (OpOpen p)) (\<lambda>_. locate fs p) of
        Err k \<Rightarrow> (Err k, fs)
      | Ok q \<Rightarrow>
          if fs q \<noteq> None then (Err AlreadyExistsKind, fs)
          else (Ok q, fs(q \<mapsto> \<lparr>in_node = Regular [], in_mode = and mode (not (os_umask e)), in_uid = os_euid e, in_nlink = 1\<rparr>)))"

definition remove_file :: "os \<Rightarrow> path \<Rightarrow> fs \<Rightarrow> fs" where
  "remove_file e p fs =
     (case and_then (faulty e (OpRemove p)) (\<lambda>_. locate fs p) of
        Ok q \<Rightarrow> if is_directory fs q then fs else fs(q := None)
      | Err _ \<Rightarrow> fs)"

text \<open>Renaming the written temporary file.\<close>

definition rename_file :: "os \<Rightarrow> path \<Rightarrow> path \<Rightarrow> fs \<Rightarrow> (unit, io_kind) result \<times> fs" where
  "rename_file e source p fs =
     (case and_then (locate fs source) (\<lambda>q. ok_or (fs q) NotFoundKind) of
        Err k \<Rightarrow> (Err k, fs)
      | Ok file \<Rightarrow>
          (case install_file e p file fs of
             (Err k, fs) \<Rightarrow> (Err k, fs)
           | (Ok _, fs) \<Rightarrow>
               (case locate fs source of
                  Ok q \<Rightarrow> (Ok (), fs(q := None))
                | Err k \<Rightarrow> (Err k, fs))))"

text \<open>A write that fails may leave a part of the content, \<open>os_partial\<close>.\<close>

definition publish_private_file :: "os \<Rightarrow> bytes \<Rightarrow> path \<Rightarrow> path \<Rightarrow> bytes \<Rightarrow> fs \<Rightarrow> (unit, bytes) result \<times> fs" where
  "publish_private_file e os_partial temporary p content fs =
     (case create_new_file e temporary FILE_MODE fs of
        (Err _, fs) \<Rightarrow> (Err ''create private JSON file'', fs)
      | (Ok q, fs) \<Rightarrow>
          (case faulty e (OpWrite temporary) of
             Err _ \<Rightarrow> (Err ''write private JSON file'', fs(q := map_option (\<lambda>i. i\<lparr>in_node := Regular os_partial\<rparr>) (fs q)))
           | Ok _ \<Rightarrow>
               let fs = fs(q := map_option (\<lambda>i. i\<lparr>in_node := Regular content\<rparr>) (fs q))
               in (case faulty e (OpSync temporary) of
                     Err _ \<Rightarrow> (Err ''sync private JSON file'', fs)
                   | Ok _ \<Rightarrow>
                       (case rename_file e temporary p fs of
                          (Err _, fs) \<Rightarrow> (Err ''publish private JSON file'', fs)
                        | (Ok _, fs) \<Rightarrow> (Ok (), fs)))))"

definition prepare_parent :: "os \<Rightarrow> path \<Rightarrow> fs \<Rightarrow> (unit, bytes) result \<times> fs" where
  "prepare_parent e parent fs =
     (if path_exists e fs parent then (Ok (), fs)
      else
        (case create_dir_all e parent fs of
           (Err _, fs) \<Rightarrow> (Err ''create ready-file directory'', fs)
         | (Ok _, fs) \<Rightarrow>
             (case set_permissions e parent DIR_MODE fs of
                (Err _, fs) \<Rightarrow> (Err ''secure ready-file directory'', fs)
              | (Ok _, fs) \<Rightarrow> (Ok (), fs))))"

text \<open>The context messages stand for the errors; serializing the published values cannot fail.\<close>

definition write_private_json :: "os \<Rightarrow> bytes \<Rightarrow> nat \<Rightarrow> path \<Rightarrow> bytes \<Rightarrow> fs \<Rightarrow> (unit, bytes) result \<times> fs" where
  "write_private_json e os_partial pid p content fs =
     (case path_parent p of
        None \<Rightarrow> (Err ''private JSON file has no parent directory'', fs)
      | Some parent \<Rightarrow>
          (case prepare_parent e parent fs of
             (Err m, fs) \<Rightarrow> (Err m, fs)
           | (Ok _, fs) \<Rightarrow>
               let temporary = path_join parent (temporary_name pid p)
               in (case publish_private_file e os_partial temporary p content fs of
                     (Err m, fs) \<Rightarrow> (Err m, remove_file e temporary fs)
                   | (Ok _, fs) \<Rightarrow> (Ok (), fs))))"

end
