(* ===== verification/Auth_Home_Props.thy ===== *)
theory Auth_Home_Props
  imports Auth_Home Private_Profile_Props
begin

text \<open>
  Properties of the credential home, the refresh lock and the private JSON files, and the agreement between
  the launcher and the transport about the home.
\<close>

section \<open>The credential home\<close>

lemma validate_existing_Ok [simp]: "validate_existing_private_directory e p i = Ok u \<longleftrightarrow> private_dir e i"
  by (auto simp: validate_existing_private_directory_def invalid_home_def private_dir_def split: node.splits)

lemma io_error_Ok [simp]: "io_error e r = Ok x \<longleftrightarrow> r = Ok x"
  by (cases r) (auto simp: io_error_def)

lemma ensure_private_directory_grows:
  assumes "additive e" "ensure_private_directory e p fs = (r, fs')"
  shows "fs \<subseteq>\<^sub>m fs'"
  using assms
  by (auto simp: ensure_private_directory_def dest: make_dir_grows
      split: result.split_asm io_kind.split_asm if_split_asm prod.split_asm)

lemma dedicated_root_Ok:
  assumes "dedicated_root home = Ok root"
  shows "file_name root = Some ''muse-codex'' \<and> (home = root \<or> home = path_join root ''codex-home'')"
  using assms by (auto simp: dedicated_root_def invalid_home_def file_name_Some split: if_splits)

lemma confirm_home_Ok:
  assumes "confirm_home e fs home expected = Ok h" "is_absolute home" "is_directory fs [RootDir]"
  shows "h = expected \<and> resolve fs home = Ok h \<and> real_path fs h \<and>
    (\<exists>root. dedicated_root h = Ok root \<and> (\<forall>q \<in> {root, h}. \<exists>i. fs q = Some i \<and> private_dir e i))"
proof -
  obtain root i where h: "canonicalize e fs home = Ok h" "h = expected" "dedicated_root h = Ok root"
      "symlink_metadata e fs root = Ok i" "private_dir e i"
      "h \<noteq> root \<longrightarrow> (\<exists>j. symlink_metadata e fs h = Ok j \<and> private_dir e j)"
    using assms(1) by (auto simp: confirm_home_def and_then_Ok invalid_home_def split: if_splits)
  have real: "real_path fs h"
    using resolve_real [OF canonicalize_Ok [OF h(1)] assms(2,3)] .
  have "root \<noteq> []"
    using dedicated_root_Ok [OF h(3)] by (auto simp: file_name_def)
  then have root: "real_path fs root"
    using dedicated_root_Ok [OF h(3)] real real_path_butlast [OF real] by (auto simp: path_join_def)
  have at: "fs q = Some j" if "real_path fs q" "symlink_metadata e fs q = Ok j" for q j
    using that real_entry symlink_metadata_Ok by fastforce
  show ?thesis
    using h canonicalize_Ok [OF h(1)] real at [OF root h(4)] at [OF real] by auto
qed

text \<open>C16: A credential home that the transport accepts is private and canonical: it is the path itself with
  every symbolic link resolved, it is named \<open>muse-codex\<close> or \<open>muse-codex/codex-home\<close>, and both directories are real
  directories of mode 0700 owned by the effective user, whatever other processes created in the meantime.\<close>

theorem auth_home_private:
  assumes "additive e" and "is_directory fs [RootDir]" and "with_home e home_dir home fs = (Ok h, fs')"
  shows "resolve fs' home = Ok h \<and> real_path fs' h \<and>
    (\<exists>root. file_name root = Some ''muse-codex'' \<and> (h = root \<or> h = path_join root ''codex-home'') \<and>
       (\<forall>q \<in> {root, h}. \<exists>i. fs' q = Some i \<and> private_dir e i))"
proof -
  obtain root expected u1 u2 fs1 where steps: "check_home_path home_dir home = Ok root"
      "ensure_private_directory e root fs = (Ok u1, fs1)"
      "(if home \<noteq> root then ensure_private_directory e home fs1 else (Ok (), fs1)) = (Ok u2, fs')"
      "confirm_home e fs' home expected = Ok h"
    using assms(3) by (auto simp: with_home_def and_then_Ok split: result.split_asm prod.split_asm)
  have "is_absolute home"
    using steps(1) by (auto simp: check_home_path_def invalid_home_def split: if_splits)
  moreover have "fs1 \<subseteq>\<^sub>m fs'"
    using steps(3) ensure_private_directory_grows [OF assms(1)] by (auto split: if_splits)
  then have "is_directory fs' [RootDir]"
    using ensure_private_directory_grows [OF assms(1) steps(2)] assms(2) is_directory_mono by blast
  ultimately show ?thesis
    using confirm_home_Ok [OF steps(4)] dedicated_root_Ok by fastforce
qed

lemma validated_home_checked:
  assumes "validate_app_home_location e le fs p = Ok u" "dedicated_root p = Ok p"
  shows "check_home_path (map_option components (le_home le)) p = Ok p"
proof -
  have p: "is_absolute p" "CurDir \<notin> set p" "ParentDir \<notin> set p" "file_name p = Some ''muse-codex''"
    using assms(1) by (auto simp: validate_app_home_location_def split: if_split_asm)
  then have "p \<noteq> []" "p \<noteq> [RootDir]"
    by (auto simp: file_name_def)
  moreover have "p \<noteq> components h \<and> \<not> path_starts_with p (path_join (components h) ''.codex'')" if "le_home le = Some h" for h
    using assms(1) p that by (auto simp: validate_app_home_location_def and_then_Ok Let_def split: if_split_asm)
  ultimately show ?thesis
    using p assms(2) by (auto simp: check_home_path_def reject_known_broad_paths_def split: option.split)
qed

text \<open>C39: The launcher and the transport agree on the home: the home that the launcher has created for a profile is
  accepted by the transport as it stands, without any change to the file system, and the transport resolves it to
  the same canonical directory.\<close>

theorem launcher_home_accepted:
  assumes "additive e" and "is_directory fs [RootDir]" and "discover_for le provider = Ok dirs"
    and "create_private e le dirs fs = (Ok (), fs')"
    and "\<forall>op. os_fault e op = None" and "home_dir = map_option components (le_home le)"
  shows "\<exists>R. with_home e home_dir (sd_app_home dirs) fs' = (Ok R, fs') \<and> resolve fs' (sd_app_home dirs) = Ok R \<and> file_name R = Some ''muse-codex''"
proof -
  let ?home = "sd_app_home dirs"
  from assms(1-4) obtain parent cp u where valid: "validate_app_home_location e le fs ?home = Ok u"
      and home: "is_absolute ?home" "?home = path_join parent ''muse-codex''" "resolve fs' parent = Ok cp"
        "resolve fs' ?home = Ok (path_join cp ''muse-codex'')" "real_path fs' (path_join cp ''muse-codex'')"
      and priv: "\<And>q. q \<in> {path_join cp ''muse-codex'', path_join (path_join cp ''muse-codex'') (fst (profile_names provider)),
         path_join (path_join cp ''muse-codex'') (snd (profile_names provider))} \<Longrightarrow> \<exists>i. fs' q = Some i \<and> private_dir e i"
    by (rule create_private_facts) blast
  let ?R = "path_join cp ''muse-codex''"
  obtain i where i: "fs' ?R = Some i" "private_dir e i"
    using priv [of ?R] by auto
  have quiet: "faulty e op = Ok ()" for op
    using assms(5) by simp
  have cp: "is_directory fs' cp"
    using real_path_butlast [OF home(5)] real_path_shape [OF home(5)] by (cases cp) (auto simp: path_join_def)
  have "entry fs' (path_join parent ''muse-codex'') = Ok i"
    using home(3) cp i(1) by (simp add: entry_def locate_join)
  then have "entry fs' ?home = Ok i"
    unfolding home(2) .
  moreover have "entry fs' ?R = Ok i"
    using real_entry [OF home(5)] i(1) by simp
  ultimately have stat: "symlink_metadata e fs' ?home = Ok i" "symlink_metadata e fs' ?R = Ok i"
    using assms(5) by (simp_all add: symlink_metadata_def quiet)
  have root: "dedicated_root ?home = Ok ?home" "dedicated_root ?R = Ok ?R"
    unfolding home(2) by (simp_all add: dedicated_root_def)
  have "check_home_path home_dir ?home = Ok ?home"
    unfolding assms(6) by (rule validated_home_checked [OF valid root(1)])
  moreover have "expected_home e fs' ?home ?home = Ok ?R"
    using home(2,3) cp
    by (auto simp: expected_home_def metadata_def canonicalize_def quiet is_directory_def Let_def split: option.splits)
  moreover have "ensure_private_directory e ?home fs' = (Ok (), fs')"
    using stat(1) i(2) by (simp add: ensure_private_directory_def)
  moreover have "validate_existing_private_directory e ?R i = Ok ()"
    using i(2) by simp
  then have "confirm_home e fs' ?home ?R = Ok ?R"
    using home(4) root(2) stat(2) by (simp del: validate_existing_Ok add: confirm_home_def canonicalize_def quiet io_error_def)
  ultimately show ?thesis
    using home(4) by (simp add: with_home_def)
qed

section \<open>The refresh lock\<close>

text \<open>The refresh lock is only ever taken on a private regular file inside the validated home: a lock that is
  granted is on the lock file itself, never on the target of a link, owned by the user with mode 0600 and no
  second name; an existing file is left as it is and nothing but the lock file can have been created. In a home
  without a lock file, and with a mask that leaves the owner's bits, the lock is granted.\<close>

theorem refresh_lock_private:
  assumes "real_path fs home" and "os_fault e (OpCanonicalize home) = None"
    and "acquire_credential_refresh_lock_blocking e home fs = (r, fs')" and "p = path_join home CREDENTIAL_REFRESH_LOCK_NAME"
  shows "(fs p = None \<and> is_directory fs home \<and> permissions (and FILE_MODE (not (os_umask e))) = FILE_MODE \<and> (\<forall>op. os_fault e op = None) \<longrightarrow> r = Ok p) \<and>
    (\<forall>q. q \<noteq> p \<longrightarrow> fs' q = fs q) \<and> (fs p \<noteq> None \<longrightarrow> fs' p = fs p) \<and>
    (\<forall>l. r = Ok l \<longrightarrow> l = p \<and> (\<exists>i. fs' p = Some i \<and> is_regular i \<and> in_uid i = os_euid e \<and>
       permissions (in_mode i) = FILE_MODE \<and> in_nlink i = 1))"
proof -
  have canonical: "canonicalize e fs home = Ok home"
    using assms(1,2) by (simp add: canonicalize_def faulty_def real_resolve)
  have inside: "path_starts_with p home"
    by (simp add: assms(4) path_starts_with_def path_join_def)
  have located: "locate fs p = Ok q \<Longrightarrow> q = p" for q
    using assms(1) by (auto simp: assms(4) locate_join real_resolve split: if_splits)
  obtain r1 fs1 where opened: "open_lock_file e p fs = (r1, fs1)"
    by fastforce
  have fs1: "\<forall>q. q \<noteq> p \<longrightarrow> fs1 q = fs q" "fs p \<noteq> None \<longrightarrow> fs1 p = fs p" "\<forall>i. r1 = Ok i \<longrightarrow> fs1 p = Some i"
    using opened located
    by (auto simp: open_lock_file_def and_then_Ok Let_def split: result.split_asm option.split_asm node.split_asm)
  have run: "(case r1 of Err k \<Rightarrow> lock_error (''could not open private lock file: '' @ os_io_text e k)
      | Ok i \<Rightarrow> and_then (check_lock_file e p i) (\<lambda>_. Ok p)) = r" "fs' = fs1"
    using assms(3) canonical inside opened
    by (auto simp: acquire_credential_refresh_lock_blocking_def assms(4) [symmetric] Let_def split: result.split_asm)
  have "\<forall>l. r = Ok l \<longrightarrow> l = p \<and> (\<exists>i. fs' p = Some i \<and> is_regular i \<and> in_uid i = os_euid e \<and>
       permissions (in_mode i) = FILE_MODE \<and> in_nlink i = 1)"
    using run fs1(3) by (auto simp: check_lock_file_def lock_error_def and_then_Ok split: result.splits if_splits)
  moreover have "r = Ok p" if "fs p = None" "is_directory fs home" "permissions (and FILE_MODE (not (os_umask e))) = FILE_MODE" "\<forall>op. os_fault e op = None"
  proof -
    have "locate fs p = Ok p"
      using assms(1) that(2) by (simp add: assms(4) locate_join real_resolve)
    then have "r1 = Ok \<lparr>in_node = Regular [], in_mode = and FILE_MODE (not (os_umask e)), in_uid = os_euid e, in_nlink = 1\<rparr>"
      using opened that(1,4) by (auto simp: open_lock_file_def faulty_def Let_def)
    then show ?thesis
      using run(1) that(3,4) by (simp add: check_lock_file_def is_regular_def faulty_def)
  qed
  ultimately show ?thesis
    using fs1 run(2) by blast
qed

section \<open>Private JSON files\<close>

lemma temporary_name_differs: "temporary_name pid (path_join d n) \<noteq> n"
proof -
  have "length n < length (temporary_name pid (path_join d n))" if "to_str n = Some n"
    using that by (simp add: temporary_name_def)
  moreover have "utf8_valid (temporary_name pid (path_join d n))" if "to_str n = None"
    using that by (auto simp: temporary_name_def show_nat_ascii byte_def intro!: utf8_valid_append utf8_valid_ascii)
  ultimately show ?thesis
    by (cases "utf8_valid n") (auto simp: to_str_def)
qed

lemma create_new_file_real:
  assumes "real_path fs d" "is_directory fs d" "t = path_join d n"
  shows "create_new_file e t mode fs =
    (if os_fault e (OpOpen t) = None \<and> fs t = None
     then (Ok t, fs(t \<mapsto> \<lparr>in_node = Regular [], in_mode = and mode (not (os_umask e)), in_uid = os_euid e, in_nlink = 1\<rparr>))
     else (Err (case os_fault e (OpOpen t) of Some m \<Rightarrow> OtherKind m | None \<Rightarrow> AlreadyExistsKind), fs))"
  using assms by (auto simp: create_new_file_def faulty_def locate_join real_resolve split: option.split)

definition private_file :: "os \<Rightarrow> bytes \<Rightarrow> inode" where
  "private_file e content = \<lparr>in_node = Regular content, in_mode = and FILE_MODE (not (os_umask e)), in_uid = os_euid e, in_nlink = 1\<rparr>"

lemma rename_file_real:
  assumes "real_path fs d" "is_directory fs d" "t = path_join d n" "p = path_join d m" "t \<noteq> p" "fs t = Some i"
  shows "rename_file e t p fs = (Ok (), fs(p \<mapsto> i, t := None)) \<or> (\<exists>k. rename_file e t p fs = (Err k, fs))"
proof -
  have located: "locate fs t = Ok t" "locate fs p = Ok p"
    using assms(1-4) by (simp_all add: locate_join real_resolve)
  have "real_path (fs(p \<mapsto> i)) d" "is_directory (fs(p \<mapsto> i)) d"
    using assms(1,2,4) by (auto simp: path_join_def is_directory_def intro: real_path_upd)
  then have "locate (fs(p \<mapsto> i)) t = Ok t"
    by (simp add: assms(3) locate_join real_resolve)
  then show ?thesis
    using located assms(5,6) by (auto simp: rename_file_def install_file_def and_then_Ok split: result.split)
qed

lemma write_private_json_effect:
  assumes "real_path fs d" and "is_directory fs d" and "p = path_join d name" and "t = path_join d (temporary_name pid p)"
    and "os_fault e (OpStat d) = None" and "write_private_json e os_partial pid p content fs = (r, fs')"
  shows "(r = Ok () \<longrightarrow> fs' p = Some (private_file e content) \<and> fs' t = None) \<and> (r \<noteq> Ok () \<longrightarrow> fs' p = fs p) \<and>
    (\<forall>q. q \<notin> {p, t} \<longrightarrow> fs' q = fs q)"
proof -
  have "path_exists e fs d"
    using assms(1,2,5) by (auto simp: path_exists_def metadata_def faulty_def real_resolve is_ok_def is_directory_def split: option.splits)
  then have parent: "prepare_parent e d fs = (Ok (), fs)"
    by (simp add: prepare_parent_def)
  have distinct: "t \<noteq> p"
    using temporary_name_differs [of pid d name] by (simp add: assms(3,4) path_join_def)
  obtain r1 fs1 where publish: "publish_private_file e os_partial t p content fs = (r1, fs1)"
    by fastforce
  let ?made = "\<lambda>c. fs(t \<mapsto> private_file e c)"
  have "r1 = Ok () \<and> fs1 = fs(p \<mapsto> private_file e content, t := None) \<or>
      r1 \<noteq> Ok () \<and> (fs1 = fs \<or> (\<exists>c. fs1 = ?made c))"
  proof -
    have "real_path (?made content) d" "is_directory (?made content) d"
      using assms(1,2,4) by (auto simp: path_join_def is_directory_def intro: real_path_upd)
    from rename_file_real [OF this assms(4,3) distinct, of "private_file e content" e]
    have rename: "rename_file e t p (?made content) = (Ok (), fs(p \<mapsto> private_file e content, t := None)) \<or>
        (\<exists>k. rename_file e t p (?made content) = (Err k, ?made content))"
      by (simp add: fun_upd_twist [OF distinct])
    have filled: "(private_file e [])\<lparr>in_node := Regular c\<rparr> = private_file e c" for c
      by (simp add: private_file_def)
    have "create_new_file e t FILE_MODE fs = (Ok t, ?made []) \<or> (\<exists>k. create_new_file e t FILE_MODE fs = (Err k, fs))"
      using create_new_file_real [OF assms(1,2,4), of e FILE_MODE] by (auto simp: private_file_def)
    then show ?thesis
      using publish rename
      by (elim disjE exE) (auto simp: publish_private_file_def Let_def filled split: result.split_asm)
  qed
  moreover have "remove_file e t fs1 q = fs1 q" if "q \<noteq> t" "fs1 = fs \<or> (\<exists>c. fs1 = ?made c)" for q
  proof -
    have "real_path fs1 d" "is_directory fs1 d"
      using that(2) assms(1,2,4) by (auto simp: path_join_def is_directory_def intro: real_path_upd)
    then have "locate fs1 t = Ok t"
      by (simp add: assms(4) locate_join real_resolve)
    with that(1) show ?thesis
      by (auto simp: remove_file_def and_then_Ok faulty_def split: result.split option.split)
  qed
  moreover have "(r, fs') = (case r1 of Err m \<Rightarrow> (Err m, remove_file e t fs1) | Ok _ \<Rightarrow> (Ok (), fs1))"
    using assms(6) publish parent by (auto simp: write_private_json_def assms(3,4) Let_def split: result.splits)
  ultimately show ?thesis
    using distinct by (auto split: result.splits)
qed

lemma write_private_json_succeeds:
  assumes "real_path fs d" and "is_directory fs d" and "p = path_join d name" and "fs (path_join d (temporary_name pid p)) = None"
    and "\<not> is_directory fs p" and "\<forall>op. os_fault e op = None"
  shows "fst (write_private_json e os_partial pid p content fs) = Ok ()"
proof -
  let ?t = "path_join d (temporary_name pid p)" and ?file = "private_file e content"
  have quiet: "faulty e op = Ok ()" for op
    using assms(6) by (simp add: faulty_def)
  have distinct: "?t \<noteq> p"
    using temporary_name_differs [of pid d name] by (simp add: assms(3) path_join_def)
  have "path_exists e fs d"
    using assms(1,2) by (auto simp: path_exists_def metadata_def quiet real_resolve is_ok_def is_directory_def split: option.splits)
  then have parent: "prepare_parent e d fs = (Ok (), fs)"
    by (simp add: prepare_parent_def)
  have create: "create_new_file e ?t FILE_MODE fs = (Ok ?t, fs(?t \<mapsto> private_file e []))"
    using create_new_file_real [OF assms(1,2) refl, of e "temporary_name pid p" FILE_MODE] assms(4,6) by (simp add: private_file_def)
  have written: "real_path (fs(?t \<mapsto> ?file)) d" "is_directory (fs(?t \<mapsto> ?file)) d"
    using assms(1,2) by (auto simp: path_join_def is_directory_def intro: real_path_upd)
  then have located: "locate (fs(?t \<mapsto> ?file)) ?t = Ok ?t" "locate (fs(?t \<mapsto> ?file)) p = Ok p"
    by (simp_all add: assms(3) locate_join real_resolve)
  have "real_path (fs(?t \<mapsto> ?file, p \<mapsto> ?file)) d" "is_directory (fs(?t \<mapsto> ?file, p \<mapsto> ?file)) d"
    using written by (auto simp: assms(3) path_join_def is_directory_def intro: real_path_upd)
  then have located2: "locate (fs(?t \<mapsto> ?file, p \<mapsto> ?file)) ?t = Ok ?t"
    by (simp add: locate_join real_resolve)
  have "install_file e p ?file (fs(?t \<mapsto> ?file)) = (Ok (), fs(?t \<mapsto> ?file, p \<mapsto> ?file))"
    using located(2) assms(5) distinct by (simp add: install_file_def quiet is_directory_def)
  then have "fst (rename_file e ?t p (fs(?t \<mapsto> ?file))) = Ok ()"
    using located(1) located2 by (simp add: rename_file_def)
  moreover have "(private_file e [])\<lparr>in_node := Regular content\<rparr> = ?file"
    by (simp add: private_file_def)
  ultimately have "fst (publish_private_file e os_partial ?t p content fs) = Ok ()"
    using create by (auto simp: publish_private_file_def quiet Let_def split: result.split prod.split)
  then show ?thesis
    using parent by (auto simp: write_private_json_def assms(3) [symmetric] Let_def path_join_simps(2) [of d name, folded assms(3)] split: result.split prod.split)
qed

text \<open>C40: A private JSON file is published as a whole or not at all: when writing succeeds, the file is the complete
  document, created by the user with the owner-only mode, and the temporary file is gone; when anything fails, the
  published file is what it was before. No other file changes.\<close>

theorem private_json_published:
  assumes "real_path fs d" and "is_directory fs d" and "p = path_join d name" and "t = path_join d (temporary_name pid p)"
    and "os_fault e (OpStat d) = None" and "write_private_json e os_partial pid p content fs = (r, fs')"
  shows "(r = Ok () \<longrightarrow> fs' p = Some (private_file e content) \<and> fs' t = None) \<and> (r \<noteq> Ok () \<longrightarrow> fs' p = fs p) \<and>
    (\<forall>q. q \<notin> {p, t} \<longrightarrow> fs' q = fs q)"
  by (rule write_private_json_effect [OF assms])

section \<open>Witnesses\<close>

theorem auth_home_private_witness:
  "\<exists>h fs'. with_home sample_os None (components ''/p/muse-codex/codex-home'') sample_profile_fs = (Ok h, fs') \<and>
     real_path fs' h \<and> (\<exists>i. fs' h = Some i \<and> private_dir sample_os i)"
proof -
  have "is_ok (fst (with_home sample_os None (components ''/p/muse-codex/codex-home'') sample_profile_fs))"
    by code_simp
  then obtain h fs' where run: "with_home sample_os None (components ''/p/muse-codex/codex-home'') sample_profile_fs = (Ok h, fs')"
    by (auto simp: is_ok_def prod_eq_iff split: result.split_asm)
  have "is_directory sample_profile_fs [RootDir]"
    by (simp add: is_directory_def sample_profile_fs_def sample_dir_def)
  from auth_home_private [OF sample_os_quiet(2) this run] run show ?thesis by auto
qed

theorem launcher_home_accepted_witness:
  "\<exists>dirs fs' R. discover_for sample_launcher_env Codex = Ok dirs \<and>
     create_private sample_os sample_launcher_env dirs sample_fs = (Ok (), fs') \<and>
     with_home sample_os (Some (components ''/home'')) (sd_app_home dirs) fs' = (Ok R, fs')"
proof -
  have "case discover_for sample_launcher_env Codex of
      Ok dirs \<Rightarrow> fst (create_private sample_os sample_launcher_env dirs sample_fs) = Ok () | Err _ \<Rightarrow> False"
    by code_simp
  then obtain dirs fs' where run: "discover_for sample_launcher_env Codex = Ok dirs"
      "create_private sample_os sample_launcher_env dirs sample_fs = (Ok (), fs')"
    by (auto simp: prod_eq_iff split: result.split_asm)
  have "is_directory sample_fs [RootDir]"
    by (simp add: is_directory_def sample_fs_def sample_dir_def)
  moreover have "\<forall>op. os_fault sample_os op = None"
    by (simp add: sample_os_def)
  moreover have "Some (components ''/home'') = map_option components (le_home sample_launcher_env)"
    by (simp add: sample_launcher_env_def)
  ultimately show ?thesis
    using launcher_home_accepted [OF sample_os_quiet(2) _ run] run by blast
qed

theorem refresh_lock_private_witness:
  "\<exists>fs'. acquire_credential_refresh_lock_blocking sample_os [RootDir, Normal ''p''] sample_profile_fs =
     (Ok (path_join [RootDir, Normal ''p''] CREDENTIAL_REFRESH_LOCK_NAME), fs')"
proof -
  obtain r fs' where run: "acquire_credential_refresh_lock_blocking sample_os [RootDir, Normal ''p''] sample_profile_fs = (r, fs')"
    by fastforce
  have "sample_profile_fs (path_join [RootDir, Normal ''p''] CREDENTIAL_REFRESH_LOCK_NAME) = None"
    "is_directory sample_profile_fs [RootDir, Normal ''p'']"
    by (simp_all add: sample_profile_fs_def is_directory_def sample_dir_def path_join_def)
  moreover have "permissions (and FILE_MODE (not (os_umask sample_os))) = FILE_MODE"
    by code_simp
  moreover have fault: "\<forall>op. os_fault sample_os op = None"
    by (simp add: sample_os_def)
  ultimately have "r = Ok (path_join [RootDir, Normal ''p''] CREDENTIAL_REFRESH_LOCK_NAME)"
    using refresh_lock_private [OF sample_profile_real fault [rule_format] run refl, THEN conjunct1] by blast
  with run show ?thesis by blast
qed

theorem private_json_published_witness:
  "\<exists>fs'. write_private_json sample_os [] 7 (components ''/p/ready.json'') ''{}'' sample_profile_fs = (Ok (), fs') \<and>
     fs' (components ''/p/ready.json'') = Some (private_file sample_os ''{}'')"
proof -
  have "fst (write_private_json sample_os [] 7 (components ''/p/ready.json'') ''{}'' sample_profile_fs) = Ok ()"
    by code_simp
  then obtain fs' where run: "write_private_json sample_os [] 7 (components ''/p/ready.json'') ''{}'' sample_profile_fs = (Ok (), fs')"
    by (auto simp: prod_eq_iff)
  have "is_directory sample_profile_fs [RootDir, Normal ''p'']"
    by (simp add: is_directory_def sample_profile_fs_def sample_dir_def)
  moreover have "components ''/p/ready.json'' = path_join [RootDir, Normal ''p''] ''ready.json''"
    by code_simp
  moreover have "os_fault sample_os (OpStat [RootDir, Normal ''p'']) = None"
    by (simp add: sample_os_def)
  ultimately show ?thesis
    using private_json_published [OF sample_profile_real _ _ refl _ run] run by blast
qed

end
