(* ===== verification/Launcher_Run.thy ===== *)
theory Launcher_Run
  imports Private_Profile Credentials
begin

text \<open>
  What the launcher does once its command line is understood (\<open>muse-codex/src/lib.rs\<close>, from
  \<open>discover_stock_muse\<close> to \<open>run\<close>): it finds the executables, checks the version of stock Muse, starts the
  gateway, prepares the profile, starts stock Muse, waits for it and stops the gateway.

  The processes and the terminal are a trace of events in the state; the file system is its other
  component. The answers of the world (what a program prints, whether a process can be started, how it
  ends, the rounds of the readiness wait) are the record \<open>launch_world\<close>. A path is its list of components, so a
  path that is passed as an argument is written in its normal form. An error of \<open>Command::output\<close> is an
  error to start the program, and writing to the terminal does not fail. The readiness files of the gateway are answers of the world
  (\<open>Launcher_Ready\<close>), the relay of the session protocol is \<open>Msp_Relay\<close>.
\<close>

section \<open>Commands and processes\<close>

type_synonym environment = "bytes \<Rightarrow> bytes option"

datatype Stdio = InheritIo | NullIo | PipedIo

record command =
  c_program :: path
  c_args :: "bytes list"
  c_env :: environment
  c_stdin :: "Stdio option"
  c_stdout :: "Stdio option"
  c_stderr :: "Stdio option"
  c_own_group :: bool

record exit_status =
  es_code :: "int option"
  es_signal :: "int option"

record process_output =
  po_status :: exit_status
  po_stdout :: bytes
  po_stderr :: bytes

datatype proc_event =
    Started command
  | Delivered command bytes
  | Signalled command
  | Killed command
  | Awaited command
  | Printed bytes
  | Warned bytes

record launch_state =
  ls_fs :: fs
  ls_trace :: "proc_event list"

datatype launch_error = Usage arg_error | Failure bytes

record GatewaySelfTest =
  st_status :: bytes
  st_ready_schema_version :: nat
  st_wire_compatibility_version :: bytes
  st_supported_providers :: "bytes list"

record launch_world =
  lw_env :: environment
  lw_os :: os
  lw_cwd :: path
  lw_current_exe :: "path option"
  lw_stdin :: "(bytes, bytes) result"
  lw_pid :: nat
  lw_temporary :: path
  lw_clap :: clap
  lw_json :: serde_json
  lw_pretty :: "Value \<Rightarrow> bytes"
  lw_debug :: "bytes \<Rightarrow> bytes"
  lw_ready_codec :: ready_codec
  lw_base64 :: base64
  lw_decode_self_test :: "bytes \<Rightarrow> GatewaySelfTest option"
  lw_output :: "command \<Rightarrow> (process_output, bytes) result"
  lw_spawn :: "command \<Rightarrow> (unit, bytes) result"
  lw_deliver :: "(unit, bytes) result"
  lw_polls :: "poll list"
  lw_exited :: "bool list"
  lw_signals :: "(unit, bytes) result"
  lw_wait :: "command \<Rightarrow> (exit_status, bytes) result"
  lw_relay :: "(unit, bytes) result"
  lw_relay_end :: "(unit, bytes) result"

definition log_events :: "proc_event list \<Rightarrow> launch_state \<Rightarrow> launch_state" where
  "log_events events st = st\<lparr>ls_trace := ls_trace st @ events\<rparr>"

definition command_new :: "launch_world \<Rightarrow> path \<Rightarrow> command" where
  "command_new w program = \<lparr>c_program = program, c_args = [], c_env = lw_env w, c_stdin = None, c_stdout = None, c_stderr = None, c_own_group = False\<rparr>"

definition c_set :: "bytes \<Rightarrow> bytes \<Rightarrow> command \<Rightarrow> command" where
  "c_set name v c = c\<lparr>c_env := (c_env c)(name \<mapsto> v)\<rparr>"

definition c_remove :: "bytes \<Rightarrow> command \<Rightarrow> command" where
  "c_remove name c = c\<lparr>c_env := (c_env c)(name := None)\<rparr>"

definition SECRET_ENVIRONMENT :: "bytes list" where
  "SECRET_ENVIRONMENT = [''OPENAI_API_KEY'', ''CODEX_API_KEY'', ''CODEX_ACCESS_TOKEN'', ''CODEX_HOME'',
     ''CODEX_INTERNAL_ORIGINATOR_OVERRIDE'', ''META_API_KEY'', ''OPENAI_BASE_URL'', ''OPENAI_ORGANIZATION'',
     ''OPENAI_PROJECT'', ''TBH_AUTH_BASE_URL'', ''TBH_MINT_BASE_URL'', ''MUSE_CUSTOM_HEADERS'',
     ''OTEL_EXPORTER_OTLP_ENDPOINT'', ''ZAI_API_KEY'', ''Z_AI_API_KEY'', ''ZHIPUAI_API_KEY'', ''ZAI_BASE_URL'',
     ''ANTHROPIC_API_KEY'', ''ANTHROPIC_AUTH_TOKEN'', ''ANTHROPIC_BASE_URL'']"

definition scrub_secret_environment :: "command \<Rightarrow> command" where
  "scrub_secret_environment c = c_set ''TBH_DISABLE_TELEMETRY'' ''1'' (fold c_remove SECRET_ENVIRONMENT c)"

definition ULTRA_REASONING_GATE :: bytes where
  "ULTRA_REASONING_GATE = ''MUSE_EXPERIMENTAL_ULTRA_REASONING_EFFORT''"

definition enable_ultra_reasoning :: "command \<Rightarrow> command" where
  "enable_ultra_reasoning c = c_set ULTRA_REASONING_GATE ''1'' c"

definition configure_hidden_gateway :: "command \<Rightarrow> command" where
  "configure_hidden_gateway c = c\<lparr>c_own_group := True\<rparr>"

definition show_int :: "int \<Rightarrow> bytes" where
  "show_int i = (if i < 0 then ''-'' @ show_nat (nat (- i)) else show_nat (nat i))"

definition exit_status_code :: "exit_status \<Rightarrow> int" where
  "exit_status_code status =
     (case es_code status of
        Some code \<Rightarrow> code
      | None \<Rightarrow> (case es_signal status of Some signal \<Rightarrow> 128 + signal | None \<Rightarrow> 1))"

definition display_exit_status :: "exit_status \<Rightarrow> bytes" where
  "display_exit_status status =
     (case es_code status of
        Some code \<Rightarrow> ''exit code '' @ show_int code
      | None \<Rightarrow> (case es_signal status of Some signal \<Rightarrow> ''signal '' @ show_int signal | None \<Rightarrow> ''unknown process status''))"

text \<open>\<open>Command::output\<close>, \<open>Command::spawn\<close>, and \<open>kill\<close> followed by \<open>wait\<close>.\<close>

definition command_output :: "launch_world \<Rightarrow> command \<Rightarrow> bytes \<Rightarrow> launch_state \<Rightarrow> (process_output, launch_error) result \<times> launch_state" where
  "command_output w c message st =
     (case lw_output w c of
        Err _ \<Rightarrow> (Err (Failure message), st)
      | Ok out \<Rightarrow> (Ok out, log_events [Started c, Awaited c] st))"

definition spawn :: "launch_world \<Rightarrow> command \<Rightarrow> bytes \<Rightarrow> launch_state \<Rightarrow> (unit, launch_error) result \<times> launch_state" where
  "spawn w c message st =
     (case lw_spawn w c of
        Err _ \<Rightarrow> (Err (Failure message), st)
      | Ok _ \<Rightarrow> (Ok (), log_events [Started c] st))"

definition kill_and_wait :: "command \<Rightarrow> launch_state \<Rightarrow> launch_state" where
  "kill_and_wait c st = log_events [Killed c, Awaited c] st"

definition wait_with_signal_forwarding :: "launch_world \<Rightarrow> command \<Rightarrow> launch_state \<Rightarrow> (int, launch_error) result \<times> launch_state" where
  "wait_with_signal_forwarding w c st =
     (case lw_signals w of
        Err _ \<Rightarrow> (Err (Failure ''failed to install child signal forwarding''), kill_and_wait c st)
      | Ok _ \<Rightarrow>
          (case lw_wait w c of
             Err m \<Rightarrow> (Err (Failure m), kill_and_wait c st)
           | Ok status \<Rightarrow> (Ok (exit_status_code status), log_events [Awaited c] st)))"

section \<open>Discovery\<close>

definition STOCK_MUSE_BASENAME :: bytes where "STOCK_MUSE_BASENAME = ''muse-bin-1.0.3-R2198.1''"
definition STOCK_MUSE_COMMAND :: bytes where "STOCK_MUSE_COMMAND = ''muse''"
definition GATEWAY_BASENAME :: bytes where "GATEWAY_BASENAME = ''muse-codex-gateway''"
definition SUPPORTED_MUSE_VERSION :: bytes where "SUPPORTED_MUSE_VERSION = ''1.0.3-R2198.1''"

record DiscoveryInputs =
  di_muse_override :: "path option"
  di_gateway_override :: "path option"
  di_current_exe :: "path option"
  di_install_dir :: "path option"
  di_home_dir :: "path option"
  di_path :: "bytes option"

definition from_environment :: "launch_world \<Rightarrow> DiscoveryInputs" where
  "from_environment w =
     \<lparr>di_muse_override = map_option components (lw_env w ''MUSE_CODEX_MUSE_BIN''),
      di_gateway_override = map_option components (lw_env w ''MUSE_CODEX_GATEWAY_BIN''),
      di_current_exe = lw_current_exe w,
      di_install_dir = map_option components (lw_env w ''MUSE_INSTALL_DIR''),
      di_home_dir = map_option components (lw_env w ''HOME''),
      di_path = lw_env w ''PATH''\<rparr>"

text \<open>A relative path is looked up from the working directory.\<close>

definition from_cwd :: "launch_world \<Rightarrow> path \<Rightarrow> path" where
  "from_cwd w p = (if is_absolute p then p else lw_cwd w @ p)"

definition is_executable :: "launch_world \<Rightarrow> fs \<Rightarrow> path \<Rightarrow> bool" where
  "is_executable w fs p =
     (case metadata (lw_os w) fs (from_cwd w p) of
        Err _ \<Rightarrow> False
      | Ok i \<Rightarrow> (case in_node i of Regular _ \<Rightarrow> and (in_mode i) 73 \<noteq> 0 | _ \<Rightarrow> False))"

definition require_executable :: "launch_world \<Rightarrow> fs \<Rightarrow> path \<Rightarrow> bytes \<Rightarrow> (path, launch_error) result" where
  "require_executable w fs p variable =
     (if is_executable w fs p then Ok p
      else Err (Failure (variable @ '' does not point to an executable file: '' @ os_display (lw_os w) p)))"

definition first_executable :: "launch_world \<Rightarrow> fs \<Rightarrow> path list \<Rightarrow> path option" where
  "first_executable w fs candidates = List.find (is_executable w fs) candidates"

definition path_candidates :: "bytes option \<Rightarrow> bytes \<Rightarrow> path list" where
  "path_candidates path binary_name =
     (case path of
        None \<Rightarrow> []
      | Some s \<Rightarrow> map (\<lambda>directory. path_join (components directory) binary_name)
          (filter (\<lambda>directory. directory \<noteq> []) (split_on (\<lambda>c. c = CHR '':'') s)))"

text \<open>The directory beside which both names of stock Muse are tried.\<close>

definition stock_names_in :: "path option \<Rightarrow> path list" where
  "stock_names_in directory =
     (case directory of None \<Rightarrow> [] | Some d \<Rightarrow> [path_join d STOCK_MUSE_BASENAME, path_join d STOCK_MUSE_COMMAND])"

definition stock_candidates :: "DiscoveryInputs \<Rightarrow> path list" where
  "stock_candidates inputs =
     stock_names_in (Option.bind (di_current_exe inputs) path_parent) @
     stock_names_in (di_install_dir inputs) @
     stock_names_in (map_option (\<lambda>home. path_join (path_join home ''.local'') ''bin'') (di_home_dir inputs)) @
     path_candidates (di_path inputs) STOCK_MUSE_BASENAME @
     path_candidates (di_path inputs) STOCK_MUSE_COMMAND"

definition discover_stock_muse :: "launch_world \<Rightarrow> fs \<Rightarrow> DiscoveryInputs \<Rightarrow> (path, launch_error) result" where
  "discover_stock_muse w fs inputs =
     (case di_muse_override inputs of
        Some p \<Rightarrow> require_executable w fs p ''MUSE_CODEX_MUSE_BIN''
      | None \<Rightarrow>
          ok_or (first_executable w fs (stock_candidates inputs))
            (Failure (''Muse Code '' @ SUPPORTED_MUSE_VERSION @
               '' is not installed; install the stock Muse CLI or set MUSE_CODEX_MUSE_BIN to its exact binary'')))"

definition gateway_candidates :: "DiscoveryInputs \<Rightarrow> path list" where
  "gateway_candidates inputs =
     (case Option.bind (di_current_exe inputs) path_parent of None \<Rightarrow> [] | Some d \<Rightarrow> [path_join d GATEWAY_BASENAME]) @
     path_candidates (di_path inputs) GATEWAY_BASENAME"

definition discover_gateway :: "launch_world \<Rightarrow> fs \<Rightarrow> DiscoveryInputs \<Rightarrow> (path, launch_error) result" where
  "discover_gateway w fs inputs =
     (case di_gateway_override inputs of
        Some p \<Rightarrow> require_executable w fs p ''MUSE_CODEX_GATEWAY_BIN''
      | None \<Rightarrow>
          ok_or (first_executable w fs (gateway_candidates inputs))
            (Failure (GATEWAY_BASENAME @
               '' was not found beside this executable or on PATH; set MUSE_CODEX_GATEWAY_BIN to override discovery'')))"

definition is_launcher :: "launch_world \<Rightarrow> fs \<Rightarrow> path \<Rightarrow> bool" where
  "is_launcher w fs p =
     (case lw_current_exe w of
        None \<Rightarrow> False
      | Some current_exe \<Rightarrow>
          (case (canonicalize (lw_os w) fs (from_cwd w p), canonicalize (lw_os w) fs (from_cwd w current_exe)) of
             (Ok candidate, Ok launcher) \<Rightarrow> candidate = launcher
           | _ \<Rightarrow> False))"

definition version_command :: "launch_world \<Rightarrow> path \<Rightarrow> command" where
  "version_command w p =
     scrub_secret_environment ((c_set ''MUSE_NO_AUTO_UPDATE'' ''1'' (command_new w p))\<lparr>c_args := [''--version''], c_stdin := Some NullIo\<rparr>)"

definition EXPECTED_VERSION :: bytes where
  "EXPECTED_VERSION = ''Muse Code 1.0.3 ('' @ SUPPORTED_MUSE_VERSION @ '')''"

text \<open>\<open>lw_debug\<close> is the \<open>{:?}\<close> form of a string.\<close>

definition check_version_output :: "launch_world \<Rightarrow> path \<Rightarrow> process_output \<Rightarrow> (unit, launch_error) result" where
  "check_version_output w p out =
     (if es_code (po_status out) \<noteq> Some 0 then
        Err (Failure (''stock Muse version check failed for '' @ os_display (lw_os w) p @ '' ('' @ display_exit_status (po_status out) @ '')''))
      else if \<not> utf8_valid (po_stdout out) then Err (Failure ''stock Muse --version output was not UTF-8'')
      else if trim (po_stdout out) \<noteq> EXPECTED_VERSION then
        Err (Failure (''stock Muse must be exactly '' @ SUPPORTED_MUSE_VERSION @ ''; '' @ os_display (lw_os w) p @ '' reported '' @ lw_debug w (trim (po_stdout out))))
      else Ok ())"

definition verify_stock_muse_version :: "launch_world \<Rightarrow> path \<Rightarrow> launch_state \<Rightarrow> (unit, launch_error) result \<times> launch_state" where
  "verify_stock_muse_version w p st =
     (if is_launcher w (ls_fs st) p then
        (Err (Failure ''MUSE_CODEX_MUSE_BIN must point to stock Muse, not the muse-codex launcher''), st)
      else
        (case command_output w (version_command w p) (''failed to inspect stock Muse at '' @ os_display (lw_os w) p) st of
           (Err e, st) \<Rightarrow> (Err e, st)
         | (Ok out, st) \<Rightarrow> (check_version_output w p out, st)))"

section \<open>The gateway process\<close>

fun component_text :: "component \<Rightarrow> bytes" where
  "component_text RootDir = []"
| "component_text CurDir = ''.''"
| "component_text ParentDir = ''..''"
| "component_text (Normal name) = name"

fun join_text :: "bytes list \<Rightarrow> bytes" where
  "join_text [] = []"
| "join_text [s] = s"
| "join_text (s # t # rest) = s @ ''/'' @ join_text (t # rest)"

definition path_text :: "path \<Rightarrow> bytes" where
  "path_text p = (if p = [RootDir] then ''/'' else join_text (map component_text p))"

text \<open>\<open>TempDir\<close>: created with the owner-only mode and removed with everything below it when it is dropped.\<close>

definition remove_dir_all :: "os \<Rightarrow> path \<Rightarrow> fs \<Rightarrow> fs" where
  "remove_dir_all e p fs =
     (case and_then (faulty e (OpRemove p)) (\<lambda>_. locate fs p) of
        Ok q \<Rightarrow> (\<lambda>x. if path_starts_with x q then None else fs x)
      | Err _ \<Rightarrow> fs)"

definition drop_temporary :: "launch_world \<Rightarrow> launch_state \<Rightarrow> launch_state" where
  "drop_temporary w st = st\<lparr>ls_fs := remove_dir_all (lw_os w) (lw_temporary w) (ls_fs st)\<rparr>"

definition create_gateway_temporary_directory :: "launch_world \<Rightarrow> launch_state \<Rightarrow> (path, launch_error) result \<times> launch_state" where
  "create_gateway_temporary_directory w st =
     (case make_dir (lw_os w) (lw_temporary w) DIR_MODE (ls_fs st) of
        (Err _, fs) \<Rightarrow> (Err (Failure ''failed to create gateway readiness directory''), st\<lparr>ls_fs := fs\<rparr>)
      | (Ok _, fs) \<Rightarrow>
          (case create_private_dir (lw_os w) (lw_temporary w) fs of
             (Err m, fs) \<Rightarrow> (Err (Failure m), drop_temporary w (st\<lparr>ls_fs := fs\<rparr>))
           | (Ok _, fs) \<Rightarrow> (Ok (lw_temporary w), st\<lparr>ls_fs := fs\<rparr>)))"

definition gateway_command :: "launch_world \<Rightarrow> path \<Rightarrow> path \<Rightarrow> PublicProvider \<Rightarrow> bytes option \<Rightarrow> bool \<Rightarrow> bool \<Rightarrow> command" where
  "gateway_command w executable ready_path provider upstream_base_url has_key fast_mode =
     configure_hidden_gateway (scrub_secret_environment ((command_new w executable)\<lparr>
       c_args := [''serve'', ''--bind'', ''127.0.0.1:0'', ''--ready-file'', path_text ready_path,
            ''--parent-pid'', show_nat (lw_pid w), ''--provider'', provider_str provider] @
         (case upstream_base_url of Some url \<Rightarrow> [''--upstream-base-url'', url] | None \<Rightarrow> []) @
         (if fast_mode then [''--fast''] else []) @
         (if has_key then [''--api-key-stdin''] else []),
       c_stdin := Some (if has_key then PipedIo else NullIo), c_stdout := Some NullIo, c_stderr := Some NullIo\<rparr>))"

text \<open>Writing the key to the standard input of the gateway.\<close>

definition deliver :: "launch_world \<Rightarrow> command \<Rightarrow> bytes option \<Rightarrow> launch_state \<Rightarrow> (unit, launch_error) result \<times> launch_state" where
  "deliver w c api_key st =
     (case api_key of
        None \<Rightarrow> (Ok (), st)
      | Some key \<Rightarrow>
          (map_err (\<lambda>_. Failure ''failed to deliver OPENAI_API_KEY to gateway stdin'') (lw_deliver w),
           log_events [Delivered c (deliver_api_key key)] st))"

text \<open>\<open>GatewayProcess::start\<close>; \<open>None\<close> when the given rounds of the readiness wait end before it does.\<close>

definition start_gateway ::
  "launch_world \<Rightarrow> path \<Rightarrow> PublicProvider \<Rightarrow> bytes option \<Rightarrow> bytes option \<Rightarrow> bool \<Rightarrow> launch_state
     \<Rightarrow> ((command \<times> GatewayReady, launch_error) result \<times> launch_state) option" where
  "start_gateway w executable provider upstream_base_url api_key fast_mode st =
     (case create_gateway_temporary_directory w st of
        (Err e, st) \<Rightarrow> Some (Err e, st)
      | (Ok directory, st) \<Rightarrow>
          let c = gateway_command w executable (path_join directory ''ready.json'') provider upstream_base_url (api_key \<noteq> None) fast_mode
          in (case spawn w c (''failed to start gateway executable '' @ os_display (lw_os w) executable) st of
                (Err e, st) \<Rightarrow> Some (Err e, drop_temporary w st)
              | (Ok _, st) \<Rightarrow>
                  (case deliver w c api_key st of
                     (Err e, st) \<Rightarrow> Some (Err e, drop_temporary w (kill_and_wait c st))
                   | (Ok _, st) \<Rightarrow>
                       (case wait_for_gateway_ready (lw_ready_codec w) (lw_base64 w) (os_euid (lw_os w)) provider None (lw_polls w) of
                          None \<Rightarrow> None
                        | Some (Err m) \<Rightarrow> Some (Err (Failure m), drop_temporary w (kill_and_wait c st))
                        | Some (Ok ready) \<Rightarrow> Some (Ok (c, ready), st)))))"

text \<open>
  Dropping the gateway: \<open>lw_exited\<close> lists what \<open>try_wait\<close> answers, first at once and then until the deadline of
  half a second. The temporary directory goes with it.
\<close>

definition drop_gateway :: "launch_world \<Rightarrow> command \<Rightarrow> launch_state \<Rightarrow> launch_state" where
  "drop_gateway w c st =
     drop_temporary w
       (case lw_exited w of
          True # _ \<Rightarrow> log_events [Awaited c] st
        | polls \<Rightarrow>
            if True \<in> set polls then log_events [Signalled c, Awaited c] st
            else kill_and_wait c (log_events [Signalled c] st))"

section \<open>A session of stock Muse\<close>

definition api_key_variable :: "PublicProvider \<Rightarrow> bytes" where
  "api_key_variable provider = (case provider of Codex \<Rightarrow> ''OPENAI_API_KEY'' | Zai \<Rightarrow> ''ZAI_API_KEY'')"

definition SecretInput_from_environment :: "environment \<Rightarrow> bytes \<Rightarrow> (bytes option, bytes) result" where
  "SecretInput_from_environment env name =
     (case opt_filter (\<lambda>v. v \<noteq> []) (env name) of
        None \<Rightarrow> Ok None
      | Some v \<Rightarrow> and_then (SecretInput_parse v) (\<lambda>key. Ok (Some key)))"

definition read_launch_key :: "launch_world \<Rightarrow> launch_plan \<Rightarrow> (bytes option, launch_error) result" where
  "read_launch_key w plan =
     map_err Failure
       (if lp_api_key_stdin plan then and_then (lw_stdin w) (\<lambda>input. and_then (SecretInput_from_reader input) (\<lambda>key. Ok (Some key)))
        else SecretInput_from_environment (lw_env w) (api_key_variable (lp_provider plan)))"

definition launcher_environment :: "launch_world \<Rightarrow> launcher_env" where
  "launcher_environment w =
     \<lparr>le_muse_codex_home = lw_env w ''MUSE_CODEX_HOME'', le_xdg_data_home = lw_env w ''XDG_DATA_HOME'', le_home = lw_env w ''HOME''\<rparr>"

definition open_profile :: "launch_world \<Rightarrow> PublicProvider \<Rightarrow> fs \<Rightarrow> (StockDirectories, launch_error) result \<times> fs" where
  "open_profile w provider fs =
     (case discover_for (launcher_environment w) provider of
        Err m \<Rightarrow> (Err (Failure m), fs)
      | Ok dirs \<Rightarrow>
          (case create_private (lw_os w) (launcher_environment w) dirs fs of
             (Err m, fs) \<Rightarrow> (Err (Failure m), fs)
           | (Ok _, fs) \<Rightarrow> (Ok dirs, fs)))"

text \<open>Everything stock Muse finds in its profile, prepared for one gateway.\<close>

definition prepare_session :: "launch_world \<Rightarrow> PublicProvider \<Rightarrow> GatewayReady \<Rightarrow> fs \<Rightarrow> (StockDirectories \<times> path, launch_error) result \<times> fs" where
  "prepare_session w provider ready fs =
     (case open_profile w provider fs of
        (Err e, fs) \<Rightarrow> (Err e, fs)
      | (Ok dirs, fs) \<Rightarrow>
          (case seed_stock_model_catalog (lw_os w) (lw_pretty w) (sd_data_home dirs) (gr_models ready) (gr_default_model ready) fs of
             (Err m, fs) \<Rightarrow> (Err (Failure m), fs)
           | (Ok _, fs) \<Rightarrow>
               (case seed_stock_settings (lw_os w) (lw_json w) (lw_pretty w) (sd_config_home dirs) (gr_base_url ready) fs of
                  (Err m, fs) \<Rightarrow> (Err (Failure m), fs)
                | (Ok settings_path, fs) \<Rightarrow> (Ok (dirs, settings_path), fs))))"

text \<open>The part of the environment that both kinds of runs of stock Muse share.\<close>

definition profile_command :: "launch_world \<Rightarrow> path \<Rightarrow> bytes list \<Rightarrow> StockDirectories \<Rightarrow> command" where
  "profile_command w stock_muse arguments dirs =
     c_set ''MUSE_AUTH_PATH'' (path_text (path_join (path_join (sd_config_home dirs) ''muse'') ''auth.json''))
       (c_set ''XDG_DATA_HOME'' (path_text (sd_data_home dirs))
         (c_set ''XDG_CONFIG_HOME'' (path_text (sd_config_home dirs))
           (c_set ''MUSE_NO_AUTO_UPDATE'' ''1''
             ((command_new w stock_muse)\<lparr>c_args := arguments, c_stdin := Some InheritIo, c_stdout := Some InheritIo,
                c_stderr := Some InheritIo\<rparr>))))"

definition is_msp_command :: "bytes list \<Rightarrow> bool" where
  "is_msp_command rewritten = (case rewritten of argument # _ \<Rightarrow> argument = ''serve'' | [] \<Rightarrow> False)"

definition stock_command :: "launch_world \<Rightarrow> path \<Rightarrow> launch_plan \<Rightarrow> GatewayReady \<Rightarrow> StockDirectories \<Rightarrow> command" where
  "stock_command w stock_muse plan ready dirs =
     (let rewritten = stock_arguments plan (gr_base_url ready);
          c = c_set ''META_API_KEY'' (gr_token ready) (profile_command w stock_muse rewritten dirs);
          c = enable_ultra_reasoning (scrub_secret_environment c);
          c = (if lp_api_key_stdin plan then c\<lparr>c_stdin := Some NullIo\<rparr> else c);
          c = (if is_msp_command rewritten then c\<lparr>c_stdin := Some PipedIo, c_stdout := Some PipedIo\<rparr> else c)
      in c_set ''META_API_KEY'' (gr_token ready) c)"

text \<open>Running the started child: with the relay when it serves the session protocol.\<close>

definition run_child :: "launch_world \<Rightarrow> command \<Rightarrow> bool \<Rightarrow> launch_state \<Rightarrow> (int, launch_error) result \<times> launch_state" where
  "run_child w c is_msp st =
     (case (if is_msp then map_err Failure (lw_relay w) else Ok ()) of
        Err e \<Rightarrow> (Err e, kill_and_wait c st)
      | Ok _ \<Rightarrow>
          (case wait_with_signal_forwarding w c st of
             (r, st) \<Rightarrow> (and_then (if is_msp then map_err Failure (lw_relay_end w) else Ok ()) (\<lambda>_. r), st)))"

definition fast_notice :: "bool \<Rightarrow> proc_event list" where
  "fast_notice fast_mode =
     (if fast_mode then [Warned (''muse-codex: Fast mode requested (priority processing; increased usage)'' @ [LF])] else [])"

definition run_session :: "launch_world \<Rightarrow> path \<Rightarrow> launch_plan \<Rightarrow> GatewayReady \<Rightarrow> launch_state \<Rightarrow> (int, launch_error) result \<times> launch_state" where
  "run_session w stock_muse plan ready st =
     (case prepare_session w (lp_provider plan) ready (ls_fs st) of
        (Err e, fs) \<Rightarrow> (Err e, st\<lparr>ls_fs := fs\<rparr>)
      | (Ok (dirs, settings_path), fs) \<Rightarrow>
          let c = stock_command w stock_muse plan ready dirs;
              st = log_events (fast_notice (lp_fast_mode plan)) (st\<lparr>ls_fs := fs\<rparr>)
          in (case spawn w c (''failed to run stock Muse '' @ os_display (lw_os w) stock_muse @
                     '' (isolated settings: '' @ os_display (lw_os w) settings_path @ '')'') st of
                (Err e, st) \<Rightarrow> (Err e, st)
              | (Ok _, st) \<Rightarrow> run_child w c (is_msp_command (stock_arguments plan (gr_base_url ready))) st))"

definition run_stock_muse ::
  "launch_world \<Rightarrow> path \<Rightarrow> path \<Rightarrow> bytes list \<Rightarrow> launch_state \<Rightarrow> ((int, launch_error) result \<times> launch_state) option" where
  "run_stock_muse w gateway_executable stock_muse arguments st =
     (case and_then (map_err Usage (plan_launch (lw_env w) arguments)) (\<lambda>plan. and_then (read_launch_key w plan) (\<lambda>key. Ok (plan, key))) of
        Err e \<Rightarrow> Some (Err e, st)
      | Ok (plan, api_key) \<Rightarrow>
          (case start_gateway w gateway_executable (lp_provider plan) (lp_upstream_base_url plan) api_key (lp_fast_mode plan) st of
             None \<Rightarrow> None
           | Some (Err e, st) \<Rightarrow> Some (Err e, st)
           | Some (Ok (c, ready), st) \<Rightarrow>
               (case run_session w stock_muse plan ready st of (r, st) \<Rightarrow> Some (r, drop_gateway w c st))))"

section \<open>Information and the other invocations\<close>

text \<open>\<open>str::replace\<close> for a pattern that is not empty.\<close>

function replace_text :: "bytes \<Rightarrow> bytes \<Rightarrow> bytes \<Rightarrow> bytes" where
  "replace_text pattern by_text [] = []"
| "replace_text pattern by_text (c # s) =
     (if pattern \<noteq> [] \<and> starts_with pattern (c # s) then by_text @ replace_text pattern by_text (drop (length pattern) (c # s))
      else c # replace_text pattern by_text s)"
  by pat_completeness auto
termination
  by (relation "measure (\<lambda>(_, _, s). length s)") (auto simp: Suc_diff_le)

definition text_lines :: "bytes list \<Rightarrow> bytes" where
  "text_lines xs = concat (map (\<lambda>x. x @ [LF]) xs)"

definition help_replacements :: "PublicProvider \<Rightarrow> (bytes \<times> bytes) list" where
  "help_replacements provider =
     [(''muse '', ''muse-codex ''),
      (''Startup provider: echo or meta (default: meta)'', ''Startup provider: codex or zai (default: codex)'')] @
     (if provider = Codex then
        [(text_lines [''          (default: high)''],
          text_lines [''          (default: high)'', ''      --fast'', ''          Use OpenAI Fast mode (priority processing; increased usage)'']),
         (text_lines [''Options:'', ''  -h, --help'', ''          Print this help''] @ ''      --no-session-log'',
          text_lines [''Options:'', ''      --fast'', ''          Use OpenAI Fast mode for every MSP session in this host'', ''  -h, --help'',
            ''          Print this help''] @ ''      --no-session-log''),
         (text_lines [''Options:'', ''      --last''] @ ''          Resume the most recent session in this workspace'',
          text_lines [''Options:'', ''      --fast'', ''          Resume this session with OpenAI Fast mode'', ''      --last''] @
            ''          Resume the most recent session in this workspace'')]
      else []) @
     [(''Model id for non-echo providers'', ''Model id from the active provider catalog''),
      (''Meta reasoning effort:'', ''Model reasoning effort:''),
      (''Override the Meta provider base URL'', ''Override the upstream API base URL''),
      (''Override the provider base URL'', ''Override the upstream API base URL''),
      (''Meta API parallel tool calls'', ''parallel tool calls''),
      (''Deterministic echo reply delay (echo provider only)'', ''Inactive compatibility option; the test provider is unavailable''),
      (''Use memory-only sessions'', ''Unavailable for MSP turns with the pinned Muse 1.0.3 host'')]"

definition rewrite_provider_help_for :: "bytes \<Rightarrow> PublicProvider \<Rightarrow> bytes" where
  "rewrite_provider_help_for text provider =
     (if utf8_valid text then fold (\<lambda>(pattern, by_text). replace_text pattern by_text) (help_replacements provider) text else text)"

definition information_command :: "launch_world \<Rightarrow> path \<Rightarrow> bytes list \<Rightarrow> StockDirectories \<Rightarrow> command" where
  "information_command w stock_muse arguments dirs =
     (let c = scrub_secret_environment (profile_command w stock_muse arguments dirs)
      in if is_informational_invocation arguments
         then c\<lparr>c_stdin := Some NullIo, c_stdout := Some PipedIo, c_stderr := Some PipedIo\<rparr> else c)"

definition prepare_information :: "launch_world \<Rightarrow> PublicProvider \<Rightarrow> fs \<Rightarrow> (StockDirectories, launch_error) result \<times> fs" where
  "prepare_information w provider fs =
     (case open_profile w provider fs of
        (Err e, fs) \<Rightarrow> (Err e, fs)
      | (Ok dirs, fs) \<Rightarrow>
          if path_exists (lw_os w) fs (path_join (path_join (sd_config_home dirs) ''muse'') ''settings.json'') then (Ok dirs, fs)
          else
            (case seed_stock_settings (lw_os w) (lw_json w) (lw_pretty w) (sd_config_home dirs) ''http://127.0.0.1:9'' fs of
               (Err m, fs) \<Rightarrow> (Err (Failure m), fs)
             | (Ok _, fs) \<Rightarrow> (Ok dirs, fs)))"

definition run_stock_information ::
  "launch_world \<Rightarrow> path \<Rightarrow> bytes list \<Rightarrow> PublicProvider \<Rightarrow> launch_state \<Rightarrow> (int, launch_error) result \<times> launch_state" where
  "run_stock_information w stock_muse arguments provider st =
     (let arguments = information_arguments arguments
      in case prepare_information w provider (ls_fs st) of
           (Err e, fs) \<Rightarrow> (Err e, st\<lparr>ls_fs := fs\<rparr>)
         | (Ok dirs, fs) \<Rightarrow>
             let c = information_command w stock_muse arguments dirs; st = st\<lparr>ls_fs := fs\<rparr>
             in if is_informational_invocation arguments then
                  (case command_output w c ''failed to read stock Muse help'' st of
                     (Err e, st) \<Rightarrow> (Err e, st)
                   | (Ok out, st) \<Rightarrow>
                       (Ok (exit_status_code (po_status out)),
                        log_events [Printed (rewrite_provider_help_for (po_stdout out) provider),
                          Warned (rewrite_provider_help_for (po_stderr out) provider)] st))
                else
                  (case spawn w c (''failed to run stock Muse '' @ os_display (lw_os w) stock_muse) st of
                     (Err e, st) \<Rightarrow> (Err e, st)
                   | (Ok _, st) \<Rightarrow> wait_with_signal_forwarding w c st))"

definition auth_command :: "launch_world \<Rightarrow> path \<Rightarrow> bytes list \<Rightarrow> command" where
  "auth_command w executable arguments =
     scrub_secret_environment ((command_new w executable)\<lparr>c_args := arguments, c_stdin := Some InheritIo,
       c_stdout := Some InheritIo, c_stderr := Some InheritIo\<rparr>)"

definition run_gateway_auth :: "launch_world \<Rightarrow> path \<Rightarrow> bytes list \<Rightarrow> launch_state \<Rightarrow> (int, launch_error) result \<times> launch_state" where
  "run_gateway_auth w executable arguments st =
     (let c = auth_command w executable arguments
      in case spawn w c (''failed to run '' @ os_display (lw_os w) executable) st of
           (Err e, st) \<Rightarrow> (Err e, st)
         | (Ok _, st) \<Rightarrow> wait_with_signal_forwarding w c st)"

definition SUPPORTED_CODEX_WIRE_VERSION :: bytes where
  "SUPPORTED_CODEX_WIRE_VERSION = ''0.153.4''"

definition self_test_command :: "launch_world \<Rightarrow> path \<Rightarrow> command" where
  "self_test_command w executable =
     scrub_secret_environment ((command_new w executable)\<lparr>c_args := [''self-test''], c_stdin := Some NullIo,
       c_stdout := Some PipedIo, c_stderr := Some NullIo\<rparr>)"

definition check_self_test :: "launch_world \<Rightarrow> process_output \<Rightarrow> (unit, launch_error) result" where
  "check_self_test w out =
     (if es_code (po_status out) \<noteq> Some 0 then Err (Failure (''gateway self-test failed ('' @ display_exit_status (po_status out) @ '')''))
      else if length (po_stdout out) > 4096 then Err (Failure ''gateway self-test output exceeded the size limit'')
      else and_then (ok_or (lw_decode_self_test w (po_stdout out)) (Failure ''gateway self-test returned invalid JSON'')) (\<lambda>result.
        if st_status result \<noteq> ''ok'' \<or> st_ready_schema_version result \<noteq> GATEWAY_READY_SCHEMA_VERSION \<or>
           st_wire_compatibility_version result \<noteq> SUPPORTED_CODEX_WIRE_VERSION \<or>
           ''codex'' \<notin> set (st_supported_providers result) \<or> ''zai'' \<notin> set (st_supported_providers result)
        then Err (Failure ''gateway self-test reported an incompatible launcher/gateway protocol'') else Ok ()))"

definition verify_gateway_self_test :: "launch_world \<Rightarrow> path \<Rightarrow> launch_state \<Rightarrow> (unit, launch_error) result \<times> launch_state" where
  "verify_gateway_self_test w executable st =
     (case command_output w (self_test_command w executable) (''failed to self-test gateway '' @ os_display (lw_os w) executable) st of
        (Err e, st) \<Rightarrow> (Err e, st)
      | (Ok out, st) \<Rightarrow> (check_self_test w out, st))"

section \<open>The launcher\<close>

text \<open>Finding stock Muse and checking its version.\<close>

definition find_stock_muse :: "launch_world \<Rightarrow> launch_state \<Rightarrow> (path, launch_error) result \<times> launch_state" where
  "find_stock_muse w st =
     (case discover_stock_muse w (ls_fs st) (from_environment w) of
        Err e \<Rightarrow> (Err e, st)
      | Ok p \<Rightarrow>
          (case verify_stock_muse_version w p st of
             (Err e, st) \<Rightarrow> (Err e, st)
           | (Ok _, st) \<Rightarrow> (Ok p, st)))"

definition strip_public_provider_args :: "bytes list \<Rightarrow> (bytes list, arg_error) result" where
  "strip_public_provider_args args = and_then (validate_and_remove_provider args) (\<lambda>(_, arguments). Ok arguments)"

definition run_muse :: "launch_world \<Rightarrow> bytes list \<Rightarrow> launch_state \<Rightarrow> ((int, launch_error) result \<times> launch_state) option" where
  "run_muse w arguments st =
     (case find_stock_muse w st of
        (Err e, st) \<Rightarrow> Some (Err e, st)
      | (Ok stock_muse, st) \<Rightarrow>
          if is_informational_invocation arguments \<or> is_local_invocation arguments then
            (case and_then (selected_provider arguments) (\<lambda>provider.
                    and_then (strip_public_provider_args arguments) (\<lambda>passed. Ok (provider, passed))) of
               Err e \<Rightarrow> Some (Err (Usage e), st)
             | Ok (provider, passed) \<Rightarrow> Some (run_stock_information w stock_muse passed provider st))
          else
            (case discover_gateway w (ls_fs st) (from_environment w) of
               Err e \<Rightarrow> Some (Err e, st)
             | Ok gateway \<Rightarrow> run_stock_muse w gateway stock_muse arguments st))"

definition run_self_test :: "launch_world \<Rightarrow> launch_state \<Rightarrow> (int, launch_error) result \<times> launch_state" where
  "run_self_test w st =
     (case find_stock_muse w st of
        (Err e, st) \<Rightarrow> (Err e, st)
      | (Ok _, st) \<Rightarrow>
          (case discover_gateway w (ls_fs st) (from_environment w) of
             Err e \<Rightarrow> (Err e, st)
           | Ok gateway \<Rightarrow>
               (case verify_gateway_self_test w gateway st of
                  (Err e, st) \<Rightarrow> (Err e, st)
                | (Ok _, st) \<Rightarrow> (Ok 0, log_events [Printed (''muse-codex self-test: ok'' @ [LF])] st))))"

definition launcher_run :: "launch_world \<Rightarrow> bytes list \<Rightarrow> launch_state \<Rightarrow> ((int, launch_error) result \<times> launch_state) option" where
  "launcher_run w arguments st =
     (case classify_invocation (lw_clap w) arguments of
        Err e \<Rightarrow> Some (Err (Usage e), st)
      | Ok (Output text code) \<Rightarrow> Some (Ok code, log_events [if code = 0 then Printed text else Warned text] st)
      | Ok (GatewayAuth gateway_arguments) \<Rightarrow>
          (case discover_gateway w (ls_fs st) (from_environment w) of
             Err e \<Rightarrow> Some (Err e, st)
           | Ok gateway \<Rightarrow> Some (run_gateway_auth w gateway gateway_arguments st))
      | Ok SelfTest \<Rightarrow> Some (run_self_test w st)
      | Ok (Muse muse_arguments) \<Rightarrow> run_muse w muse_arguments st)"

text \<open>The exit code of the program (\<open>main.rs\<close>).\<close>

definition launcher_exit :: "(int, launch_error) result \<Rightarrow> int" where
  "launcher_exit r = (case r of Ok code \<Rightarrow> code | Err _ \<Rightarrow> 1)"

end
