(* ===== verification/Launcher_Run_Props.thy ===== *)
theory Launcher_Run_Props
  imports Launcher_Run Private_Profile_Props Launcher_Ready_Props
begin

text \<open>
  Properties of the launcher's run: what the processes it starts can see, that none of them outlives it, that an
  API key goes nowhere but to the gateway's standard input, and which executables it runs.
\<close>

section \<open>Environments\<close>

definition clean_env :: "environment \<Rightarrow> environment" where
  "clean_env env = (\<lambda>x. if x = ''TBH_DISABLE_TELEMETRY'' then Some ''1'' else if x \<in> set SECRET_ENVIRONMENT then None else env x)"

lemma fold_c_remove: "fold c_remove ks c = c\<lparr>c_env := (\<lambda>x. if x \<in> set ks then None else c_env c x)\<rparr>"
  by (induction ks arbitrary: c) (auto simp: c_remove_def fun_eq_iff)

lemma scrub_clean: "scrub_secret_environment c = c\<lparr>c_env := clean_env (c_env c)\<rparr>"
  by (auto simp: scrub_secret_environment_def fold_c_remove c_set_def clean_env_def fun_eq_iff)

lemma clean_env_get:
  "clean_env env ''TBH_DISABLE_TELEMETRY'' = Some ''1''" "v \<in> set SECRET_ENVIRONMENT \<Longrightarrow> clean_env env v = None"
  by (auto simp: clean_env_def SECRET_ENVIRONMENT_def)

lemma clean_env_cong: "(\<And>x. x \<notin> set SECRET_ENVIRONMENT \<Longrightarrow> env x = env' x) \<Longrightarrow> clean_env env = clean_env env'"
  by (auto simp: clean_env_def fun_eq_iff)

text \<open>The environment of a started process; the gateway token is the only secret it may hold.\<close>

definition gateway_token :: "launch_world \<Rightarrow> bytes \<Rightarrow> bool" where
  "gateway_token w token = (\<exists>provider ready.
     wait_for_gateway_ready (lw_ready_codec w) (lw_base64 w) (os_euid (lw_os w)) provider None (lw_polls w) = Some (Ok ready) \<and>
     token = gr_token ready)"

definition sealed_env :: "launch_world \<Rightarrow> environment \<Rightarrow> bool" where
  "sealed_env w env = (env ''TBH_DISABLE_TELEMETRY'' = Some ''1'' \<and>
     (\<forall>v \<in> set SECRET_ENVIRONMENT. \<forall>x. env v = Some x \<longrightarrow> v = ''META_API_KEY'' \<and> gateway_token w x))"

fun sealed_event :: "launch_world \<Rightarrow> proc_event \<Rightarrow> bool" where
  "sealed_event w (Started c) = sealed_env w (c_env c)"
| "sealed_event w _ = True"

lemma clean_sealed [simp]: "sealed_env w (clean_env env)"
  by (auto simp: sealed_env_def clean_env_get)

lemma sealed_upd: "sealed_env w env \<Longrightarrow> v \<notin> insert ''TBH_DISABLE_TELEMETRY'' (set SECRET_ENVIRONMENT) \<Longrightarrow> sealed_env w (env(v \<mapsto> x))"
  by (auto simp: sealed_env_def)

lemma sealed_token: "sealed_env w env \<Longrightarrow> gateway_token w token \<Longrightarrow> sealed_env w (env(''META_API_KEY'' \<mapsto> token))"
  by (simp add: sealed_env_def)

lemma sealed_commands [simp]:
  "sealed_env w (c_env (version_command w p))" "sealed_env w (c_env (gateway_command w g r provider u k fast))"
  "sealed_env w (c_env (auth_command w g args))" "sealed_env w (c_env (self_test_command w g))"
  "sealed_env w (c_env (information_command w p args dirs))"
  by (auto simp: version_command_def gateway_command_def auth_command_def self_test_command_def information_command_def
      configure_hidden_gateway_def scrub_clean Let_def)

lemma sealed_stock_command:
  assumes "gateway_token w (gr_token ready)"
  shows "sealed_env w (c_env (stock_command w p plan ready dirs))"
proof -
  have "sealed_env w ((clean_env env)(ULTRA_REASONING_GATE \<mapsto> x))" for env x
    by (rule sealed_upd) (auto simp: ULTRA_REASONING_GATE_def SECRET_ENVIRONMENT_def)
  note sealed_token [OF this assms]
  then show ?thesis
    by (simp add: stock_command_def Let_def enable_ultra_reasoning_def scrub_clean c_set_def)
qed

section \<open>Traces\<close>

text \<open>The children that run after a sequence of events, the last started first.\<close>

fun live :: "command list \<Rightarrow> proc_event list \<Rightarrow> command list" where
  "live running [] = running"
| "live running (Started c # es) = live (c # running) es"
| "live running (Awaited c # es) = live (remove1 c running) es"
| "live running (_ # es) = live running es"

lemma live_append: "live running (es @ es') = live (live running es) es'"
  by (induction running es rule: live.induct) auto

text \<open>A step of the launcher that starts with the children \<open>d\<close> and ends with the children \<open>d'\<close> running.\<close>

definition step :: "launch_world \<Rightarrow> command list \<Rightarrow> command list \<Rightarrow> launch_state \<Rightarrow> launch_state \<Rightarrow> bool" where
  "step w d d' st st' = (\<exists>es. ls_trace st' = ls_trace st @ es \<and> list_all (sealed_event w) es \<and>
     (\<forall>running. live (d @ running) es = d' @ running))"

lemma step_refl [simp]: "ls_trace st' = ls_trace st \<Longrightarrow> step w d d st st'"
  by (auto simp: step_def)

lemma step_trans:
  assumes "step w d d' st st'" "step w d' d'' st' st''"
  shows "step w d d'' st st''"
proof -
  obtain es es' where "ls_trace st' = ls_trace st @ es" "list_all (sealed_event w) es" "\<forall>running. live (d @ running) es = d' @ running"
      "ls_trace st'' = ls_trace st' @ es'" "list_all (sealed_event w) es'" "\<forall>running. live (d' @ running) es' = d'' @ running"
    using assms unfolding step_def by blast
  then show ?thesis
    unfolding step_def by (intro exI [of _ "es @ es'"]) (simp add: live_append)
qed

lemma step_frame: "step w [] [] st st' \<Longrightarrow> step w d d st st'"
  unfolding step_def by auto

lemma step_log:
  "list_all (sealed_event w) es \<Longrightarrow> (\<And>running. live (d @ running) es = d' @ running) \<Longrightarrow> step w d d' st (log_events es st)"
  unfolding step_def by (auto simp: log_events_def)

lemma step_command_output:
  "command_output w c m st = (r, st') \<Longrightarrow> sealed_env w (c_env c) \<Longrightarrow> step w [] [] st st'"
  by (auto simp: command_output_def intro!: step_log split: result.split_asm)

lemma step_spawn:
  "spawn w c m st = (r, st') \<Longrightarrow> sealed_env w (c_env c) \<Longrightarrow> step w [] (if r = Ok () then [c] else []) st st'"
  by (auto simp: spawn_def intro!: step_log split: result.split_asm)

lemma step_kill: "step w [c] [] st (kill_and_wait c st)"
  by (auto simp: kill_and_wait_def intro!: step_log)

lemma step_wait: "wait_with_signal_forwarding w c st = (r, st') \<Longrightarrow> step w [c] [] st st'"
  by (auto simp: wait_with_signal_forwarding_def step_kill intro!: step_log split: result.split_asm)

lemma step_fs [simp]: "step w d d' st (st'\<lparr>ls_fs := fs\<rparr>) \<longleftrightarrow> step w d d' st st'" "step w d d' (st\<lparr>ls_fs := fs\<rparr>) st' \<longleftrightarrow> step w d d' st st'"
  by (simp_all add: step_def)

lemma step_drop_temporary [simp]: "step w d d' st (drop_temporary w st') \<longleftrightarrow> step w d d' st st'"
  by (simp add: drop_temporary_def)

lemma step_drop_gateway: "step w [c] [] st (drop_gateway w c st)"
proof -
  have "step w [c] [] st (kill_and_wait c (log_events [Signalled c] st))"
    by (rule step_trans [OF step_log step_kill]) auto
  then show ?thesis
    by (auto simp: drop_gateway_def intro!: step_log split: list.split bool.split)
qed

lemma step_temporary: "create_gateway_temporary_directory w st = (r, st') \<Longrightarrow> step w [] [] st st'"
  by (auto simp: create_gateway_temporary_directory_def split: prod.split_asm result.split_asm)

lemma step_deliver: "deliver w c key st = (r, st') \<Longrightarrow> step w d d st st'"
  by (auto simp: deliver_def intro!: step_log split: option.split_asm)

lemma step_start_gateway:
  assumes "start_gateway w g provider u key fast st = Some (r, st')"
  shows "step w [] (case r of Ok (c, _) \<Rightarrow> [c] | Err _ \<Rightarrow> []) st st' \<and> (\<forall>c ready. r = Ok (c, ready) \<longrightarrow> gateway_token w (gr_token ready))"
proof (cases "create_gateway_temporary_directory w st")
  case (Pair r1 st1)
  note s1 = step_temporary [OF Pair]
  show ?thesis
  proof (cases r1)
    case (Err e)
    then show ?thesis using assms Pair s1 by (auto simp: start_gateway_def)
  next
    case (Ok directory)
    let ?c = "gateway_command w g (path_join directory ''ready.json'') provider u (key \<noteq> None) fast"
    obtain r2 st2 where spawn: "spawn w ?c (''failed to start gateway executable '' @ os_display (lw_os w) g) st1 = (r2, st2)"
      by fastforce
    note s2 = step_trans [OF s1 step_spawn [OF spawn sealed_commands(2)]]
    show ?thesis
    proof (cases r2)
      case (Err e)
      then show ?thesis using assms Pair Ok spawn s2 by (auto simp: start_gateway_def Let_def)
    next
      case u: (Ok u)
      obtain r3 st3 where delivered: "deliver w ?c key st2 = (r3, st3)"
        by fastforce
      have s3: "step w [] [?c] st st3"
        using s2 step_deliver [OF delivered] u by (auto intro: step_trans)
      note s4 = step_trans [OF s3 step_kill]
      show ?thesis
        using assms Pair Ok spawn u delivered s3 s4
        by (auto simp: start_gateway_def Let_def gateway_token_def split: result.split_asm option.split_asm)
    qed
  qed
qed

lemma step_run_child: "run_child w c is_msp st = (r, st') \<Longrightarrow> step w [c] [] st st'"
  by (auto simp: run_child_def step_kill dest!: step_wait split: result.split_asm prod.split_asm)

lemma step_run_session:
  assumes "run_session w p plan ready st = (r, st')" "gateway_token w (gr_token ready)"
  shows "step w [] [] st st'"
proof (cases "prepare_session w (lp_provider plan) ready (ls_fs st)")
  case (Pair r1 fs)
  show ?thesis
  proof (cases r1)
    case (Err e)
    then show ?thesis using assms Pair by (auto simp: run_session_def)
  next
    case (Ok x)
    obtain dirs settings where x: "x = (dirs, settings)" by fastforce
    let ?c = "stock_command w p plan ready dirs"
    let ?st = "log_events (fast_notice (lp_fast_mode plan)) (st\<lparr>ls_fs := fs\<rparr>)"
    have s1: "step w [] [] st ?st"
      using step_log [of w "fast_notice (lp_fast_mode plan)" "[]" "[]" "st\<lparr>ls_fs := fs\<rparr>"] by (simp add: fast_notice_def)
    obtain r2 st2 where spawn: "spawn w ?c (''failed to run stock Muse '' @ os_display (lw_os w) p @
        '' (isolated settings: '' @ os_display (lw_os w) settings @ '')'') ?st = (r2, st2)"
      by fastforce
    note s2 = step_trans [OF s1 step_spawn [OF spawn sealed_stock_command [OF assms(2)]]]
    show ?thesis
      using assms(1) Pair Ok x spawn s2 step_trans [OF _ step_run_child]
      by (cases r2) (auto simp: run_session_def Let_def)
  qed
qed

lemma step_run_stock_muse:
  assumes "run_stock_muse w g p args st = Some (r, st')"
  shows "step w [] [] st st'"
proof (cases "and_then (map_err Usage (plan_launch (lw_env w) args)) (\<lambda>plan. and_then (read_launch_key w plan) (\<lambda>key. Ok (plan, key)))")
  case (Err e)
  then show ?thesis using assms by (simp add: run_stock_muse_def)
next
  case (Ok x)
  obtain plan key where x: "x = (plan, key)" by fastforce
  obtain r1 st1 where start: "start_gateway w g (lp_provider plan) (lp_upstream_base_url plan) key (lp_fast_mode plan) st = Some (r1, st1)"
    using assms Ok x by (fastforce simp: run_stock_muse_def split: option.split_asm)
  note s1 = step_start_gateway [OF start]
  show ?thesis
  proof (cases r1)
    case (Err e)
    then show ?thesis using assms Ok x start s1 by (simp add: run_stock_muse_def)
  next
    case r1: (Ok y)
    obtain c ready where y: "y = (c, ready)" by fastforce
    obtain r2 st2 where session: "run_session w p plan ready st1 = (r2, st2)" by fastforce
    have "step w [c] [c] st1 st2"
      using step_run_session [OF session] s1 r1 y by (auto intro: step_frame)
    then have "step w [] [] st (drop_gateway w c st2)"
      using s1 r1 y by (auto intro: step_trans [OF step_trans [OF _ _] step_drop_gateway])
    then show ?thesis
      using assms Ok x start r1 y session by (simp add: run_stock_muse_def)
  qed
qed

lemma step_information:
  "run_stock_information w p args provider st = (r, st') \<Longrightarrow> step w [] [] st st'"
proof -
  assume run: "run_stock_information w p args provider st = (r, st')"
  let ?args = "information_arguments args"
  obtain r1 fs where prepared: "prepare_information w provider (ls_fs st) = (r1, fs)" by fastforce
  show ?thesis
  proof (cases r1)
    case (Err e)
    then show ?thesis using run prepared by (auto simp: run_stock_information_def)
  next
    case (Ok dirs)
    let ?c = "information_command w p ?args dirs" and ?st = "st\<lparr>ls_fs := fs\<rparr>"
    obtain r2 st2 where out: "command_output w ?c ''failed to read stock Muse help'' ?st = (r2, st2)" by fastforce
    obtain r3 st3 where spawn: "spawn w ?c (''failed to run stock Muse '' @ os_display (lw_os w) p) ?st = (r3, st3)" by fastforce
    have out_step: "step w [] [] st st2"
      using step_command_output [OF out] by simp
    have log: "step w [] [] st (log_events [Printed a, Warned b] st2)" for a b
      by (rule step_trans [OF out_step step_log]) auto
    have spawn_step: "step w [] (if r3 = Ok () then [?c] else []) st st3"
      using step_spawn [OF spawn] by simp
    show ?thesis
      using run prepared Ok out out_step log spawn spawn_step step_trans [OF _ step_wait]
      by (auto simp: run_stock_information_def Let_def split: if_split_asm result.split_asm)
  qed
qed

lemma step_find_stock_muse: "find_stock_muse w st = (r, st') \<Longrightarrow> step w [] [] st st'"
  by (auto simp: find_stock_muse_def verify_stock_muse_version_def intro: step_command_output
      split: result.split_asm prod.split_asm if_split_asm)

lemma step_run_muse:
  assumes "run_muse w args st = Some (r, st')"
  shows "step w [] [] st st'"
proof -
  obtain r1 st1 where found: "find_stock_muse w st = (r1, st1)" by fastforce
  note s1 = step_find_stock_muse [OF found]
  have "step w [] [] st1 st'" if "r1 = Ok p" for p
    using assms found that
    by (auto simp: run_muse_def intro: step_information step_run_stock_muse split: if_split_asm result.split_asm prod.split_asm)
  then show ?thesis
    using assms found s1 by (cases r1) (auto simp: run_muse_def intro: step_trans)
qed

lemma step_self_test:
  assumes "run_self_test w st = (r, st')"
  shows "step w [] [] st st'"
proof -
  obtain r1 st1 where found: "find_stock_muse w st = (r1, st1)" by fastforce
  note s1 = step_find_stock_muse [OF found]
  have verify: "step w [] [] st1 st2" if "verify_gateway_self_test w g st1 = (r2, st2)" for g r2 st2
    using that by (auto simp: verify_gateway_self_test_def intro: step_command_output split: result.split_asm prod.split_asm)
  have "step w [] [] st1 st'" if "r1 = Ok p" for p
    using assms found that
    by (auto simp: run_self_test_def dest!: verify intro!: step_trans [OF _ step_log] split: result.split_asm prod.split_asm)
  then show ?thesis
    using assms found s1 by (cases r1) (auto simp: run_self_test_def intro: step_trans)
qed

lemma step_gateway_auth: "run_gateway_auth w g args st = (r, st') \<Longrightarrow> step w [] [] st st'"
  by (auto simp: run_gateway_auth_def Let_def dest!: step_spawn [OF _ sealed_commands(3)] intro: step_trans [OF _ step_wait]
      split: result.split_asm prod.split_asm)

lemma step_launcher_run:
  "launcher_run w args st = Some (r, st') \<Longrightarrow> step w [] [] st st'"
  by (auto simp: launcher_run_def intro: step_run_muse step_self_test step_gateway_auth step_log
      split: result.split_asm Invocation.split_asm prod.split_asm)


lemma run_stock_muse_returns:
  assumes "\<exists>p \<in> set (lw_polls w). poll_late p"
  shows "\<exists>r st'. run_stock_muse w g p args st = Some (r, st')"
proof -
  have "\<exists>r st'. start_gateway w g provider u key fast st = Some (r, st')" for provider u key fast
    using wait_for_gateway_ready_returns [OF assms, of "lw_ready_codec w" "lw_base64 w" "os_euid (lw_os w)" provider None]
    by (auto simp: start_gateway_def Let_def split: result.split prod.split)
  then have start: "start_gateway w g provider u key fast st \<noteq> None" for provider u key fast
    by (metis option.distinct(1))
  show ?thesis
    by (auto simp: run_stock_muse_def start split: result.split option.split prod.split)
qed

text \<open>C9: No process outlives the launcher: as soon as one round of the readiness wait is past the deadline, the
  launcher returns, and whatever failed on the way, every process it has started has been waited for, in the
  reverse order of their start.\<close>

theorem no_child_outlives_launcher:
  assumes "\<exists>p \<in> set (lw_polls w). poll_late p"
  shows "\<exists>r st'. launcher_run w args st = Some (r, st') \<and>
    (\<exists>es. ls_trace st' = ls_trace st @ es \<and> live [] es = [])"
proof -
  have "\<exists>r st'. run_muse w muse_args st = Some (r, st')" for muse_args
    using run_stock_muse_returns [OF assms] by (auto simp: run_muse_def split: result.split prod.split)
  then obtain r st' where run: "launcher_run w args st = Some (r, st')"
    by (fastforce simp: launcher_run_def split: result.split Invocation.split)
  then show ?thesis
    using step_launcher_run [OF run] unfolding step_def by (metis append_Nil)
qed

section \<open>Executables\<close>

lemma find_first: "List.find P xs = Some x \<longleftrightarrow> (\<exists>before after. xs = before @ x # after \<and> P x \<and> list_all (\<lambda>y. \<not> P y) before)"
proof (induction xs)
  case (Cons y ys)
  show ?case
  proof (cases "P y")
    case False
    then have "(\<exists>before after. y # ys = before @ x # after \<and> P x \<and> list_all (\<lambda>y. \<not> P y) before) \<longleftrightarrow>
        (\<exists>before after. ys = before @ x # after \<and> P x \<and> list_all (\<lambda>y. \<not> P y) before)"
      by (auto simp: Cons_eq_append_conv) (metis append_Cons list.pred_inject(2))
    then show ?thesis
      using False Cons.IH by simp
  qed (auto simp: Cons_eq_append_conv)
qed simp


section \<open>The API key\<close>

text \<open>A run as an observer sees it who cannot read the gateway's standard input.\<close>

fun hide :: "proc_event \<Rightarrow> proc_event" where
  "hide (Delivered c _) = Delivered c []"
| "hide e = e"

definition hide_state :: "launch_state \<Rightarrow> launch_state" where
  "hide_state st = st\<lparr>ls_trace := map hide (ls_trace st)\<rparr>"

definition with_variable :: "bytes \<Rightarrow> bytes option \<Rightarrow> launch_world \<Rightarrow> launch_world" where
  "with_variable k v w = w\<lparr>lw_env := (lw_env w)(k := v)\<rparr>"

lemma hide_state_simps [simp]:
  "ls_fs (hide_state st) = ls_fs st" "hide_state (st\<lparr>ls_fs := fs\<rparr>) = (hide_state st)\<lparr>ls_fs := fs\<rparr>"
  "hide_state (log_events es st) = log_events (map hide es) (hide_state st)"
  "hide_state (drop_temporary w st) = drop_temporary w (hide_state st)"
  "hide_state (kill_and_wait c st) = kill_and_wait c (hide_state st)"
  "hide_state (drop_gateway w c st) = drop_gateway w c (hide_state st)"
  by (auto simp: hide_state_def log_events_def drop_temporary_def kill_and_wait_def drop_gateway_def split: list.split bool.split)

lemma hide_wait: "wait_with_signal_forwarding w c (hide_state st) = apsnd hide_state (wait_with_signal_forwarding w c st)"
  by (auto simp: wait_with_signal_forwarding_def split: result.split)

lemma hide_run_child: "run_child w c is_msp (hide_state st) = apsnd hide_state (run_child w c is_msp st)"
  by (auto simp: run_child_def hide_wait split: result.split prod.split)

lemma hide_spawn: "spawn w c m (hide_state st) = apsnd hide_state (spawn w c m st)"
  by (auto simp: spawn_def split: result.split)

lemma hide_run_session: "run_session w p plan ready (hide_state st) = apsnd hide_state (run_session w p plan ready st)"
proof (cases "prepare_session w (lp_provider plan) ready (ls_fs st)")
  case (Pair r fs)
  show ?thesis
  proof (cases r)
    case (Err e)
    then show ?thesis using Pair by (simp add: run_session_def)
  next
    case (Ok x)
    obtain dirs settings where x: "x = (dirs, settings)" by fastforce
    let ?st = "log_events (fast_notice (lp_fast_mode plan)) (st\<lparr>ls_fs := fs\<rparr>)"
    have "log_events (fast_notice (lp_fast_mode plan)) ((hide_state st)\<lparr>ls_fs := fs\<rparr>) = hide_state ?st"
      by (simp add: fast_notice_def)
    moreover obtain r2 st2 where "spawn w (stock_command w p plan ready dirs) (''failed to run stock Muse '' @ os_display (lw_os w) p @
        '' (isolated settings: '' @ os_display (lw_os w) settings @ '')'') ?st = (r2, st2)"
      by fastforce
    ultimately show ?thesis
      using Pair Ok x
      by (cases r2) (simp_all add: run_session_def Let_def hide_spawn hide_run_child del: hide_state_simps(3))
  qed
qed

lemma hide_start_gateway:
  "map_option (apsnd hide_state) (start_gateway w g provider u (Some key) fast st) =
   map_option (apsnd hide_state) (start_gateway w g provider u (Some key') fast st)"
  by (auto simp: start_gateway_def Let_def deliver_def split: result.split prod.split option.split)

lemma with_variable_simps [simp]:
  "lw_os (with_variable k v w) = lw_os w" "lw_cwd (with_variable k v w) = lw_cwd w" "lw_current_exe (with_variable k v w) = lw_current_exe w"
  "lw_stdin (with_variable k v w) = lw_stdin w" "lw_pid (with_variable k v w) = lw_pid w" "lw_temporary (with_variable k v w) = lw_temporary w"
  "lw_clap (with_variable k v w) = lw_clap w" "lw_json (with_variable k v w) = lw_json w" "lw_pretty (with_variable k v w) = lw_pretty w"
  "lw_debug (with_variable k v w) = lw_debug w" "lw_ready_codec (with_variable k v w) = lw_ready_codec w"
  "lw_base64 (with_variable k v w) = lw_base64 w" "lw_decode_self_test (with_variable k v w) = lw_decode_self_test w"
  "lw_output (with_variable k v w) = lw_output w" "lw_spawn (with_variable k v w) = lw_spawn w" "lw_deliver (with_variable k v w) = lw_deliver w"
  "lw_polls (with_variable k v w) = lw_polls w" "lw_exited (with_variable k v w) = lw_exited w" "lw_signals (with_variable k v w) = lw_signals w"
  "lw_wait (with_variable k v w) = lw_wait w" "lw_relay (with_variable k v w) = lw_relay w" "lw_relay_end (with_variable k v w) = lw_relay_end w"
  "lw_env (with_variable k v w) = (lw_env w)(k := v)"
  by (simp_all add: with_variable_def)

lemma clean_env_drop: "k \<in> set SECRET_ENVIRONMENT \<Longrightarrow> clean_env (env(k := v)) = clean_env env"
  by (auto simp: clean_env_def)

lemma clean_env_keep:
  "m \<notin> insert ''TBH_DISABLE_TELEMETRY'' (set SECRET_ENVIRONMENT) \<Longrightarrow> clean_env (env(m := v)) = (clean_env env)(m := v)"
  by (auto simp: clean_env_def)

lemma clean_env_profile:
  "clean_env (env(''MUSE_NO_AUTO_UPDATE'' := v)) = (clean_env env)(''MUSE_NO_AUTO_UPDATE'' := v)"
  "clean_env (env(''XDG_CONFIG_HOME'' := v)) = (clean_env env)(''XDG_CONFIG_HOME'' := v)"
  "clean_env (env(''XDG_DATA_HOME'' := v)) = (clean_env env)(''XDG_DATA_HOME'' := v)"
  "clean_env (env(''MUSE_AUTH_PATH'' := v)) = (clean_env env)(''MUSE_AUTH_PATH'' := v)"
  "clean_env (env(''META_API_KEY'' := v)) = clean_env env"
  by (rule clean_env_keep clean_env_drop; simp add: SECRET_ENVIRONMENT_def)+

lemma with_variable_commands:
  assumes "k \<in> set SECRET_ENVIRONMENT"
  shows "version_command (with_variable k v w) p = version_command w p"
    "gateway_command (with_variable k v w) p r provider u has_key fast = gateway_command w p r provider u has_key fast"
    "auth_command (with_variable k v w) p args = auth_command w p args"
    "self_test_command (with_variable k v w) p = self_test_command w p"
    "information_command (with_variable k v w) p args dirs = information_command w p args dirs"
    "stock_command (with_variable k v w) p plan ready dirs = stock_command w p plan ready dirs"
  by (simp_all add: version_command_def gateway_command_def auth_command_def self_test_command_def information_command_def
      stock_command_def profile_command_def configure_hidden_gateway_def enable_ultra_reasoning_def scrub_clean command_new_def
      c_set_def Let_def clean_env_profile clean_env_drop [OF assms])

lemma with_variable_env:
  assumes "k \<in> set SECRET_ENVIRONMENT"
  shows "from_environment (with_variable k v w) = from_environment w" "launcher_environment (with_variable k v w) = launcher_environment w"
  using assms by (auto simp: from_environment_def launcher_environment_def SECRET_ENVIRONMENT_def)

lemma with_variable_plan:
  assumes "k \<noteq> ''OPENAI_BASE_URL''" "k \<noteq> ''ZAI_BASE_URL''"
  shows "plan_launch ((lw_env w)(k := v)) args = plan_launch (lw_env w) args"
proof -
  have "((lw_env w)(k := v)) (base_url_variable provider) = lw_env w (base_url_variable provider)" for provider
    using assms by (auto simp: base_url_variable_def split: PublicProvider.split)
  then show ?thesis
    by (simp add: plan_launch_def)
qed

lemmas case_congs = option.case_cong result.case_cong prod.case_cong if_cong

text \<open>Every part of a run that does not read the key.\<close>

lemma with_variable_ops:
  assumes "k \<in> set SECRET_ENVIRONMENT"
  shows "find_stock_muse (with_variable k v w) st = find_stock_muse w st"
    "discover_gateway (with_variable k v w) fs inputs = discover_gateway w fs inputs"
    "run_stock_information (with_variable k v w) p args provider st = run_stock_information w p args provider st"
    "run_gateway_auth (with_variable k v w) p args st = run_gateway_auth w p args st"
    "verify_gateway_self_test (with_variable k v w) p st = verify_gateway_self_test w p st"
    "start_gateway (with_variable k v w) p provider u key fast st = start_gateway w p provider u key fast st"
    "run_session (with_variable k v w) p plan ready st = run_session w p plan ready st"
    "drop_gateway (with_variable k v w) c st = drop_gateway w c st"
proof -
  note commands = with_variable_commands [OF assms] with_variable_env [OF assms]
  have run_output: "command_output (with_variable k v w) c m st = command_output w c m st" for c m st
    by (simp add: command_output_def cong: case_congs)
  have spawn: "spawn (with_variable k v w) c m st = spawn w c m st" for c m st
    by (simp add: spawn_def cong: case_congs)
  have wait: "wait_with_signal_forwarding (with_variable k v w) c st = wait_with_signal_forwarding w c st" for c st
    by (simp add: wait_with_signal_forwarding_def cong: case_congs)
  have executable: "is_executable (with_variable k v w) fs q = is_executable w fs q" "is_launcher (with_variable k v w) fs q = is_launcher w fs q" for fs q
    by (simp_all add: is_executable_def is_launcher_def from_cwd_def cong: case_congs)
  have discover: "discover_stock_muse (with_variable k v w) fs i = discover_stock_muse w fs i" "discover_gateway (with_variable k v w) fs i = discover_gateway w fs i" for fs i
    by (simp_all add: discover_stock_muse_def discover_gateway_def require_executable_def first_executable_def executable [abs_def] cong: case_congs)
  have profile: "open_profile (with_variable k v w) provider fs = open_profile w provider fs" for provider fs
    by (simp add: open_profile_def commands cong: case_congs)
  have temporary: "drop_temporary (with_variable k v w) st = drop_temporary w st" for st
    by (simp add: drop_temporary_def cong: case_congs)
  show "find_stock_muse (with_variable k v w) st = find_stock_muse w st"
    by (simp add: find_stock_muse_def verify_stock_muse_version_def check_version_output_def commands run_output discover executable cong: case_congs)
  show "discover_gateway (with_variable k v w) fs inputs = discover_gateway w fs inputs"
    by (rule discover)
  show "run_stock_information (with_variable k v w) p args provider st = run_stock_information w p args provider st"
    by (simp add: run_stock_information_def prepare_information_def commands run_output spawn wait profile cong: case_congs)
  show "run_gateway_auth (with_variable k v w) p args st = run_gateway_auth w p args st"
    by (simp add: run_gateway_auth_def commands spawn wait cong: case_congs)
  show "verify_gateway_self_test (with_variable k v w) p st = verify_gateway_self_test w p st"
    by (simp add: verify_gateway_self_test_def check_self_test_def commands run_output cong: case_congs)
  show "start_gateway (with_variable k v w) p provider u key fast st = start_gateway w p provider u key fast st"
    by (simp add: start_gateway_def create_gateway_temporary_directory_def deliver_def commands spawn temporary cong: case_congs)
  show "run_session (with_variable k v w) p plan ready st = run_session w p plan ready st"
    by (simp add: run_session_def prepare_session_def run_child_def commands spawn wait profile cong: case_congs)
  show "drop_gateway (with_variable k v w) c st = drop_gateway w c st"
    by (simp add: drop_gateway_def temporary cong: case_congs)
qed

text \<open>What is left of \<open>run_stock_muse\<close> once the key is read.\<close>

definition run_with_key :: "launch_world \<Rightarrow> path \<Rightarrow> path \<Rightarrow> launch_plan \<Rightarrow> bytes option \<Rightarrow> launch_state \<Rightarrow> ((int, launch_error) result \<times> launch_state) option" where
  "run_with_key w g p plan key st =
     (case start_gateway w g (lp_provider plan) (lp_upstream_base_url plan) key (lp_fast_mode plan) st of
        None \<Rightarrow> None
      | Some (Err e, st) \<Rightarrow> Some (Err e, st)
      | Some (Ok (c, ready), st) \<Rightarrow> (case run_session w p plan ready st of (r, st) \<Rightarrow> Some (r, drop_gateway w c st)))"

lemma hide_run_with_key:
  "map_option (apsnd hide_state) (run_with_key w g p plan (Some key) st) = map_option (apsnd hide_state) (run_with_key w g p plan (Some key') st)"
proof -
  have "map_option (apsnd hide_state) (run_with_key w g p plan k st) =
    (case map_option (apsnd hide_state) (start_gateway w g (lp_provider plan) (lp_upstream_base_url plan) k (lp_fast_mode plan) st) of
       None \<Rightarrow> None
     | Some (Err e, st) \<Rightarrow> Some (Err e, st)
     | Some (Ok (c, ready), st) \<Rightarrow> (case run_session w p plan ready st of (r, st) \<Rightarrow> Some (r, drop_gateway w c st)))" for k
    by (auto simp: run_with_key_def hide_run_session split: option.split result.split prod.split)
  then show ?thesis
    by (simp only: hide_start_gateway [of w g _ _ key _ _ key'])
qed

text \<open>C11: An API key goes nowhere but to the gateway's standard input: two runs of the launcher that differ only in
  the value of a valid key in the environment have the same result, leave the same files, and start, signal and
  await the same processes with the same arguments and environments and print the same texts; only the bytes
  written to the gateway's standard input differ.\<close>

theorem api_key_confined:
  assumes "k = api_key_variable provider" and "SecretInput_parse a = Ok key" and "SecretInput_parse b = Ok key'"
  shows "map_option (apsnd hide_state) (launcher_run (with_variable k (Some a) w) args st) =
    map_option (apsnd hide_state) (launcher_run (with_variable k (Some b) w) args st)"
proof -
  have k: "k \<in> set SECRET_ENVIRONMENT" "k \<noteq> ''OPENAI_BASE_URL''" "k \<noteq> ''ZAI_BASE_URL''"
    by (auto simp: assms(1) api_key_variable_def SECRET_ENVIRONMENT_def split: PublicProvider.split)
  note ops = with_variable_ops [OF k(1)] with_variable_env [OF k(1)]
  have nonempty: "a \<noteq> []" "b \<noteq> []"
    using assms(2,3) by (auto simp: SecretInput_parse_iff key_read_def trim_end_matches_def)
  let ?key = "\<lambda>v plan. read_launch_key (with_variable k (Some v) w) plan"
  have key: "?key a plan = ?key b plan \<or> ?key a plan = Ok (Some key) \<and> ?key b plan = Ok (Some key')" for plan
    using assms(2,3) nonempty by (auto simp: read_launch_key_def SecretInput_from_environment_def)
  have run: "run_stock_muse (with_variable k (Some v) w) g p args' st1 =
    (case and_then (map_err Usage (plan_launch (lw_env w) args')) (\<lambda>plan. and_then (?key v plan) (\<lambda>key. Ok (plan, key))) of
       Err e \<Rightarrow> Some (Err e, st1) | Ok (plan, key) \<Rightarrow> run_with_key w g p plan key st1)" for v g p args' st1
    by (simp add: run_stock_muse_def run_with_key_def with_variable_plan [OF k(2,3)] ops cong: case_congs)
  have muse: "map_option (apsnd hide_state) (run_stock_muse (with_variable k (Some a) w) g p args' st1) =
      map_option (apsnd hide_state) (run_stock_muse (with_variable k (Some b) w) g p args' st1)" for g p args' st1
  proof (cases "plan_launch (lw_env w) args'")
    case (Ok plan)
    then show ?thesis
      using key [of plan] hide_run_with_key [of w g p plan key st1 key'] by (auto simp: run)
  qed (simp add: run)
  show ?thesis
    by (auto simp: launcher_run_def run_muse_def run_self_test_def ops muse split: result.split Invocation.split prod.split)
qed

section \<open>Witnesses\<close>

definition sample_launch_world :: launch_world where
  "sample_launch_world = \<lparr>
     lw_env = map_of [(''MUSE_CODEX_MUSE_BIN'', ''/b''), (''MUSE_CODEX_HOME'', ''/p/muse-codex''), (''OPENAI_API_KEY'', ''secret'')],
     lw_os = sample_os, lw_cwd = [RootDir], lw_current_exe = None, lw_stdin = Ok [], lw_pid = 7, lw_temporary = [RootDir, Normal ''t''],
     lw_clap = (\<lambda>_. Err ([], 2)), lw_json = json_codec, lw_pretty = to_string json_codec, lw_debug = (\<lambda>s. s),
     lw_ready_codec = \<lparr>rc_ready = (\<lambda>_. None), rc_failure = (\<lambda>_. None)\<rparr>,
     lw_base64 = \<lparr>url_safe_no_pad_encode = (\<lambda>s. s), url_safe_no_pad_decode = Some, url_safe_decode = Some\<rparr>,
     lw_decode_self_test = (\<lambda>_. None),
     lw_output = (\<lambda>_. Ok \<lparr>po_status = \<lparr>es_code = Some 0, es_signal = None\<rparr>, po_stdout = EXPECTED_VERSION @ [LF], po_stderr = []\<rparr>),
     lw_spawn = (\<lambda>_. Ok ()), lw_deliver = Ok (),
     lw_polls = [\<lparr>poll_exit = Ok None, poll_failure = NotFound, poll_failure_after_exit = NotFound, poll_ready = NotFound, poll_late = True\<rparr>],
     lw_exited = [], lw_signals = Ok (), lw_wait = (\<lambda>_. Err []), lw_relay = Ok (), lw_relay_end = Ok ()\<rparr>"

definition sample_launch_state :: launch_state where
  "sample_launch_state = \<lparr>ls_fs = sample_profile_fs([RootDir, Normal ''b''] \<mapsto> \<lparr>in_node = Regular [], in_mode = 493, in_uid = 0, in_nlink = 1\<rparr>), ls_trace = []\<rparr>"

fun started :: "proc_event list \<Rightarrow> command list" where
  "started [] = []"
| "started (Started c # es) = c # started es"
| "started (_ # es) = started es"

lemma started_member: "c \<in> set (started es) \<Longrightarrow> Started c \<in> set es"
  by (induction es rule: started.induct) auto

lemma sample_help_run:
  "\<exists>st' c. run_muse sample_launch_world [''--help''] sample_launch_state = Some (Ok 0, st') \<and>
     launcher_run sample_launch_world [''--help''] sample_launch_state = Some (Ok 0, st') \<and> Started c \<in> set (ls_trace st')"
proof -
  have run: "case run_muse sample_launch_world [''--help''] sample_launch_state of
      Some (Ok code, st') \<Rightarrow> code = 0 \<and> started (ls_trace st') \<noteq> [] | _ \<Rightarrow> False"
    by code_simp
  then obtain st' where st': "run_muse sample_launch_world [''--help''] sample_launch_state = Some (Ok 0, st')" "started (ls_trace st') \<noteq> []"
    by (auto split: option.split_asm prod.split_asm result.split_asm)
  have "classify_invocation (lw_clap sample_launch_world) [''--help''] = Ok (Muse [''--help''])"
    by code_simp
  with st' have "launcher_run sample_launch_world [''--help''] sample_launch_state = Some (Ok 0, st')"
    by (simp add: launcher_run_def)
  moreover obtain c where "Started c \<in> set (ls_trace st')"
    using st'(2) started_member by (metis list.set_intros(1) neq_Nil_conv)
  ultimately show ?thesis
    using st'(1) by blast
qed

lemma sample_fresh: "ls_trace sample_launch_state = []"
  by (simp add: sample_launch_state_def)


theorem no_child_outlives_launcher_witness:
  "\<exists>r st'. launcher_run sample_launch_world [''exec'', ''hi''] sample_launch_state = Some (r, st')"
proof -
  have "\<exists>p \<in> set (lw_polls sample_launch_world). poll_late p"
    by (simp add: sample_launch_world_def)
  from no_child_outlives_launcher [OF this, of "[''exec'', ''hi'']" sample_launch_state] show ?thesis by blast
qed


theorem api_key_confined_witness:
  "map_option (apsnd hide_state) (launcher_run (with_variable ''ZAI_API_KEY'' (Some ''a'') sample_launch_world) [''exec'', ''hi''] sample_launch_state) =
   map_option (apsnd hide_state) (launcher_run (with_variable ''ZAI_API_KEY'' (Some ''b'') sample_launch_world) [''exec'', ''hi''] sample_launch_state)"
proof -
  have "''ZAI_API_KEY'' = api_key_variable Zai"
    by (simp add: api_key_variable_def)
  moreover have "SecretInput_parse ''a'' = Ok ''a''"
  proof -
    have "to_str ''a'' = Some ''a''" "trim_end_matches line_end ''a'' = ''a''" "\<not> list_ex (\<lambda>c. is_whitespace c \<or> is_control c) (chars ''a'')"
      by code_simp+
    then show ?thesis
      by (simp add: SecretInput_parse_def MAX_API_KEY_BYTES_def)
  qed
  moreover have "SecretInput_parse ''b'' = Ok ''b''"
  proof -
    have "to_str ''b'' = Some ''b''" "trim_end_matches line_end ''b'' = ''b''" "\<not> list_ex (\<lambda>c. is_whitespace c \<or> is_control c) (chars ''b'')"
      by code_simp+
    then show ?thesis
      by (simp add: SecretInput_parse_def MAX_API_KEY_BYTES_def)
  qed
  ultimately show ?thesis
    by (rule api_key_confined)
qed

end
