(* ===== verification/Zai_Request_Types.thy ===== *)
theory Zai_Request_Types
  imports Zai_Request_Props
begin

text \<open>
  The type of a Z.ai chat-completions body: every field the translation writes has the JSON type, and every string
  that is one of a fixed choice has a value, that the chat-completions interface knows. The judgments follow the shape
  of the document, one for each kind of node, and each function of the translation is typed by the judgment
  of the node it builds.
\<close>

section \<open>Judgments\<close>

definition fits_wire :: "bytes option \<Rightarrow> bool" where
  "fits_wire name = is_some_and (\<lambda>s. s \<noteq> [] \<and> length s \<le> MAX_FUNCTION_NAME_BYTES \<and> list_all wire_byte s) name"

definition nonempty_text :: "bytes option \<Rightarrow> bool" where
  "nonempty_text text = is_some_and (\<lambda>s. s \<noteq> []) text"

definition typed_part :: "Value \<Rightarrow> bool" where
  "typed_part part =
     (get_str part ''type'' = Some ''text'' \<and> get_str part ''text'' \<noteq> None \<or>
      get_str part ''type'' = Some ''image_url'' \<and> Option.bind (value_get part ''image_url'') (\<lambda>v. get_str v ''url'') \<noteq> None)"

text \<open>Only a user message has a list of parts.\<close>

definition typed_content :: "bytes \<Rightarrow> Value \<Rightarrow> bool" where
  "typed_content role content =
     (case content of String _ \<Rightarrow> True | Array parts \<Rightarrow> role = ''user'' \<and> list_all typed_part parts | _ \<Rightarrow> False)"

definition typed_call :: "Value \<Rightarrow> bool" where
  "typed_call call =
     (nonempty_text (get_str call ''id'') \<and> get_str call ''type'' = Some ''function'' \<and>
      is_some_and (\<lambda>f. fits_wire (get_str f ''name'') \<and> get_str f ''arguments'' \<noteq> None) (value_get call ''function''))"

text \<open>Without calls a message has a content; with calls it is an assistant message, there is a call, and the content is null.\<close>

definition typed_message :: "Value \<Rightarrow> bool" where
  "typed_message message =
     (case (get_str message ''role'', value_get message ''content'') of
        (Some role, Some content) \<Rightarrow>
          (case value_get message ''tool_calls'' of
             None \<Rightarrow>
               role \<in> set [''system'', ''user'', ''assistant''] \<and> typed_content role content \<or>
               role = ''tool'' \<and> is_string content \<and> nonempty_text (get_str message ''tool_call_id'')
           | Some (Array calls) \<Rightarrow> role = ''assistant'' \<and> content = Null \<and> calls \<noteq> [] \<and> list_all typed_call calls
           | _ \<Rightarrow> False)
      | _ \<Rightarrow> False)"

definition typed_tool :: "Value \<Rightarrow> bool" where
  "typed_tool tool =
     (get_str tool ''type'' = Some ''function'' \<and>
      is_some_and (\<lambda>f. fits_wire (get_str f ''name'') \<and> value_get f ''parameters'' \<noteq> None \<and>
        (\<forall>d \<in> set_option (value_get f ''description''). is_string d)) (value_get tool ''function''))"

definition typed_list :: "(Value \<Rightarrow> bool) \<Rightarrow> Value option \<Rightarrow> bool" where
  "typed_list typed v = is_some_and (\<lambda>vs. list_all typed vs) (Option.bind v as_array)"

definition typed_tools :: "Value \<Rightarrow> bool" where
  "typed_tools body =
     (case value_get body ''tools'' of
        None \<Rightarrow> value_get body ''tool_choice'' = None \<and> value_get body ''tool_stream'' = None
      | Some tools \<Rightarrow> tools \<noteq> Array [] \<and> typed_list typed_tool (Some tools) \<and>
          get_str body ''tool_choice'' = Some ''auto'' \<and> value_get body ''tool_stream'' = Some (Bool True))"

definition typed_reasoning :: "Value \<Rightarrow> bool" where
  "typed_reasoning body =
     (value_get body ''reasoning_effort'' \<in> set (None # map (\<lambda>e. Some (String e)) [''minimal'', ''low'', ''medium'', ''high'', ''xhigh'']) \<and>
      value_get body ''thinking'' \<in> set [None, Some (json_object [(''type'', String ''disabled'')])] \<and>
      (value_get body ''reasoning_effort'' = None \<or> value_get body ''thinking'' = None))"

definition typed_max_tokens :: "ModelLimits \<Rightarrow> Value \<Rightarrow> bool" where
  "typed_max_tokens limits body =
     (case value_get body ''max_tokens'' of
        None \<Rightarrow> True
      | Some v \<Rightarrow> is_some_and (\<lambda>n. 1 \<le> n \<and> n \<le> limit_output_tokens limits) (as_u64 v))"

definition chat_typed :: "ModelLimits \<Rightarrow> Value \<Rightarrow> bool" where
  "chat_typed limits body =
     (nonempty_text (get_str body ''model'') \<and> typed_list typed_message (value_get body ''messages'') \<and> typed_tools body \<and>
      typed_reasoning body \<and> typed_max_tokens limits body \<and> value_get body ''stream'' = Some (Bool True))"

section \<open>Typing of the translation\<close>

lemma recorded_fits: "record_name original is_free names = Ok (e, names') \<Longrightarrow> fits_wire (Some e)"
  using encode_function_name_wire record_name_Ok(1) by (fastforce simp: fits_wire_def is_some_and_iff MAX_FUNCTION_NAME_BYTES_def)

lemma wire_tool_typed:
  "fits_wire (Some e) \<Longrightarrow> typed_tool (wire_tool (map_insert ''parameters'' p (with_description m (map_insert ''name'' (String e) []))))"
  by (auto simp: typed_tool_def wire_tool_def with_description_def is_some_and_iff map_str_def get_str_def is_string_def split: option.split)

lemma leaf_tool_typed:
  assumes "leaf_tool m ns acc = Ok acc'" "list_all typed_tool (fst acc)"
  shows "list_all typed_tool (fst acc')"
  using assms
  by (auto simp: leaf_tool_def function_tool_def custom_tool_def Let_def and_then_Ok simp del: map_insert.simps
      intro!: wire_tool_typed dest: recorded_fits split: if_split_asm prod.split_asm)

lemma translate_tool_typed:
  assumes "translate_tool acc tool = Ok acc'" "list_all typed_tool (fst acc)"
  shows "list_all typed_tool (fst acc')"
proof -
  have nested: "list_all typed_tool (fst t)"
    if "try_fold (\<lambda>acc tool. and_then (ok_or (as_object tool) e) (\<lambda>tool. leaf_tool tool (Some ns) acc)) acc nested = Ok t" for e ns nested t
    by (rule try_fold_invariant [OF that, where P = "\<lambda>s. list_all typed_tool (fst s)"])
       (use assms(2) leaf_tool_typed in \<open>auto simp: and_then_Ok\<close>)
  obtain object where object: "tool = Object object"
    using assms(1) by (auto simp: translate_tool_def and_then_Ok)
  show ?thesis
  proof (cases "map_str object ''type'' = Some ''namespace''")
    case True
    then show ?thesis
      using assms(1) by (auto simp: object translate_tool_def namespace_tools_def and_then_Ok intro: nested)
  next
    case False
    then have "leaf_tool object None acc = Ok acc'"
      using assms(1) by (simp add: object translate_tool_def)
    then show ?thesis
      by (rule leaf_tool_typed [OF _ assms(2)])
  qed
qed

lemma translate_tools_typed:
  assumes "translate_tools tools names = Ok (translated, names')"
  shows "list_all typed_tool translated"
proof -
  have "list_all typed_tool (fst t)" if "try_fold translate_tool ([], names) vs = Ok t" for vs t
    by (rule try_fold_invariant [OF that, where P = "\<lambda>s. list_all typed_tool (fst s)"]) (use translate_tool_typed in auto)
  then show ?thesis
    using assms by (fastforce simp: translate_tools_def and_then_Ok split: option.split_asm Value.split_asm)
qed

lemma typed_text: "typed_content role (String s)"
  by (simp add: typed_content_def)

lemma content_parts_typed:
  assumes "translate_content_parts parts role limits = Ok v"
  shows "typed_content role v"
proof -
  have step: "list_all typed_part (fst (snd acc'))" if "content_part limits acc part = Ok acc'" "list_all typed_part (fst (snd acc))" for acc part acc'
    using that by (auto simp: content_part_def Let_def and_then_Ok typed_part_def text_message_part_def get_str_def split: if_split_asm prod.split_asm)
  obtain joined multimodal has_image where fold: "try_fold (content_part limits) ([], [], False) parts = Ok (joined, multimodal, has_image)"
      and v: "v = (if has_image \<and> role = ''user'' then Array multimodal else String joined)"
    using assms by (auto simp: translate_content_parts_def and_then_Ok split: if_split_asm)
  from try_fold_invariant [OF fold, where P = "\<lambda>acc. list_all typed_part (fst (snd acc))"] step show ?thesis
    by (auto simp: v typed_content_def)
qed

lemma translate_message_typed:
  assumes "translate_message item limits = Ok m"
  shows "typed_message m"
proof -
  let ?content = "\<lambda>role. case map_get item ''content'' of
       Some (String s) \<Rightarrow> Ok (String s)
     | Some (Array parts) \<Rightarrow> translate_content_parts parts role limits
     | None \<Rightarrow> Ok (String [])
     | Some Null \<Rightarrow> Ok (String [])
     | Some _ \<Rightarrow> Err (InvalidRequest ''message content must be a string or an array'')"
  obtain role content where role: "message_role (map_str item ''role'') = Ok role" and content: "?content role = Ok content"
      and m: "m = json_object [(''role'', String role), (''content'', content)]"
    using assms unfolding translate_message_def and_then_Ok by blast
  from role have "role \<in> set [''system'', ''user'', ''assistant'']"
    by (auto simp: message_role_def split: if_split_asm)
  moreover from content have "typed_content role content"
    by (auto intro: content_parts_typed simp: typed_text split: option.split_asm Value.split_asm)
  ultimately show ?thesis
    by (simp add: m typed_message_def get_str_def)
qed

lemma tool_result_typed:
  assumes "tool_result sj item = Ok m"
  shows "typed_message m"
proof -
  obtain call_id content where "call_id \<noteq> []"
      "m = json_object [(''role'', String ''tool''), (''tool_call_id'', String call_id), (''content'', String content)]"
    using assms by (auto simp: tool_result_def and_then_Ok Let_def nonempty_str_def)
  then show ?thesis
    by (simp add: typed_message_def get_str_def is_string_def nonempty_text_def is_some_and_iff)
qed

lemma tool_call_typed:
  assumes "tool_call sj item field names is_free = Ok (call, names')"
  shows "typed_call call"
  using assms recorded_fits
  by (auto simp: tool_call_def and_then_Ok Let_def typed_call_def get_str_def is_some_and_iff nonempty_text_def nonempty_str_def)

lemma push_tool_call_typed:
  assumes "list_all typed_message messages" "typed_call call"
  shows "list_all typed_message (push_tool_call messages call)"
proof -
  have new: "typed_message (new_call_message call)"
    using assms(2) by (simp add: typed_message_def new_call_message_def get_str_def)
  show ?thesis
  proof (cases "rev messages")
    case Nil
    then show ?thesis using new by (simp add: push_tool_call_def)
  next
    case (Cons v before)
    then have messages: "messages = rev before @ [v]"
      by (metis rev.simps(2) rev_rev_ident)
    have "typed_message (Object (map_insert ''tool_calls'' (Array (calls @ [call])) m))"
      if "v = Object m" "map_get m ''tool_calls'' = Some (Array calls)" for m calls
      using assms that by (auto simp: messages typed_message_def split: option.split_asm)
    then show ?thesis
      using assms(1) new by (auto simp: push_tool_call_def messages split: Value.split option.split)
  qed
qed

lemma translate_item_typed:
  assumes "translate_item sj limits acc item = Ok acc'" "list_all typed_message (fst acc)"
  shows "list_all typed_message (fst acc')"
  using assms translate_message_typed tool_result_typed push_tool_call_typed tool_call_typed
  by (fastforce simp: translate_item_def Let_def and_then_Ok split: if_split_asm prod.split_asm)

lemma translate_messages_typed:
  assumes "translate_messages sj request names limits = Ok (messages, names')"
  shows "list_all typed_message messages"
proof -
  have "typed_message (json_object [(''role'', String ''system''), (''content'', String s)])" for s
    by (simp add: typed_message_def get_str_def typed_text)
  moreover have "list_all typed_message (fst t)" if "try_fold (translate_item sj limits) (ms, names) vs = Ok t" "list_all typed_message ms" for ms vs t
    by (rule try_fold_invariant [OF that(1), where P = "\<lambda>s. list_all typed_message (fst s)"])
       (use that(2) translate_item_typed in auto)
  ultimately show ?thesis
    using assms by (fastforce simp: translate_messages_def Let_def split: option.split_asm Value.split_asm)
qed

section \<open>The body\<close>

lemma clamp_tokens_range: "1 \<le> mx \<Longrightarrow> 1 \<le> clamp_tokens n mx \<and> clamp_tokens n mx \<le> mx"
  by (auto simp only: clamp_tokens_def not_less order.refl split: if_split)

lemma add_reasoning_typed:
  assumes "add_reasoning object body = Ok body'" "map_get body ''reasoning_effort'' = None" "map_get body ''thinking'' = None"
  shows "typed_reasoning (Object body')"
proof -
  have effort: "r = None \<or> r \<in> set (map Some [''minimal'', ''low'', ''medium'', ''high'', ''xhigh''])" if "map_reasoning_effort e = Ok r" for e r
    using that by (auto simp: map_reasoning_effort_def split: if_split_asm)
  from assms(1) consider "body' = body"
    | e r where "map_reasoning_effort e = Ok (Some r)" "body' = map_insert ''reasoning_effort'' (String r) body"
    | "body' = map_insert ''thinking'' (json_object [(''type'', String ''disabled'')]) body"
    unfolding add_reasoning_def and_then_Ok by (auto simp: and_then_Ok split: option.split_asm)
  then show ?thesis
    using assms(2,3) by cases (use effort in \<open>fastforce simp: typed_reasoning_def\<close>)+
qed

lemma translate_parts:
  assumes "translate sj request limits = Ok t"
  obtains object model translated names messages names' body where "request = Object object" "model \<noteq> []"
    "translate_tools (map_get object ''tools'') ToolNames_default = Ok (translated, names)"
    "translate_messages sj object names limits = Ok (messages, names')"
    "add_reasoning object (add_tools translated (map_insert ''messages'' (Array messages) (map_insert ''model'' (String model) []))) = Ok body"
    "chat_body t = Object (map_insert ''stream'' (Bool True) (add_max_tokens object limits body))"
  using assms by (fastforce simp: translate_def and_then_Ok nonempty_str_def)

text \<open>C24: The type of the translated request: whatever the Responses request was, a translation that succeeds yields
  a body in which the model is a non-empty string; every message has one of the four roles with the content of
  that role, a list of parts only for a user, a call list only beside a null content of an assistant, and
  each tool result and each call its id; every function name fits Z.ai's alphabet and length; the tool
  fields come together or not at all; the reasoning effort is one of five words, never beside a disabled
  thinking; the token limit lies between one and the model's limit; and the stream flag is set.\<close>

theorem translated_request_typed:
  assumes "1 \<le> limit_output_tokens limits" and "translate sj request limits = Ok t"
  shows "chat_typed limits (chat_body t)"
proof -
  obtain object model translated names messages names' body where "request = Object object" and model: "model \<noteq> []"
      and tools: "translate_tools (map_get object ''tools'') ToolNames_default = Ok (translated, names)"
      and messages: "translate_messages sj object names limits = Ok (messages, names')"
      and body: "add_reasoning object (add_tools translated (map_insert ''messages'' (Array messages) (map_insert ''model'' (String model) []))) = Ok body"
      and t: "chat_body t = Object (map_insert ''stream'' (Bool True) (add_max_tokens object limits body))"
    by (rule translate_parts [OF assms(2)])
  let ?base = "add_tools translated (map_insert ''messages'' (Array messages) (map_insert ''model'' (String model) []))"
  have get: "map_get body k = map_get ?base k" if "k \<notin> {''reasoning_effort'', ''thinking''}" for k
    using add_reasoning_get [OF body that] .
  have "typed_reasoning (Object body)"
    using add_reasoning_typed [OF body] by (simp add: add_tools_def)
  then have "typed_reasoning (chat_body t)"
    by (simp add: t typed_reasoning_def add_max_tokens_get)
  moreover have "typed_tools (chat_body t)"
    using translate_tools_typed [OF tools] by (simp add: t typed_tools_def add_max_tokens_get get add_tools_def typed_list_def is_some_and_iff map_str_def)
  moreover have "typed_max_tokens limits (chat_body t)"
    using clamp_tokens_range [OF assms(1)] get
    by (auto simp: t typed_max_tokens_def add_max_tokens_def add_tools_def json_u64_def is_some_and_iff split: option.split)
  moreover have "typed_list typed_message (value_get (chat_body t) ''messages'')"
    using translate_messages_typed [OF messages] by (simp add: t add_max_tokens_get get add_tools_def typed_list_def is_some_and_iff)
  ultimately show ?thesis
    using model by (simp add: t chat_typed_def nonempty_text_def is_some_and_iff add_max_tokens_get get add_tools_def map_str_def)
qed

theorem translated_request_typed_witness:
  "chat_typed sample_limits (chat_body sample_translated)"
  by (rule translated_request_typed [OF _ sample_translate]) (simp add: sample_limits_def)

end
