(* ===== verification/Gateway_Main.thy ===== *)
theory Gateway_Main
  imports Auth_Home Codex_Transport Zai_Transport Launcher_Run
begin

text \<open>
  The gateway program (\<open>muse-codex-gateway/src/main.rs\<close>) and the life of its server
  (\<open>run\<close> and the watchdog in \<open>server.rs\<close>): the start of a backend, the publication of the ready file, the report
  of a failed start, the exit with the launcher, and the authentication commands with the account status
  (\<open>codex-transport/src/auth.rs\<close>).

  The world is the record \<open>gateway_world\<close>; an error is its chain of causes, as \<open>classify_startup_error\<close> reads it.
  The HTTP server between publication and shutdown is \<open>Gateway_Server\<close>; here it is its outcome
  \<open>gw_served\<close>. The login flows are calls of \<open>codex_login\<close>.
\<close>

section \<open>Addresses and arguments\<close>

datatype IpAddr = V4 nat nat nat nat | V6 "nat list"

fun is_loopback :: "IpAddr \<Rightarrow> bool" where
  "is_loopback (V4 a b c d) = (a = 127)"
| "is_loopback (V6 segments) = (segments = [0, 0, 0, 0, 0, 0, 0, 1])"

record SocketAddr =
  so_ip :: IpAddr
  so_port :: nat

record ServeArgs =
  sa_bind :: SocketAddr
  sa_ready_file :: path
  sa_parent_pid :: nat
  sa_api_key_stdin :: bool
  sa_upstream_base_url :: "Url option"
  sa_fast :: bool
  sa_provider :: PublicProvider

datatype RunningBackend = RunningCodex Transport | RunningZai ZaiTransport

record ('r, 'i) gateway_world =
  gw_os :: os
  gw_pid :: nat
  gw_partial :: bytes
  gw_home_dir :: "path option"
  gw_data_local_dir :: "path option"
  gw_muse_codex_home :: "bytes option"
  gw_alive :: "nat \<Rightarrow> bool"
  gw_watchdog :: "(unit, bytes) result"
  gw_stdin :: "(bytes, bytes) result"
  gw_codex :: "path \<Rightarrow> ('r, 'i) codex_world"
  gw_zai :: zai_world
  gw_zai_key :: "path \<Rightarrow> (bytes option, Error) result"
  gw_random :: "(bytes, bytes) result"
  gw_base64 :: base64
  gw_in_time :: bool
  gw_bind :: "SocketAddr \<Rightarrow> (SocketAddr, bytes) result"
  gw_display_v6 :: "SocketAddr \<Rightarrow> bytes"
  gw_json :: serde_json
  gw_encode_ready :: "GatewayReady \<Rightarrow> bytes"
  gw_served :: "(unit, bytes) result"

abbreviation failed :: "('a, 'e) result \<Rightarrow> ('a, cause list) result" where
  "failed r \<equiv> map_err (\<lambda>_. [OtherCause]) r"

section \<open>The parent process\<close>

text \<open>\<open>gw_alive\<close> is the answer of \<open>kill\<close> with signal 0; a number that does not fit \<open>pid_t\<close> names no process.\<close>

definition process_exists :: "('r, 'i) gateway_world \<Rightarrow> nat \<Rightarrow> bool" where
  "process_exists w pid = (pid < 2 ^ 31 \<and> gw_alive w pid)"

definition startup_error_path :: "path \<Rightarrow> path" where
  "startup_error_path p =
     (case rev p of
        Normal name # r \<Rightarrow> rev r @ [Normal (name @ ''.error'')]
      | ParentDir # r \<Rightarrow> rev r @ [Normal ''...error'']
      | CurDir # r \<Rightarrow> rev r @ [Normal ''..error'']
      | _ \<Rightarrow> p @ [Normal ''.error''])"

definition start_parent_exit_watchdog :: "('r, 'i) gateway_world \<Rightarrow> nat \<Rightarrow> (unit, cause list) result" where
  "start_parent_exit_watchdog w parent_pid =
     (if \<not> process_exists w parent_pid then Err [OtherCause] else failed (gw_watchdog w))"

text \<open>The watchdog thread over what \<open>process_exists\<close> answers; \<open>Some\<close> when it has ended the process.\<close>

fun parent_watch :: "os \<Rightarrow> path \<Rightarrow> bool list \<Rightarrow> fs \<Rightarrow> fs option" where
  "parent_watch e ready_path [] fs = None"
| "parent_watch e ready_path (alive # answers) fs =
     (if alive then parent_watch e ready_path answers fs
      else Some (remove_file e (startup_error_path ready_path) (remove_file e ready_path fs)))"

text \<open>\<open>shutdown_signal\<close>: the server ends with a keyboard interrupt or once the parent is gone.\<close>

datatype shutdown_event = CtrlC | ParentPoll bool

fun shutdown_signal :: "shutdown_event list \<Rightarrow> bool" where
  "shutdown_signal [] = False"
| "shutdown_signal (CtrlC # events) = True"
| "shutdown_signal (ParentPoll alive # events) = (\<not> alive \<or> shutdown_signal events)"

section \<open>The server\<close>

definition generate_token :: "('r, 'i) gateway_world \<Rightarrow> (bytes, cause list) result" where
  "generate_token w = and_then (failed (gw_random w)) (\<lambda>bytes. Ok (url_safe_no_pad_encode (gw_base64 w) bytes))"

fun running_provider :: "RunningBackend \<Rightarrow> PublicProvider" where
  "running_provider (RunningCodex t) = Codex"
| "running_provider (RunningZai t) = Zai"

fun backend_list_models :: "('r, 'i) codex_world \<Rightarrow> zai_world \<Rightarrow> RunningBackend \<Rightarrow> ((ModelInfo list, Error) result \<times> RunningBackend) option" where
  "backend_list_models cw zw (RunningCodex t) = map_option (\<lambda>(r, t). (r, RunningCodex t)) (codex_list_models cw t)"
| "backend_list_models cw zw (RunningZai t) = Some (zai_list_models zw t, RunningZai t)"

definition address_text :: "('r, 'i) gateway_world \<Rightarrow> SocketAddr \<Rightarrow> bytes" where
  "address_text w address =
     (case so_ip address of
        V4 a b c d \<Rightarrow> show_nat a @ ''.'' @ show_nat b @ ''.'' @ show_nat c @ ''.'' @ show_nat d @ '':'' @ show_nat (so_port address)
      | V6 _ \<Rightarrow> gw_display_v6 w address)"

text \<open>Binding the listener; its address must be on the loopback interface.\<close>

definition bind_listener :: "('r, 'i) gateway_world \<Rightarrow> SocketAddr \<Rightarrow> (SocketAddr, cause list) result" where
  "bind_listener w bind =
     and_then (failed (gw_bind w bind)) (\<lambda>address. if \<not> is_loopback (so_ip address) then Err [OtherCause] else Ok address)"

definition ready_content :: "('r, 'i) gateway_world \<Rightarrow> RunningBackend \<Rightarrow> SocketAddr \<Rightarrow> bytes \<Rightarrow> ModelInfo \<Rightarrow> ModelInfo list \<Rightarrow> GatewayReady" where
  "ready_content w backend address token default_model models =
     \<lparr>gr_schema_version = READY_SCHEMA_VERSION, gr_provider = provider_str (running_provider backend),
      gr_base_url = ''http://'' @ address_text w address, gr_token = token,
      gr_default_model = mi_id default_model, gr_models = map gateway_row models\<rparr>"

definition write_ready_file :: "('r, 'i) gateway_world \<Rightarrow> path \<Rightarrow> GatewayReady \<Rightarrow> fs \<Rightarrow> (unit, cause list) result \<times> fs" where
  "write_ready_file w p ready fs =
     (case write_private_json (gw_os w) (gw_partial w) (gw_pid w) p (gw_encode_ready w ready) fs of (r, fs) \<Rightarrow> (failed r, fs))"

text \<open>\<open>run\<close> up to the point where it serves: the token, the backend with its catalog, and the ready file.\<close>

definition server_publish ::
  "('r, 'i) gateway_world \<Rightarrow> ('r, 'i) codex_world \<Rightarrow> SocketAddr \<Rightarrow> path \<Rightarrow> RunningBackend \<Rightarrow> fs
     \<Rightarrow> ((bytes \<times> RunningBackend, cause list) result \<times> fs) option" where
  "server_publish w cw bind ready_path backend fs =
     (case generate_token w of
        Err e \<Rightarrow> Some (Err e, fs)
      | Ok token \<Rightarrow>
          if \<not> gw_in_time w then Some (Err [OtherCause, Elapsed], fs)
          else map_option (\<lambda>(listed, backend).
            case and_then (map_err (\<lambda>e. [Transport e]) listed) (\<lambda>models.
                 and_then (ok_or (List.find mi_is_default models) [OtherCause]) (\<lambda>default_model.
                 and_then (bind_listener w bind) (\<lambda>address. Ok (ready_content w backend address token default_model models)))) of
              Err e \<Rightarrow> (Err e, fs)
            | Ok ready \<Rightarrow>
                (case write_ready_file w ready_path ready fs of
                   (Err e, fs) \<Rightarrow> (Err e, fs)
                 | (Ok _, fs) \<Rightarrow> (Ok (token, backend), fs)))
            (backend_list_models cw (gw_zai w) backend))"

text \<open>Serving ends with the shutdown signal; then the ready file goes.\<close>

definition server_run ::
  "('r, 'i) gateway_world \<Rightarrow> ('r, 'i) codex_world \<Rightarrow> SocketAddr \<Rightarrow> path \<Rightarrow> RunningBackend \<Rightarrow> fs \<Rightarrow> ((unit, cause list) result \<times> fs) option" where
  "server_run w cw bind ready_path backend fs =
     map_option (\<lambda>(r, fs).
       case r of
         Err e \<Rightarrow> (Err e, fs)
       | Ok _ \<Rightarrow> (failed (gw_served w), remove_file (gw_os w) ready_path fs))
       (server_publish w cw bind ready_path backend fs)"

section \<open>Serving\<close>

definition gateway_key :: "('r, 'i) gateway_world \<Rightarrow> ServeArgs \<Rightarrow> (bytes option, cause list) result" where
  "gateway_key w args =
     (if sa_api_key_stdin args then and_then (failed (gw_stdin w)) (\<lambda>input. and_then (failed (read_secret_line input)) (\<lambda>key. Ok (Some key)))
      else Ok None)"

definition make_backend :: "('r, 'i) gateway_world \<Rightarrow> ServeArgs \<Rightarrow> path \<Rightarrow> bytes option \<Rightarrow> (RunningBackend, cause list) result" where
  "make_backend w args home invocation_key =
     (case sa_provider args of
        Codex \<Rightarrow>
          map_err (\<lambda>e. [OtherCause, Transport e])
            (and_then (Transport_new (gw_codex w home) invocation_key (sa_upstream_base_url args) (sa_fast args)) (\<lambda>t. Ok (RunningCodex t)))
      | Zai \<Rightarrow>
          if sa_fast args then Err [Transport (ProviderUnsupported ''OpenAI Fast mode'')]
          else map_err (\<lambda>e. [OtherCause, Transport e])
            (and_then (zai_transport_new (gw_zai w) (gw_zai_key w home) invocation_key (sa_upstream_base_url args)) (\<lambda>t. Ok (RunningZai t))))"

definition check_serve_args :: "ServeArgs \<Rightarrow> (unit, cause list) result" where
  "check_serve_args args =
     (if \<not> is_loopback (so_ip (sa_bind args)) then Err [OtherCause]
      else if sa_parent_pid args = 0 then Err [OtherCause] else Ok ())"

text \<open>What \<open>serve\<close> does before it runs the server: checks, watchdog, key, credential home and backend.\<close>

definition serve_setup :: "('r, 'i) gateway_world \<Rightarrow> ServeArgs \<Rightarrow> fs \<Rightarrow> (path \<times> RunningBackend, cause list) result \<times> fs" where
  "serve_setup w args fs =
     (case and_then (check_serve_args args) (\<lambda>_.
           and_then (start_parent_exit_watchdog w (sa_parent_pid args)) (\<lambda>_. gateway_key w args)) of
        Err e \<Rightarrow> (Err e, fs)
      | Ok invocation_key \<Rightarrow>
          (case for_muse_codex (gw_os w) (gw_home_dir w) (gw_data_local_dir w) (gw_muse_codex_home w) fs of
             (Err e, fs) \<Rightarrow> (Err [Transport e], fs)
           | (Ok home, fs) \<Rightarrow> (and_then (make_backend w args home invocation_key) (\<lambda>backend. Ok (home, backend)), fs)))"

definition gateway_serve :: "('r, 'i) gateway_world \<Rightarrow> ServeArgs \<Rightarrow> fs \<Rightarrow> ((unit, cause list) result \<times> fs) option" where
  "gateway_serve w args fs =
     (case serve_setup w args fs of
        (Err e, fs) \<Rightarrow> Some (Err e, fs)
      | (Ok (home, backend), fs) \<Rightarrow> server_run w (gw_codex w home) (sa_bind args) (sa_ready_file args) backend fs)"

definition startup_error_document :: "StartupErrorCode \<Rightarrow> Value" where
  "startup_error_document c =
     json_object [(''schema_version'', json_u64 1), (''error'', json_object [(''code'', String (startup_code_str c))])]"

definition write_startup_error_file :: "('r, 'i) gateway_world \<Rightarrow> path \<Rightarrow> StartupErrorCode \<Rightarrow> fs \<Rightarrow> (path, cause list) result \<times> fs" where
  "write_startup_error_file w ready_path c fs =
     (let p = startup_error_path ready_path
      in case write_private_json (gw_os w) (gw_partial w) (gw_pid w) p (to_string (gw_json w) (startup_error_document c)) fs of
           (r, fs) \<Rightarrow> (and_then (failed r) (\<lambda>_. Ok p), fs))"

definition serve_with_error_reporting :: "('r, 'i) gateway_world \<Rightarrow> ServeArgs \<Rightarrow> fs \<Rightarrow> ((unit, cause list) result \<times> fs) option" where
  "serve_with_error_reporting w args fs =
     map_option (\<lambda>(r, fs).
       case r of
         Ok _ \<Rightarrow> (Ok (), fs)
       | Err chain \<Rightarrow> (Err chain, snd (write_startup_error_file w (sa_ready_file args) (classify_startup_error chain) fs)))
       (gateway_serve w args fs)"

section \<open>The self-test\<close>

definition SUPPORTED_PROVIDERS :: "bytes list" where
  "SUPPORTED_PROVIDERS = [''codex'', ''zai'']"

definition self_test_report :: GatewaySelfTest where
  "self_test_report = \<lparr>st_status = ''ok'', st_ready_schema_version = READY_SCHEMA_VERSION,
     st_wire_compatibility_version = CODEX_WIRE_COMPATIBILITY_VERSION, st_supported_providers = SUPPORTED_PROVIDERS\<rparr>"

definition self_test_document :: Value where
  "self_test_document = json_object [(''status'', String ''ok''), (''ready_schema_version'', json_u64 (of_nat READY_SCHEMA_VERSION)),
     (''wire_compatibility_version'', String CODEX_WIRE_COMPATIBILITY_VERSION),
     (''supported_providers'', Array (map String SUPPORTED_PROVIDERS))]"

definition self_test :: "('r, 'i) gateway_world \<Rightarrow> (bytes, cause list) result" where
  "self_test w =
     and_then (generate_token w) (\<lambda>encoded.
       if (case url_safe_no_pad_decode (gw_base64 w) encoded of None \<Rightarrow> True | Some bytes \<Rightarrow> length bytes \<noteq> 32) then Err [OtherCause]
       else Ok (to_string (gw_json w) self_test_document @ [LF]))"

section \<open>Authentication\<close>

datatype LoginMode = Browser | Device

datatype AuthStatus = SignedOut | ApiKey | ChatGpt "bytes option" "bytes option" | ZaiStatus

datatype AuthCommand = Login bool | Logout | SetApiKey | Status

datatype LoginPrompt = BrowserPrompt bytes | DevicePrompt bytes bytes

text \<open>
  The account behind a credential home, as \<open>codex_login\<close> keeps it, in a state of type \<open>'a\<close>: the stored credential
  with its account profile, the login flows with the prompts they show (\<open>lc_device_code_login\<close> is the flow that prints its
  own prompt), the revocation and the storage of a key. A flow that fails leaves the state as it was.
\<close>

record 'a login_crate =
  lc_auth :: "'a \<Rightarrow> CodexAuth option"
  lc_email :: "'a \<Rightarrow> bytes option"
  lc_plan :: "'a \<Rightarrow> bytes option"
  lc_browser_url :: "'a \<Rightarrow> (bytes, Error) result"
  lc_browser_login :: "'a \<Rightarrow> ('a, Error) result"
  lc_device_prompt :: "'a \<Rightarrow> (bytes \<times> bytes, Error) result"
  lc_device_login :: "'a \<Rightarrow> ('a, Error) result"
  lc_device_code_login :: "'a \<Rightarrow> ('a, Error) result"
  lc_logout :: "'a \<Rightarrow> (bool \<times> 'a, Error) result"
  lc_api_key :: "bytes \<Rightarrow> 'a \<Rightarrow> ('a, Error) result"

definition auth_status :: "'a login_crate \<Rightarrow> 'a \<Rightarrow> (AuthStatus, Error) result" where
  "auth_status lc a =
     (case lc_auth lc a of
        None \<Rightarrow> Ok SignedOut
      | Some auth \<Rightarrow>
          if is_api_key_auth auth then Ok ApiKey
          else if \<not> is_chatgpt_auth auth then Err UnsupportedAuthMode
          else Ok (ChatGpt (lc_email lc a) (lc_plan lc a)))"

text \<open>What follows a login flow: the status of the new state.\<close>

definition after_login :: "'a login_crate \<Rightarrow> ('a, Error) result \<Rightarrow> 'a \<Rightarrow> (AuthStatus, Error) result \<times> 'a" where
  "after_login lc flow a = (case flow of Err e \<Rightarrow> (Err e, a) | Ok a' \<Rightarrow> (auth_status lc a', a'))"

definition login :: "'a login_crate \<Rightarrow> LoginMode \<Rightarrow> 'a \<Rightarrow> (AuthStatus, Error) result \<times> 'a" where
  "login lc mode a =
     after_login lc
       (case mode of
          Browser \<Rightarrow> and_then (lc_browser_url lc a) (\<lambda>_. lc_browser_login lc a)
        | Device \<Rightarrow> lc_device_code_login lc a) a"

definition login_with_prompt_handler ::
  "'a login_crate \<Rightarrow> LoginMode \<Rightarrow> 'a \<Rightarrow> LoginPrompt list \<times> (AuthStatus, Error) result \<times> 'a" where
  "login_with_prompt_handler lc mode a =
     (case mode of
        Browser \<Rightarrow>
          (case lc_browser_url lc a of
             Err e \<Rightarrow> ([], Err e, a)
           | Ok url \<Rightarrow> ([BrowserPrompt url], after_login lc (lc_browser_login lc a) a))
      | Device \<Rightarrow>
          (case lc_device_prompt lc a of
             Err e \<Rightarrow> ([], Err e, a)
           | Ok (url, user_code) \<Rightarrow> ([DevicePrompt url user_code], after_login lc (lc_device_login lc a) a)))"

definition set_api_key :: "'a login_crate \<Rightarrow> bytes \<Rightarrow> 'a \<Rightarrow> ('a, Error) result" where
  "set_api_key lc api_key a = and_then (validate_api_key api_key) (\<lambda>_. lc_api_key lc api_key a)"

definition set_api_key_from_reader :: "'a login_crate \<Rightarrow> bytes \<Rightarrow> 'a \<Rightarrow> ('a, Error) result" where
  "set_api_key_from_reader lc input a = and_then (read_api_key input) (\<lambda>api_key. set_api_key lc api_key a)"

fun auth_status_text :: "AuthStatus \<Rightarrow> bytes" where
  "auth_status_text SignedOut = ''Not signed in.''"
| "auth_status_text ApiKey = ''Signed in with an OpenAI API key.''"
| "auth_status_text ZaiStatus = ''Signed in with a Z.ai GLM Coding Plan API key.''"
| "auth_status_text (ChatGpt email plan) =
     ''Signed in with ChatGPT'' @ (case email of Some e \<Rightarrow> '' as '' @ e | None \<Rightarrow> []) @
     (case plan of Some p \<Rightarrow> '' ('' @ p @ '')'' | None \<Rightarrow> []) @ ''.''"

text \<open>The text of a prompt; the browser prompt is unreachable in a device login.\<close>

fun device_prompt_text :: "LoginPrompt \<Rightarrow> bytes option" where
  "device_prompt_text (DevicePrompt url user_code) = Some (''Open '' @ url @ '' and enter code '' @ user_code)"
| "device_prompt_text (BrowserPrompt url) = None"

text \<open>The lines a command prints (\<open>None\<close> for the unreachable prompt), its result and the state it leaves.\<close>

definition codex_auth :: "'a login_crate \<Rightarrow> bytes \<Rightarrow> AuthCommand \<Rightarrow> 'a \<Rightarrow> bytes option list \<times> (unit, Error) result \<times> 'a" where
  "codex_auth lc input command a =
     (case command of
        Login device_auth \<Rightarrow>
          (case (if device_auth then login_with_prompt_handler lc Device a else ([], login lc Browser a)) of
             (prompts, Err e, a) \<Rightarrow> (map device_prompt_text prompts, Err e, a)
           | (prompts, Ok status, a) \<Rightarrow> (map device_prompt_text prompts @ [Some (auth_status_text status)], Ok (), a))
      | Logout \<Rightarrow>
          (case lc_logout lc a of
             Err e \<Rightarrow> ([], Err e, a)
           | Ok (removed, a) \<Rightarrow>
               ([Some (if removed then ''Logged out and removed muse-codex credentials.''
                       else ''No saved muse-codex credentials were found.'')], Ok (), a))
      | SetApiKey \<Rightarrow>
          (case set_api_key_from_reader lc input a of
             Err e \<Rightarrow> ([], Err e, a)
           | Ok a \<Rightarrow> ([Some ''OpenAI API key saved in macOS Keychain.''], Ok (), a))
      | Status \<Rightarrow>
          (case auth_status lc a of
             Err e \<Rightarrow> ([], Err e, a)
           | Ok status \<Rightarrow> ([Some (auth_status_text status)], Ok (), a)))"

text \<open>The commands of a Z.ai credential record; \<open>None\<close> stands for a refusal with a message of its own.\<close>

definition zai_auth ::
  "'s keyring \<Rightarrow> credential_codec \<Rightarrow> bytes \<Rightarrow> bytes \<Rightarrow> AuthCommand \<Rightarrow> 's \<Rightarrow> (bytes, Error option) result \<times> 's" where
  "zai_auth kr cc account input command s =
     (case command of
        Login _ \<Rightarrow> (Err None, s)
      | Logout \<Rightarrow>
          (case zai_delete kr account s of
             Err e \<Rightarrow> (Err (Some e), s)
           | Ok (removed, s) \<Rightarrow>
               (Ok (if removed then ''Logged out and removed muse-codex Z.ai credentials.''
                    else ''No saved muse-codex Z.ai credentials were found.''), s))
      | SetApiKey \<Rightarrow>
          (case read_secret_line input of
             Err _ \<Rightarrow> (Err None, s)
           | Ok key \<Rightarrow>
               (case zai_save kr cc account key s of
                  Err e \<Rightarrow> (Err (Some e), s)
                | Ok s \<Rightarrow> (Ok ''Z.ai API key saved in macOS Keychain.'', s)))
      | Status \<Rightarrow>
          (case zai_load kr cc account s of
             Err e \<Rightarrow> (Err (Some e), s)
           | Ok key \<Rightarrow> (Ok (auth_status_text (if key \<noteq> None then ZaiStatus else SignedOut)), s)))"

section \<open>The program\<close>

text \<open>
  \<open>auth\<close> on the credential home: the state is the file system, the account of the login crate and the
  keyring. \<open>account\<close> is the keyring account of a home (\<open>store_key\<close>); an error without text is a refusal.
\<close>

record AuthArgs =
  aa_command :: AuthCommand
  aa_provider :: PublicProvider

definition gateway_auth ::
  "('r, 'i) gateway_world \<Rightarrow> (path \<Rightarrow> 'a login_crate) \<Rightarrow> 's keyring \<Rightarrow> credential_codec \<Rightarrow> (path \<Rightarrow> bytes) \<Rightarrow> bytes \<Rightarrow> AuthArgs
     \<Rightarrow> fs \<times> 'a \<times> 's \<Rightarrow> bytes option list \<times> (unit, Error option) result \<times> fs \<times> 'a \<times> 's" where
  "gateway_auth w lc kr cc account input args st =
     (case st of (fs, a, s) \<Rightarrow>
       (case for_muse_codex (gw_os w) (gw_home_dir w) (gw_data_local_dir w) (gw_muse_codex_home w) fs of
          (Err e, fs) \<Rightarrow> ([], Err (Some e), fs, a, s)
        | (Ok home, fs) \<Rightarrow>
            if aa_provider args = Zai then
              (case zai_auth kr cc (account home) input (aa_command args) s of
                 (Err e, s) \<Rightarrow> ([], Err e, fs, a, s)
               | (Ok line, s) \<Rightarrow> ([Some line], Ok (), fs, a, s))
            else
              (case codex_auth (lc home) input (aa_command args) a of
                 (lines, r, a) \<Rightarrow> (lines, map_err Some r, fs, a, s))))"

end
