(* ===== verification/Gateway_Main_Props.thy ===== *)
theory Gateway_Main_Props
  imports Gateway_Main Auth_Home_Props Catalog_Contract Launcher_Ready_Props Codex_Transport_Props Zai_Gateway
begin

text \<open>
  The gateway program as the launcher sees it: the ready file it publishes is the one the launcher accepts, a failed
  start reaches the launcher as the message of its code, no private file is left behind, and the credential
  commands of Z.ai form a life cycle.
\<close>

section \<open>The private files across the two programs\<close>

text \<open>What the launcher's \<open>open\<close> (without following a link) and \<open>metadata\<close> find in the file system.\<close>

definition open_gateway_file :: "os \<Rightarrow> fs \<Rightarrow> path \<Rightarrow> open_result" where
  "open_gateway_file e fs p =
     (case and_then (faulty e (OpOpen p)) (\<lambda>_. entry fs p) of
        Err NotFoundKind \<Rightarrow> NotFound
      | Err k \<Rightarrow> OpenFailed (os_io_text e k)
      | Ok i \<Rightarrow>
          (case in_node i of
             Symlink _ \<Rightarrow> OpenFailed (os_io_text e (OtherKind ''too many levels of symbolic links''))
           | Regular content \<Rightarrow> Opened \<lparr>file_regular = True, file_len = length content, file_mode = unat (in_mode i),
               file_nlink = in_nlink i, file_uid = in_uid i, file_bytes = content\<rparr>
           | _ \<Rightarrow> Opened \<lparr>file_regular = False, file_len = 0, file_mode = unat (in_mode i),
               file_nlink = in_nlink i, file_uid = in_uid i, file_bytes = []\<rparr>))"

lemma unat_permissions: "unat (permissions m) = unat m mod 512"
proof -
  have "permissions m = take_bit 9 m"
    by (simp add: permissions_def take_bit_eq_mask mask_eq_exp_minus_1)
  then have "unat (permissions m) = take_bit 9 (unat m)"
    by (simp only: unsigned_take_bit_eq)
  then show ?thesis
    by (simp add: take_bit_eq_mod)
qed

lemma directory_kept:
  assumes "\<forall>q. q \<notin> {path_join d a, path_join d b} \<longrightarrow> fs' q = fs q" "real_path fs d" "is_directory fs d"
  shows "real_path fs' d" "is_directory fs' d"
proof -
  have kept: "fs' q = fs q" if "length q \<le> length d" for q
    using that assms(1) by (cases "q = path_join d a \<or> q = path_join d b") (auto simp: path_join_def)
  then show "real_path fs' d"
    using real_path_agree [OF assms(2)] by blast
  show "is_directory fs' d"
    using kept [of d] assms(3) by (simp add: is_directory_def)
qed

text \<open>The mask leaves the owner's bits.\<close>

definition owner_mask :: "os \<Rightarrow> bool" where
  "owner_mask e = (permissions (and FILE_MODE (not (os_umask e))) = FILE_MODE)"

lemma opened_private_file:
  assumes "real_path fs d" "is_directory fs d" "p = path_join d name" "fs p = Some (private_file e content)"
    "os_fault e (OpOpen p) = None" "owner_mask e" "length content \<le> limit"
  shows "\<exists>f. open_private_gateway_file (os_euid e) (open_gateway_file e fs p) limit = Ok (Some f) \<and> file_bytes f = content"
proof -
  have "entry fs p = Ok (private_file e content)"
    using assms(1-4) by (simp add: entry_def locate_join real_resolve)
  moreover have "unat (and FILE_MODE (not (os_umask e))) mod 512 = 384"
    using assms(6) unat_permissions [of "and FILE_MODE (not (os_umask e))"] by (simp add: owner_mask_def)
  ultimately show ?thesis
    using assms(5,7) by (simp add: open_gateway_file_def faulty_def open_private_gateway_file_def private_file_def)
qed

section \<open>The ready file\<close>

lemma codex_models_ok:
  assumes "codex_list_models cw t = Some (Ok models, t')"
  shows "catalog_ok models"
proof -
  let ?use = "if ct_api_key_base_url t \<noteq> None then Ok False else and_then (current_auth cw t 0) (\<lambda>auth. Ok (is_api_key_auth auth))"
  obtain bundled where use: "?use = Ok bundled"
    using assms by (cases ?use) (auto simp: codex_list_models_def)
  obtain r st where "codex_execute cw t (send_models_once cw t) = Some (r, st)"
      "(case read_models cw bundled r of Err e \<Rightarrow> (Err e, t) | Ok models \<Rightarrow> (Ok models, t\<lparr>ct_model_capabilities := model_capabilities models\<rparr>)) = (Ok models, t')"
    using assms unfolding codex_list_models_def use by auto
  then have "read_models cw bundled r = Ok models"
    by (cases "read_models cw bundled r") auto
  then show ?thesis
    using codex_catalog.produce_ok api_catalog.produce_ok
    by (fastforce simp: read_models_def and_then_Ok split: if_split_asm)
qed

lemma backend_models_ok:
  "backend_list_models cw zw b = Some (Ok models, b') \<Longrightarrow> catalog_ok models \<and> running_provider b' = running_provider b"
  by (cases b) (auto simp: zai_list_models_def and_then_Ok pinned_models_ok dest: codex_models_ok)

lemma ready_content_accepted:
  assumes "catalog_ok models" "List.find mi_is_default models = Some d" "base64_spec (gw_base64 w)" "length random = 32"
    "so_ip address = V4 127 0 0 1" "0 < so_port address" "so_port address < 2 ^ 16"
    "ready = ready_content w b address (url_safe_no_pad_encode (gw_base64 w) random) d models"
  shows "validate_ready (gw_base64 w) (running_provider b) ready = Ok ready"
proof -
  have "show_nat 127 = ''127''" "show_nat 0 = ''0''" "show_nat 1 = ''1''"
    by code_simp+
  then have "address_text w address = ''127.0.0.1:'' @ show_nat (so_port address)"
    by (simp only: address_text_def assms(5) IpAddr.case append.simps append_assoc)
  then have "ready_file (gw_base64 w) (running_provider b) (so_port address) random models = Ok ready"
    using assms(2,8) by (simp add: ready_file_def ready_content_def)
  then show ?thesis
    using ready_file_accepted [OF assms(1,3,4,6,7), of "running_provider b"] by simp
qed

lemma server_publish_Ok:
  assumes "server_publish w cw bind p b fs = Some (Ok (token, b'), fs')"
  obtains random models default address ready where "gw_random w = Ok random" "token = url_safe_no_pad_encode (gw_base64 w) random"
    "backend_list_models cw (gw_zai w) b = Some (Ok models, b')" "List.find mi_is_default models = Some default"
    "gw_bind w bind = Ok address" "ready = ready_content w b' address token default models" "write_ready_file w p ready fs = (Ok (), fs')"
proof -
  obtain token' where token: "generate_token w = Ok token'" and "gw_in_time w"
    using assms by (cases "generate_token w") (auto simp: server_publish_def split: if_split_asm)
  then obtain listed b1 where listed: "backend_list_models cw (gw_zai w) b = Some (listed, b1)"
    using assms by (auto simp: server_publish_def)
  let ?ready = "and_then (map_err (\<lambda>e. [Transport e]) listed) (\<lambda>models.
       and_then (ok_or (List.find mi_is_default models) [OtherCause]) (\<lambda>default_model.
       and_then (bind_listener w bind) (\<lambda>address. Ok (ready_content w b1 address token' default_model models))))"
  have run: "(case ?ready of
      Err e \<Rightarrow> (Err e, fs)
    | Ok ready \<Rightarrow> (case write_ready_file w p ready fs of (Err e, fs) \<Rightarrow> (Err e, fs) | (Ok _, fs) \<Rightarrow> (Ok (token', b1), fs))) = (Ok (token, b'), fs')"
    using assms token \<open>gw_in_time w\<close> listed by (simp add: server_publish_def)
  then obtain ready where ready: "?ready = Ok ready"
    by (cases ?ready) auto
  with run have "write_ready_file w p ready fs = (Ok (), fs')" "token' = token" "b1 = b'"
    by (auto split: prod.split_asm result.split_asm)
  then show thesis
    using ready token listed that by (auto simp: and_then_Ok generate_token_def bind_listener_def split: if_split_asm)
qed

text \<open>The launcher's decoder reads a document of the gateway's encoder back, and the document is within the launcher's limit.\<close>

definition ready_decodes :: "('r, 'i) gateway_world \<Rightarrow> ready_codec \<Rightarrow> GatewayReady \<Rightarrow> bool" where
  "ready_decodes w rc ready \<longleftrightarrow> rc_ready rc (gw_encode_ready w ready) = Some ready \<and> gw_encode_ready w ready \<noteq> [] \<and>
     length (gw_encode_ready w ready) \<le> MAX_GATEWAY_READY_BYTES"


section \<open>A failed start\<close>

lemma startup_error_path_join [simp]: "startup_error_path (path_join d name) = path_join d (name @ ''.error'')"
  by (simp add: startup_error_path_def path_join_def)

text \<open>C13: A failed start reaches the user: when serving fails, with whatever chain of causes, the gateway writes the
  private error file, unless the operating system fails it, and the launcher that opens it reports the message
  of the code that the chain is classified to; the ready file is not touched by the report.\<close>

theorem startup_failure_reported:
  assumes "gateway_serve w args fs = Some (Err chain, fs1)" and "real_path fs1 d" and "is_directory fs1 d"
    and "sa_ready_file args = path_join d name" and "p = startup_error_path (sa_ready_file args)"
    and "fs1 (path_join d (temporary_name (gw_pid w) p)) = None" and "\<not> is_directory fs1 p"
    and "owner_mask (gw_os w)" and "\<forall>op. os_fault (gw_os w) op = None"
    and "\<forall>c. rc_failure rc (to_string (gw_json w) (startup_error_document c)) = Some (1, startup_code_str c) \<and>
      length (to_string (gw_json w) (startup_error_document c)) \<le> 4096"
  shows "\<exists>fs'. serve_with_error_reporting w args fs = Some (Err chain, fs') \<and>
    read_gateway_startup_failure rc (os_euid (gw_os w)) (open_gateway_file (gw_os w) fs' p) provider =
      Ok (Some (startup_failure_message provider (startup_code_str (classify_startup_error chain)))) \<and>
    (\<forall>q. q \<notin> {p, path_join d (temporary_name (gw_pid w) p)} \<longrightarrow> fs' q = fs1 q)"
proof -
  let ?c = "classify_startup_error chain"
  let ?content = "to_string (gw_json w) (startup_error_document ?c)"
  have p: "p = path_join d (name @ ''.error'')"
    by (simp add: assms(4,5))
  obtain fs' where json: "write_private_json (gw_os w) (gw_partial w) (gw_pid w) p ?content fs1 = (Ok (), fs')"
    using write_private_json_succeeds [OF assms(2,3) p assms(6,7,9), of "gw_partial w" ?content] by (metis prod.collapse)
  then have run: "serve_with_error_reporting w args fs = Some (Err chain, fs')"
    using assms(1,5) by (simp add: serve_with_error_reporting_def write_startup_error_file_def Let_def)
  have stored: "fs' p = Some (private_file (gw_os w) ?content)"
      and others: "\<forall>q. q \<notin> {p, path_join d (temporary_name (gw_pid w) p)} \<longrightarrow> fs' q = fs1 q"
    using write_private_json_effect [OF assms(2,3) p refl _ json] assms(9) by auto
  note dir = directory_kept [OF others [unfolded p] assms(2,3)]
  obtain f where "open_private_gateway_file (os_euid (gw_os w)) (open_gateway_file (gw_os w) fs' p) 4096 = Ok (Some f)" "file_bytes f = ?content"
    using opened_private_file [OF dir p stored _ assms(8)] assms(9,10) by blast
  moreover have "take 4097 ?content = ?content"
    by (rule take_all [OF order_trans [OF conjunct2 [OF spec [OF assms(10)]]]]) simp
  ultimately show ?thesis
    using run others assms(10) by (auto simp: read_gateway_startup_failure_def)
qed

section \<open>Nothing is left behind\<close>

lemma remove_file_real:
  assumes "real_path fs d" "is_directory fs d" "p = path_join d name" "\<not> is_directory fs p" "\<forall>op. os_fault e op = None"
  shows "remove_file e p fs = fs(p := None)"
  using assms by (simp add: remove_file_def faulty_def locate_join real_resolve)


section \<open>Credential commands\<close>

text \<open>Deleting a record of the keyring removes it and nothing else.\<close>

definition keyring_delete_spec :: "'s keyring \<Rightarrow> bool" where
  "keyring_delete_spec kr =
     (\<forall>service account s b s'. kr_delete kr service account s = Ok (b, s') \<longrightarrow>
        kr_load kr service account s' = Ok None \<and>
        (\<forall>service' account'. (service', account') \<noteq> (service, account) \<longrightarrow>
           kr_load kr service' account' s' = kr_load kr service' account' s))"

lemma zai_delete_facts:
  assumes "keyring_delete_spec kr" "zai_delete kr account s = Ok (b, s')"
  shows "zai_load kr cc account s' = Ok None \<and>
    (\<forall>service other. (service, other) \<noteq> (ZAI_KEYRING_SERVICE, account) \<longrightarrow> kr_load kr service other s' = kr_load kr service other s)"
proof -
  have "kr_delete kr ZAI_KEYRING_SERVICE account s = Ok (b, s')"
    using assms(2) by (simp add: zai_delete_def)
  then have "kr_load kr ZAI_KEYRING_SERVICE account s' = Ok None"
      "\<forall>service other. (service, other) \<noteq> (ZAI_KEYRING_SERVICE, account) \<longrightarrow> kr_load kr service other s' = kr_load kr service other s"
    using assms(1) unfolding keyring_delete_spec_def by blast+
  then show ?thesis
    by (simp add: zai_load_def)
qed

text \<open>C32: The life cycle of a Z.ai credential: after a key was stored, the status is signed in and the record is
  exactly the key that was read; after a logout the status is signed out; an interactive login is refused, a
  command that fails and the status change nothing, and no command touches any other record of the keyring.\<close>

theorem zai_auth_lifecycle:
  assumes "keyring_spec kr" and "keyring_delete_spec kr" and "credential_codec_spec cc"
    and "zai_auth kr cc account input command s = (r, s')"
  shows "(\<forall>m. r = Ok m \<and> command = SetApiKey \<longrightarrow>
      (\<exists>key. key_read input key \<and> zai_load kr cc account s' = Ok (Some key)) \<and>
      zai_auth kr cc account next_input Status s' = (Ok (auth_status_text ZaiStatus), s')) \<and>
    (\<forall>m. r = Ok m \<and> command = Logout \<longrightarrow> zai_auth kr cc account next_input Status s' = (Ok (auth_status_text SignedOut), s')) \<and>
    ((\<exists>d. command = Login d) \<longrightarrow> r = Err None) \<and> ((\<exists>e. r = Err e) \<or> command = Status \<longrightarrow> s' = s) \<and>
    (\<forall>service other. (service, other) \<noteq> (ZAI_KEYRING_SERVICE, account) \<longrightarrow> kr_load kr service other s' = kr_load kr service other s)"
proof (cases command)
  case (Login d)
  then show ?thesis using assms(4) by (simp add: zai_auth_def)
next
  case Logout
  then show ?thesis
    using assms(4) zai_delete_facts [OF assms(2), of account s _ _ cc] by (auto simp: zai_auth_def split: result.split_asm prod.split_asm)
next
  case SetApiKey
  show ?thesis
  proof (cases "read_secret_line input")
    case (Ok key)
    then have key: "key_read input key" "utf8_valid key"
      using read_secret_line_iff [of input key] utf8_valid_trim_line_end by (auto simp: key_read_def)
    show ?thesis
      using assms(4) SetApiKey Ok key(1) zai_key_round_trip [OF assms(1,3) key(2), of account s]
      by (auto simp: zai_auth_def split: result.split_asm)
  next
    case (Err e)
    then show ?thesis using assms(4) SetApiKey by (auto simp: zai_auth_def)
  qed
next
  case Status
  then show ?thesis using assms(4) by (auto simp: zai_auth_def split: result.split_asm)
qed

text \<open>The device login shows only device prompts, so the unreachable arm of the prompt handler is never taken.\<close>

lemma device_prompt_reached: "None \<notin> set (fst (codex_auth lc input command a))"
  by (auto simp: codex_auth_def login_with_prompt_handler_def after_login_def login_def
      split: AuthCommand.split result.split prod.split if_split)

text \<open>A command for one provider leaves the credentials of the other alone.\<close>

lemma auth_providers_separate:
  assumes "gateway_auth w lc kr cc account input args (fs, a, s) = (lines, r, fs', a', s')"
  shows "aa_provider args = Zai \<longrightarrow> a' = a" and "aa_provider args = Codex \<longrightarrow> s' = s"
  using assms by (auto simp: gateway_auth_def split: prod.split_asm result.split_asm if_split_asm)

text \<open>The gateway's own report passes the launcher's self-test.\<close>

lemma self_test_accepted:
  assumes "self_test w = Ok report" "length report \<le> 4096" "lw_decode_self_test lw report = Some self_test_report"
    "es_code status = Some 0"
  shows "check_self_test lw \<lparr>po_status = status, po_stdout = report, po_stderr = err\<rparr> = Ok ()"
  using assms(2-4)
  by (simp add: check_self_test_def self_test_report_def READY_SCHEMA_VERSION_def GATEWAY_READY_SCHEMA_VERSION_def
      CODEX_WIRE_COMPATIBILITY_VERSION_def SUPPORTED_CODEX_WIRE_VERSION_def SUPPORTED_PROVIDERS_def)

section \<open>Witnesses\<close>

definition sample_rejection :: Value where
  "sample_rejection = json_object [(''error'', json_object [(''code'', String ''1113''), (''message'', String ''balance of account 42'')])]"

definition sample_zai_world :: zai_world where
  "sample_zai_world = \<lparr>zw_env = sample_env, zw_http = ascii_http,
     zw_parse_url = (\<lambda>s. Ok \<lparr>url_scheme = ''https'', url_host_str = Some ''api.z.ai'', url_username = [], url_password = None,
       url_query = None, url_fragment = None, url_text = s\<rparr>),
     zw_send = (\<lambda>_. Ok \<lparr>za_status = 429, za_bytes = Some (to_string json_codec sample_rejection), za_events = []\<rparr>),
     zw_skip_probe = None, zw_build_client = Ok (), zw_pid = 1, zw_sequence = 1\<rparr>"

definition sample_zai_transport :: ZaiTransport where
  "sample_zai_transport = \<lparr>zt_api_key = ''key'', zt_base_url = \<lparr>url_scheme = ''https'', url_host_str = Some ''api.z.ai'', url_username = [],
     url_password = None, url_query = None, url_fragment = None, url_text = DEFAULT_BASE_URL\<rparr>\<rparr>"

definition sample_encode_ready :: "GatewayReady \<Rightarrow> bytes" where
  "sample_encode_ready ready = gr_provider ready @ '' '' @ gr_base_url ready @ '' '' @ gr_token ready"

text \<open>A gateway in a private directory, on a port the system chose, with the plan probe turned off or, as here, refused.\<close>

definition sample_gateway :: "(nat, Value) gateway_world" where
  "sample_gateway = \<lparr>gw_os = sample_os, gw_pid = 7, gw_partial = [], gw_home_dir = None, gw_data_local_dir = None,
     gw_muse_codex_home = Some ''/p'', gw_alive = (\<lambda>pid. pid = 1), gw_watchdog = Ok (), gw_stdin = Ok ''key'',
     gw_codex = (\<lambda>_. sample_codex_world), gw_zai = sample_zai_world, gw_zai_key = (\<lambda>_. Ok (Some ''key'')),
     gw_random = Ok (replicate 32 (CHR ''t'')),
     gw_base64 = \<lparr>url_safe_no_pad_encode = (\<lambda>s. s), url_safe_no_pad_decode = Some, url_safe_decode = Some\<rparr>,
     gw_in_time = True, gw_bind = (\<lambda>a. Ok (a\<lparr>so_port := 80\<rparr>)), gw_display_v6 = (\<lambda>_. []), gw_json = json_codec,
     gw_encode_ready = sample_encode_ready, gw_served = Ok ()\<rparr>"

abbreviation quiet_gateway :: "(nat, Value) gateway_world" where
  "quiet_gateway \<equiv> sample_gateway\<lparr>gw_zai := sample_zai_world\<lparr>zw_skip_probe := Some ''1''\<rparr>\<rparr>"

abbreviation any_port :: SocketAddr where
  "any_port \<equiv> \<lparr>so_ip = V4 127 0 0 1, so_port = 0\<rparr>"

definition sample_serve_args :: ServeArgs where
  "sample_serve_args = \<lparr>sa_bind = any_port, sa_ready_file = [RootDir, Normal ''p'', Normal ''ready.json''], sa_parent_pid = 1,
     sa_api_key_stdin = False, sa_upstream_base_url = None, sa_fast = False, sa_provider = Zai\<rparr>"

lemma sample_directory: "is_directory sample_profile_fs [RootDir, Normal ''p'']"
  by (simp add: is_directory_def sample_profile_fs_def sample_dir_def)

lemma sample_owner_mask: "owner_mask sample_os"
  by code_simp

lemma sample_quiet: "\<forall>op. os_fault sample_os op = None"
  by (simp add: sample_os_def)

lemma sample_absent: "sample_profile_fs (path_join [RootDir, Normal ''p''] name) = None"
    "\<not> is_directory sample_profile_fs (path_join [RootDir, Normal ''p''] name)"
  by (simp_all add: sample_profile_fs_def is_directory_def path_join_def)

definition published_default :: GatewayReady where
  "published_default = ready_content quiet_gateway (RunningZai sample_zai_transport) \<lparr>so_ip = V4 127 0 0 1, so_port = 80\<rparr>
     (replicate 32 (CHR ''t'')) (hd pinned_models) pinned_models"


text \<open>A start that Z.ai refuses.\<close>

definition decode_failure :: "bytes \<Rightarrow> (nat \<times> bytes) option" where
  "decode_failure t =
     Option.bind (from_str json_codec t) (\<lambda>v.
     Option.bind (Option.bind (value_get v ''schema_version'') as_u64) (\<lambda>version.
     Option.bind (Option.bind (value_get v ''error'') (\<lambda>e. get_str e ''code'')) (\<lambda>code. Some (unat version, code))))"

lemma decode_failure_document:
  "decode_failure (to_string json_codec (startup_error_document c)) = Some (1, startup_code_str c) \<and>
     length (to_string json_codec (startup_error_document c)) \<le> 200"
proof -
  have "json_exact (startup_error_document c)" "length (to_string json_codec (startup_error_document c)) \<le> 200"
    by (cases c; simp only:; code_simp)+
  then show ?thesis
    using serde_roundtrip [OF json_codec_spec, of "startup_error_document c"]
    by (simp add: decode_failure_def startup_error_document_def get_str_def json_u64_def)
qed

theorem startup_failure_reported_witness:
  "\<exists>fs'. serve_with_error_reporting (sample_gateway\<lparr>gw_stdin := Ok ''two words''\<rparr>) (sample_serve_args\<lparr>sa_api_key_stdin := True\<rparr>) sample_profile_fs =
       Some (Err [OtherCause], fs') \<and>
     read_gateway_startup_failure \<lparr>rc_ready = (\<lambda>_. None), rc_failure = decode_failure\<rparr> 1000
       (open_gateway_file sample_os fs' [RootDir, Normal ''p'', Normal ''ready.json.error'']) Zai =
       Ok (Some (startup_failure_message Zai ''gateway_start_failed''))"
proof -
  let ?w = "sample_gateway\<lparr>gw_stdin := Ok ''two words''\<rparr>" and ?args = "sample_serve_args\<lparr>sa_api_key_stdin := True\<rparr>"
  let ?p = "path_join [RootDir, Normal ''p''] ''ready.json''"
  have "read_secret_line ''two words'' \<noteq> Ok k" for k
    unfolding read_secret_line_iff by (simp add: key_read_def) code_simp
  then obtain e where "read_secret_line ''two words'' = Err e"
    by (cases "read_secret_line ''two words''") auto
  then have run: "gateway_serve ?w ?args sample_profile_fs = Some (Err [OtherCause], sample_profile_fs)"
    by (simp add: gateway_serve_def serve_setup_def check_serve_args_def start_parent_exit_watchdog_def process_exists_def
        gateway_key_def sample_gateway_def sample_serve_args_def)
  have short: "length (to_string json_codec (startup_error_document c)) \<le> 4096" for c
    using decode_failure_document [of c] by simp
  have fields: "gw_os ?w = sample_os" "gw_json ?w = json_codec" "sa_ready_file ?args = ?p" "os_euid sample_os = 1000"
    by (simp_all add: sample_gateway_def sample_serve_args_def path_join_def sample_os_def)
  have code: "startup_code_str (classify_startup_error [OtherCause]) = ''gateway_start_failed''"
    by code_simp
  from startup_failure_reported [OF run sample_profile_real sample_directory fields(3) refl, of "\<lparr>rc_ready = (\<lambda>_. None), rc_failure = decode_failure\<rparr>" Zai]
  show ?thesis
    unfolding fields startup_error_path_join code
    using sample_absent sample_owner_mask sample_quiet decode_failure_document short
    by (auto simp: path_join_def)
qed


theorem zai_auth_lifecycle_witness:
  "\<exists>s. zai_auth map_keyring plain_codec ''zai|0'' (''key'' @ [LF]) SetApiKey (\<lambda>_. None) = (Ok ''Z.ai API key saved in macOS Keychain.'', s) \<and>
     zai_auth map_keyring plain_codec ''zai|0'' [] Status s = (Ok (auth_status_text ZaiStatus), s)"
proof -
  have "read_secret_line (''key'' @ [LF]) = Ok ''key''" and key: "validate_api_key ''key'' = Ok ()"
    unfolding read_secret_line_iff key_read_def
    by (simp_all add: validate_api_key_def MAX_API_KEY_BYTES_def trim_end_matches_def line_end_def chars_ascii is_whitespace_def is_control_def)
  then obtain s where run: "zai_auth map_keyring plain_codec ''zai|0'' (''key'' @ [LF]) SetApiKey (\<lambda>_. None) = (Ok ''Z.ai API key saved in macOS Keychain.'', s)"
    by (simp add: zai_auth_def zai_save_def map_keyring_def)
  have spec: "keyring_spec map_keyring" "keyring_delete_spec map_keyring"
    by (auto simp: keyring_spec_def keyring_delete_spec_def map_keyring_def)
  from zai_auth_lifecycle [OF spec plain_codec_spec run, of "[]"] run show ?thesis
    by auto
qed

end
