(* ===== verification/Spec2Isabelle.thy ===== *)
theory Spec2Isabelle
  imports Sse_Properties Zai_Properties Transport_Request_Props Transport_Retry Catalog_Contract Launcher_Ready_Props
    Credentials Launcher_Args_Props Gateway_Props Msp_Props Msp_Threads Zai_Gateway Codex_Transport_Props Private_Profile_Props Auth_Home_Props
    Launcher_Run_Props Zai_Request_Types Gateway_Main_Props
begin

text \<open>
  Muse Codex runs the stock Muse terminal client against another provider. Three programs cooperate. The
  launcher (\<open>crates/muse-codex\<close>) parses the command line, starts a private gateway, waits for its ready
  file, seeds the isolated profile of stock Muse and runs it; for the session protocol it relays frames
  between a client and stock Muse. The gateway (\<open>crates/muse-codex-gateway\<close>) serves stock Muse on the
  loopback interface and validates every response stream. The transport (\<open>crates/codex-transport\<close>) talks
  to the Codex endpoint or, for Z.ai, translates between the Responses protocol and chat completions.

  \<^bold>\<open>How the code is modelled.\<close> Bytes and strings are \<open>char list\<close>; \<open>u64\<close> values are 64-bit words and
  counters saturate where the code saturates; a \<open>Result\<close> is the type \<open>result\<close>, with the crate's own
  error type in \<open>Errors\<close>; a \<open>BTreeMap\<close> is an ordered association list, a \<open>HeaderMap\<close> the list of its pairs
  (both interpret the locale \<open>ordered_map\<close>). A mutable value is passed through and returned. Streams are
  state machines polled by a consumer (\<open>Stream_Contract\<close>); the events of the outside world (chunks,
  errors, timeouts, file contents, answers of the network) are the inputs of the model. Code outside the
  sources is a parameter: \<open>serde_json\<close> with \<open>serde_json_spec\<close>, the \<open>http\<close> crate's conversions, base64,
  SHA-256, the keyring, the clap parser of the auth commands, the login crate's recovery object. Every
  hypothesis about a parameter has an instance in the development (\<open>Json_Codec\<close> for JSON, \<open>ascii_http\<close>,
  and the sample instances beside the witnesses).

  \<^bold>\<open>Theories and sources.\<close>
  \<^item> \<open>Prelude\<close>, \<open>Json\<close>, \<open>Json_Codec\<close>, \<open>Http\<close>, \<open>Errors\<close>: results, UTF-8 and string functions of the Rust
    library, JSON values and accessors, a concrete JSON printer and parser, header maps and status
    classes, the error type (\<open>codex-transport/src/error.rs\<close>).
  \<^item> \<open>Sse_Framing\<close>, \<open>Sse_Inspect\<close>, \<open>Sse_Stream\<close>: the gateway's stream validator
    (\<open>muse-codex-gateway/src/sse.rs\<close>): frame scanner, inspection and shape checks, the state of
    \<open>State\<close> and its poll function. \<open>Sse_Outcome\<close> shows by a simulation what a stream can end in,
    \<open>Sse_Chunking\<close> that the split into chunks does not matter; \<open>Sse_Properties\<close> has the properties.
  \<^item> \<open>Zai_Request\<close>, \<open>Zai_Stream\<close>: the Z.ai request translation and the response synthesizer
    (\<open>zai/request.rs\<close>, \<open>zai/stream.rs\<close>). \<open>Zai_Outcome\<close> has the invariant of the synthesizer's state and
    that every event it emits passes the gateway's inspection; \<open>Zai_Request_Props\<close>, \<open>Zai_Request_Types\<close> (the type
    of the translated body) and \<open>Zai_Properties\<close> the properties. \<open>Zai_Transport\<close> is the backend around them (\<open>zai/mod.rs\<close>): the outgoing request, the stream
    it hands to the gateway and the canonical form of a rejection; \<open>Zai_Gateway\<close> composes it with the validator.
  \<^item> \<open>Transport_Request\<close>, \<open>Transport_Headers\<close>, \<open>Transport_Retry\<close>: normalization of a Responses request,
    credentials and headers of an outgoing request, and the send loop with its credential recovery
    (\<open>transport.rs\<close>), with \<open>Transport_Request_Props\<close>.
  \<^item> \<open>Codex_Transport\<close>, \<open>Codex_Transport_Props\<close>: \<open>struct Transport\<close> over these parts: construction, model listing,
    streaming, search and browser-open; every attempt sends one sealed request, every operation returns,
    and the listed catalog gates the requests.
  \<^item> \<open>Model_Catalog\<close>: normalization of the upstream model catalog, its merge with bundled metadata and the
    pinned Z.ai catalog (\<open>transport.rs\<close>, \<open>zai/catalog.rs\<close>). \<open>Catalog_Contract\<close> states what every source
    of models promises as a locale, interprets it for the three sources and shows that the launcher
    accepts whatever the gateway publishes.
  \<^item> \<open>Gateway_Server\<close>, \<open>Gateway_Props\<close>: the handlers, access control, header allow-lists and failure
    sanitization of the gateway (\<open>server.rs\<close>) over the provider dispatch (\<open>backend.rs\<close>).
  \<^item> \<open>Launcher_Ready\<close>, \<open>Launcher_Ready_Props\<close>: both ends of the readiness handshake and the wait loop.
  \<^item> \<open>Launcher_Args\<close>, \<open>Launcher_Args_Props\<close>: the launcher's command line; its reference view is the list of
    option groups before the first double dash.
  \<^item> \<open>Credentials\<close>: the readers of API keys and the Z.ai keyring record (\<open>auth.rs\<close>, \<open>zai/auth.rs\<close>).
  \<^item> \<open>File_System\<close>: paths as \<open>std::path\<close> reads them and a file system of owners, modes and links, with the calls
    the code uses; a call may fail, and other processes may add entries between two calls. A canonical path
    is a \<open>real_path\<close>.
  \<^item> \<open>Private_Profile\<close>, \<open>Private_Profile_Props\<close>: the isolated profile of stock Muse (\<open>muse-codex/src/lib.rs\<close>): its
    location, its private directories, the pinned settings and the model catalog.
  \<^item> \<open>Auth_Home\<close>, \<open>Auth_Home_Props\<close>: the credential home (\<open>auth.rs\<close>), the refresh lock (\<open>transport.rs\<close>) and the
    publication of private JSON files (\<open>server.rs\<close>); the transport accepts the home the launcher made.
  \<^item> \<open>Launcher_Run\<close>, \<open>Launcher_Run_Props\<close>: the launcher's run (\<open>muse-codex/src/lib.rs\<close>, \<open>main.rs\<close>) as a trace of process
    events: discovery of the executables and the version gate, the command and environment of every process,
    the gateway from its start to its drop, and the session, information and authentication runs. Secrets
    reach only the process they are meant for, and every started process has been waited for.
  \<^item> \<open>Gateway_Main\<close>, \<open>Gateway_Main_Props\<close>: the gateway program (\<open>muse-codex-gateway/src/main.rs\<close>, \<open>run\<close> and the
    watchdog in \<open>server.rs\<close>, the account commands of \<open>auth.rs\<close>). Its ready file and its error file are
    written by \<open>Auth_Home\<close> and read by \<open>Launcher_Ready\<close> on the same file system, so the handshake of the two
    programs and the report of a failed start are theorems about both.
  \<^item> \<open>Msp_Relay\<close>, \<open>Msp_Props\<close>: the session-protocol relay (\<open>msp.rs\<close>), its two threads as a step relation;
    \<open>Msp_Threads\<close> has the threads as the code runs them, from start to join, and shows that they refine it.

  \<^bold>\<open>Loops and bounds.\<close> All operations are total functions. The frame scanners, the draining loops and the
  relay's reader recurse on what is left of their input; the send loop recurses on its remaining
  attempts (two before a stream starts, and one recovery); the wait loop of the launcher takes one
  round of answers per poll and is shown to end once a round is late. No fuel is used for a claim that a
  loop ends.

  \<^bold>\<open>Not modelled.\<close> The thread that forwards signals to a child (its effect on the child is an input of the run)
  and the watchdog's interleaving with the server (each is modelled alone). The HTTP client and server
  libraries, the clap parsers, \<open>codex_login\<close>'s login flows and the URL and base64 crates are parameters, as are
  sockets, clocks and random bytes. \<open>Debug\<close> formatting, re-exports and the test modules have no definition. The
  vendored Codex crates are third-party code. Of the file system only the unix branches are modelled, and
  other processes add entries but do not remove or change them during an operation. The order in which
  processes obtain the refresh lock is visible only as the lock event of the send loop's trace.
\<close>

section \<open>Z.ai through the gateway\<close>


definition sample_prepared :: Value where
  "sample_prepared = json_object [(''model'', String ''glm-5.3''), (''input'', Array []), (''store'', Bool False), (''stream'', Bool True)]"

definition sample_zai_state :: AppState where
  "sample_zai_state = \<lparr>as_token = ''t0'', as_backend = zai_backend sample_zai_world sample_zai_transport\<rparr>"

definition sample_zai_rq :: gateway_request where
  "sample_zai_rq = \<lparr>gq_method = ''POST'', gq_path = ''/responses'', gq_headers = [(''authorization'', ''Bearer t0'')],
     gq_payload = Ok (json_object [(''model'', String ''glm-5.3''), (''input'', Array [])])\<rparr>"

lemma sample_zai_outgoing:
  obtains translated posted where
    "zai_outgoing sample_zai_world sample_zai_transport sample_prepared = Ok (''glm-5.3'', translated, posted)"
    "\<forall>f \<in> set (responses_stream sample_env [] ''glm-5.3'' ''process:1:1'' (chat_tools translated)). length f \<le> MAX_EVENT_BYTES"
proof -
  have "case zai_outgoing sample_zai_world sample_zai_transport sample_prepared of Ok (model, translated, posted) \<Rightarrow>
      model = ''glm-5.3'' \<and>
      list_all (\<lambda>f. length f \<le> 400) (responses_stream sample_env [] ''glm-5.3'' ''process:1:1'' (chat_tools translated))
    | Err _ \<Rightarrow> False"
    by code_simp
  then show thesis
    using that by (fastforce simp: list_all_iff MAX_EVENT_BYTES_def split: result.splits)
qed


end
